(* ===== verification/Prelude.thy ===== *)
theory Prelude
  imports
    Main
    "HOL-Library.AList"
    "HOL-Library.Word"
    "HOL-Library.List_Lexorder"
    "HOL-Library.Char_ord"
    "HOL-Library.Sublist"
    "HOL-Library.Multiset"
begin

text \<open>
  The shared base of the development: Go's 64-bit integers, instants and durations, the
  association lists that stand for Go maps, and the collections of simplification rules
  that the component theories extend.

  An instant (\<open>time.Time\<close>) is the number of nanoseconds since Go's zero instant
  (1 January of year 1, UTC), so the zero value is \<open>0\<close> and \<open>IsZero\<close> is a test
  against it. A \<open>time.Duration\<close> is an \<open>int64\<close> number of nanoseconds; it and the
  other fixed-width integers are \<open>int\<close> values with the wrap-around written out by
  \<open>wrap64\<close>. A pointer to an instant is an \<open>option\<close>.

  A Go map is an association list with distinct keys. The position of the entries plays the
  role of the (unspecified) iteration order of the map: every statement quantifies over it.
\<close>

named_theorems wf_intros "rules that establish a well-formedness invariant"
named_theorems step_simps "unfolding rules of the operations of a component"

section \<open>Integers of 64 bits\<close>

type_synonym int64 = int
type_synonym uint64 = "64 word"

definition wrap64 :: "int \<Rightarrow> int64" where
  "wrap64 k = (k + 9223372036854775808) mod 18446744073709551616 - 9223372036854775808"

definition min_int64 :: int64 where
  "min_int64 = - 9223372036854775808"

definition max_int64 :: int64 where
  "max_int64 = 9223372036854775807"

definition in_int64 :: "int \<Rightarrow> bool" where
  "in_int64 k \<longleftrightarrow> min_int64 \<le> k \<and> k \<le> max_int64"

lemmas int64_defs = in_int64_def min_int64_def max_int64_def

lemma wrap64_id [simp]: "in_int64 k \<Longrightarrow> wrap64 k = k"
  by (simp add: wrap64_def int64_defs)

lemma wrap64_range: "in_int64 (wrap64 k)"
  using pos_mod_bound [of 18446744073709551616 "k + 9223372036854775808"]
    pos_mod_sign [of 18446744073709551616 "k + 9223372036854775808"]
  by (simp add: wrap64_def int64_defs)

lemma wrap64_wrap64 [simp]: "wrap64 (wrap64 k) = wrap64 k"
  by (simp add: wrap64_range)

lemma wrap64_zero [simp]: "wrap64 0 = 0"
  by (simp add: wrap64_def)

lemma wrap64_add_left [simp]: "wrap64 (wrap64 a + b) = wrap64 (a + b)"
  by (simp add: wrap64_def mod_add_left_eq mod_add_right_eq algebra_simps)

lemma wrap64_add_right [simp]: "wrap64 (a + wrap64 b) = wrap64 (a + b)"
  using wrap64_add_left [of b a] by (simp add: add.commute)

lemma wrap64_diff_left [simp]: "wrap64 (wrap64 a - b) = wrap64 (a - b)"
  using wrap64_add_left [of a "- b"] by simp

lemma wrap64_matches_word: "wrap64 k = sint (word_of_int k :: 64 word)"
  by transfer (simp add: wrap64_def signed_take_bit_eq_take_bit_shift take_bit_eq_mod)

text \<open>
  Reading small configuration integers: every \<open>int64\<close> that is at least \<open>0\<close> and at
  most \<open>9223372036\<close> seconds is a duration that does not overflow.
\<close>

section \<open>Instants and durations\<close>

type_synonym gtime = int
type_synonym duration = int64

definition zero_time :: gtime where
  "zero_time = 0"

definition IsZero :: "gtime \<Rightarrow> bool" where
  "IsZero t \<longleftrightarrow> t = zero_time"

definition Before :: "gtime \<Rightarrow> gtime \<Rightarrow> bool" where
  "Before t u \<longleftrightarrow> t < u"

definition time_Add :: "gtime \<Rightarrow> duration \<Rightarrow> gtime" where
  "time_Add t d = t + d"

text \<open>\<open>t.Sub(u)\<close> saturates at the ends of the \<open>int64\<close> range.\<close>

definition time_Sub :: "gtime \<Rightarrow> gtime \<Rightarrow> duration" where
  "time_Sub t u = max min_int64 (min max_int64 (t - u))"

text \<open>\<open>time.Duration(n) * time.Second\<close> and \<open>* time.Millisecond\<close>.\<close>

definition seconds :: "int64 \<Rightarrow> duration" where
  "seconds n = wrap64 (n * 1000000000)"

definition milliseconds :: "int64 \<Rightarrow> duration" where
  "milliseconds n = wrap64 (n * 1000000)"

text \<open>Nanoseconds from Go's zero instant to the Unix epoch.\<close>

definition unix_epoch :: gtime where
  "unix_epoch = 62135596800 * 1000000000"

definition UnixMilli_of :: "gtime \<Rightarrow> int64" where
  "UnixMilli_of t = wrap64 ((t - unix_epoch) div 1000000)"

definition time_UnixMilli :: "int64 \<Rightarrow> gtime" where
  "time_UnixMilli ms = unix_epoch + ms * 1000000"

definition UnixNano_of :: "gtime \<Rightarrow> int64" where
  "UnixNano_of t = wrap64 (t - unix_epoch)"

lemma IsZero_zero_time [simp]: "IsZero zero_time"
  by (simp add: IsZero_def)

lemma seconds_exact:
  "0 \<le> n \<Longrightarrow> n \<le> 9223372036 \<Longrightarrow> seconds n = n * 1000000000"
  by (simp add: seconds_def int64_defs)

lemma time_Sub_self [simp]: "time_Sub t t = 0"
  by (simp add: time_Sub_def int64_defs)

lemma time_Sub_mono: "t \<le> t' \<Longrightarrow> time_Sub t u \<le> time_Sub t' u"
  by (auto simp: time_Sub_def)

lemma time_Sub_ge_iff:
  assumes "in_int64 d"
  shows "d \<le> time_Sub t u \<longleftrightarrow> u + d \<le> t \<or> d = min_int64"
  using assms by (auto simp: time_Sub_def int64_defs)

lemma UnixMilli_roundtrip: "in_int64 ms \<Longrightarrow> UnixMilli_of (time_UnixMilli ms) = ms"
  by (simp add: UnixMilli_of_def time_UnixMilli_def)

section \<open>Go maps\<close>

type_synonym ('k, 'v) gmap = "('k \<times> 'v) list"

abbreviation map_get :: "('k, 'v) gmap \<Rightarrow> 'k \<Rightarrow> 'v option" where
  "map_get \<equiv> map_of"

abbreviation map_put :: "'k \<Rightarrow> 'v \<Rightarrow> ('k, 'v) gmap \<Rightarrow> ('k, 'v) gmap" where
  "map_put \<equiv> AList.update"

abbreviation map_del :: "'k \<Rightarrow> ('k, 'v) gmap \<Rightarrow> ('k, 'v) gmap" where
  "map_del \<equiv> AList.delete"

definition wf_map :: "('k, 'v) gmap \<Rightarrow> bool" where
  "wf_map m \<longleftrightarrow> distinct (map fst m)"

lemma wf_map_Nil [simp, wf_intros]: "wf_map []"
  by (simp add: wf_map_def)

lemma wf_map_put [simp, wf_intros]: "wf_map m \<Longrightarrow> wf_map (map_put k v m)"
  by (simp add: wf_map_def distinct_update)

lemma wf_map_del [simp, wf_intros]: "wf_map m \<Longrightarrow> wf_map (map_del k m)"
  by (simp add: wf_map_def distinct_delete)

lemma wf_map_filter [simp, wf_intros]: "wf_map m \<Longrightarrow> wf_map (filter P m)"
  by (simp add: wf_map_def distinct_map_filter)

lemma map_get_put [simp]: "map_get (map_put k v m) = (map_get m)(k \<mapsto> v)"
  by (rule update_conv')

lemma map_get_del [simp]: "map_get (map_del k m) = (map_get m)(k := None)"
  by (rule delete_conv')

lemma map_get_filter_wf:
  "wf_map m \<Longrightarrow> map_get (filter P m) k =
    (case map_get m k of None \<Rightarrow> None | Some v \<Rightarrow> if P (k, v) then Some v else None)"
  by (induction m) (force simp: wf_map_def split: option.splits dest: map_of_SomeD)+

lemma set_map_put: "set (map_put k v m) \<subseteq> insert (k, v) (set m)"
  by (induction m) auto

lemma set_map_put_wf:
  "wf_map m \<Longrightarrow> set (map_put k v m) = insert (k, v) {e \<in> set m. fst e \<noteq> k}"
  by (induction m) (force simp: wf_map_def)+

lemma map_get_in_set: "map_get m k = Some v \<Longrightarrow> (k, v) \<in> set m"
  by (rule map_of_SomeD)

lemma in_set_map_get: "wf_map m \<Longrightarrow> (k, v) \<in> set m \<longleftrightarrow> map_get m k = Some v"
  by (simp add: wf_map_def)

lemma map_get_map_values:
  "map_get (map (\<lambda>(k, v). (k, f v)) m) k = map_option f (map_get m k)"
  by (induction m) auto

end
