(* ===== verification/Errors.thy ===== *)
theory Errors
  imports Prelude
begin

text \<open>
  Go error values and the permanent-error marker of \<open>internal/permanent/permanent.go\<close>.

  An error is a chain: \<open>errors.New\<close> and \<open>fmt.Errorf\<close> without \<open>%w\<close> make a leaf
  (\<open>ErrMsg\<close> with the text, \<open>ErrFmt\<close> with the format and its arguments), \<open>fmt.Errorf\<close>
  with \<open>%w\<close> wraps (\<open>ErrWrap\<close>), and \<open>permanent.Error\<close> wraps with a marker
  (\<open>ErrPermanent\<close>; the pointer inside may be nil). \<open>ErrNotFound\<close> and \<open>ErrConflict\<close>
  are the sentinel values of the \<open>state\<close> package and \<open>ErrPanic\<close> stands for a run-time
  panic that unwinds the caller; the sources recover from none. A result \<open>(T, error)\<close> is
  a sum with the error on the left, an \<open>error\<close> result is an option with \<open>None\<close> for nil.
\<close>

datatype error =
    ErrNotFound
  | ErrConflict
  | ErrCanceled
  | ErrPanic string
  | ErrMsg string
  | ErrFmt string "string list"
  | ErrWrap string "string list" error
  | ErrPermanent "error option"

type_synonym 'a result = "error + 'a"

text \<open>\<open>errors.Is\<close>: some error of the chain equals the target.\<close>

fun errors_Is :: "error \<Rightarrow> error \<Rightarrow> bool" where
  "errors_Is (ErrWrap f as e) t \<longleftrightarrow> ErrWrap f as e = t \<or> errors_Is e t"
| "errors_Is (ErrPermanent (Some e)) t \<longleftrightarrow> ErrPermanent (Some e) = t \<or> errors_Is e t"
| "errors_Is e t \<longleftrightarrow> e = t"

text \<open>\<open>permanent.Mark\<close>: nil stays nil.\<close>

definition permanent_Mark :: "error option \<Rightarrow> error option" where
  "permanent_Mark err = (case err of None \<Rightarrow> None | Some e \<Rightarrow> Some (ErrPermanent (Some e)))"

text \<open>
  \<open>permanent.Is\<close>: \<open>errors.As\<close> finds the first error of the chain with a method
  \<open>Permanent() bool\<close>. Only \<open>permanent.Error\<close> has it, and it returns true.
\<close>

fun has_marker :: "error \<Rightarrow> bool" where
  "has_marker (ErrPermanent _) = True"
| "has_marker (ErrWrap _ _ e) = has_marker e"
| "has_marker _ = False"

definition permanent_Is :: "error option \<Rightarrow> bool" where
  "permanent_Is err = (case err of None \<Rightarrow> False | Some e \<Rightarrow> has_marker e)"

text \<open>\<open>permanent.Error.Unwrap\<close>, the wrapped cause.\<close>

fun permanent_Unwrap :: "error \<Rightarrow> error option" where
  "permanent_Unwrap (ErrPermanent c) = c"
| "permanent_Unwrap _ = None"

lemma errors_Is_refl [simp]: "errors_Is e e"
proof (cases e)
  case (ErrPermanent c)
  then show ?thesis by (cases c) auto
qed auto

lemma permanent_Is_Mark [simp]: "permanent_Is (permanent_Mark (Some e))"
  by (simp add: permanent_Is_def permanent_Mark_def)

lemma permanent_Mark_None [simp]: "permanent_Mark None = None"
  by (simp add: permanent_Mark_def)

lemma permanent_Is_None [simp]: "\<not> permanent_Is None"
  by (simp add: permanent_Is_def)

lemma errors_Is_Mark:
  assumes "t = ErrNotFound \<or> t = ErrConflict \<or> t = ErrCanceled"
  shows "errors_Is (ErrPermanent (Some e)) t = errors_Is e t"
  using assms by auto

end
