(* ===== verification/Go_Strings.thy ===== *)
theory Go_Strings
  imports Prelude
begin

text \<open>
  The functions of Go's \<open>strings\<close>, \<open>strconv\<close>, \<open>sort\<close> and \<open>unicode/utf8\<close>
  that the sources use. A Go string is its sequence of bytes, so a \<open>string\<close> here is a list
  of bytes and \<open>length\<close> is \<open>len\<close>.

  \<open>TrimSpace\<close>, \<open>ToLower\<close>, \<open>ToUpper\<close> and \<open>EqualFold\<close> treat the ASCII bytes as Go
  does and leave the bytes from 128 on alone: they are exact on ASCII strings, and Go's
  Unicode tables (case pairs and white space beyond ASCII) are not modelled. A \<open>range\<close>
  loop over a string decodes UTF-8 exactly (\<open>runes\<close>).
\<close>

section \<open>White space and letter case\<close>

definition is_space :: "char \<Rightarrow> bool" where
  "is_space c = (let n = (of_char c :: nat) in n = 32 \<or> (9 \<le> n \<and> n \<le> 13))"

definition TrimLeftSpace :: "string \<Rightarrow> string" where
  "TrimLeftSpace s = dropWhile is_space s"

definition TrimRightSpace :: "string \<Rightarrow> string" where
  "TrimRightSpace s = rev (dropWhile is_space (rev s))"

definition TrimSpace :: "string \<Rightarrow> string" where
  "TrimSpace s = TrimRightSpace (TrimLeftSpace s)"

definition lower_char :: "char \<Rightarrow> char" where
  "lower_char c = (let n = (of_char c :: nat) in if 65 \<le> n \<and> n \<le> 90 then char_of (n + 32) else c)"

definition upper_char :: "char \<Rightarrow> char" where
  "upper_char c = (let n = (of_char c :: nat) in if 97 \<le> n \<and> n \<le> 122 then char_of (n - 32) else c)"

definition ToLower :: "string \<Rightarrow> string" where
  "ToLower s = map lower_char s"

definition ToUpper :: "string \<Rightarrow> string" where
  "ToUpper s = map upper_char s"

definition EqualFold :: "string \<Rightarrow> string \<Rightarrow> bool" where
  "EqualFold s t \<longleftrightarrow> ToLower s = ToLower t"

section \<open>Prefixes, suffixes, splitting\<close>

definition HasPrefix :: "string \<Rightarrow> string \<Rightarrow> bool" where
  "HasPrefix s p \<longleftrightarrow> take (length p) s = p"

definition HasSuffix :: "string \<Rightarrow> string \<Rightarrow> bool" where
  "HasSuffix s p \<longleftrightarrow> length p \<le> length s \<and> drop (length s - length p) s = p"

definition TrimPrefix :: "string \<Rightarrow> string \<Rightarrow> string" where
  "TrimPrefix s p = (if HasPrefix s p then drop (length p) s else s)"

definition TrimSuffix :: "string \<Rightarrow> string \<Rightarrow> string" where
  "TrimSuffix s p = (if HasSuffix s p then take (length s - length p) s else s)"

text \<open>\<open>strings.TrimRight(s, "c")\<close> for a cutset of one byte.\<close>

definition TrimRight :: "string \<Rightarrow> char \<Rightarrow> string" where
  "TrimRight s c = rev (dropWhile (\<lambda>d. d = c) (rev s))"

text \<open>\<open>strings.Split\<close> for a separator of one byte; never the empty list.\<close>

fun Split :: "string \<Rightarrow> char \<Rightarrow> string list" where
  "Split [] sep = [[]]"
| "Split (c # cs) sep =
     (if c = sep then [] # Split cs sep
      else case Split cs sep of [] \<Rightarrow> [[c]] | p # ps \<Rightarrow> (c # p) # ps)"

text \<open>The bytes after the last separator, if the separator occurs.\<close>

definition after_last :: "string \<Rightarrow> char \<Rightarrow> string" where
  "after_last s c = rev (takeWhile (\<lambda>d. d \<noteq> c) (rev s))"

section \<open>Decimal numbers\<close>

definition is_digit :: "char \<Rightarrow> bool" where
  "is_digit c \<longleftrightarrow> 48 \<le> (of_char c :: nat) \<and> (of_char c :: nat) \<le> 57"

definition digit_val :: "char \<Rightarrow> int" where
  "digit_val c = int (of_char c) - 48"

fun digits_val :: "int \<Rightarrow> string \<Rightarrow> int option" where
  "digits_val acc [] = Some acc"
| "digits_val acc (c # cs) = (if is_digit c then digits_val (acc * 10 + digit_val c) cs else None)"

text \<open>
  \<open>strconv.Atoi\<close> and \<open>strconv.ParseInt(s, 10, 64)\<close>: an optional sign, then at least one
  decimal digit; a value outside \<open>int64\<close> is an error. \<open>None\<close> is the error result.
\<close>

definition Atoi :: "string \<Rightarrow> int64 option" where
  "Atoi s =
     (let (neg, ds) = (case s of [] \<Rightarrow> (False, [])
                        | c # cs \<Rightarrow> if c = CHR ''-'' then (True, cs)
                                    else if c = CHR ''+'' then (False, cs) else (False, s))
      in if ds = [] then None
         else case digits_val 0 ds of None \<Rightarrow> None
              | Some n \<Rightarrow> let k = (if neg then - n else n) in if in_int64 k then Some k else None)"

fun nat_digits :: "nat \<Rightarrow> string" where
  "nat_digits n = (if n < 10 then [char_of (48 + n)] else nat_digits (n div 10) @ [char_of (48 + n mod 10)])"

declare nat_digits.simps [simp del]

text \<open>\<open>strconv.Itoa\<close>, \<open>strconv.FormatInt(k, 10)\<close> and the verb \<open>%d\<close>.\<close>

definition FormatInt :: "int \<Rightarrow> string" where
  "FormatInt k = (if k < 0 then CHR ''-'' # nat_digits (nat (- k)) else nat_digits (nat k))"

definition FormatBool :: "bool \<Rightarrow> string" where
  "FormatBool b = (if b then ''true'' else ''false'')"

section \<open>UTF-8\<close>

definition is_cont :: "nat \<Rightarrow> bool" where
  "is_cont n \<longleftrightarrow> 128 \<le> n \<and> n \<le> 191"

text \<open>
  \<open>utf8.DecodeRuneInString\<close> on a non-empty string of byte values: the rune and its width;
  an invalid encoding is the replacement rune \<open>65533\<close> of width 1.
\<close>

fun decode_rune :: "nat list \<Rightarrow> nat \<times> nat" where
  "decode_rune [] = (65533, 0)"
| "decode_rune (a # rest) =
     (if a < 128 then (a, 1)
      else if 194 \<le> a \<and> a \<le> 223 then
        (case rest of b # _ \<Rightarrow> if is_cont b then ((a mod 32) * 64 + b mod 64, 2) else (65533, 1)
         | [] \<Rightarrow> (65533, 1))
      else if 224 \<le> a \<and> a \<le> 239 then
        (case rest of b # c # _ \<Rightarrow>
            if is_cont b \<and> is_cont c \<and> (a = 224 \<longrightarrow> 160 \<le> b) \<and> (a = 237 \<longrightarrow> b \<le> 159)
            then ((a mod 16) * 4096 + (b mod 64) * 64 + c mod 64, 3) else (65533, 1)
         | _ \<Rightarrow> (65533, 1))
      else if 240 \<le> a \<and> a \<le> 244 then
        (case rest of b # c # d # _ \<Rightarrow>
            if is_cont b \<and> is_cont c \<and> is_cont d \<and> (a = 240 \<longrightarrow> 144 \<le> b) \<and> (a = 244 \<longrightarrow> b \<le> 143)
            then ((a mod 8) * 262144 + (b mod 64) * 4096 + (c mod 64) * 64 + d mod 64, 4)
            else (65533, 1)
         | _ \<Rightarrow> (65533, 1))
      else (65533, 1))"

text \<open>The runes a \<open>range\<close> loop over a string yields.\<close>

function rune_values :: "nat list \<Rightarrow> nat list" where
  "rune_values [] = []"
| "rune_values (a # rest) =
     fst (decode_rune (a # rest)) # rune_values (drop (snd (decode_rune (a # rest)) - 1) rest)"
  by pat_completeness auto
termination
  by (relation "measure length") (auto simp del: decode_rune.simps)

definition runes :: "string \<Rightarrow> nat list" where
  "runes s = rune_values (map of_char s)"

section \<open>Facts\<close>

lemma is_space_lower_char [simp]: "is_space (lower_char c) = is_space c"
  by (simp add: is_space_def lower_char_def Let_def)

lemma lower_char_idem [simp]: "lower_char (lower_char c) = lower_char c"
  by (simp add: lower_char_def Let_def)

lemma ToLower_idem [simp]: "ToLower (ToLower s) = ToLower s"
  by (simp add: ToLower_def)

lemma ToLower_Nil_iff [simp]: "ToLower s = [] \<longleftrightarrow> s = []"
  by (simp add: ToLower_def)

lemma length_ToLower [simp]: "length (ToLower s) = length s"
  by (simp add: ToLower_def)

lemma dropWhile_map_comp: "dropWhile P (map f s) = map f (dropWhile (P \<circ> f) s)"
  by (rule dropWhile_map)

lemma TrimSpace_ToLower: "TrimSpace (ToLower s) = ToLower (TrimSpace s)"
  by (simp add: TrimSpace_def TrimLeftSpace_def TrimRightSpace_def ToLower_def
      dropWhile_map rev_map comp_def)

lemma dropWhile_idem: "dropWhile P (dropWhile P xs) = dropWhile P xs"
  by (induction xs) auto

lemma hd_TrimLeftSpace: "TrimLeftSpace s \<noteq> [] \<Longrightarrow> \<not> is_space (hd (TrimLeftSpace s))"
  unfolding TrimLeftSpace_def by (rule hd_dropWhile)

lemma TrimLeftSpace_id: "s = [] \<or> \<not> is_space (hd s) \<Longrightarrow> TrimLeftSpace s = s"
  by (cases s) (auto simp: TrimLeftSpace_def)

lemma TrimRightSpace_split: "\<exists>t. s = TrimRightSpace s @ t \<and> (\<forall>c \<in> set t. is_space c)"
proof -
  have "s = rev (takeWhile is_space (rev s) @ dropWhile is_space (rev s))"
    by (simp only: takeWhile_dropWhile_id rev_rev_ident)
  then have "s = TrimRightSpace s @ rev (takeWhile is_space (rev s))"
    by (simp only: rev_append TrimRightSpace_def)
  then show ?thesis
    by (intro exI conjI) (auto dest: set_takeWhileD)
qed

lemma hd_TrimRightSpace: "TrimRightSpace s \<noteq> [] \<Longrightarrow> hd (TrimRightSpace s) = hd s"
  by (metis TrimRightSpace_split hd_append2)

lemma TrimSpace_idem [simp]: "TrimSpace (TrimSpace s) = TrimSpace s"
proof -
  let ?t = "TrimRightSpace (TrimLeftSpace s)"
  have "TrimLeftSpace ?t = ?t"
  proof (rule TrimLeftSpace_id, cases "?t = []")
    case False
    then have "TrimLeftSpace s \<noteq> []" by (auto simp: TrimRightSpace_def)
    with False show "?t = [] \<or> \<not> is_space (hd ?t)"
      by (simp add: hd_TrimRightSpace hd_TrimLeftSpace)
  qed simp
  moreover have "TrimRightSpace ?t = ?t"
    by (simp add: TrimRightSpace_def dropWhile_idem)
  ultimately show ?thesis by (simp add: TrimSpace_def)
qed

lemma dropWhile_none: "\<forall>c \<in> set xs. \<not> P c \<Longrightarrow> dropWhile P xs = xs"
  by (cases xs) auto

lemma TrimSpace_no_space: "\<forall>c \<in> set s. \<not> is_space c \<Longrightarrow> TrimSpace s = s"
  by (simp add: TrimSpace_def TrimLeftSpace_def TrimRightSpace_def dropWhile_none)

lemma set_dropWhile_subset: "set (dropWhile P xs) \<subseteq> set xs"
  by (induction xs) auto

lemma set_TrimSpace: "set (TrimSpace s) \<subseteq> set s"
  using set_dropWhile_subset [of is_space "rev (dropWhile is_space s)"]
    set_dropWhile_subset [of is_space s]
  by (auto simp: TrimSpace_def TrimLeftSpace_def TrimRightSpace_def)

lemma TrimSpace_Nil [simp]: "TrimSpace [] = []"
  by (simp add: TrimSpace_def TrimLeftSpace_def TrimRightSpace_def)

lemma HasPrefix_iff: "HasPrefix s p \<longleftrightarrow> (\<exists>t. s = p @ t)"
  unfolding HasPrefix_def by (metis append_eq_conv_conj append_take_drop_id)

lemma HasPrefix_append [simp]: "HasPrefix (p @ t) p"
  by (simp add: HasPrefix_def)

lemma HasSuffix_iff: "HasSuffix s p \<longleftrightarrow> (\<exists>t. s = t @ p)"
  unfolding HasSuffix_def
  by (metis append_eq_conv_conj append_take_drop_id diff_add_inverse2 le_add2 length_append)

lemma EqualFold_refl [simp]: "EqualFold s s"
  by (simp add: EqualFold_def)

lemma EqualFold_sym: "EqualFold s t = EqualFold t s"
  by (auto simp: EqualFold_def)

lemma EqualFold_ToLower [simp]: "EqualFold (ToLower s) t = EqualFold s t"
  by (simp add: EqualFold_def)

lemma Split_nonempty: "Split s c \<noteq> []"
  by (cases s) (auto split: list.splits)

lemma nat_digits_digits: "c \<in> set (nat_digits n) \<Longrightarrow> is_digit c"
proof (induction n rule: nat_digits.induct)
  case (1 n)
  then show ?case
    by (subst (asm) nat_digits.simps [of n]) (auto simp: is_digit_def split: if_splits)
qed

lemma rune_values_ascii: "\<forall>n \<in> set ns. n < 128 \<Longrightarrow> rune_values ns = ns"
  by (induction ns) auto

lemma runes_ascii: "\<forall>c \<in> set s. (of_char c :: nat) < 128 \<Longrightarrow> runes s = map of_char s"
  unfolding runes_def by (rule rune_values_ascii) auto

end
