(* ===== verification/Domain.thy ===== *)
theory Domain
  imports Errors Go_Strings
begin

text \<open>
  The data of \<open>internal/domain/event.go\<close> and \<open>internal/domain/alert.go\<close>: events,
  typed values, alert cards, notifications and decisions, with the event contract
  \<open>Validate\<close>. JSON decoding itself is not modelled; a decoded event is a value of
  \<open>event\<close>.

  A \<open>float64\<close> is its IEEE 754 bit pattern, so that comparison is exact, NaN included.
  \<open>AlertState\<close> is the string type of the source restricted to its constants and the zero
  value: \<open>StNone\<close> is the empty string.
\<close>

section \<open>IEEE 754 double precision comparison\<close>

type_synonym float64 = "64 word"

definition f64_mag :: "float64 \<Rightarrow> int" where
  "f64_mag w = uint w mod 9223372036854775808"

definition f64_isNaN :: "float64 \<Rightarrow> bool" where
  "f64_isNaN w \<longleftrightarrow> 9218868437227405312 < f64_mag w"

definition f64_ord :: "float64 \<Rightarrow> int" where
  "f64_ord w = (if 9223372036854775808 \<le> uint w then - f64_mag w else f64_mag w)"

definition f64_eq :: "float64 \<Rightarrow> float64 \<Rightarrow> bool" where
  "f64_eq a b \<longleftrightarrow> \<not> f64_isNaN a \<and> \<not> f64_isNaN b \<and> f64_ord a = f64_ord b"

definition f64_lt :: "float64 \<Rightarrow> float64 \<Rightarrow> bool" where
  "f64_lt a b \<longleftrightarrow> \<not> f64_isNaN a \<and> \<not> f64_isNaN b \<and> f64_ord a < f64_ord b"

definition f64_le :: "float64 \<Rightarrow> float64 \<Rightarrow> bool" where
  "f64_le a b \<longleftrightarrow> \<not> f64_isNaN a \<and> \<not> f64_isNaN b \<and> f64_ord a \<le> f64_ord b"

lemma f64_le_iff: "f64_le a b \<longleftrightarrow> f64_lt a b \<or> f64_eq a b"
  by (auto simp: f64_le_def f64_lt_def f64_eq_def)

section \<open>Events\<close>

record typed_value =
  tv_Type :: string
  tv_N :: "float64 option"
  tv_S :: "string option"
  tv_B :: "bool option"

record event =
  ev_DT :: int64
  ev_Type :: string
  ev_Tags :: "(string, string) gmap"
  ev_Var :: string
  ev_Value :: typed_value
  ev_AggCnt :: int64
  ev_Win :: int64

abbreviation EventTypeEvent :: string where "EventTypeEvent \<equiv> ''event''"
abbreviation EventTypeAgg :: string where "EventTypeAgg \<equiv> ''agg''"

definition EventTime :: "event \<Rightarrow> gtime" where
  "EventTime e = time_UnixMilli (ev_DT e)"

definition TypedValue_Validate :: "typed_value \<Rightarrow> error option" where
  "TypedValue_Validate v =
     (if tv_Type v = ''n'' then
        if tv_N v = None then Some (ErrMsg ''n value is required for t=n'')
        else if tv_S v \<noteq> None \<or> tv_B v \<noteq> None then Some (ErrMsg ''only n must be set for t=n'')
        else None
      else if tv_Type v = ''s'' then
        if tv_S v = None then Some (ErrMsg ''s value is required for t=s'')
        else if tv_N v \<noteq> None \<or> tv_B v \<noteq> None then Some (ErrMsg ''only s must be set for t=s'')
        else None
      else if tv_Type v = ''b'' then
        if tv_B v = None then Some (ErrMsg ''b value is required for t=b'')
        else if tv_N v \<noteq> None \<or> tv_S v \<noteq> None then Some (ErrMsg ''only b must be set for t=b'')
        else None
      else Some (ErrFmt ''unsupported value type %q'' [tv_Type v]))"

definition Event_Validate :: "event \<Rightarrow> error option" where
  "Event_Validate e =
     (if ev_DT e \<le> 0 then Some (ErrMsg ''dt must be >0'')
      else if ev_Type e \<noteq> EventTypeEvent \<and> ev_Type e \<noteq> EventTypeAgg
        then Some (ErrFmt ''unsupported type %q'' [ev_Type e])
      else if TrimSpace (ev_Var e) = [] then Some (ErrMsg ''var is required'')
      else if length (ev_Tags e) = 0 then Some (ErrMsg ''tags are required'')
      else if ev_AggCnt e < 1 then Some (ErrMsg ''agg_cnt must be >=1'')
      else if ev_Type e = EventTypeEvent \<and> ev_AggCnt e \<noteq> 1
        then Some (ErrMsg ''agg_cnt must be 1 for type=event'')
      else if ev_Type e = EventTypeEvent \<and> ev_Win e \<noteq> 0
        then Some (ErrMsg ''win must be 0 for type=event'')
      else if ev_Type e = EventTypeAgg \<and> ev_Win e \<le> 0
        then Some (ErrMsg ''win must be >0 for type=agg'')
      else (case TypedValue_Validate (ev_Value e) of
              Some err \<Rightarrow> Some (ErrWrap ''value: %w'' [] err)
            | None \<Rightarrow> None))"

text \<open>
  The decoders parse JSON with the standard library and then validate. The parse result is
  their argument (\<open>json.Unmarshal\<close> or \<open>Decoder.Decode\<close> into the target type).
\<close>

definition DecodeEvent :: "event result \<Rightarrow> event result" where
  "DecodeEvent parsed =
     (case parsed of Inl err \<Rightarrow> Inl (ErrWrap ''decode event: %w'' [] err)
      | Inr e \<Rightarrow> (case Event_Validate e of Some err \<Rightarrow> Inl err | None \<Rightarrow> Inr e))"

text \<open>The validation loop over a batch: the first invalid event fails it, with its index.\<close>

fun validate_from :: "nat \<Rightarrow> event list \<Rightarrow> error option" where
  "validate_from i [] = None"
| "validate_from i (e # es) =
     (case Event_Validate e of
        Some err \<Rightarrow> Some (ErrWrap ''event[%d]: %w'' [FormatInt (int i)] err)
      | None \<Rightarrow> validate_from (Suc i) es)"

definition DecodeEventsReader :: "event list result \<Rightarrow> event list result" where
  "DecodeEventsReader parsed =
     (case parsed of Inl err \<Rightarrow> Inl (ErrWrap ''decode event batch: %w'' [] err)
      | Inr es \<Rightarrow>
          if length es = 0 then Inl (ErrMsg ''event batch must contain at least one event'')
          else (case validate_from 0 es of Some err \<Rightarrow> Inl err | None \<Rightarrow> Inr es))"

section \<open>Alerts\<close>

datatype alert_state = StNone | StPending | StFiring | StResolved

fun state_name :: "alert_state \<Rightarrow> string" where
  "state_name StNone = []"
| "state_name StPending = ''pending''"
| "state_name StFiring = ''firing''"
| "state_name StResolved = ''resolved''"

record alert_card =
  ac_AlertID :: string
  ac_RuleName :: string
  ac_Var :: string
  ac_Tags :: "(string, string) gmap"
  ac_MetricValue :: string
  ac_EventCount :: int64
  ac_ExternalRefs :: "(string, string) gmap"
  ac_State :: alert_state
  ac_RaisedAt :: gtime
  ac_PendingSince :: "gtime option"
  ac_LastSeenAt :: gtime
  ac_ClosedAt :: "gtime option"
  ac_ResolveCause :: string

definition empty_card :: alert_card where
  "empty_card = \<lparr>ac_AlertID = [], ac_RuleName = [], ac_Var = [], ac_Tags = [], ac_MetricValue = [],
     ac_EventCount = 0, ac_ExternalRefs = [], ac_State = StNone, ac_RaisedAt = zero_time,
     ac_PendingSince = None, ac_LastSeenAt = zero_time, ac_ClosedAt = None, ac_ResolveCause = []\<rparr>"

record notification =
  nt_Channel :: string
  nt_RouteKey :: string
  nt_RouteMode :: string
  nt_AlertID :: string
  nt_ShortID :: string
  nt_RuleName :: string
  nt_State :: alert_state
  nt_Message :: string
  nt_ReplyToMessageID :: "int64 option"
  nt_ExternalRef :: string
  nt_Tags :: "(string, string) gmap"
  nt_Var :: string
  nt_MetricValue :: string
  nt_StartedAt :: "gtime option"
  nt_Duration :: duration
  nt_Timestamp :: gtime

record decision =
  dc_Matched :: bool
  dc_AlertID :: string
  dc_State :: alert_state
  dc_StateChanged :: bool
  dc_ShouldStore :: bool
  dc_ShouldNotify :: bool
  dc_ResolveImmediate :: bool
  dc_ResolveCause :: string

text \<open>The zero value \<open>domain.Decision{}\<close>.\<close>

definition no_decision :: decision where
  "no_decision = \<lparr>dc_Matched = False, dc_AlertID = [], dc_State = StNone, dc_StateChanged = False,
     dc_ShouldStore = False, dc_ShouldNotify = False, dc_ResolveImmediate = False, dc_ResolveCause = []\<rparr>"

end
