(* ===== verification/Config_Types.thy ===== *)
theory Config_Types
  imports Domain
begin

text \<open>
  The configuration data of \<open>internal/config/config.go\<close>: one record per Go struct, the
  fields in the order of the source and with its names behind a prefix per record.
  A Go slice is a list (nil and empty are the same list), an \<open>int\<close> is an \<open>int64\<close>, a
  pointer is an option. A compiled regular expression is its match function, since the
  regular expression engine belongs to Go's library.
\<close>

section \<open>Service, log, ingest\<close>

record service_config =
  sc_Name :: string
  sc_Mode :: string
  sc_ReloadEnabled :: bool
  sc_ReloadIntervalSec :: int64
  sc_ResolveScanInterval :: int64
  sc_RuntimeStateIdleSec :: int64
  sc_RuntimeStateMax :: int64

record log_sink =
  ls_Enabled :: bool
  ls_Level :: string
  ls_Format :: string
  ls_Path :: string

record log_config =
  lc_Console :: log_sink
  lc_File :: log_sink

record http_ingest =
  hi_Enabled :: bool
  hi_Listen :: string
  hi_HealthPath :: string
  hi_ReadyPath :: string
  hi_IngestPath :: string
  hi_MaxBodyBytes :: int64

record nats_ingest =
  ni_Enabled :: bool
  ni_URL :: "string list"
  ni_Subject :: string
  ni_Stream :: string
  ni_ConsumerName :: string
  ni_DeliverGroup :: string
  ni_Workers :: int64
  ni_AckWaitSec :: int64
  ni_NackDelayMS :: int64
  ni_MaxDeliver :: int64
  ni_MaxAckPending :: int64

record ingest_config =
  ig_HTTP :: http_ingest
  ig_NATS :: nats_ingest

record nats_state_config =
  ns_URL :: "string list"
  ns_TickBucket :: string
  ns_DataBucket :: string
  ns_DeleteConsumerName :: string
  ns_DeleteDeliverGroup :: string
  ns_DeleteSubjectWildcard :: string
  ns_EnableDeleteConsumer :: bool
  ns_AllowCreateBuckets :: bool
  ns_ResolveReasonByTTLOnly :: bool

section \<open>Notification channels\<close>

record notify_retry =
  nr_Enabled :: bool
  nr_Backoff :: string
  nr_InitialMS :: int64
  nr_MaxMS :: int64
  nr_MaxAttempts :: int64
  nr_LogEachAttempt :: bool

record named_template =
  tpl_Name :: string
  tpl_Message :: string

record notify_queue =
  nq_Enabled :: bool
  nq_URL :: "string list"
  nq_AckWaitSec :: int64
  nq_NackDelayMS :: int64
  nq_MaxDeliver :: int64
  nq_MaxAckPending :: int64
  nq_DLQ :: bool

record telegram_notifier =
  tg_Enabled :: bool
  tg_BotToken :: string
  tg_ChatID :: string
  tg_ActiveChatID :: string
  tg_APIBase :: string
  tg_Retry :: notify_retry
  tg_NameTemplate :: "named_template list"

record http_notifier =
  hn_Enabled :: bool
  hn_URL :: string
  hn_Method :: string
  hn_TimeoutSec :: int64
  hn_Headers :: "(string, string) gmap"
  hn_Retry :: notify_retry
  hn_NameTemplate :: "named_template list"

record mattermost_config =
  mm_Enabled :: bool
  mm_BaseURL :: string
  mm_BotToken :: string
  mm_ChannelID :: string
  mm_ActiveChannelID :: string
  mm_TimeoutSec :: int64
  mm_Retry :: notify_retry
  mm_NameTemplate :: "named_template list"

record tracker_auth =
  ta_Type :: string
  ta_Username :: string
  ta_Password :: string
  ta_Token :: string
  ta_Header :: string
  ta_Prefix :: string

record tracker_action =
  tc_Method :: string
  tc_Path :: string
  tc_Headers :: "(string, string) gmap"
  tc_BodyTemplate :: string
  tc_SuccessStatus :: "int64 list"
  tc_RefJSONPath :: string

record tracker_notifier =
  tk_Enabled :: bool
  tk_BaseURL :: string
  tk_TimeoutSec :: int64
  tk_Auth :: tracker_auth
  tk_Create :: tracker_action
  tk_Resolve :: tracker_action
  tk_Retry :: notify_retry
  tk_NameTemplate :: "named_template list"

record notify_config =
  nc_Repeat :: bool
  nc_RepeatEverySec :: int64
  nc_RepeatOn :: "string list"
  nc_RepeatPerChannel :: bool
  nc_OnPending :: bool
  nc_Queue :: notify_queue
  nc_Telegram :: telegram_notifier
  nc_HTTP :: http_notifier
  nc_Mattermost :: mattermost_config
  nc_Jira :: tracker_notifier
  nc_YouTrack :: tracker_notifier

section \<open>User interface\<close>

record ui_basic_auth =
  ub_Enabled :: bool
  ub_Username :: string
  ub_Password :: string

record ui_nats =
  un_URL :: "string list"
  un_RegistryBucket :: string
  un_RegistryTTLSec :: int64
  un_StaleAfterSec :: int64
  un_OfflineAfterSec :: int64

text \<open>
  \<open>UIAuthConfig\<close>, \<open>UIHealthConfig\<close> and \<open>UIServiceConfig\<close> have one field each, which
  stands in their place.
\<close>

record ui_config =
  ui_Enabled :: bool
  ui_Listen :: string
  ui_BasePath :: string
  ui_RefreshSec :: int64
  ui_Auth_Basic :: ui_basic_auth
  ui_NATS :: ui_nats
  ui_Health_TimeoutSec :: int64
  ui_Service_PublicBaseURL :: string

section \<open>Rules\<close>

type_synonym regex = "string \<Rightarrow> bool"

record value_predicate =
  vp_Type :: string
  vp_Op :: string
  vp_N :: "float64 option"
  vp_S :: "string option"
  vp_B :: "bool option"
  vp_In :: "string list"
  vp_CompiledMatchRE :: "regex option"
  vp_CompiledWildcardRE :: "regex option"

record rule_match =
  rm_Type :: "string list"
  rm_Var :: "string list"
  rm_Tags :: "(string, string list) gmap"
  rm_Value :: "value_predicate option"

record rule_raise =
  rr_N :: int64
  rr_WindowSec :: int64
  rr_MissingSec :: int64

record rule_resolve =
  rv_SilenceSec :: int64
  rv_HysteresisSec :: int64

record rule_pending =
  rp_Enabled :: bool
  rp_DelaySec :: int64

record rule_route =
  ro_Name :: string
  ro_Channel :: string
  ro_Template :: string
  ro_Mode :: string

text \<open>A weekday is Go's number of it, Sunday \<open>0\<close> to Saturday \<open>6\<close>.\<close>

record compiled_off =
  co_Weekdays :: "nat list"
  co_From :: int64
  co_To :: int64

record rule_off =
  off_Days :: "string list"
  off_From :: string
  off_To :: string
  off_compiled :: "compiled_off option"

record rule_notify =
  rn_Repeat :: "bool option"
  rn_RepeatEverySec :: int64
  rn_OnPending :: "bool option"
  rn_Route :: "rule_route list"
  rn_Off :: "rule_off list"

record rule_out_of_order =
  oo_MaxLateMS :: int64
  oo_MaxFutureSkewMS :: int64

record rule_config =
  rc_Name :: string
  rc_AlertType :: string
  rc_Match :: rule_match
  rc_Key_FromTags :: "string list"
  rc_Raise :: rule_raise
  rc_Resolve :: rule_resolve
  rc_Pending :: rule_pending
  rc_Notify :: rule_notify
  rc_OutOfOrder :: rule_out_of_order

record config =
  cf_Service :: service_config
  cf_Log :: log_config
  cf_Ingest :: ingest_config
  cf_Notify :: notify_config
  cf_UI :: ui_config
  cf_Rule :: "rule_config list"

section \<open>Zero values and small test rules\<close>

text \<open>Go's zero values of the structs that code builds or compares with \<open>T{}\<close>.\<close>

definition zero_retry :: notify_retry where
  "zero_retry = \<lparr>nr_Enabled = False, nr_Backoff = [], nr_InitialMS = 0, nr_MaxMS = 0,
     nr_MaxAttempts = 0, nr_LogEachAttempt = False\<rparr>"

definition zero_auth :: tracker_auth where
  "zero_auth = \<lparr>ta_Type = [], ta_Username = [], ta_Password = [], ta_Token = [], ta_Header = [],
     ta_Prefix = []\<rparr>"

definition zero_action :: tracker_action where
  "zero_action = \<lparr>tc_Method = [], tc_Path = [], tc_Headers = [], tc_BodyTemplate = [],
     tc_SuccessStatus = [], tc_RefJSONPath = []\<rparr>"

definition zero_tracker :: tracker_notifier where
  "zero_tracker = \<lparr>tk_Enabled = False, tk_BaseURL = [], tk_TimeoutSec = 0, tk_Auth = zero_auth,
     tk_Create = zero_action, tk_Resolve = zero_action, tk_Retry = zero_retry, tk_NameTemplate = []\<rparr>"

definition zero_queue :: notify_queue where
  "zero_queue = \<lparr>nq_Enabled = False, nq_URL = [], nq_AckWaitSec = 0, nq_NackDelayMS = 0,
     nq_MaxDeliver = 0, nq_MaxAckPending = 0, nq_DLQ = False\<rparr>"

definition zero_notify :: notify_config where
  "zero_notify = \<lparr>nc_Repeat = False, nc_RepeatEverySec = 0, nc_RepeatOn = [],
     nc_RepeatPerChannel = False, nc_OnPending = False, nc_Queue = zero_queue,
     nc_Telegram = \<lparr>tg_Enabled = False, tg_BotToken = [], tg_ChatID = [], tg_ActiveChatID = [],
       tg_APIBase = [], tg_Retry = zero_retry, tg_NameTemplate = []\<rparr>,
     nc_HTTP = \<lparr>hn_Enabled = False, hn_URL = [], hn_Method = [], hn_TimeoutSec = 0,
       hn_Headers = [], hn_Retry = zero_retry, hn_NameTemplate = []\<rparr>,
     nc_Mattermost = \<lparr>mm_Enabled = False, mm_BaseURL = [], mm_BotToken = [], mm_ChannelID = [],
       mm_ActiveChannelID = [], mm_TimeoutSec = 0, mm_Retry = zero_retry, mm_NameTemplate = []\<rparr>,
     nc_Jira = zero_tracker, nc_YouTrack = zero_tracker\<rparr>"

definition zero_service :: service_config where
  "zero_service = \<lparr>sc_Name = [], sc_Mode = [], sc_ReloadEnabled = False, sc_ReloadIntervalSec = 0,
     sc_ResolveScanInterval = 0, sc_RuntimeStateIdleSec = 0, sc_RuntimeStateMax = 0\<rparr>"

definition zero_log_sink :: log_sink where
  "zero_log_sink = \<lparr>ls_Enabled = False, ls_Level = [], ls_Format = [], ls_Path = []\<rparr>"

definition zero_log :: log_config where
  "zero_log = \<lparr>lc_Console = zero_log_sink, lc_File = zero_log_sink\<rparr>"

definition zero_ingest :: ingest_config where
  "zero_ingest = \<lparr>ig_HTTP = \<lparr>hi_Enabled = False, hi_Listen = [], hi_HealthPath = [],
       hi_ReadyPath = [], hi_IngestPath = [], hi_MaxBodyBytes = 0\<rparr>,
     ig_NATS = \<lparr>ni_Enabled = False, ni_URL = [], ni_Subject = [], ni_Stream = [],
       ni_ConsumerName = [], ni_DeliverGroup = [], ni_Workers = 0, ni_AckWaitSec = 0,
       ni_NackDelayMS = 0, ni_MaxDeliver = 0, ni_MaxAckPending = 0\<rparr>\<rparr>"

definition zero_ui :: ui_config where
  "zero_ui = \<lparr>ui_Enabled = False, ui_Listen = [], ui_BasePath = [], ui_RefreshSec = 0,
     ui_Auth_Basic = \<lparr>ub_Enabled = False, ub_Username = [], ub_Password = []\<rparr>,
     ui_NATS = \<lparr>un_URL = [], un_RegistryBucket = [], un_RegistryTTLSec = 0,
       un_StaleAfterSec = 0, un_OfflineAfterSec = 0\<rparr>,
     ui_Health_TimeoutSec = 0, ui_Service_PublicBaseURL = []\<rparr>"

definition zero_config :: config where
  "zero_config = \<lparr>cf_Service = zero_service, cf_Log = zero_log, cf_Ingest = zero_ingest,
     cf_Notify = zero_notify, cf_UI = zero_ui, cf_Rule = []\<rparr>"

text \<open>A rule with an alert type and thresholds and nothing else, for closed examples.\<close>

definition zero_rule :: rule_config where
  "zero_rule = \<lparr>rc_Name = [], rc_AlertType = [],
     rc_Match = \<lparr>rm_Type = [], rm_Var = [], rm_Tags = [], rm_Value = None\<rparr>,
     rc_Key_FromTags = [],
     rc_Raise = \<lparr>rr_N = 0, rr_WindowSec = 0, rr_MissingSec = 0\<rparr>,
     rc_Resolve = \<lparr>rv_SilenceSec = 0, rv_HysteresisSec = 0\<rparr>,
     rc_Pending = \<lparr>rp_Enabled = False, rp_DelaySec = 0\<rparr>,
     rc_Notify = \<lparr>rn_Repeat = None, rn_RepeatEverySec = 0, rn_OnPending = None, rn_Route = [],
       rn_Off = []\<rparr>,
     rc_OutOfOrder = \<lparr>oo_MaxLateMS = 0, oo_MaxFutureSkewMS = 0\<rparr>\<rparr>"

end
