(* ===== verification/Config_Norm.thy ===== *)
theory Config_Norm
  imports Config_Types
begin

text \<open>
  The pure helpers of \<open>internal/config/config.go\<close> that the other packages call: name
  normalisation, the channel registry, the operator table of value predicates, wildcard
  translation, the resolve timeout and the derived NATS state settings.
\<close>

section \<open>Normalisation\<close>

abbreviation NotifyChannelTelegram :: string where "NotifyChannelTelegram \<equiv> ''telegram''"
abbreviation NotifyChannelHTTP :: string where "NotifyChannelHTTP \<equiv> ''http''"
abbreviation NotifyChannelMattermost :: string where "NotifyChannelMattermost \<equiv> ''mattermost''"
abbreviation NotifyChannelJira :: string where "NotifyChannelJira \<equiv> ''jira''"
abbreviation NotifyChannelYouTrack :: string where "NotifyChannelYouTrack \<equiv> ''youtrack''"
abbreviation NotifyRouteModeHistory :: string where "NotifyRouteModeHistory \<equiv> ''history''"
abbreviation NotifyRouteModeActiveOnly :: string where "NotifyRouteModeActiveOnly \<equiv> ''active_only''"
abbreviation ServiceModeNATS :: string where "ServiceModeNATS \<equiv> ''nats''"
abbreviation ServiceModeSingle :: string where "ServiceModeSingle \<equiv> ''single''"

definition normalizeLowerDefault :: "string \<Rightarrow> string \<Rightarrow> string" where
  "normalizeLowerDefault value fallback =
     (let normalized = ToLower (TrimSpace value) in if normalized = [] then fallback else normalized)"

definition NormalizeNotifyChannel :: "string \<Rightarrow> string" where
  "NormalizeNotifyChannel value = normalizeLowerDefault value []"

definition NormalizeNotifyRouteMode :: "string \<Rightarrow> string" where
  "NormalizeNotifyRouteMode value = normalizeLowerDefault value NotifyRouteModeHistory"

definition NormalizeServiceMode :: "string \<Rightarrow> string" where
  "NormalizeServiceMode value = normalizeLowerDefault value ServiceModeNATS"

definition IsSupportedServiceMode :: "string \<Rightarrow> bool" where
  "IsSupportedServiceMode mode \<longleftrightarrow> NormalizeServiceMode mode \<in> {ServiceModeNATS, ServiceModeSingle}"

definition IsSupportedNotifyRouteMode :: "string \<Rightarrow> bool" where
  "IsSupportedNotifyRouteMode mode \<longleftrightarrow>
     NormalizeNotifyRouteMode mode \<in> {NotifyRouteModeHistory, NotifyRouteModeActiveOnly}"

definition normalizeNATSURLs :: "string list \<Rightarrow> string list" where
  "normalizeNATSURLs urls = (if length urls = 0 then [] else map TrimSpace urls)"

definition normalizeUIBasePath :: "string \<Rightarrow> string" where
  "normalizeUIBasePath path =
     (let p = TrimSpace path in
      if p = [] then ''/ui''
      else let q = (if \<not> HasPrefix p ''/'' then ''/'' @ p else p)
           in if q \<noteq> ''/'' then TrimRight q (CHR ''/'') else q)"

section \<open>The channel registry\<close>

definition NotifyChannelNames :: "string list" where
  "NotifyChannelNames = [NotifyChannelTelegram, NotifyChannelHTTP, NotifyChannelMattermost,
     NotifyChannelJira, NotifyChannelYouTrack]"

text \<open>
  The registry entry of a channel: the accessors of \<open>notifyChannelRegistry\<close>, applied to the
  configuration.
\<close>

definition channel_descriptor ::
    "notify_config \<Rightarrow> string \<Rightarrow> (bool \<times> notify_retry \<times> named_template list) option" where
  "channel_descriptor cfg channel =
     (let c = NormalizeNotifyChannel channel in
      if c = NotifyChannelTelegram then
        Some (tg_Enabled (nc_Telegram cfg), tg_Retry (nc_Telegram cfg), tg_NameTemplate (nc_Telegram cfg))
      else if c = NotifyChannelHTTP then
        Some (hn_Enabled (nc_HTTP cfg), hn_Retry (nc_HTTP cfg), hn_NameTemplate (nc_HTTP cfg))
      else if c = NotifyChannelMattermost then
        Some (mm_Enabled (nc_Mattermost cfg), mm_Retry (nc_Mattermost cfg), mm_NameTemplate (nc_Mattermost cfg))
      else if c = NotifyChannelJira then
        Some (tk_Enabled (nc_Jira cfg), tk_Retry (nc_Jira cfg), tk_NameTemplate (nc_Jira cfg))
      else if c = NotifyChannelYouTrack then
        Some (tk_Enabled (nc_YouTrack cfg), tk_Retry (nc_YouTrack cfg), tk_NameTemplate (nc_YouTrack cfg))
      else None)"

definition IsSupportedNotifyChannel :: "string \<Rightarrow> bool" where
  "IsSupportedNotifyChannel channel \<longleftrightarrow> NormalizeNotifyChannel channel \<in> set NotifyChannelNames"

definition NotifyChannelEnabled :: "notify_config \<Rightarrow> string \<Rightarrow> bool" where
  "NotifyChannelEnabled cfg channel =
     (case channel_descriptor cfg channel of None \<Rightarrow> False | Some (enabled, _, _) \<Rightarrow> enabled)"

definition NotifyChannelRetry :: "notify_config \<Rightarrow> string \<Rightarrow> notify_retry" where
  "NotifyChannelRetry cfg channel =
     (case channel_descriptor cfg channel of None \<Rightarrow> zero_retry | Some (_, retry, _) \<Rightarrow> retry)"

definition NotifyChannelTemplates :: "notify_config \<Rightarrow> string \<Rightarrow> named_template list" where
  "NotifyChannelTemplates cfg channel =
     (case channel_descriptor cfg channel of None \<Rightarrow> [] | Some (_, _, templates) \<Rightarrow> templates)"

section \<open>Value predicates\<close>

definition supportedValuePredicateOps :: "(string, string list) gmap" where
  "supportedValuePredicateOps =
     [(''n'', [''=='', ''!='', ''>'', ''>='', ''<'', ''<='']),
      (''s'', [''=='', ''!='', ''in'', ''prefix'', ''match'', ''*'']),
      (''b'', [''=='', ''!=''])]"

definition IsSupportedValuePredicateOp :: "string \<Rightarrow> string \<Rightarrow> bool" where
  "IsSupportedValuePredicateOp valueType op =
     (case map_get supportedValuePredicateOps valueType of None \<Rightarrow> False | Some ops \<Rightarrow> op \<in> set ops)"

text \<open>
  \<open>CompileWildcardPattern\<close> rewrites a lower-cased glob into the text of a regular
  expression: a \<open>strings.NewReplacer\<close> of single bytes, then the two replacements.
  The compiler of the text is Go's, an argument.
\<close>

definition wildcard_escape :: "char \<Rightarrow> string" where
  "wildcard_escape c =
     (if c \<in> set ''.+()[]{}^$|'' then [CHR 0x5C, c] else [c])"

definition wildcard_text :: "string \<Rightarrow> string" where
  "wildcard_text pattern =
     (let normalized = concat (map wildcard_escape (ToLower pattern));
          stars = concat (map (\<lambda>c. if c = CHR ''*'' then ''.*'' else [c]) normalized);
          marks = concat (map (\<lambda>c. if c = CHR ''?'' then ''.'' else [c]) stars)
      in ''^'' @ marks @ ''$'')"

definition CompileWildcardPattern :: "(string \<Rightarrow> regex result) \<Rightarrow> string \<Rightarrow> regex result" where
  "CompileWildcardPattern compile pattern = compile (wildcard_text pattern)"

text \<open>
  \<open>validateValuePredicate\<close> clears and refills the compiled fields through the pointer; the
  updated predicate is part of the result. \<open>*predicate.S\<close> is read after the nil check of
  the same branch; the operator \<open>in\<close> does not read it.
\<close>

definition validateValuePredicate ::
    "(string \<Rightarrow> regex result) \<Rightarrow> value_predicate \<Rightarrow> value_predicate result" where
  "validateValuePredicate compile predicate =
     (let p = predicate\<lparr>vp_CompiledMatchRE := None, vp_CompiledWildcardRE := None\<rparr> in
      if vp_Type p = ''n'' then
        if \<not> IsSupportedValuePredicateOp (vp_Type p) (vp_Op p) then Inl (ErrFmt ''unsupported numeric op %q'' [vp_Op p])
        else if vp_N p = None then Inl (ErrMsg ''n operand is required for type=n'')
        else Inr p
      else if vp_Type p = ''s'' then
        if \<not> IsSupportedValuePredicateOp (vp_Type p) (vp_Op p) then Inl (ErrFmt ''unsupported string op %q'' [vp_Op p])
        else if vp_Op p = ''in'' then
          if length (vp_In p) = 0 then Inl (ErrMsg ''in operand requires non-empty list'') else Inr p
        else (case vp_S p of None \<Rightarrow> Inl (ErrMsg ''s operand is required for string op'')
          | Some s \<Rightarrow>
              if vp_Op p = ''match'' then
                (case compile s of Inl err \<Rightarrow> Inl (ErrWrap ''invalid match regex: %w'' [] err)
                 | Inr re \<Rightarrow> Inr (p\<lparr>vp_CompiledMatchRE := Some re\<rparr>))
              else if vp_Op p = ''*'' then
                (case CompileWildcardPattern compile s of
                   Inl err \<Rightarrow> Inl (ErrWrap ''invalid wildcard pattern: %w'' [] err)
                 | Inr re \<Rightarrow> Inr (p\<lparr>vp_CompiledWildcardRE := Some re\<rparr>))
              else Inr p)
      else if vp_Type p = ''b'' then
        if \<not> IsSupportedValuePredicateOp (vp_Type p) (vp_Op p) then Inl (ErrFmt ''unsupported bool op %q'' [vp_Op p])
        else if vp_B p = None then Inl (ErrMsg ''b operand is required for type=b'')
        else Inr p
      else Inl (ErrFmt ''unsupported value type %q'' [vp_Type p]))"

section \<open>Timeouts and derived settings\<close>

definition ResolveTimeout :: "rule_config \<Rightarrow> duration" where
  "ResolveTimeout rule =
     (if rc_AlertType rule = ''count_total'' \<or> rc_AlertType rule = ''count_window'' then
        seconds (wrap64 (rv_SilenceSec (rc_Resolve rule) + rv_HysteresisSec (rc_Resolve rule)))
      else if rc_AlertType rule = ''missing_heartbeat'' then
        seconds (wrap64 (rr_MissingSec (rc_Raise rule) + rv_HysteresisSec (rc_Resolve rule)))
      else 0)"

definition DeriveStateNATSConfig :: "config \<Rightarrow> nats_state_config" where
  "DeriveStateNATSConfig cfg =
     (let urls = normalizeNATSURLs (ni_URL (ig_NATS (cf_Ingest cfg))) in
      \<lparr>ns_URL = (if length urls = 0 then [''nats://127.0.0.1:4222''] else urls),
       ns_TickBucket = ''tick'', ns_DataBucket = ''data'',
       ns_DeleteConsumerName = ''alerting-resolve'', ns_DeleteDeliverGroup = ''alerting-resolve'',
       ns_DeleteSubjectWildcard = ''$KV.'' @ ''tick'' @ ''.>'',
       ns_EnableDeleteConsumer = True, ns_AllowCreateBuckets = True,
       ns_ResolveReasonByTTLOnly = False\<rparr>)"

text \<open>\<open>FromCLI\<close>: exactly one of the two sources.\<close>

record config_source =
  cs_File :: string
  cs_Dir :: string

definition FromCLI :: "string \<Rightarrow> string \<Rightarrow> config_source result" where
  "FromCLI filePath dirPath =
     (let f = TrimSpace filePath; d = TrimSpace dirPath in
      if f = [] \<and> d = [] then Inl (ErrMsg ''either --config-file or --config-dir must be provided'')
      else if f \<noteq> [] \<and> d \<noteq> [] then Inl (ErrMsg ''config source must be either file or dir'')
      else if f \<noteq> [] then Inr \<lparr>cs_File = f, cs_Dir = []\<rparr>
      else Inr \<lparr>cs_File = [], cs_Dir = d\<rparr>)"

section \<open>Facts\<close>

lemma normalizeLowerDefault_idem:
  assumes "ToLower (TrimSpace fallback) = fallback"
  shows "normalizeLowerDefault (normalizeLowerDefault v fallback) fallback = normalizeLowerDefault v fallback"
  using assms by (auto simp: normalizeLowerDefault_def Let_def TrimSpace_ToLower)

lemma NormalizeNotifyChannel_idem [simp]:
  "NormalizeNotifyChannel (NormalizeNotifyChannel v) = NormalizeNotifyChannel v"
  unfolding NormalizeNotifyChannel_def by (rule normalizeLowerDefault_idem) (simp add: ToLower_def)

lemma NormalizeNotifyRouteMode_idem [simp]:
  "NormalizeNotifyRouteMode (NormalizeNotifyRouteMode v) = NormalizeNotifyRouteMode v"
  unfolding NormalizeNotifyRouteMode_def by (rule normalizeLowerDefault_idem) code_simp

lemma NormalizeServiceMode_idem [simp]:
  "NormalizeServiceMode (NormalizeServiceMode v) = NormalizeServiceMode v"
  unfolding NormalizeServiceMode_def by (rule normalizeLowerDefault_idem) code_simp

lemma channel_descriptor_supported:
  "channel_descriptor cfg ch \<noteq> None \<longleftrightarrow> IsSupportedNotifyChannel ch"
  by (simp add: channel_descriptor_def IsSupportedNotifyChannel_def NotifyChannelNames_def Let_def)

lemma NotifyChannelEnabled_supported:
  "NotifyChannelEnabled cfg ch \<Longrightarrow> IsSupportedNotifyChannel ch"
  using channel_descriptor_supported [of cfg ch]
  by (auto simp: NotifyChannelEnabled_def split: option.splits)

end
