(* ===== verification/Engine.thy ===== *)
theory Engine
  imports Config_Norm
begin

text \<open>
  The rule engine of \<open>internal/engine/engine.go\<close>: the runtime state of one alert, the
  evaluation of an event and of a tick, the accessors of notification bookkeeping and the
  compaction of idle states.

  \<open>Engine.states\<close> maps alert ids to pointers; the pointers never leave the engine, so a
  state is stored by value and written back under its id. The order of the association list
  is the order in which a \<open>range\<close> over the Go map visits the entries. The mutex makes
  each operation atomic, so an operation is a function of the engine. A nil map and an empty
  map of a state behave alike and are both the empty list. \<open>strconv.FormatFloat\<close> is the
  argument \<open>fmt_float\<close>.
\<close>

section \<open>State\<close>

record window_point =
  wp_At :: gtime
  wp_Count :: int64

record runtime_state =
  rs_RuleName :: string
  rs_AlertID :: string
  rs_Var :: string
  rs_Tags :: "(string, string) gmap"
  rs_MetricValue :: string
  rs_RaisedAt :: gtime
  rs_Initialized :: bool
  rs_LastSeen :: gtime
  rs_PendingSince :: "gtime option"
  rs_HysteresisSince :: "gtime option"
  rs_CurrentState :: alert_state
  rs_CountTotal :: int64
  rs_CountWindow :: "window_point list"
  rs_CountWindowSum :: int64
  rs_ActiveCount :: int64
  rs_LastNotified :: "(string, gtime) gmap"
  rs_ChannelRefs :: "(string, int64) gmap"
  rs_ExternalRefs :: "(string, string) gmap"

record alert_identity =
  ai_Var :: string
  ai_Tags :: "(string, string) gmap"
  ai_MetricValue :: string

record repeat_snapshot =
  rps_AlertID :: string
  rps_RuleName :: string
  rps_Var :: string
  rps_Tags :: "(string, string) gmap"
  rps_MetricValue :: string
  rps_RaisedAt :: gtime

record engine =
  eng_states :: "(string, runtime_state) gmap"

definition New_engine :: engine where
  "New_engine = \<lparr>eng_states = []\<rparr>"

abbreviation eng_get :: "engine \<Rightarrow> string \<Rightarrow> runtime_state option" where
  "eng_get e k \<equiv> map_get (eng_states e) k"

definition eng_put :: "engine \<Rightarrow> string \<Rightarrow> runtime_state \<Rightarrow> engine" where
  "eng_put e k st = e\<lparr>eng_states := map_put k st (eng_states e)\<rparr>"

section \<open>Helpers\<close>

definition metricValue :: "(float64 \<Rightarrow> string) \<Rightarrow> typed_value \<Rightarrow> string" where
  "metricValue fmt_float v =
     (if tv_Type v = ''n'' then (case tv_N v of None \<Rightarrow> [] | Some n \<Rightarrow> fmt_float n)
      else if tv_Type v = ''s'' then (case tv_S v of None \<Rightarrow> [] | Some s \<Rightarrow> s)
      else if tv_Type v = ''b'' then (case tv_B v of None \<Rightarrow> [] | Some b \<Rightarrow> FormatBool b)
      else [])"

fun drop_stale :: "gtime \<Rightarrow> window_point list \<Rightarrow> int64 \<Rightarrow> window_point list \<times> int64" where
  "drop_stale cutoff [] windowSum = ([], windowSum)"
| "drop_stale cutoff (p # ps) windowSum =
     (if \<not> Before (wp_At p) cutoff then (p # ps, windowSum)
      else drop_stale cutoff ps (wrap64 (windowSum - wp_Count p)))"

definition pruneWindow ::
    "window_point list \<Rightarrow> gtime \<Rightarrow> duration \<Rightarrow> int64 \<Rightarrow> window_point list \<times> int64" where
  "pruneWindow points now window windowSum =
     (if window \<le> 0 then ([], 0) else drop_stale (time_Add now (- window)) points windowSum)"

definition resetResolvedState :: "runtime_state \<Rightarrow> runtime_state" where
  "resetResolvedState st = st\<lparr>rs_CurrentState := StNone, rs_PendingSince := None,
     rs_HysteresisSince := None, rs_CountWindow := [], rs_CountWindowSum := 0,
     rs_CountTotal := 0, rs_ActiveCount := 0, rs_RaisedAt := zero_time\<rparr>"

text \<open>The state \<open>ensureState\<close> returns; an existing one is left as it is.\<close>

definition new_state ::
    "(float64 \<Rightarrow> string) \<Rightarrow> rule_config \<Rightarrow> event \<Rightarrow> string \<Rightarrow> runtime_state" where
  "new_state fmt_float rule ev alertID =
     \<lparr>rs_RuleName = rc_Name rule, rs_AlertID = alertID, rs_Var = ev_Var ev, rs_Tags = ev_Tags ev,
      rs_MetricValue = metricValue fmt_float (ev_Value ev), rs_RaisedAt = zero_time,
      rs_Initialized = False, rs_LastSeen = zero_time, rs_PendingSince = None,
      rs_HysteresisSince = None, rs_CurrentState = StNone, rs_CountTotal = 0, rs_CountWindow = [],
      rs_CountWindowSum = 0, rs_ActiveCount = 0, rs_LastNotified = [], rs_ChannelRefs = [],
      rs_ExternalRefs = []\<rparr>"

definition ensureState ::
    "(float64 \<Rightarrow> string) \<Rightarrow> engine \<Rightarrow> rule_config \<Rightarrow> event \<Rightarrow> string \<Rightarrow> runtime_state" where
  "ensureState fmt_float e rule ev alertID =
     (case eng_get e alertID of Some st \<Rightarrow> st | None \<Rightarrow> new_state fmt_float rule ev alertID)"

section \<open>Decisions\<close>

definition matched :: "string \<Rightarrow> decision" where
  "matched alertID = no_decision\<lparr>dc_Matched := True, dc_AlertID := alertID\<rparr>"

definition refresh :: "string \<Rightarrow> alert_state \<Rightarrow> decision" where
  "refresh alertID s = (matched alertID)\<lparr>dc_State := s, dc_ShouldStore := True\<rparr>"

definition opened :: "string \<Rightarrow> alert_state \<Rightarrow> bool \<Rightarrow> decision" where
  "opened alertID s note = (refresh alertID s)\<lparr>dc_StateChanged := True, dc_ShouldNotify := note\<rparr>"

definition resolved :: "string \<Rightarrow> string \<Rightarrow> bool \<Rightarrow> decision" where
  "resolved alertID cause immediate =
     (opened alertID StResolved True)\<lparr>dc_ResolveImmediate := immediate, dc_ResolveCause := cause\<rparr>"

section \<open>Evaluation\<close>

text \<open>
  \<open>applyActiveCondition\<close>. The parameter \<open>resolveCause\<close> of the source is discarded there
  (\<open>_ = resolveCause\<close>). The last case of the source is for other state values, which
  \<open>alert_state\<close> does not have.
\<close>

definition applyActiveCondition ::
    "runtime_state \<Rightarrow> rule_config \<Rightarrow> gtime \<Rightarrow> bool \<Rightarrow> bool \<Rightarrow> decision \<times> runtime_state" where
  "applyActiveCondition st0 rule now active fromTick =
     (if \<not> active then
        (if fromTick then (no_decision, st0) else (matched (rs_AlertID st0), st0))
      else
        (let st = st0\<lparr>rs_HysteresisSince := None\<rparr>; alertID = rs_AlertID st in
         case rs_CurrentState st of
           StNone \<Rightarrow>
             if rp_Enabled (rc_Pending rule) then
               (opened alertID StPending False,
                st\<lparr>rs_RaisedAt := now, rs_PendingSince := Some now, rs_CurrentState := StPending\<rparr>)
             else
               (opened alertID StFiring True,
                st\<lparr>rs_RaisedAt := now, rs_CurrentState := StFiring, rs_PendingSince := None\<rparr>)
         | StPending \<Rightarrow>
             (let since = (case rs_PendingSince st of None \<Rightarrow> now | Some t \<Rightarrow> t);
                  st1 = st\<lparr>rs_PendingSince := Some since\<rparr> in
              if time_Sub now since \<ge> seconds (rp_DelaySec (rc_Pending rule)) then
                (opened alertID StFiring True,
                 st1\<lparr>rs_CurrentState := StFiring, rs_PendingSince := None\<rparr>)
              else (refresh alertID StPending, st1))
         | StFiring \<Rightarrow> (refresh alertID StFiring, st)
         | StResolved \<Rightarrow>
             (matched alertID, st\<lparr>rs_CurrentState := StNone, rs_RaisedAt := zero_time\<rparr>)))"

text \<open>The branch of \<open>ProcessEvent\<close> for \<open>missing_heartbeat\<close>.\<close>

definition heartbeat_event ::
    "runtime_state \<Rightarrow> rule_config \<Rightarrow> string \<Rightarrow> gtime \<Rightarrow> decision \<times> runtime_state" where
  "heartbeat_event st rule alertID now =
     (if \<not> rs_Initialized st then
        (matched alertID, st\<lparr>rs_Initialized := True, rs_CurrentState := StNone,
                             rs_PendingSince := None, rs_HysteresisSince := None\<rparr>)
      else if rs_CurrentState st = StPending \<or> rs_CurrentState st = StFiring then
        (let hysteresisWindow = seconds (rv_HysteresisSec (rc_Resolve rule));
             since = (case rs_HysteresisSince st of None \<Rightarrow> now | Some t \<Rightarrow> t) in
         if hysteresisWindow > 0 \<and> time_Sub now since < hysteresisWindow
         then (refresh alertID (rs_CurrentState st), st\<lparr>rs_HysteresisSince := Some since\<rparr>)
         else (resolved alertID ''heartbeat_recovered'' True, resetResolvedState st))
      else (matched alertID, st))"

definition event_state ::
    "(float64 \<Rightarrow> string) \<Rightarrow> runtime_state \<Rightarrow> rule_config \<Rightarrow> event \<Rightarrow> string \<Rightarrow> gtime \<Rightarrow> decision \<times> runtime_state" where
  "event_state fmt_float st0 rule ev alertID now =
     (let st = st0\<lparr>rs_LastSeen := now, rs_MetricValue := metricValue fmt_float (ev_Value ev)\<rparr> in
      if rc_AlertType rule = ''count_total'' then
        (let st1 = st\<lparr>rs_Initialized := True,
               rs_CountTotal := wrap64 (rs_CountTotal st + ev_AggCnt ev),
               rs_ActiveCount := wrap64 (rs_ActiveCount st + ev_AggCnt ev)\<rparr> in
         applyActiveCondition st1 rule now (rs_CountTotal st1 \<ge> rr_N (rc_Raise rule)) False)
      else if rc_AlertType rule = ''count_window'' then
        (let points = rs_CountWindow st @ [\<lparr>wp_At = now, wp_Count = ev_AggCnt ev\<rparr>];
             pruned = pruneWindow points now (seconds (rr_WindowSec (rc_Raise rule)))
                        (wrap64 (rs_CountWindowSum st + ev_AggCnt ev));
             st1 = st\<lparr>rs_Initialized := True, rs_CountWindow := fst pruned,
               rs_CountWindowSum := snd pruned,
               rs_ActiveCount := wrap64 (rs_ActiveCount st + ev_AggCnt ev)\<rparr> in
         applyActiveCondition st1 rule now (rs_CountWindowSum st1 \<ge> rr_N (rc_Raise rule)) False)
      else if rc_AlertType rule = ''missing_heartbeat'' then heartbeat_event st rule alertID now
      else (no_decision, st))"

definition engine_ProcessEvent ::
    "(float64 \<Rightarrow> string) \<Rightarrow> engine \<Rightarrow> rule_config \<Rightarrow> event \<Rightarrow> string \<Rightarrow> gtime \<Rightarrow> decision \<times> engine" where
  "engine_ProcessEvent fmt_float e rule ev alertID now =
     (let r = event_state fmt_float (ensureState fmt_float e rule ev alertID) rule ev alertID now
      in (fst r, eng_put e alertID (snd r)))"

text \<open>
  One pass of the loop of \<open>TickRuleWithFiring\<close>: the new state of the entry, the decisions it
  appends and the firing ids it appends. A \<open>continue\<close> skips the firing list.
\<close>

definition count_tick :: "rule_config \<Rightarrow> gtime \<Rightarrow> runtime_state \<Rightarrow> runtime_state \<times> decision list \<times> string list" where
  "count_tick rule now st =
     (if rs_CurrentState st \<noteq> StPending \<and> rs_CurrentState st \<noteq> StFiring then (st, [], [])
      else
        (let resolveAfter = seconds (wrap64 (rv_SilenceSec (rc_Resolve rule) + rv_HysteresisSec (rc_Resolve rule))) in
         if time_Sub now (rs_LastSeen st) \<ge> resolveAfter
         then (resetResolvedState st, [resolved (rs_AlertID st) ''silence_timeout'' False], [])
         else (st, [], if rs_CurrentState st = StFiring then [rs_AlertID st] else [])))"

definition heartbeat_tick :: "rule_config \<Rightarrow> gtime \<Rightarrow> runtime_state \<Rightarrow> runtime_state \<times> decision list \<times> string list" where
  "heartbeat_tick rule now st =
     (if \<not> rs_Initialized st then (st, [], [])
      else
        (let active = (time_Sub now (rs_LastSeen st) \<ge> seconds (rr_MissingSec (rc_Raise rule)));
             st1 = (if active then st\<lparr>rs_HysteresisSince := None\<rparr> else st);
             r = applyActiveCondition st1 rule now active True;
             st2 = snd r;
             ds = (if dc_Matched (fst r) then [fst r] else []);
             hysteresisWindow = seconds (rv_HysteresisSec (rc_Resolve rule)) in
         if active \<or> (rs_CurrentState st2 \<noteq> StPending \<and> rs_CurrentState st2 \<noteq> StFiring) then (st2, ds, [])
         else if hysteresisWindow \<le> 0 then (st2, ds, [])
         else
           (let since = (case rs_HysteresisSince st2 of Some t \<Rightarrow> t
                         | None \<Rightarrow> if IsZero (rs_LastSeen st2) then now else rs_LastSeen st2);
                st3 = st2\<lparr>rs_HysteresisSince := Some since\<rparr> in
            if time_Sub now since \<ge> hysteresisWindow
            then (resetResolvedState st3, ds @ [resolved (rs_AlertID st3) ''heartbeat_recovered'' False], [])
            else (st3, ds @ [refresh (rs_AlertID st3) (rs_CurrentState st3)],
                  if rs_CurrentState st3 = StFiring then [rs_AlertID st3] else []))))"

definition tick_state :: "rule_config \<Rightarrow> gtime \<Rightarrow> runtime_state \<Rightarrow> runtime_state \<times> decision list \<times> string list" where
  "tick_state rule now st =
     (if rs_RuleName st \<noteq> rc_Name rule then (st, [], [])
      else if rc_AlertType rule = ''count_total'' \<or> rc_AlertType rule = ''count_window'' then count_tick rule now st
      else if rc_AlertType rule = ''missing_heartbeat'' then heartbeat_tick rule now st
      else (st, [], if rs_CurrentState st = StFiring then [rs_AlertID st] else []))"

fun tick_loop :: "rule_config \<Rightarrow> gtime \<Rightarrow> (string, runtime_state) gmap
    \<Rightarrow> (string, runtime_state) gmap \<times> decision list \<times> string list" where
  "tick_loop rule now [] = ([], [], [])"
| "tick_loop rule now ((k, st) # rest) =
     (let r = tick_state rule now st; rs = tick_loop rule now rest in
      ((k, fst r) # fst rs, fst (snd r) @ fst (snd rs), snd (snd r) @ snd (snd rs)))"

definition TickRuleWithFiring :: "engine \<Rightarrow> rule_config \<Rightarrow> gtime \<Rightarrow> (decision list \<times> string list) \<times> engine" where
  "TickRuleWithFiring e rule now =
     (let r = tick_loop rule now (eng_states e) in (snd r, e\<lparr>eng_states := fst r\<rparr>))"

definition TickRule :: "engine \<Rightarrow> rule_config \<Rightarrow> gtime \<Rightarrow> decision list \<times> engine" where
  "TickRule e rule now = (let r = TickRuleWithFiring e rule now in (fst (fst r), snd r))"

definition RemoveAlertState :: "engine \<Rightarrow> string \<Rightarrow> engine" where
  "RemoveAlertState e alertID = e\<lparr>eng_states := map_del alertID (eng_states e)\<rparr>"

section \<open>Accessors\<close>

definition engine_GetStateSnapshot :: "engine \<Rightarrow> string \<Rightarrow> runtime_state option" where
  "engine_GetStateSnapshot e alertID = eng_get e alertID"

definition GetAlertIdentity :: "engine \<Rightarrow> string \<Rightarrow> alert_identity option" where
  "GetAlertIdentity e alertID =
     (case eng_get e alertID of None \<Rightarrow> None
      | Some st \<Rightarrow> Some \<lparr>ai_Var = rs_Var st, ai_Tags = rs_Tags st, ai_MetricValue = rs_MetricValue st\<rparr>)"

definition GetRepeatSnapshot :: "engine \<Rightarrow> string \<Rightarrow> repeat_snapshot option" where
  "GetRepeatSnapshot e alertID =
     (case eng_get e alertID of None \<Rightarrow> None
      | Some st \<Rightarrow> Some \<lparr>rps_AlertID = rs_AlertID st, rps_RuleName = rs_RuleName st, rps_Var = rs_Var st,
          rps_Tags = rs_Tags st, rps_MetricValue = rs_MetricValue st, rps_RaisedAt = rs_RaisedAt st\<rparr>)"

definition GetLastNotified :: "engine \<Rightarrow> string \<Rightarrow> string \<Rightarrow> gtime option" where
  "GetLastNotified e alertID key =
     (case eng_get e alertID of None \<Rightarrow> None | Some st \<Rightarrow> map_get (rs_LastNotified st) key)"

definition SetLastNotified :: "engine \<Rightarrow> string \<Rightarrow> string \<Rightarrow> gtime \<Rightarrow> bool \<times> engine" where
  "SetLastNotified e alertID channel now =
     (case eng_get e alertID of None \<Rightarrow> (False, e)
      | Some st \<Rightarrow> (True, eng_put e alertID
          (st\<lparr>rs_LastNotified := map_put channel now (rs_LastNotified st)\<rparr>)))"

definition GetChannelMessageID :: "engine \<Rightarrow> string \<Rightarrow> string \<Rightarrow> int64 option" where
  "GetChannelMessageID e alertID channel =
     (case eng_get e alertID of None \<Rightarrow> None | Some st \<Rightarrow> map_get (rs_ChannelRefs st) channel)"

definition SetChannelMessageID :: "engine \<Rightarrow> string \<Rightarrow> string \<Rightarrow> int64 \<Rightarrow> bool \<times> engine" where
  "SetChannelMessageID e alertID channel messageID =
     (case eng_get e alertID of None \<Rightarrow> (False, e)
      | Some st \<Rightarrow> (True, eng_put e alertID
          (st\<lparr>rs_ChannelRefs := map_put channel messageID (rs_ChannelRefs st)\<rparr>)))"

definition GetChannelExternalRef :: "engine \<Rightarrow> string \<Rightarrow> string \<Rightarrow> string option" where
  "GetChannelExternalRef e alertID channel =
     (case eng_get e alertID of None \<Rightarrow> None | Some st \<Rightarrow> map_get (rs_ExternalRefs st) channel)"

definition SetChannelExternalRef :: "engine \<Rightarrow> string \<Rightarrow> string \<Rightarrow> string \<Rightarrow> bool \<times> engine" where
  "SetChannelExternalRef e alertID channel value =
     (case eng_get e alertID of None \<Rightarrow> (False, e)
      | Some st \<Rightarrow> (True, eng_put e alertID
          (st\<lparr>rs_ExternalRefs := map_put channel value (rs_ExternalRefs st)\<rparr>)))"

definition ListStatesByRule :: "engine \<Rightarrow> string \<Rightarrow> runtime_state list" where
  "ListStatesByRule e ruleName =
     filter (\<lambda>st. rs_RuleName st = ruleName) (map snd (eng_states e))"

section \<open>Compaction\<close>

definition idle_expired :: "gtime \<Rightarrow> duration \<Rightarrow> runtime_state \<Rightarrow> bool" where
  "idle_expired now idleTTL st \<longleftrightarrow> rs_CurrentState st = StNone \<and> \<not> IsZero (rs_LastSeen st)
     \<and> \<not> time_Sub now (rs_LastSeen st) < idleTTL"

text \<open>
  \<open>sort.Slice\<close> by \<open>lastSeen\<close>. Go's sort is not stable; the stable sort here is one of
  its outcomes, and the order among equal keys is the order of the map's iteration, which is
  arbitrary in both.
\<close>

definition compaction_candidates :: "(string, runtime_state) gmap \<Rightarrow> (string \<times> gtime) list" where
  "compaction_candidates states =
     sort_key snd (map (\<lambda>(k, st). (k, rs_LastSeen st))
       (filter (\<lambda>(k, st). rs_CurrentState st = StNone) states))"

fun evict_loop :: "(string \<times> gtime) list \<Rightarrow> int \<Rightarrow> (string, runtime_state) gmap \<Rightarrow> int64
    \<Rightarrow> (string, runtime_state) gmap \<times> int64" where
  "evict_loop [] need states removed = (states, removed)"
| "evict_loop ((k, _) # rest) need states removed =
     (if need \<le> 0 then (states, removed)
      else if map_get states k = None then evict_loop rest need states removed
      else evict_loop rest (need - 1) (map_del k states) (removed + 1))"

definition CompactStates :: "engine \<Rightarrow> gtime \<Rightarrow> duration \<Rightarrow> int64 \<Rightarrow> int64 \<times> engine" where
  "CompactStates e now idleTTL maxStates =
     (let states0 = eng_states e;
          states1 = (if idleTTL > 0 then filter (\<lambda>(k, st). \<not> idle_expired now idleTTL st) states0 else states0);
          removed = int (length states0) - int (length states1) in
      if maxStates \<le> 0 \<or> int (length states1) \<le> maxStates then (removed, e\<lparr>eng_states := states1\<rparr>)
      else
        (let r = evict_loop (compaction_candidates states1) (int (length states1) - maxStates) states1 removed
         in (snd r, e\<lparr>eng_states := fst r\<rparr>)))"

end
