(* ===== verification/Engine_Invariants.thy ===== *)
theory Engine_Invariants
  imports Engine
begin

text \<open>
  The invariant of the engine, the abstract life cycle of an alert it implements, and the
  reachable engines: every sequence of events, ticks, removals, bookkeeping calls and
  compactions that starts with the empty engine.
\<close>

section \<open>Well-formed states\<close>

definition is_active :: "runtime_state \<Rightarrow> bool" where
  "is_active st \<longleftrightarrow> rs_CurrentState st = StPending \<or> rs_CurrentState st = StFiring"

definition window_total :: "window_point list \<Rightarrow> int" where
  "window_total ps = sum_list (map wp_Count ps)"

definition wf_state :: "runtime_state \<Rightarrow> bool" where
  "wf_state st \<longleftrightarrow>
     rs_CurrentState st \<noteq> StResolved
     \<and> (rs_PendingSince st = None \<longleftrightarrow> rs_CurrentState st \<noteq> StPending)
     \<and> (rs_CurrentState st = StNone \<longrightarrow> rs_HysteresisSince st = None \<and> IsZero (rs_RaisedAt st))
     \<and> (\<not> rs_Initialized st \<longrightarrow> rs_CurrentState st = StNone)
     \<and> rs_CountWindowSum st = wrap64 (window_total (rs_CountWindow st))"

definition wf_engine :: "engine \<Rightarrow> bool" where
  "wf_engine e \<longleftrightarrow> wf_map (eng_states e)
     \<and> (\<forall>(k, st) \<in> set (eng_states e). rs_AlertID st = k \<and> wf_state st)"

lemma window_total_simps [simp]:
  "window_total [] = 0" "window_total (p # ps) = wp_Count p + window_total ps"
  "window_total (ps @ qs) = window_total ps + window_total qs"
  by (simp_all add: window_total_def)

lemma drop_stale_sum:
  "s = wrap64 (window_total ps) \<Longrightarrow> drop_stale c ps s = (qs, t) \<Longrightarrow> t = wrap64 (window_total qs)"
proof (induction ps arbitrary: s)
  case (Cons p ps)
  then show ?case
    using Cons.IH [of "wrap64 (s - wp_Count p)"] by (auto split: if_splits)
qed simp

lemma pruneWindow_sum:
  assumes "s = wrap64 (window_total ps)"
  shows "snd (pruneWindow ps now w s) = wrap64 (window_total (fst (pruneWindow ps now w s)))"
  using drop_stale_sum [OF assms, of "time_Add now (- w)"]
  by (cases "drop_stale (time_Add now (- w)) ps s") (simp add: pruneWindow_def)

lemma drop_stale_dropWhile:
  "fst (drop_stale c ps s) = dropWhile (\<lambda>p. wp_At p < c) ps"
  by (induction ps arbitrary: s) (auto simp: Before_def)

lemma wf_reset [simp]: "wf_state (resetResolvedState st)"
  by (simp add: wf_state_def resetResolvedState_def)

lemma reset_simps [simp]:
  "rs_AlertID (resetResolvedState st) = rs_AlertID st"
  "rs_RuleName (resetResolvedState st) = rs_RuleName st"
  "rs_CurrentState (resetResolvedState st) = StNone"
  "rs_LastSeen (resetResolvedState st) = rs_LastSeen st"
  by (simp_all add: resetResolvedState_def)

lemma decision_simps [simp]:
  "dc_AlertID (matched k) = k" "dc_AlertID (refresh k s) = k" "dc_AlertID (opened k s n) = k"
  "dc_AlertID (resolved k c i) = k"
  "dc_Matched (matched k)" "dc_Matched (refresh k s)" "dc_Matched (opened k s n)" "dc_Matched (resolved k c i)"
  "\<not> dc_StateChanged (matched k)" "\<not> dc_StateChanged (refresh k s)"
  "dc_StateChanged (opened k s n)" "dc_StateChanged (resolved k c i)"
  "dc_State (refresh k s) = s" "dc_State (opened k s n) = s" "dc_State (resolved k c i) = StResolved"
  "dc_State (matched k) = StNone"
  "\<not> dc_ShouldNotify (matched k)" "\<not> dc_ShouldNotify (refresh k s)" "dc_ShouldNotify (opened k s n) = n"
  "dc_ShouldNotify (resolved k c i)"
  "\<not> dc_ShouldStore (matched k)" "dc_ShouldStore (refresh k s)" "dc_ShouldStore (opened k s n)"
  "dc_ShouldStore (resolved k c i)"
  "\<not> dc_Matched no_decision" "\<not> dc_StateChanged no_decision" "\<not> dc_ShouldNotify no_decision"
  by (simp_all add: matched_def refresh_def opened_def resolved_def no_decision_def)

text \<open>The states on which \<open>applyActiveCondition\<close> is called: the invariant without hysteresis.\<close>

lemma applyActiveCondition_wf:
  assumes "wf_state st" "rs_Initialized st"
  shows "wf_state (snd (applyActiveCondition st rule now a t))"
    and "rs_AlertID (snd (applyActiveCondition st rule now a t)) = rs_AlertID st"
    and "rs_RuleName (snd (applyActiveCondition st rule now a t)) = rs_RuleName st"
    and "rs_LastSeen (snd (applyActiveCondition st rule now a t)) = rs_LastSeen st"
    and "rs_Initialized (snd (applyActiveCondition st rule now a t))"
  using assms
  by (auto simp: applyActiveCondition_def wf_state_def Let_def split: alert_state.splits option.splits)

lemma heartbeat_event_wf:
  assumes "wf_state st"
  shows "wf_state (snd (heartbeat_event st rule k now))"
    and "rs_AlertID (snd (heartbeat_event st rule k now)) = rs_AlertID st"
    and "rs_RuleName (snd (heartbeat_event st rule k now)) = rs_RuleName st"
  using assms
  by (auto simp: heartbeat_event_def wf_state_def Let_def resetResolvedState_def split: option.splits)

lemma wf_state_seen [simp]:
  "wf_state (st\<lparr>rs_LastSeen := t, rs_MetricValue := m\<rparr>) = wf_state st"
  by (simp add: wf_state_def)

lemma event_state_wf:
  assumes "wf_state st"
  shows "wf_state (snd (event_state f st rule ev k now))"
    and "rs_AlertID (snd (event_state f st rule ev k now)) = rs_AlertID st"
    and "rs_RuleName (snd (event_state f st rule ev k now)) = rs_RuleName st"
proof -
  let ?st = "st\<lparr>rs_LastSeen := now, rs_MetricValue := metricValue f (ev_Value ev)\<rparr>"
  let ?t = "?st\<lparr>rs_Initialized := True, rs_CountTotal := wrap64 (rs_CountTotal ?st + ev_AggCnt ev),
               rs_ActiveCount := wrap64 (rs_ActiveCount ?st + ev_AggCnt ev)\<rparr>"
  let ?ps = "rs_CountWindow ?st @ [\<lparr>wp_At = now, wp_Count = ev_AggCnt ev\<rparr>]"
  let ?pr = "pruneWindow ?ps now (seconds (rr_WindowSec (rc_Raise rule)))
                        (wrap64 (rs_CountWindowSum ?st + ev_AggCnt ev))"
  let ?w = "?st\<lparr>rs_Initialized := True, rs_CountWindow := fst ?pr, rs_CountWindowSum := snd ?pr,
               rs_ActiveCount := wrap64 (rs_ActiveCount ?st + ev_AggCnt ev)\<rparr>"
  have wf: "wf_state ?st" using assms by simp
  then have t: "wf_state ?t" by (simp add: wf_state_def)
  have "wrap64 (rs_CountWindowSum ?st + ev_AggCnt ev) = wrap64 (window_total ?ps)"
    using wf by (simp add: wf_state_def)
  from pruneWindow_sum [OF this] have w: "wf_state ?w" using wf by (simp add: wf_state_def)
  show "wf_state (snd (event_state f st rule ev k now))"
    and "rs_AlertID (snd (event_state f st rule ev k now)) = rs_AlertID st"
    and "rs_RuleName (snd (event_state f st rule ev k now)) = rs_RuleName st"
    using applyActiveCondition_wf [OF t, of rule now] applyActiveCondition_wf [OF w, of rule now]
      heartbeat_event_wf [OF wf, of rule k now] wf
    by (simp_all add: event_state_def Let_def)
qed

lemma count_tick_wf:
  assumes "wf_state st"
  shows "wf_state (fst (count_tick rule now st))"
    and "rs_AlertID (fst (count_tick rule now st)) = rs_AlertID st"
  using assms by (simp_all add: count_tick_def Let_def)

lemma heartbeat_tick_wf:
  assumes "wf_state st"
  shows "wf_state (fst (heartbeat_tick rule now st))"
    and "rs_AlertID (fst (heartbeat_tick rule now st)) = rs_AlertID st"
proof -
  let ?a = "time_Sub now (rs_LastSeen st) \<ge> seconds (rr_MissingSec (rc_Raise rule))"
  let ?st1 = "if ?a then st\<lparr>rs_HysteresisSince := None\<rparr> else st"
  have "wf_state ?st1" using assms by (simp add: wf_state_def)
  then have wf: "rs_Initialized st \<Longrightarrow> wf_state (snd (applyActiveCondition ?st1 rule now ?a True))"
      "rs_Initialized st \<Longrightarrow> rs_AlertID (snd (applyActiveCondition ?st1 rule now ?a True)) = rs_AlertID st"
      "rs_Initialized st \<Longrightarrow> rs_Initialized (snd (applyActiveCondition ?st1 rule now ?a True))"
    using applyActiveCondition_wf [of ?st1] by simp_all
  have set_hyst: "wf_state (s\<lparr>rs_HysteresisSince := h\<rparr>)" if "wf_state s" "rs_CurrentState s \<noteq> StNone" for s h
    using that by (simp add: wf_state_def)
  show "wf_state (fst (heartbeat_tick rule now st))"
    and "rs_AlertID (fst (heartbeat_tick rule now st)) = rs_AlertID st"
    using assms wf by (auto simp: heartbeat_tick_def Let_def intro!: set_hyst)
qed

lemma tick_state_wf:
  assumes "wf_state st"
  shows "wf_state (fst (tick_state rule now st))"
    and "rs_AlertID (fst (tick_state rule now st)) = rs_AlertID st"
  using assms count_tick_wf [OF assms, of rule now] heartbeat_tick_wf [OF assms, of rule now]
  by (simp_all add: tick_state_def)

section \<open>The engine as a map of states\<close>

lemma tick_loop_states:
  "fst (tick_loop rule now m) = map (\<lambda>(k, st). (k, fst (tick_state rule now st))) m"
  by (induction m) (auto simp: Let_def)

lemma tick_loop_decisions:
  "fst (snd (tick_loop rule now m)) = concat (map (\<lambda>(k, st). fst (snd (tick_state rule now st))) m)"
  by (induction m) (auto simp: Let_def)

lemma tick_loop_firing:
  "snd (snd (tick_loop rule now m)) = concat (map (\<lambda>(k, st). snd (snd (tick_state rule now st))) m)"
  by (induction m) (auto simp: Let_def)

lemma eng_get_put [simp]: "eng_get (eng_put e k st) j = (if j = k then Some st else eng_get e j)"
  by (simp add: eng_put_def)

lemma tick_get:
  "eng_get (snd (TickRuleWithFiring e rule now)) k =
     map_option (\<lambda>st. fst (tick_state rule now st)) (eng_get e k)"
  by (simp add: TickRuleWithFiring_def Let_def tick_loop_states map_get_map_values)

lemma wf_engine_get:
  assumes "wf_engine e" "eng_get e k = Some st"
  shows "rs_AlertID st = k" and "wf_state st"
  using assms map_get_in_set [OF assms(2)] by (auto simp: wf_engine_def)

lemma wf_engine_New [simp]: "wf_engine New_engine"
  by (simp add: wf_engine_def New_engine_def)

lemma wf_engine_put:
  assumes "wf_engine e" "wf_state st" "rs_AlertID st = k"
  shows "wf_engine (eng_put e k st)"
  using assms set_map_put_wf [of "eng_states e" k st]
  by (auto simp: wf_engine_def eng_put_def)

lemma wf_engine_filter:
  "wf_engine e \<Longrightarrow> wf_engine (e\<lparr>eng_states := filter P (eng_states e)\<rparr>)"
  by (auto simp: wf_engine_def)

lemma wf_engine_remove: "wf_engine e \<Longrightarrow> wf_engine (RemoveAlertState e k)"
  by (simp add: RemoveAlertState_def AList.delete_eq wf_engine_filter)

lemma ensureState_wf:
  assumes "wf_engine e"
  shows "wf_state (ensureState f e rule ev k)" and "rs_AlertID (ensureState f e rule ev k) = k"
proof -
  have "wf_state (new_state f rule ev k)" by (simp add: wf_state_def new_state_def)
  then show "wf_state (ensureState f e rule ev k)" and "rs_AlertID (ensureState f e rule ev k) = k"
    using wf_engine_get [OF assms]
    by (auto simp: ensureState_def new_state_def split: option.splits)
qed

lemma wf_engine_event:
  "wf_engine e \<Longrightarrow> wf_engine (snd (engine_ProcessEvent f e rule ev k now))"
  by (simp add: engine_ProcessEvent_def Let_def wf_engine_put ensureState_wf event_state_wf)

lemma wf_engine_tick:
  assumes "wf_engine e"
  shows "wf_engine (snd (TickRuleWithFiring e rule now))"
proof -
  have keys: "map fst (fst (tick_loop rule now (eng_states e))) = map fst (eng_states e)"
    by (simp add: tick_loop_states comp_def case_prod_beta)
  then have "wf_map (fst (tick_loop rule now (eng_states e)))"
    using assms by (simp add: wf_engine_def wf_map_def)
  moreover have "rs_AlertID (fst (tick_state rule now st)) = k \<and> wf_state (fst (tick_state rule now st))"
    if "(k, st) \<in> set (eng_states e)" for k st
    using that assms tick_state_wf [of st rule now] by (auto simp: wf_engine_def)
  ultimately show ?thesis
    by (auto simp: wf_engine_def TickRuleWithFiring_def Let_def tick_loop_states)
qed

lemma evict_loop_filter:
  "\<exists>P. fst (evict_loop cs need m removed) = filter P m"
proof (induction cs arbitrary: need m removed)
  case Nil
  have "m = filter (\<lambda>_. True) m" by simp
  then show ?case by (metis evict_loop.simps(1) fst_conv)
next
  case (Cons c cs)
  obtain k t where c: "c = (k, t)" by (cases c)
  have id: "\<exists>P. m = filter P m" by (rule exI [of _ "\<lambda>_. True"]) simp
  have del: "map_del k m = filter (\<lambda>e. fst e \<noteq> k) m"
    by (auto simp: AList.delete_eq intro!: filter_cong)
  show ?case
    using Cons.IH [of "need" m removed] Cons.IH [of "need - 1" "map_del k m" "removed + 1"] id
    by (auto simp: c del)
qed

lemma CompactStates_filter:
  "\<exists>P. snd (CompactStates e now ttl maxStates) = e\<lparr>eng_states := filter P (eng_states e)\<rparr>"
proof -
  let ?s0 = "eng_states e"
  let ?s1 = "if ttl > 0 then filter (\<lambda>(k, st). \<not> idle_expired now ttl st) ?s0 else ?s0"
  let ?n = "int (length ?s1) - maxStates" and ?r = "int (length ?s0) - int (length ?s1)"
  obtain P where P: "?s1 = filter P ?s0" by (cases "ttl > 0") (metis filter_True)+
  obtain Q where Q: "fst (evict_loop (compaction_candidates ?s1) ?n ?s1 ?r) = filter Q ?s1"
    using evict_loop_filter by blast
  have "snd (CompactStates e now ttl maxStates) = e\<lparr>eng_states := filter P ?s0\<rparr> \<or>
      snd (CompactStates e now ttl maxStates) = e\<lparr>eng_states := filter (\<lambda>x. Q x \<and> P x) ?s0\<rparr>"
    using P Q by (simp add: CompactStates_def Let_def conj_commute)
  then show ?thesis by blast
qed

lemma wf_engine_compact: "wf_engine e \<Longrightarrow> wf_engine (snd (CompactStates e now ttl m))"
  using CompactStates_filter [of e now ttl m] wf_engine_filter by auto

section \<open>Reachable engines\<close>

text \<open>The calls the program makes on an engine, with the decisions each returns.\<close>

datatype engine_op =
    OpEvent rule_config event string gtime
  | OpTick rule_config gtime
  | OpRemove string
  | OpLastNotified string string gtime
  | OpMessageID string string int64
  | OpExternalRef string string string
  | OpCompact gtime duration int64

fun op_time :: "engine_op \<Rightarrow> gtime" where
  "op_time (OpEvent _ _ _ now) = now"
| "op_time (OpTick _ now) = now"
| "op_time _ = 0"

fun op_rule :: "engine_op \<Rightarrow> rule_config option" where
  "op_rule (OpEvent rule _ _ _) = Some rule"
| "op_rule (OpTick rule _) = Some rule"
| "op_rule _ = None"

fun engine_step :: "(float64 \<Rightarrow> string) \<Rightarrow> engine_op \<Rightarrow> engine \<Rightarrow> decision list \<times> engine" where
  "engine_step f (OpEvent rule ev k now) e =
     (let r = engine_ProcessEvent f e rule ev k now in ([fst r], snd r))"
| "engine_step f (OpTick rule now) e =
     (let r = TickRuleWithFiring e rule now in (fst (fst r), snd r))"
| "engine_step f (OpRemove k) e = ([], RemoveAlertState e k)"
| "engine_step f (OpLastNotified k c t) e = ([], snd (SetLastNotified e k c t))"
| "engine_step f (OpMessageID k c n) e = ([], snd (SetChannelMessageID e k c n))"
| "engine_step f (OpExternalRef k c v) e = ([], snd (SetChannelExternalRef e k c v))"
| "engine_step f (OpCompact now ttl m) e = ([], snd (CompactStates e now ttl m))"

inductive engine_reach :: "(float64 \<Rightarrow> string) \<Rightarrow> (engine_op \<times> decision list) list \<Rightarrow> engine \<Rightarrow> bool"
  for f where
  start: "engine_reach f [] New_engine"
| step: "engine_reach f h e \<Longrightarrow> engine_step f op e = (ds, e') \<Longrightarrow> engine_reach f ((op, ds) # h) e'"

inductive_cases engine_reach_ConsE: "engine_reach f ((op, ds) # h) e'"

lemma engine_step_wf: "wf_engine e \<Longrightarrow> wf_engine (snd (engine_step f op e))"
proof (cases op)
  case (OpLastNotified k c t)
  assume "wf_engine e"
  then show ?thesis using wf_engine_get [of e k]
    by (auto simp: OpLastNotified SetLastNotified_def wf_state_def intro!: wf_engine_put split: option.splits)
next
  case (OpMessageID k c t)
  assume "wf_engine e"
  then show ?thesis using wf_engine_get [of e k]
    by (auto simp: OpMessageID SetChannelMessageID_def wf_state_def intro!: wf_engine_put split: option.splits)
next
  case (OpExternalRef k c t)
  assume "wf_engine e"
  then show ?thesis using wf_engine_get [of e k]
    by (auto simp: OpExternalRef SetChannelExternalRef_def wf_state_def intro!: wf_engine_put split: option.splits)
qed (simp_all add: Let_def wf_engine_event wf_engine_tick wf_engine_remove wf_engine_compact)

lemma engine_reach_wf: "engine_reach f h e \<Longrightarrow> wf_engine e"
proof (induction rule: engine_reach.induct)
  case (step h e op ds e')
  then show ?case using engine_step_wf [of e f op] by simp
qed simp

section \<open>The abstract life cycle\<close>

text \<open>
  What the engine promises of one alert: it is idle, pending since an instant, or firing;
  the decisions it emits say which transition it took.
\<close>

datatype life = Idle | PendingFrom gtime | Firing

definition life_of :: "runtime_state option \<Rightarrow> life" where
  "life_of ost = (case ost of None \<Rightarrow> Idle
     | Some st \<Rightarrow> (case rs_CurrentState st of
         StPending \<Rightarrow> PendingFrom (case rs_PendingSince st of Some t \<Rightarrow> t | None \<Rightarrow> zero_time)
       | StFiring \<Rightarrow> Firing | _ \<Rightarrow> Idle))"

definition quiet :: "decision \<Rightarrow> bool" where
  "quiet d \<longleftrightarrow> \<not> dc_StateChanged d \<and> \<not> dc_ShouldNotify d"

inductive life_step :: "rule_config \<Rightarrow> gtime \<Rightarrow> string \<Rightarrow> life \<Rightarrow> decision list \<Rightarrow> life \<Rightarrow> bool" where
  stay: "\<forall>d \<in> set ds. quiet d \<Longrightarrow> life_step rule now k l ds l"
| pend: "rp_Enabled (rc_Pending rule) \<Longrightarrow>
    life_step rule now k Idle [opened k StPending False] (PendingFrom now)"
| raise: "\<not> rp_Enabled (rc_Pending rule) \<Longrightarrow>
    life_step rule now k Idle [opened k StFiring True] Firing"
| promote: "time_Sub now t \<ge> seconds (rp_DelaySec (rc_Pending rule)) \<Longrightarrow>
    life_step rule now k (PendingFrom t) [opened k StFiring True] Firing"
| resolve: "l \<noteq> Idle \<Longrightarrow> life_step rule now k l [resolved k cause imm] Idle"

inductive_cases life_stepE: "life_step rule now k l ds l'"

lemma quiet_simps [simp]:
  "quiet (matched k)" "quiet (refresh k s)" "quiet no_decision" "\<not> quiet (opened k s n)"
  "\<not> quiet (resolved k c i)"
  by (simp_all add: quiet_def)

lemma life_of_Some:
  assumes "wf_state st"
  shows "life_of (Some st) = Idle \<longleftrightarrow> rs_CurrentState st = StNone"
    and "life_of (Some st) = Firing \<longleftrightarrow> rs_CurrentState st = StFiring"
    and "life_of (Some st) = PendingFrom t \<longleftrightarrow> rs_CurrentState st = StPending \<and> rs_PendingSince st = Some t"
  using assms by (auto simp: life_of_def wf_state_def split: alert_state.splits option.splits)

lemma applyActiveCondition_life:
  assumes "rs_CurrentState st \<noteq> StResolved"
    "rs_PendingSince st = None \<longleftrightarrow> rs_CurrentState st \<noteq> StPending" "rs_AlertID st = k"
  shows "life_step rule now k (life_of (Some st)) [fst (applyActiveCondition st rule now a t)]
     (life_of (Some (snd (applyActiveCondition st rule now a t))))"
proof -
  consider "rs_CurrentState st = StNone" "rs_PendingSince st = None"
    | u where "rs_CurrentState st = StPending" "rs_PendingSince st = Some u"
    | "rs_CurrentState st = StFiring"
    using assms by (cases "rs_CurrentState st") auto
  then show ?thesis
    by cases (use assms in \<open>auto simp: applyActiveCondition_def life_of_def Let_def intro: life_step.intros\<close>)
qed

lemma life_of_cong:
  "rs_CurrentState s = rs_CurrentState t \<Longrightarrow> rs_PendingSince s = rs_PendingSince t \<Longrightarrow>
    life_of (Some s) = life_of (Some t)"
  by (simp add: life_of_def split: alert_state.splits)

lemma life_of_reset [simp]: "life_of (Some (resetResolvedState st)) = Idle"
  by (simp add: life_of_def)

lemma heartbeat_event_life:
  assumes "wf_state st"
  shows "life_step rule now k (life_of (Some st)) [fst (heartbeat_event st rule k now)]
     (life_of (Some (snd (heartbeat_event st rule k now))))"
  using assms
  by (auto simp: heartbeat_event_def Let_def life_of_def wf_state_def resetResolvedState_def
      split: option.splits alert_state.splits intro: life_step.intros)

lemma event_state_life:
  assumes "wf_state st" "rs_AlertID st = k"
  shows "life_step rule now k (life_of (Some st)) [fst (event_state f st rule ev k now)]
     (life_of (Some (snd (event_state f st rule ev k now))))"
proof -
  let ?st = "st\<lparr>rs_LastSeen := now, rs_MetricValue := metricValue f (ev_Value ev)\<rparr>"
  have same: "life_of (Some ?st) = life_of (Some st)" by (rule life_of_cong) simp_all
  have cnt: "life_step rule now k (life_of (Some st)) [fst (applyActiveCondition s rule now a False)]
     (life_of (Some (snd (applyActiveCondition s rule now a False))))"
    if "rs_CurrentState s = rs_CurrentState st" "rs_PendingSince s = rs_PendingSince st"
      "rs_AlertID s = k" for s a
    using applyActiveCondition_life [of s k rule now a False] life_of_cong [OF that(1,2)] that assms(1)
    by (simp add: wf_state_def)
  have hb: "life_step rule now k (life_of (Some st)) [fst (heartbeat_event ?st rule k now)]
     (life_of (Some (snd (heartbeat_event ?st rule k now))))"
    using heartbeat_event_life [of ?st rule now k] assms(1) same by simp
  show ?thesis
    using cnt hb assms same by (simp add: event_state_def Let_def life_step.intros)
qed

lemma count_tick_life:
  assumes "wf_state st" "rs_AlertID st = k"
  shows "life_step rule now k (life_of (Some st)) (fst (snd (count_tick rule now st)))
     (life_of (Some (fst (count_tick rule now st))))"
  using assms life_of_Some(1) [OF assms(1)]
  by (auto simp: count_tick_def Let_def wf_state_def intro: life_step.intros)

lemma applyActiveCondition_inactive:
  "applyActiveCondition st rule now False True = (no_decision, st)"
  by (simp add: applyActiveCondition_def)

lemma heartbeat_tick_life:
  assumes "wf_state st" "rs_AlertID st = k"
  shows "life_step rule now k (life_of (Some st)) (fst (snd (heartbeat_tick rule now st)))
     (life_of (Some (fst (heartbeat_tick rule now st))))"
proof (cases "rs_Initialized st")
  case True
  let ?a = "time_Sub now (rs_LastSeen st) \<ge> seconds (rr_MissingSec (rc_Raise rule))"
  show ?thesis
  proof (cases ?a)
    case True
    let ?st1 = "st\<lparr>rs_HysteresisSince := None\<rparr>"
    have "life_of (Some ?st1) = life_of (Some st)" by (rule life_of_cong) simp_all
    then have "life_step rule now k (life_of (Some st)) [fst (applyActiveCondition ?st1 rule now True True)]
       (life_of (Some (snd (applyActiveCondition ?st1 rule now True True))))"
      using applyActiveCondition_life [of ?st1 k rule now True True] assms by (simp add: wf_state_def)
    moreover have "dc_Matched (fst (applyActiveCondition ?st1 rule now True True))"
      by (simp add: applyActiveCondition_def Let_def split: alert_state.splits option.splits)
    ultimately show ?thesis
      using True \<open>rs_Initialized st\<close> by (simp add: heartbeat_tick_def Let_def)
  next
    case False
    have hyst: "life_of (Some (st\<lparr>rs_HysteresisSince := h\<rparr>)) = life_of (Some st)" for h
      by (rule life_of_cong) simp_all
    show ?thesis
      using False \<open>rs_Initialized st\<close> assms life_of_Some(1) [OF assms(1)]
      by (auto simp: heartbeat_tick_def Let_def applyActiveCondition_inactive hyst intro: life_step.intros)
  qed
qed (simp add: heartbeat_tick_def life_step.intros)

lemma tick_state_life:
  assumes "wf_state st" "rs_AlertID st = k"
  shows "life_step rule now k (life_of (Some st)) (fst (snd (tick_state rule now st)))
     (life_of (Some (fst (tick_state rule now st))))"
  using count_tick_life [OF assms] heartbeat_tick_life [OF assms]
  by (simp add: tick_state_def life_step.intros)

lemma tick_state_ids:
  assumes "d \<in> set (fst (snd (tick_state rule now st)))"
  shows "dc_AlertID d = rs_AlertID st"
  using assms
  by (auto simp: tick_state_def count_tick_def heartbeat_tick_def Let_def applyActiveCondition_def
      resetResolvedState_def no_decision_def
      split: if_splits alert_state.splits option.splits)

section \<open>Compaction\<close>

lemma keys_map_del: "fst ` set (map_del k m) = fst ` set m - {k}"
  using arg_cong [OF delete_keys [of k m], of set] by simp

lemma evict_loop_take:
  assumes "distinct (map fst cs)" "fst ` set cs \<subseteq> fst ` set m"
  shows "evict_loop cs need m removed =
    (filter (\<lambda>(k, _). k \<notin> fst ` set (take (nat need) cs)) m,
     removed + int (length (take (nat need) cs)))"
  using assms
proof (induction cs arbitrary: need m removed)
  case (Cons c cs)
  obtain k t where c: "c = (k, t)" by (cases c)
  show ?case
  proof (cases "need \<le> 0")
    case True
    then show ?thesis by (simp add: c)
  next
    case False
    then have need: "nat need = Suc (nat (need - 1))" by simp
    have "map_get m k \<noteq> None" using Cons.prems(2) by (auto simp: c map_of_eq_None_iff)
    moreover have "evict_loop cs (need - 1) (map_del k m) (removed + 1) =
      (filter (\<lambda>(j, _). j \<notin> fst ` set (take (nat (need - 1)) cs)) (map_del k m),
       removed + 1 + int (length (take (nat (need - 1)) cs)))"
    proof (rule Cons.IH)
      show "fst ` set cs \<subseteq> fst ` set (map_del k m)"
        using Cons.prems unfolding keys_map_del by (force simp: c)
    qed (use Cons.prems in simp)
    moreover have "filter (\<lambda>(j, _). j \<notin> fst ` set (take (nat (need - 1)) cs)) (map_del k m) =
      filter (\<lambda>(j, _). j \<notin> fst ` set (take (nat need) (c # cs))) m"
      by (auto simp: AList.delete_eq need c intro!: filter_cong)
    ultimately show ?thesis using False by (auto simp: c need)
  qed
qed simp

lemma candidates_keys:
  "fst ` set (compaction_candidates m) = fst ` {(k, st) \<in> set m. rs_CurrentState st = StNone}"
  by (force simp: compaction_candidates_def)

lemma candidates_distinct: "wf_map m \<Longrightarrow> distinct (map fst (compaction_candidates m))"
proof -
  assume "wf_map m"
  then have "distinct (map fst (filter (\<lambda>(k, st). rs_CurrentState st = StNone) m))"
    by (simp add: wf_map_def distinct_map_filter)
  then have "distinct (map fst (map (\<lambda>(k, st). (k, rs_LastSeen st)) (filter (\<lambda>(k, st). rs_CurrentState st = StNone) m)))"
    by (simp add: comp_def case_prod_beta)
  then have "distinct (sort_key snd (map (\<lambda>(k, st). (k, rs_LastSeen st)) (filter (\<lambda>(k, st). rs_CurrentState st = StNone) m)))
     \<and> inj_on fst (set (sort_key snd (map (\<lambda>(k, st). (k, rs_LastSeen st)) (filter (\<lambda>(k, st). rs_CurrentState st = StNone) m))))"
    by (simp only: distinct_map distinct_sort set_sort)
  then show ?thesis unfolding compaction_candidates_def distinct_map by simp
qed

text \<open>The states that pass the idle filter, and how many of the idle ones must go.\<close>

definition fresh_states :: "engine \<Rightarrow> gtime \<Rightarrow> duration \<Rightarrow> (string, runtime_state) gmap" where
  "fresh_states e now ttl =
     (if ttl > 0 then filter (\<lambda>(k, st). \<not> idle_expired now ttl st) (eng_states e) else eng_states e)"

definition victims :: "engine \<Rightarrow> gtime \<Rightarrow> duration \<Rightarrow> int64 \<Rightarrow> (string \<times> gtime) list" where
  "victims e now ttl maxStates =
     (if maxStates \<le> 0 then []
      else take (length (fresh_states e now ttl) - nat maxStates)
             (compaction_candidates (fresh_states e now ttl)))"

lemma wf_fresh: "wf_engine e \<Longrightarrow> wf_map (fresh_states e now ttl)"
  by (simp add: fresh_states_def wf_engine_def)

lemma CompactStates_eq:
  assumes "wf_engine e"
  shows "eng_states (snd (CompactStates e now ttl maxStates)) =
    filter (\<lambda>(k, _). k \<notin> fst ` set (victims e now ttl maxStates)) (fresh_states e now ttl)"
proof -
  let ?m = "fresh_states e now ttl"
  have fresh: "(if ttl > 0 then filter (\<lambda>(k, st). \<not> idle_expired now ttl st) (eng_states e) else eng_states e) = ?m"
    by (simp add: fresh_states_def)
  show ?thesis
  proof (cases "maxStates \<le> 0 \<or> int (length ?m) \<le> maxStates")
    case True
    then have "victims e now ttl maxStates = []" by (auto simp: victims_def)
    then show ?thesis using True by (simp add: CompactStates_def Let_def fresh)
  next
    case False
    have keys: "fst ` set (compaction_candidates ?m) \<subseteq> fst ` set ?m"
      by (auto simp: candidates_keys)
    have "nat (int (length ?m) - maxStates) = length ?m - nat maxStates"
      using False nat_minus_as_int by linarith
    then show ?thesis
      using False evict_loop_take [OF candidates_distinct [OF wf_fresh [OF assms]] keys]
      by (simp add: CompactStates_def Let_def fresh victims_def)
  qed
qed

lemma compact_get_active:
  assumes "wf_engine e" "eng_get e k = Some st" "rs_CurrentState st \<noteq> StNone"
  shows "eng_get (snd (CompactStates e now ttl maxStates)) k = Some st"
proof -
  note wf = wf_fresh [OF assms(1), of now ttl]
  have "(k, st) \<in> set (fresh_states e now ttl)"
    using assms map_get_in_set [OF assms(2)] by (auto simp: fresh_states_def idle_expired_def)
  then have get: "map_get (fresh_states e now ttl) k = Some st"
    by (simp only: in_set_map_get [OF wf])
  have "k \<notin> fst ` set (compaction_candidates (fresh_states e now ttl))"
    using get assms(3) by (auto simp: candidates_keys in_set_map_get [OF wf])
  moreover have "set (victims e now ttl maxStates) \<subseteq> set (compaction_candidates (fresh_states e now ttl))"
    by (simp add: victims_def set_take_subset)
  ultimately have "k \<notin> fst ` set (victims e now ttl maxStates)" by auto
  then show ?thesis
    by (simp add: CompactStates_eq [OF assms(1)] map_get_filter_wf [OF wf] get)
qed

lemma compact_get_subset:
  assumes "wf_engine e" "eng_get (snd (CompactStates e now ttl maxStates)) k = Some st"
  shows "eng_get e k = Some st"
proof -
  from map_get_in_set [OF assms(2)] have "(k, st) \<in> set (eng_states e)"
    by (auto simp: CompactStates_eq [OF assms(1)] fresh_states_def split: if_splits)
  then show ?thesis using assms(1) by (simp add: in_set_map_get wf_engine_def)
qed

lemma compact_life:
  assumes "wf_engine e"
  shows "life_of (eng_get (snd (CompactStates e now ttl m)) k) = life_of (eng_get e k)"
proof (cases "eng_get e k")
  case None
  then have "eng_get (snd (CompactStates e now ttl m)) k = None"
    using compact_get_subset [OF assms] by (metis not_None_eq)
  with None show ?thesis by simp
next
  case (Some st)
  show ?thesis
  proof (cases "rs_CurrentState st = StNone")
    case True
    then have "life_of (Some st) = Idle" by (simp add: life_of_def)
    moreover have "eng_get (snd (CompactStates e now ttl m)) k \<in> {None, Some st}"
      using compact_get_subset [OF assms] Some by (metis insert_iff not_None_eq option.inject)
    ultimately show ?thesis using Some by (auto simp: life_of_def)
  next
    case False
    then show ?thesis using compact_get_active [OF assms Some False] Some by simp
  qed
qed

section \<open>Histories\<close>

definition about :: "string \<Rightarrow> decision list \<Rightarrow> decision list" where
  "about k ds = filter (\<lambda>d. dc_AlertID d = k) ds"

fun last_change :: "string \<Rightarrow> (engine_op \<times> decision list) list \<Rightarrow> (gtime \<times> decision) option" where
  "last_change k [] = None"
| "last_change k ((op, ds) # h) =
     (case filter dc_StateChanged (about k ds) of [] \<Rightarrow> last_change k h
      | d # _ \<Rightarrow> Some (op_time op, d))"

lemma about_tick:
  assumes "wf_engine e"
  shows "about k (fst (fst (TickRuleWithFiring e rule now))) =
    (case eng_get e k of None \<Rightarrow> [] | Some st \<Rightarrow> fst (snd (tick_state rule now st)))"
proof -
  have "about k (concat (map (\<lambda>(j, st). fst (snd (tick_state rule now st))) m)) =
    (case map_get m k of None \<Rightarrow> [] | Some st \<Rightarrow> fst (snd (tick_state rule now st)))"
    if "\<forall>(j, st) \<in> set m. rs_AlertID st = j" "wf_map m" for m
    using that
  proof (induction m)
    case (Cons p m)
    obtain j st where p: "p = (j, st)" by (cases p)
    have ids: "dc_AlertID d = j" if "d \<in> set (fst (snd (tick_state rule now st)))" for d
      using tick_state_ids [OF that] Cons.prems(1) by (simp add: p)
    have self: "filter (\<lambda>d. dc_AlertID d = j) (fst (snd (tick_state rule now st))) = fst (snd (tick_state rule now st))"
      using ids by (simp add: filter_id_conv)
    have other: "k \<noteq> j \<Longrightarrow> filter (\<lambda>d. dc_AlertID d = k) (fst (snd (tick_state rule now st))) = []"
      using ids by (auto simp: filter_empty_conv)
    have IH: "about k (concat (map (\<lambda>(j, st). fst (snd (tick_state rule now st))) m)) =
      (case map_get m k of None \<Rightarrow> [] | Some st \<Rightarrow> fst (snd (tick_state rule now st)))"
      using Cons by (simp add: wf_map_def)
    have "k = j \<Longrightarrow> map_get m k = None"
      using Cons.prems(2) by (simp add: p wf_map_def map_of_eq_None_iff)
    then show ?case using IH self other by (auto simp: p about_def)
  qed (simp add: about_def)
  from this [of "eng_states e"] assms show ?thesis
    by (simp add: TickRuleWithFiring_def Let_def tick_loop_decisions wf_engine_def case_prod_beta)
qed

lemma event_decision_id:
  "dc_AlertID (fst (event_state f st rule ev k now)) = k \<or> quiet (fst (event_state f st rule ev k now))"
  if "rs_AlertID st = k"
  using that
  by (auto simp: event_state_def Let_def applyActiveCondition_def heartbeat_event_def
      split: alert_state.splits option.splits)

text \<open>Every operation takes each alert through one step of the life cycle, or drops it.\<close>

lemma life_step_quiet: "life_step rule now k l [d] l' \<Longrightarrow> quiet d \<Longrightarrow> l' = l"
  by (auto elim: life_stepE)

lemma engine_step_life:
  assumes wf: "wf_engine e" and step: "engine_step f op e = (ds, e')"
  shows "(case op_rule op of
      Some rule \<Rightarrow> life_step rule (op_time op) k (life_of (eng_get e k)) (about k ds) (life_of (eng_get e' k))
    | None \<Rightarrow> ds = [] \<and> life_of (eng_get e' k) \<in> {life_of (eng_get e k), Idle})"
proof (cases op)
  case (OpEvent rule ev j now)
  let ?st = "ensureState f e rule ev j"
  let ?r = "event_state f ?st rule ev j now"
  have st: "wf_state ?st" "rs_AlertID ?st = j" using ensureState_wf [OF wf] by auto
  have ds: "ds = [fst ?r]" "e' = eng_put e j (snd ?r)"
    using step by (auto simp: OpEvent engine_ProcessEvent_def Let_def)
  show ?thesis
  proof (cases "k = j")
    case True
    have "life_of (Some ?st) = life_of (eng_get e j)"
      by (simp add: ensureState_def life_of_def new_state_def split: option.splits)
    then have "life_step rule now k (life_of (eng_get e k)) [fst ?r] (life_of (eng_get e' k))"
      using event_state_life [OF st, of rule now f ev] ds True by simp
    moreover have "about k [fst ?r] = [fst ?r] \<or> quiet (fst ?r) \<and> about k [fst ?r] = []"
      using event_decision_id [OF st(2), of f rule ev now] True by (auto simp: about_def)
    ultimately show ?thesis
      using ds life_step_quiet [of rule now k "life_of (eng_get e k)" "fst ?r" "life_of (eng_get e' k)"]
      by (elim disjE conjE) (simp_all add: OpEvent life_step.stay)
  next
    case False
    then have "\<forall>d \<in> set (about k ds). quiet d"
      using event_decision_id [OF st(2), of f rule ev now] ds by (auto simp: about_def)
    then show ?thesis using False ds by (simp add: OpEvent life_step.stay)
  qed
next
  case (OpTick rule now)
  have e': "e' = snd (TickRuleWithFiring e rule now)" "ds = fst (fst (TickRuleWithFiring e rule now))"
    using step by (auto simp: OpTick Let_def)
  show ?thesis
  proof (cases "eng_get e k")
    case None
    then show ?thesis by (simp add: OpTick e' tick_get about_tick [OF wf] life_step.stay)
  next
    case (Some st)
    from tick_state_life [OF wf_engine_get(2,1) [OF wf Some], of rule now] show ?thesis
      by (simp add: OpTick e' tick_get about_tick [OF wf] Some)
  qed
next
  case (OpRemove j)
  then show ?thesis using step by (auto simp: RemoveAlertState_def life_of_def)
next
  case (OpLastNotified j c t)
  then show ?thesis using step
    by (auto simp: SetLastNotified_def intro!: life_of_cong split: option.splits)
next
  case (OpMessageID j c t)
  then show ?thesis using step
    by (auto simp: SetChannelMessageID_def intro!: life_of_cong split: option.splits)
next
  case (OpExternalRef j c t)
  then show ?thesis using step
    by (auto simp: SetChannelExternalRef_def intro!: life_of_cong split: option.splits)
next
  case (OpCompact now ttl m)
  then show ?thesis using step compact_life [OF wf] by auto
qed

text \<open>The last change of an alert that is not idle is the decision that opened its state.\<close>

lemma last_change_life:
  "engine_reach f h e \<Longrightarrow>
    (\<forall>t. life_of (eng_get e k) = PendingFrom t \<longrightarrow> last_change k h = Some (t, opened k StPending False))
    \<and> (life_of (eng_get e k) = Firing \<longrightarrow> (\<exists>t. last_change k h = Some (t, opened k StFiring True)))"
proof (induction rule: engine_reach.induct)
  case start
  then show ?case by (simp add: New_engine_def life_of_def)
next
  case (step h e op ds e')
  note life = engine_step_life [OF engine_reach_wf [OF step.hyps(1)] step.hyps(2), of k]
  show ?case
  proof (cases "op_rule op")
    case None
    with life have "ds = []" "life_of (eng_get e' k) \<in> {life_of (eng_get e k), Idle}" by auto
    moreover from this(1) have "last_change k ((op, ds) # h) = last_change k h" by (simp add: about_def)
    ultimately show ?thesis using step.IH
      by (cases "life_of (eng_get e' k) = life_of (eng_get e k)") (simp_all only:, auto)
  next
    case (Some rule)
    with life have "life_step rule (op_time op) k (life_of (eng_get e k)) (about k ds) (life_of (eng_get e' k))"
      by simp
    then show ?thesis
    proof cases
      case stay
      then have "filter dc_StateChanged (about k ds) = []" by (auto simp: filter_empty_conv quiet_def)
      with stay step.IH show ?thesis by simp
    qed simp_all
  qed
qed

end
