(* ===== verification/Engine_Behaviour.thy ===== *)
theory Engine_Behaviour
  imports Engine_Invariants
begin

text \<open>
  The functional behaviour of the engine: counting thresholds over whole event sequences,
  the sliding window against the history it summarises, resolution by silence, heartbeats
  and their hysteresis, and the independence of a tick from the order of the state map.
\<close>

section \<open>Event sequences on one alert\<close>

fun run_events :: "(float64 \<Rightarrow> string) \<Rightarrow> rule_config \<Rightarrow> string \<Rightarrow> (event \<times> gtime) list
    \<Rightarrow> runtime_state \<Rightarrow> decision list \<times> runtime_state" where
  "run_events f rule k [] st = ([], st)"
| "run_events f rule k ((ev, now) # rest) st =
     (let r = event_state f st rule ev k now; rs = run_events f rule k rest (snd r)
      in (fst r # fst rs, snd rs))"

lemma run_events_append:
  "run_events f rule k (xs @ ys) st =
     (let r = run_events f rule k xs st; s = run_events f rule k ys (snd r)
      in (fst r @ fst s, snd s))"
  by (induction xs arbitrary: st) (auto simp: Let_def)

lemma length_run_events [simp]: "length (fst (run_events f rule k xs st)) = length xs"
  by (induction xs arbitrary: st) (auto simp: Let_def)

text \<open>The same sequence through the engine.\<close>

fun feed :: "(float64 \<Rightarrow> string) \<Rightarrow> rule_config \<Rightarrow> string \<Rightarrow> (event \<times> gtime) list
    \<Rightarrow> engine \<Rightarrow> decision list \<times> engine" where
  "feed f rule k [] e = ([], e)"
| "feed f rule k ((ev, now) # rest) e =
     (let r = engine_ProcessEvent f e rule ev k now; rs = feed f rule k rest (snd r)
      in (fst r # fst rs, snd rs))"

lemma feed_run_events:
  "eng_get e k = Some st \<Longrightarrow>
     fst (feed f rule k xs e) = fst (run_events f rule k xs st)
     \<and> eng_get (snd (feed f rule k xs e)) k = Some (snd (run_events f rule k xs st))"
proof (induction xs arbitrary: e st)
  case (Cons p xs)
  obtain ev now where p: "p = (ev, now)" by (cases p)
  have "ensureState f e rule ev k = st" using Cons.prems by (simp add: ensureState_def)
  then show ?case
    using Cons.IH [of "eng_put e k (snd (event_state f st rule ev k now))" "snd (event_state f st rule ev k now)"]
    by (simp add: p engine_ProcessEvent_def Let_def)
qed simp

lemma feed_fresh:
  assumes "eng_get e k = None"
  shows "fst (feed f rule k ((ev, now) # xs) e) =
      fst (run_events f rule k ((ev, now) # xs) (new_state f rule ev k))"
    and "eng_get (snd (feed f rule k ((ev, now) # xs) e)) k =
      Some (snd (run_events f rule k ((ev, now) # xs) (new_state f rule ev k)))"
proof -
  let ?r = "event_state f (new_state f rule ev k) rule ev k now"
  have "ensureState f e rule ev k = new_state f rule ev k" using assms by (simp add: ensureState_def)
  then show "fst (feed f rule k ((ev, now) # xs) e) =
      fst (run_events f rule k ((ev, now) # xs) (new_state f rule ev k))"
    and "eng_get (snd (feed f rule k ((ev, now) # xs) e)) k =
      Some (snd (run_events f rule k ((ev, now) # xs) (new_state f rule ev k)))"
    using feed_run_events [of "eng_put e k (snd ?r)" k "snd ?r" f rule xs]
    by (simp_all add: engine_ProcessEvent_def Let_def)
qed

section \<open>Counting\<close>

text \<open>
  A count rule without a pending stage is a latch on its activity test: it notifies at the
  first event whose test holds and stays firing.
\<close>

definition latch :: "bool list \<Rightarrow> bool list" where
  "latch acts = map (\<lambda>i. acts ! i \<and> (\<forall>j < i. \<not> acts ! j)) [0..<length acts]"

lemma latch_snoc: "latch (acts @ [a]) = latch acts @ [a \<and> \<not> (\<exists>b \<in> set acts. b)]"
  by (auto simp: latch_def nth_append in_set_conv_nth intro!: map_cong)

lemma latch_set: "(\<exists>b \<in> set (latch acts). b) = (\<exists>b \<in> set acts. b)"
proof (induction acts rule: rev_induct)
  case (snoc a acts)
  then show ?case by (auto simp: latch_snoc)
qed (simp add: latch_def)

lemma applyActive_latch:
  assumes "\<not> rp_Enabled (rc_Pending rule)"
    and "rs_CurrentState st = (if b then StFiring else StNone)"
  shows "dc_ShouldNotify (fst (applyActiveCondition st rule now a False)) = (a \<and> \<not> b)"
    and "rs_CurrentState (snd (applyActiveCondition st rule now a False)) = (if a \<or> b then StFiring else StNone)"
    and "rs_CountTotal (snd (applyActiveCondition st rule now a False)) = rs_CountTotal st"
    and "rs_CountWindow (snd (applyActiveCondition st rule now a False)) = rs_CountWindow st"
    and "rs_CountWindowSum (snd (applyActiveCondition st rule now a False)) = rs_CountWindowSum st"
  using assms by (auto simp: applyActiveCondition_def Let_def split: if_splits)

definition agg_sum :: "(event \<times> gtime) list \<Rightarrow> int" where
  "agg_sum xs = sum_list (map (\<lambda>(ev, _). ev_AggCnt ev) xs)"

definition total_reached :: "int64 \<Rightarrow> (event \<times> gtime) list \<Rightarrow> bool list" where
  "total_reached N xs = map (\<lambda>i. N \<le> agg_sum (take (Suc i) xs)) [0..<length xs]"

lemma total_reached_snoc: "total_reached N (xs @ [x]) = total_reached N xs @ [N \<le> agg_sum (xs @ [x])]"
  by (auto simp: total_reached_def)

lemma agg_sum_simps [simp]: "agg_sum [] = 0" "agg_sum (xs @ [(ev, t)]) = agg_sum xs + ev_AggCnt ev"
  by (simp_all add: agg_sum_def)

lemma agg_sum_nonneg: "\<forall>(ev, t) \<in> set xs. 1 \<le> ev_AggCnt ev \<Longrightarrow> 0 \<le> agg_sum xs"
  unfolding agg_sum_def by (rule sum_list_nonneg) auto

lemma count_total_run:
  assumes rule: "rc_AlertType rule = ''count_total''" "\<not> rp_Enabled (rc_Pending rule)"
    and st: "rs_CurrentState st = StNone" "rs_CountTotal st = 0"
    and xs: "\<forall>(ev, t) \<in> set xs. 1 \<le> ev_AggCnt ev" "agg_sum xs \<le> max_int64"
  shows "map dc_ShouldNotify (fst (run_events f rule k xs st)) = latch (total_reached (rr_N (rc_Raise rule)) xs)
    \<and> rs_CountTotal (snd (run_events f rule k xs st)) = agg_sum xs
    \<and> rs_CurrentState (snd (run_events f rule k xs st)) =
        (if \<exists>b \<in> set (total_reached (rr_N (rc_Raise rule)) xs). b then StFiring else StNone)"
  using xs
proof (induction xs rule: rev_induct)
  case Nil
  then show ?case using st by (simp add: latch_def total_reached_def)
next
  case (snoc x xs)
  obtain ev now where x: "x = (ev, now)" by (cases x)
  let ?N = "rr_N (rc_Raise rule)" and ?s = "snd (run_events f rule k xs st)"
  have agg: "1 \<le> ev_AggCnt ev" "agg_sum xs + ev_AggCnt ev \<le> max_int64" "0 \<le> agg_sum xs"
    using snoc.prems agg_sum_nonneg [of xs] by (auto simp: x)
  then have fits: "wrap64 (agg_sum xs + ev_AggCnt ev) = agg_sum xs + ev_AggCnt ev"
    by (simp add: int64_defs)
  have IH: "map dc_ShouldNotify (fst (run_events f rule k xs st)) = latch (total_reached ?N xs)"
    "rs_CountTotal ?s = agg_sum xs"
    "rs_CurrentState ?s = (if \<exists>b \<in> set (total_reached ?N xs). b then StFiring else StNone)"
    using snoc.IH snoc.prems agg by (auto simp: x)
  let ?t = "?s\<lparr>rs_LastSeen := now, rs_MetricValue := metricValue f (ev_Value ev), rs_Initialized := True,
     rs_CountTotal := agg_sum xs + ev_AggCnt ev, rs_ActiveCount := wrap64 (rs_ActiveCount ?s + ev_AggCnt ev)\<rparr>"
  have ev: "event_state f ?s rule ev k now =
      applyActiveCondition ?t rule now (?N \<le> agg_sum xs + ev_AggCnt ev) False"
    by (simp add: event_state_def rule IH fits Let_def)
  have "rs_CurrentState ?t = (if \<exists>b \<in> set (total_reached ?N xs). b then StFiring else StNone)"
    by (simp add: IH)
  note step = applyActive_latch [OF rule(2) this, of now "?N \<le> agg_sum xs + ev_AggCnt ev"]
  have one: "run_events f rule k [x] ?s = ([fst (event_state f ?s rule ev k now)], snd (event_state f ?s rule ev k now))"
    by (simp add: x Let_def)
  show ?case
    unfolding run_events_append Let_def one ev total_reached_snoc latch_snoc
    using step IH by (simp add: x)
qed

section \<open>The sliding window\<close>

definition points_of :: "(event \<times> gtime) list \<Rightarrow> window_point list" where
  "points_of xs = map (\<lambda>(ev, t). \<lparr>wp_At = t, wp_Count = ev_AggCnt ev\<rparr>) xs"

definition times_sorted :: "(event \<times> gtime) list \<Rightarrow> bool" where
  "times_sorted xs \<longleftrightarrow> sorted (map snd xs)"

text \<open>The contributions of a history that a window of width \<open>w\<close> holds after its last event.\<close>

definition recent :: "duration \<Rightarrow> (event \<times> gtime) list \<Rightarrow> window_point list" where
  "recent w xs = (if xs = [] then [] else filter (\<lambda>p. snd (last xs) - w \<le> wp_At p) (points_of xs))"

lemma sorted_dropWhile_filter:
  "sorted (map g xs) \<Longrightarrow> dropWhile (\<lambda>p. g p < c) xs = filter (\<lambda>p. c \<le> g p) xs"
proof (induction xs)
  case (Cons x xs)
  show ?case
  proof (cases "g x < c")
    case False
    then have "\<forall>p \<in> set (x # xs). c \<le> g p" using Cons.prems by auto
    then have "filter (\<lambda>p. c \<le> g p) (x # xs) = x # xs" by (simp only: filter_id_conv)
    then show ?thesis using False by simp
  qed (use Cons in auto)
qed simp

lemma times_sorted_snoc: "times_sorted (xs @ [(ev, t)]) \<longleftrightarrow> times_sorted xs \<and> (\<forall>p \<in> set xs. snd p \<le> t)"
  by (auto simp: times_sorted_def sorted_append)

lemma recent_snoc:
  assumes "times_sorted (xs @ [(ev, t)])" "0 < w"
  shows "dropWhile (\<lambda>p. wp_At p < t - w) (recent w xs @ [\<lparr>wp_At = t, wp_Count = ev_AggCnt ev\<rparr>])
    = recent w (xs @ [(ev, t)])"
proof -
  let ?p = "\<lparr>wp_At = t, wp_Count = ev_AggCnt ev\<rparr>"
  have srt: "sorted (map wp_At (points_of (xs @ [(ev, t)])))"
    using assms(1) by (simp add: times_sorted_def points_of_def comp_def case_prod_beta)
  have pts: "points_of (xs @ [(ev, t)]) = points_of xs @ [?p]" by (simp add: points_of_def)
  have "sorted (map wp_At (recent w xs @ [?p]))"
    using srt by (auto simp: recent_def pts sorted_append intro: sorted_filter)
  then have "dropWhile (\<lambda>p. wp_At p < t - w) (recent w xs @ [?p]) =
      filter (\<lambda>p. t - w \<le> wp_At p) (recent w xs @ [?p])"
    by (rule sorted_dropWhile_filter)
  also have "\<dots> = filter (\<lambda>p. t - w \<le> wp_At p) (points_of xs @ [?p])"
  proof (cases "xs = []")
    case False
    then have "snd (last xs) \<le> t" using assms(1) last_in_set [OF False] by (auto simp: times_sorted_snoc)
    then have "filter (\<lambda>p. t - w \<le> wp_At p) (recent w xs) = filter (\<lambda>p. t - w \<le> wp_At p) (points_of xs)"
      using False by (auto simp: recent_def intro!: filter_cong)
    then show ?thesis by simp
  qed (simp add: recent_def points_of_def)
  finally show ?thesis by (simp add: recent_def pts)
qed

definition window_reached :: "int64 \<Rightarrow> duration \<Rightarrow> (event \<times> gtime) list \<Rightarrow> bool list" where
  "window_reached N w xs =
     map (\<lambda>i. N \<le> window_total (recent w (take (Suc i) xs))) [0..<length xs]"

lemma window_reached_snoc:
  "window_reached N w (xs @ [x]) = window_reached N w xs @ [N \<le> window_total (recent w (xs @ [x]))]"
  by (auto simp: window_reached_def)

lemma drop_stale_eq:
  assumes "s = wrap64 (window_total ps)"
  shows "drop_stale c ps s = (dropWhile (\<lambda>p. wp_At p < c) ps, wrap64 (window_total (dropWhile (\<lambda>p. wp_At p < c) ps)))"
  using drop_stale_dropWhile [of c ps s] drop_stale_sum [OF assms, of c]
  by (cases "drop_stale c ps s") auto

lemma agg_sum_filter_bound:
  assumes "\<forall>(ev, t) \<in> set xs. 1 \<le> ev_AggCnt ev"
  shows "0 \<le> window_total (recent w xs)" "window_total (recent w xs) \<le> agg_sum xs"
proof -
  have "window_total (filter P (points_of xs)) \<le> agg_sum xs \<and> 0 \<le> window_total (filter P (points_of xs))" for P
    using assms by (induction xs) (auto simp: points_of_def agg_sum_def)
  then show "0 \<le> window_total (recent w xs)" "window_total (recent w xs) \<le> agg_sum xs"
    by (auto simp: recent_def)
qed

lemma count_window_run:
  assumes rule: "rc_AlertType rule = ''count_window''" "\<not> rp_Enabled (rc_Pending rule)"
      "0 < seconds (rr_WindowSec (rc_Raise rule))"
    and st: "rs_CurrentState st = StNone" "rs_CountWindow st = []" "rs_CountWindowSum st = 0"
    and xs: "\<forall>(ev, t) \<in> set xs. 1 \<le> ev_AggCnt ev" "agg_sum xs \<le> max_int64" "times_sorted xs"
  shows "map dc_ShouldNotify (fst (run_events f rule k xs st)) =
      latch (window_reached (rr_N (rc_Raise rule)) (seconds (rr_WindowSec (rc_Raise rule))) xs)
    \<and> rs_CountWindow (snd (run_events f rule k xs st)) = recent (seconds (rr_WindowSec (rc_Raise rule))) xs
    \<and> rs_CountWindowSum (snd (run_events f rule k xs st)) =
        window_total (recent (seconds (rr_WindowSec (rc_Raise rule))) xs)
    \<and> rs_CurrentState (snd (run_events f rule k xs st)) =
        (if \<exists>b \<in> set (window_reached (rr_N (rc_Raise rule)) (seconds (rr_WindowSec (rc_Raise rule))) xs). b
         then StFiring else StNone)"
  using xs
proof (induction xs rule: rev_induct)
  case Nil
  then show ?case using st by (simp add: latch_def window_reached_def recent_def)
next
  case (snoc x xs)
  obtain ev now where x: "x = (ev, now)" by (cases x)
  let ?N = "rr_N (rc_Raise rule)" and ?w = "seconds (rr_WindowSec (rc_Raise rule))"
  let ?s = "snd (run_events f rule k xs st)"
  have agg: "1 \<le> ev_AggCnt ev" "agg_sum xs + ev_AggCnt ev \<le> max_int64" "0 \<le> agg_sum xs"
    using snoc.prems agg_sum_nonneg [of xs] by (auto simp: x)
  have srt: "times_sorted xs" using snoc.prems by (simp add: x times_sorted_snoc)
  have IH: "map dc_ShouldNotify (fst (run_events f rule k xs st)) = latch (window_reached ?N ?w xs)"
    "rs_CountWindow ?s = recent ?w xs" "rs_CountWindowSum ?s = window_total (recent ?w xs)"
    "rs_CurrentState ?s = (if \<exists>b \<in> set (window_reached ?N ?w xs). b then StFiring else StNone)"
    using snoc.IH snoc.prems agg srt by (auto simp: x)
  let ?p = "\<lparr>wp_At = now, wp_Count = ev_AggCnt ev\<rparr>"
  let ?full = "recent ?w xs @ [?p]" and ?new = "recent ?w (xs @ [x])"
  have tot: "wrap64 (window_total (recent ?w xs) + ev_AggCnt ev) = wrap64 (window_total ?full)" by simp
  have "drop_stale (time_Add now (- ?w)) ?full (wrap64 (window_total (recent ?w xs) + ev_AggCnt ev))
      = (?new, wrap64 (window_total ?new))"
    unfolding drop_stale_eq [OF tot] using recent_snoc [of xs ev now ?w] snoc.prems(3) rule(3)
    by (simp add: x time_Add_def)
  moreover have "wrap64 (window_total ?new) = window_total ?new"
    using agg_sum_filter_bound [OF snoc.prems(1), of ?w] snoc.prems(2) by (intro wrap64_id) (auto simp: int64_defs)
  ultimately have pruned: "pruneWindow ?full now ?w (wrap64 (window_total (recent ?w xs) + ev_AggCnt ev))
      = (?new, window_total ?new)"
    using rule(3) by (simp add: pruneWindow_def)
  let ?t = "?s\<lparr>rs_LastSeen := now, rs_MetricValue := metricValue f (ev_Value ev), rs_Initialized := True,
     rs_CountWindow := ?new, rs_CountWindowSum := window_total ?new,
     rs_ActiveCount := wrap64 (rs_ActiveCount ?s + ev_AggCnt ev)\<rparr>"
  have ev: "event_state f ?s rule ev k now = applyActiveCondition ?t rule now (?N \<le> window_total ?new) False"
    by (simp add: event_state_def rule IH pruned Let_def)
  have "rs_CurrentState ?t = (if \<exists>b \<in> set (window_reached ?N ?w xs). b then StFiring else StNone)"
    by (simp add: IH)
  note step = applyActive_latch [OF rule(2) this, of now "?N \<le> window_total ?new"]
  have one: "run_events f rule k [x] ?s = ([fst (event_state f ?s rule ev k now)], snd (event_state f ?s rule ev k now))"
    by (simp add: x Let_def)
  show ?case
    unfolding run_events_append Let_def one ev window_reached_snoc latch_snoc
    using step IH by simp
qed

section \<open>Ticks\<close>

lemma tick_decisions_of:
  assumes "wf_engine e" "eng_get e k = Some st"
  shows "about k (fst (fst (TickRuleWithFiring e rule now))) = fst (snd (tick_state rule now st))"
    and "eng_get (snd (TickRuleWithFiring e rule now)) k = Some (fst (tick_state rule now st))"
  using about_tick [OF assms(1), of k rule now] assms(2) by (simp_all add: tick_get)

text \<open>The two count types share their tick; a rule is a count rule when it has one of them.\<close>

definition is_count_rule :: "rule_config \<Rightarrow> bool" where
  "is_count_rule rule \<longleftrightarrow> rc_AlertType rule = ''count_total'' \<or> rc_AlertType rule = ''count_window''"

text \<open>Resolve settings whose sum is a duration that does not overflow.\<close>

definition sane_resolve :: "rule_config \<Rightarrow> bool" where
  "sane_resolve rule \<longleftrightarrow> 0 \<le> rv_SilenceSec (rc_Resolve rule) \<and> 0 \<le> rv_HysteresisSec (rc_Resolve rule)
     \<and> rv_SilenceSec (rc_Resolve rule) + rv_HysteresisSec (rc_Resolve rule) \<le> 9223372036"

lemma count_tick_silence:
  assumes "is_count_rule rule" "rs_RuleName st = rc_Name rule" "is_active st" "sane_resolve rule"
    and "rs_LastSeen st \<le> now"
  shows "tick_state rule now st =
    (if rs_LastSeen st + (rv_SilenceSec (rc_Resolve rule) + rv_HysteresisSec (rc_Resolve rule)) * 1000000000 \<le> now
     then (resetResolvedState st, [resolved (rs_AlertID st) ''silence_timeout'' False], [])
     else (st, [], if rs_CurrentState st = StFiring then [rs_AlertID st] else []))"
proof -
  let ?n = "rv_SilenceSec (rc_Resolve rule) + rv_HysteresisSec (rc_Resolve rule)"
  have n: "0 \<le> ?n" "?n \<le> 9223372036" using assms(4) by (auto simp: sane_resolve_def)
  then have "wrap64 ?n = ?n" "seconds ?n = ?n * 1000000000"
    by (auto simp: int64_defs seconds_exact)
  moreover have "in_int64 (?n * 1000000000)" "?n * 1000000000 \<noteq> min_int64" using n by (auto simp: int64_defs)
  ultimately show ?thesis
    using assms time_Sub_ge_iff [of "?n * 1000000000" now "rs_LastSeen st"]
    by (auto simp: tick_state_def count_tick_def is_count_rule_def is_active_def Let_def)
qed

lemma heartbeat_raise:
  assumes "rc_AlertType rule = ''missing_heartbeat''" "rs_RuleName st = rc_Name rule"
    and "rs_CurrentState st = StNone" "rs_PendingSince st = None"
  shows "fst (snd (tick_state rule now st)) =
    (if rs_Initialized st \<and> seconds (rr_MissingSec (rc_Raise rule)) \<le> time_Sub now (rs_LastSeen st)
     then [if rp_Enabled (rc_Pending rule) then opened (rs_AlertID st) StPending False
           else opened (rs_AlertID st) StFiring True]
     else [])"
  using assms
  by (simp add: tick_state_def heartbeat_tick_def applyActiveCondition_def Let_def no_decision_def)

text \<open>
  While the heartbeat is missing, the tick of an active \<open>missing_heartbeat\<close> alert never lists
  it among the firing ids: the \<open>continue\<close> comes first.
\<close>

lemma heartbeat_missing_not_listed:
  assumes "rc_AlertType rule = ''missing_heartbeat''"
    and "seconds (rr_MissingSec (rc_Raise rule)) \<le> time_Sub now (rs_LastSeen st)"
  shows "snd (snd (tick_state rule now st)) = []"
  using assms by (simp add: tick_state_def heartbeat_tick_def Let_def)

lemma heartbeat_no_hysteresis_not_listed:
  assumes "rc_AlertType rule = ''missing_heartbeat''" "seconds (rv_HysteresisSec (rc_Resolve rule)) \<le> 0"
  shows "snd (snd (tick_state rule now st)) = []"
  using assms by (simp add: tick_state_def heartbeat_tick_def Let_def)

lemma heartbeat_recovery:
  assumes "rs_Initialized st" "is_active st"
  shows "dc_State (fst (heartbeat_event st rule k now)) = StResolved \<longleftrightarrow>
    seconds (rv_HysteresisSec (rc_Resolve rule)) \<le> 0 \<or>
    seconds (rv_HysteresisSec (rc_Resolve rule)) \<le>
      time_Sub now (case rs_HysteresisSince st of Some t \<Rightarrow> t | None \<Rightarrow> now)"
  using assms by (auto simp: heartbeat_event_def Let_def is_active_def)

lemma heartbeat_first:
  assumes "\<not> rs_Initialized st"
  shows "fst (heartbeat_event st rule k now) = matched k"
    and "rc_AlertType rule = ''missing_heartbeat'' \<Longrightarrow> tick_state rule now st = (st, [], [])"
  using assms by (simp_all add: heartbeat_event_def tick_state_def heartbeat_tick_def)

section \<open>Order independence\<close>

text \<open>A tick treats every alert by itself: the iteration order of the map permutes its output.\<close>

lemma tick_loop_mset:
  assumes "mset m = mset m'"
  shows "mset (fst (tick_loop rule now m)) = mset (fst (tick_loop rule now m'))"
    and "mset (fst (snd (tick_loop rule now m))) = mset (fst (snd (tick_loop rule now m')))"
    and "mset (snd (snd (tick_loop rule now m))) = mset (snd (snd (tick_loop rule now m')))"
proof -
  have cat: "mset (concat (map g m)) = mset (concat (map g m'))" for g :: "string \<times> runtime_state \<Rightarrow> decision list"
  proof -
    have "mset (concat (map g l)) = (\<Sum>x \<in># mset l. mset (g x))" for l by (induction l) simp_all
    then show ?thesis using assms by simp
  qed
  have "mset (map g m) = mset (map g m')" for g :: "string \<times> runtime_state \<Rightarrow> string \<times> runtime_state"
    using assms by simp
  then show "mset (fst (tick_loop rule now m)) = mset (fst (tick_loop rule now m'))"
    unfolding tick_loop_states .
  show "mset (fst (snd (tick_loop rule now m))) = mset (fst (snd (tick_loop rule now m')))"
    unfolding tick_loop_decisions by (rule cat)
  have cat2: "mset (concat (map g m)) = mset (concat (map g m'))" for g :: "string \<times> runtime_state \<Rightarrow> string list"
  proof -
    have "mset (concat (map g l)) = (\<Sum>x \<in># mset l. mset (g x))" for l by (induction l) simp_all
    then show ?thesis using assms by simp
  qed
  show "mset (snd (snd (tick_loop rule now m))) = mset (snd (snd (tick_loop rule now m')))"
    unfolding tick_loop_firing by (rule cat2)
qed

text \<open>A tick leaves the alerts of other rules alone.\<close>

lemma tick_other_rule:
  "eng_get e k = Some st \<Longrightarrow> rs_RuleName st \<noteq> rc_Name rule \<Longrightarrow>
    eng_get (snd (TickRuleWithFiring e rule now)) k = Some st"
  by (simp add: tick_get tick_state_def)

section \<open>Compaction bounds\<close>

definition active_count :: "engine \<Rightarrow> nat" where
  "active_count e = length (filter (\<lambda>(k, st). rs_CurrentState st \<noteq> StNone) (eng_states e))"

lemma length_filter_keys:
  assumes "wf_map m" "distinct (map fst cs)" "fst ` set cs \<subseteq> fst ` set m"
  shows "length (filter (\<lambda>(k, _). k \<notin> fst ` set cs) m) = length m - length cs"
proof -
  have split: "length (filter (\<lambda>(k, _). k \<in> fst ` set cs) m) + length (filter (\<lambda>(k, _). k \<notin> fst ` set cs) m) = length m"
    using sum_length_filter_compl [of "\<lambda>p. fst p \<in> fst ` set cs" m]
    by (simp add: case_prod_unfold)
  have "fst ` set (filter (\<lambda>(k, _). k \<in> fst ` set cs) m) = fst ` set cs"
    using assms(3) by force
  moreover have "distinct (map fst (filter (\<lambda>(k, _). k \<in> fst ` set cs) m))"
    using assms(1) by (simp add: wf_map_def distinct_map_filter)
  ultimately have "length (filter (\<lambda>(k, _). k \<in> fst ` set cs) m) = length cs"
    using distinct_card [OF assms(2)] distinct_card by fastforce
  then show ?thesis using split by simp
qed

lemma length_candidates:
  "length (compaction_candidates m) = length (filter (\<lambda>(k, st). rs_CurrentState st = StNone) m)"
  by (simp add: compaction_candidates_def)

lemma compact_size:
  assumes "wf_engine e" "0 < maxStates"
  shows "length (eng_states (snd (CompactStates e now ttl maxStates))) \<le> max (nat maxStates) (active_count e)"
proof -
  let ?m = "fresh_states e now ttl" and ?vs = "victims e now ttl maxStates"
  have vs: "?vs = take (length ?m - nat maxStates) (compaction_candidates ?m)"
    using assms(2) by (simp add: victims_def)
  have "distinct (map fst ?vs)"
    unfolding vs take_map [symmetric] by (rule distinct_take [OF candidates_distinct [OF wf_fresh [OF assms(1)]]])
  moreover have "fst ` set ?vs \<subseteq> fst ` set (compaction_candidates ?m)"
    unfolding vs by (intro image_mono set_take_subset)
  then have "fst ` set ?vs \<subseteq> fst ` set ?m"
    unfolding candidates_keys by (rule subset_trans) auto
  ultimately have len: "length (eng_states (snd (CompactStates e now ttl maxStates))) = length ?m - length ?vs"
    by (simp add: CompactStates_eq [OF assms(1)] length_filter_keys [OF wf_fresh [OF assms(1)]])
  have active: "length (filter (\<lambda>(k, st). rs_CurrentState st \<noteq> StNone) ?m) \<le> active_count e"
  proof -
    obtain R where "?m = filter R (eng_states e)"
      unfolding fresh_states_def by (cases "ttl > 0") (metis filter_True)+
    then have "filter (\<lambda>(k, st). rs_CurrentState st \<noteq> StNone) ?m =
        filter R (filter (\<lambda>(k, st). rs_CurrentState st \<noteq> StNone) (eng_states e))"
      by (simp add: conj_commute)
    then show ?thesis unfolding active_count_def by (simp only: length_filter_le)
  qed
  have "length ?m = length (compaction_candidates ?m) + length (filter (\<lambda>(k, st). rs_CurrentState st \<noteq> StNone) ?m)"
    using sum_length_filter_compl [of "\<lambda>(k, st). rs_CurrentState st = StNone" ?m]
    by (simp add: length_candidates case_prod_unfold)
  then show ?thesis using active unfolding len vs by simp
qed

lemma compact_oldest_first:
  assumes "wf_engine e" "(k, t) \<in> set (victims e now ttl maxStates)"
    and "eng_get (snd (CompactStates e now ttl maxStates)) j = Some st" "rs_CurrentState st = StNone"
  shows "t \<le> rs_LastSeen st"
proof -
  let ?m = "fresh_states e now ttl" and ?cs = "compaction_candidates (fresh_states e now ttl)"
  let ?n = "length ?m - nat maxStates"
  have vs: "(k, t) \<in> set (take ?n ?cs)"
    using assms(2) by (auto simp: victims_def split: if_splits)
  have kept: "(j, st) \<in> set ?m" "j \<notin> fst ` set (victims e now ttl maxStates)"
    using map_get_in_set [OF assms(3)] by (auto simp: CompactStates_eq [OF assms(1)])
  then have "(j, rs_LastSeen st) \<in> set ?cs" using assms(4) by (force simp: compaction_candidates_def)
  moreover have "(j, rs_LastSeen st) \<notin> set (take ?n ?cs)"
    using kept(2) assms(2) by (force simp: victims_def split: if_splits)
  ultimately have "(j, rs_LastSeen st) \<in> set (drop ?n ?cs)"
    by (metis Un_iff append_take_drop_id set_append)
  moreover have "sorted (map snd (take ?n ?cs @ drop ?n ?cs))"
    by (simp add: compaction_candidates_def)
  then have "\<forall>p \<in> set (take ?n ?cs). \<forall>q \<in> set (drop ?n ?cs). snd p \<le> snd q"
    unfolding map_append sorted_append set_map ball_simps by (elim conjE)
  ultimately show ?thesis using vs by (metis snd_conv)
qed

end
