(* ===== verification/Samples.thy ===== *)
theory Samples
  imports Config_Norm
begin

text \<open>
  Concrete rules, events and predicates for the closed examples that show that the hypotheses
  of the properties can hold. They are shaped like the ones in \<open>configs/\<close> and the tests.
\<close>

definition sample_value :: typed_value where
  "sample_value = \<lparr>tv_Type = ''n'', tv_N = Some 0x4014000000000000, tv_S = None, tv_B = None\<rparr>"

definition sample_event :: event where
  "sample_event = \<lparr>ev_DT = 1000, ev_Type = ''event'', ev_Tags = [(''host'', ''a'')], ev_Var = ''errors'',
     ev_Value = sample_value, ev_AggCnt = 1, ev_Win = 0\<rparr>"

definition sample_event_b :: event where
  "sample_event_b = sample_event\<lparr>ev_Tags := [(''host'', ''b'')]\<rparr>"

definition sample_match :: rule_match where
  "sample_match = \<lparr>rm_Type = [''event''], rm_Var = [''errors''], rm_Tags = [(''host'', [''A'', ''B''])],
     rm_Value = None\<rparr>"

definition sample_route :: rule_route where
  "sample_route = \<lparr>ro_Name = [], ro_Channel = ''http'', ro_Template = ''base'', ro_Mode = []\<rparr>"

definition count_rule :: rule_config where
  "count_rule = zero_rule\<lparr>rc_Name := ''ct'', rc_AlertType := ''count_total'', rc_Match := sample_match,
     rc_Key_FromTags := [''host''], rc_Raise := \<lparr>rr_N = 2, rr_WindowSec = 0, rr_MissingSec = 0\<rparr>,
     rc_Resolve := \<lparr>rv_SilenceSec = 5, rv_HysteresisSec = 0\<rparr>,
     rc_Notify := (rc_Notify zero_rule)\<lparr>rn_Route := [sample_route]\<rparr>\<rparr>"

definition eager_rule :: rule_config where
  "eager_rule = count_rule\<lparr>rc_Raise := \<lparr>rr_N = 1, rr_WindowSec = 0, rr_MissingSec = 0\<rparr>\<rparr>"

definition pending_rule :: rule_config where
  "pending_rule = eager_rule\<lparr>rc_Pending := \<lparr>rp_Enabled = True, rp_DelaySec = 3\<rparr>\<rparr>"

definition window_rule :: rule_config where
  "window_rule = count_rule\<lparr>rc_AlertType := ''count_window'',
     rc_Raise := \<lparr>rr_N = 2, rr_WindowSec = 10, rr_MissingSec = 0\<rparr>\<rparr>"

definition heartbeat_rule :: rule_config where
  "heartbeat_rule = count_rule\<lparr>rc_AlertType := ''missing_heartbeat'',
     rc_Raise := \<lparr>rr_N = 0, rr_WindowSec = 0, rr_MissingSec = 10\<rparr>,
     rc_Resolve := \<lparr>rv_SilenceSec = 0, rv_HysteresisSec = 4\<rparr>\<rparr>"

definition sample_predicate :: value_predicate where
  "sample_predicate = \<lparr>vp_Type = ''n'', vp_Op = ''>='', vp_N = Some 0x4008000000000000, vp_S = None,
     vp_B = None, vp_In = [], vp_CompiledMatchRE = None, vp_CompiledWildcardRE = None\<rparr>"

definition sample_off :: rule_off where
  "sample_off = \<lparr>off_Days = [''fri''], off_From = ''22:00'', off_To = ''06:00'', off_compiled = None\<rparr>"

definition sample_retry :: notify_retry where
  "sample_retry = \<lparr>nr_Enabled = True, nr_Backoff = ''exponential'', nr_InitialMS = 10, nr_MaxMS = 1000,
     nr_MaxAttempts = 3, nr_LogEachAttempt = False\<rparr>"

definition sample_config :: config where
  "sample_config = zero_config\<lparr>cf_Rule := [eager_rule]\<rparr>"

definition sample_notification :: notification where
  "sample_notification = \<lparr>nt_Channel = ''http'', nt_RouteKey = ''http'', nt_RouteMode = ''history'',
     nt_AlertID = ''rule/ct/errors/host=a'', nt_ShortID = ''host='', nt_RuleName = ''ct'', nt_State = StFiring,
     nt_Message = ''alert is firing'', nt_ReplyToMessageID = None, nt_ExternalRef = [],
     nt_Tags = [(''host'', ''a'')], nt_Var = ''errors'', nt_MetricValue = ''5'', nt_StartedAt = Some 7,
     nt_Duration = 0, nt_Timestamp = 7\<rparr>"

lemmas sample_rules = count_rule_def eager_rule_def pending_rule_def window_rule_def heartbeat_rule_def
  zero_rule_def sample_match_def sample_route_def

lemmas sample_events = sample_event_def sample_event_b_def sample_value_def

text \<open>A function for each library parameter.\<close>

definition sample_fmt :: "float64 \<Rightarrow> string" where "sample_fmt x = ''5''"
definition sample_hash :: "string \<Rightarrow> string" where "sample_hash s = s"
definition sample_compile :: "string \<Rightarrow> regex result" where "sample_compile s = Inr (\<lambda>t. t = s)"
definition sample_loc :: "int \<Rightarrow> int" where "sample_loc t = 0"

end
