(* ===== verification/Engine_Properties.thy ===== *)
theory Engine_Properties
  imports Engine_Behaviour Samples
begin

text \<open>
  What the engine promises: its invariant, the life cycle of an alert over every history of
  operations, the counting rules against the history they count, resolution, heartbeats and
  compaction. Each property stands under its claim, followed by a closed instance of it.
\<close>

section \<open>Samples\<close>

definition sample_engine :: engine where
  "sample_engine = snd (engine_ProcessEvent sample_fmt New_engine eager_rule sample_event ''k'' 100)"

definition sample_op :: engine_op where
  "sample_op = OpEvent eager_rule sample_event ''k'' 100"

definition pending_engine :: engine where
  "pending_engine = snd (engine_ProcessEvent sample_fmt New_engine pending_rule sample_event ''k'' 100)"

definition pending_op :: engine_op where
  "pending_op = OpEvent pending_rule sample_event ''k'' 100"

definition later_op :: engine_op where
  "later_op = OpEvent pending_rule sample_event ''k'' (100 + 3 * 1000000000)"

definition beat_engine :: engine where
  "beat_engine = snd (engine_ProcessEvent sample_fmt New_engine heartbeat_rule sample_event ''k'' 100)"

lemmas engine_eval = engine_ProcessEvent_def event_state_def ensureState_def new_state_def heartbeat_event_def
  applyActiveCondition_def New_engine_def eng_put_def Let_def metricValue_def sample_fmt_def sample_rules
  sample_events matched_def refresh_def opened_def resolved_def no_decision_def

lemma sample_engine_eq:
  "eng_get sample_engine ''k'' = Some ((new_state sample_fmt eager_rule sample_event ''k'')
     \<lparr>rs_LastSeen := 100, rs_Initialized := True, rs_CountTotal := 1, rs_ActiveCount := 1,
      rs_RaisedAt := 100, rs_CurrentState := StFiring\<rparr>)"
  by code_simp

lemma sample_engine_wf: "wf_engine sample_engine"
  unfolding sample_engine_def by (rule wf_engine_event) simp

lemma sample_reach:
  "engine_reach sample_fmt [(sample_op, fst (engine_step sample_fmt sample_op New_engine))]
    (snd (engine_step sample_fmt sample_op New_engine))"
  by (rule engine_reach.step [OF engine_reach.start]) simp

lemma pending_reach:
  "engine_reach sample_fmt [(later_op, fst (engine_step sample_fmt later_op (snd (engine_step sample_fmt pending_op New_engine)))),
      (pending_op, fst (engine_step sample_fmt pending_op New_engine))]
    (snd (engine_step sample_fmt later_op (snd (engine_step sample_fmt pending_op New_engine))))"
  by (rule engine_reach.step [OF engine_reach.step [OF engine_reach.start]]) simp_all

section \<open>Invariant and life cycle\<close>

text \<open>The life a change starts from, read off the decision.\<close>

lemma life_step_change:
  assumes "life_step rule now k l ds l'" "d \<in> set ds" "dc_StateChanged d"
  shows "(dc_State d = StPending \<and> l = Idle) \<or>
    (dc_State d = StFiring \<and> (l = Idle \<and> \<not> rp_Enabled (rc_Pending rule) \<or>
       (\<exists>t. l = PendingFrom t \<and> seconds (rp_DelaySec (rc_Pending rule)) \<le> time_Sub now t))) \<or>
    (dc_State d = StResolved \<and> l \<noteq> Idle)"
  using assms by (induction rule: life_step.induct) (auto simp: quiet_def)

text \<open>
  C7. Every engine that events, ticks, removals, bookkeeping and compaction can build is well
  formed: one state per alert id under its own id, never left in \<open>resolved\<close>, with a pending
  instant exactly while pending, no hysteresis instant and no raise time while idle, and a
  window sum that is the sum of the window's points in 64-bit arithmetic.
\<close>

theorem engine_invariant:
  assumes "engine_reach f h e"
  shows "wf_engine e"
  using assms by (rule engine_reach_wf)

theorem engine_invariant_witness:
  "wf_engine (snd (engine_step sample_fmt sample_op New_engine))"
  by (rule engine_invariant [OF sample_reach])

text \<open>
  C1. The engine implements the abstract life cycle: seen through the map from runtime states
  to idle, pending since an instant, or firing, every operation takes every alert through one
  allowed step, and the decisions it returns about that alert are the ones of that step.
\<close>

theorem engine_refines_life_cycle:
  assumes "engine_reach f h e" "engine_step f op e = (ds, e')"
  shows "case op_rule op of
      Some rule \<Rightarrow> life_step rule (op_time op) k (life_of (eng_get e k)) (about k ds) (life_of (eng_get e' k))
    | None \<Rightarrow> ds = [] \<and> life_of (eng_get e' k) \<in> {life_of (eng_get e k), Idle}"
  using engine_step_life [OF engine_reach_wf [OF assms(1)] assms(2)] .

theorem engine_refines_life_cycle_witness:
  "life_step eager_rule 100 ''k'' (life_of (eng_get New_engine ''k''))
     (about ''k'' (fst (engine_step sample_fmt sample_op New_engine)))
     (life_of (eng_get (snd (engine_step sample_fmt sample_op New_engine)) ''k''))"
  using engine_refines_life_cycle [OF engine_reach.start prod.collapse [symmetric], of sample_fmt sample_op "''k''"]
  by (simp add: sample_op_def)

text \<open>
  C10. With a pending stage no alert starts firing early. If an operation emits the start of
  firing for an alert under a rule with pending enabled, then the last change of that alert in
  the whole history was the start of pending, at least the configured delay before.
\<close>

theorem pending_delay_respected:
  assumes "engine_reach f ((op, ds) # h) e" "d \<in> set ds" "dc_StateChanged d" "dc_State d = StFiring"
    and "op_rule op = Some rule" "rp_Enabled (rc_Pending rule)"
  shows "\<exists>t. last_change (dc_AlertID d) h = Some (t, opened (dc_AlertID d) StPending False) \<and>
    seconds (rp_DelaySec (rc_Pending rule)) \<le> time_Sub (op_time op) t"
proof -
  let ?k = "dc_AlertID d"
  obtain e0 where reach: "engine_reach f h e0" and step: "engine_step f op e0 = (ds, e)"
    using assms(1) by (auto elim: engine_reach_ConsE)
  have "life_step rule (op_time op) ?k (life_of (eng_get e0 ?k)) (about ?k ds) (life_of (eng_get e ?k))"
    using engine_step_life [OF engine_reach_wf [OF reach] step, of ?k] assms(5) by simp
  moreover have "d \<in> set (about ?k ds)" using assms(2) by (simp add: about_def)
  ultimately obtain t where "life_of (eng_get e0 ?k) = PendingFrom t"
      "seconds (rp_DelaySec (rc_Pending rule)) \<le> time_Sub (op_time op) t"
    using life_step_change [OF _ _ assms(3)] assms(4,6) by fastforce
  then show ?thesis using last_change_life [OF reach, of ?k] by blast
qed

theorem pending_delay_respected_witness:
  "\<exists>t. last_change ''k'' [(pending_op, fst (engine_step sample_fmt pending_op New_engine))]
      = Some (t, opened ''k'' StPending False) \<and>
    seconds 3 \<le> time_Sub (100 + 3 * 1000000000) t"
proof -
  let ?ds = "fst (engine_step sample_fmt later_op (snd (engine_step sample_fmt pending_op New_engine)))"
  have "?ds = [opened ''k'' StFiring True]" by code_simp
  then have "opened ''k'' StFiring True \<in> set ?ds" by simp
  from pending_delay_respected [OF pending_reach this, of pending_rule] show ?thesis
    by (simp add: later_op_def pending_rule_def)
qed

text \<open>
  C11. Resolutions and openings alternate: a decision that resolves an alert is emitted only
  when the last change of that alert in the history was the start of pending or of firing, so
  no alert is resolved twice and none is resolved that was not opened.
\<close>

theorem resolution_follows_opening:
  assumes "engine_reach f ((op, ds) # h) e" "d \<in> set ds" "dc_StateChanged d" "dc_State d = StResolved"
  shows "\<exists>t. last_change (dc_AlertID d) h = Some (t, opened (dc_AlertID d) StPending False) \<or>
    last_change (dc_AlertID d) h = Some (t, opened (dc_AlertID d) StFiring True)"
proof -
  let ?k = "dc_AlertID d"
  obtain e0 where reach: "engine_reach f h e0" and step: "engine_step f op e0 = (ds, e)"
    using assms(1) by (auto elim: engine_reach_ConsE)
  obtain rule where rule: "op_rule op = Some rule"
    using engine_step_life [OF engine_reach_wf [OF reach] step, of ?k] assms(2) by (cases "op_rule op") auto
  then have "life_step rule (op_time op) ?k (life_of (eng_get e0 ?k)) (about ?k ds) (life_of (eng_get e ?k))"
    using engine_step_life [OF engine_reach_wf [OF reach] step, of ?k] by simp
  moreover have "d \<in> set (about ?k ds)" using assms(2) by (simp add: about_def)
  ultimately have "life_of (eng_get e0 ?k) \<noteq> Idle"
    using life_step_change [OF _ _ assms(3)] assms(4) by fastforce
  then show ?thesis using last_change_life [OF reach, of ?k] by (cases "life_of (eng_get e0 ?k)") auto
qed

definition silence_op :: engine_op where
  "silence_op = OpTick eager_rule (100 + 5 * 1000000000)"

lemma silence_reach:
  "engine_reach sample_fmt [(silence_op, fst (engine_step sample_fmt silence_op (snd (engine_step sample_fmt sample_op New_engine)))),
      (sample_op, fst (engine_step sample_fmt sample_op New_engine))]
    (snd (engine_step sample_fmt silence_op (snd (engine_step sample_fmt sample_op New_engine))))"
  by (rule engine_reach.step [OF engine_reach.step [OF engine_reach.start]]) simp_all

theorem resolution_follows_opening_witness:
  "\<exists>t. last_change ''k'' [(sample_op, fst (engine_step sample_fmt sample_op New_engine))]
      = Some (t, opened ''k'' StPending False) \<or>
    last_change ''k'' [(sample_op, fst (engine_step sample_fmt sample_op New_engine))]
      = Some (t, opened ''k'' StFiring True)"
proof -
  let ?ds = "fst (engine_step sample_fmt silence_op (snd (engine_step sample_fmt sample_op New_engine)))"
  have "?ds = [resolved ''k'' ''silence_timeout'' False]" by code_simp
  then have "resolved ''k'' ''silence_timeout'' False \<in> set ?ds" by simp
  from resolution_follows_opening [OF silence_reach this] show ?thesis by simp
qed

section \<open>Counting rules\<close>

text \<open>
  C9. On a new alert the events of a \<open>count_total\<close> rule without a pending stage notify exactly
  once, at the first event whose running total of \<open>agg_cnt\<close> reaches the threshold, and not at all
  when none does, for every sequence of events with no tick between them whose total fits 64 bits.
\<close>

theorem count_total_exact:
  assumes "rc_AlertType rule = ''count_total''" "\<not> rp_Enabled (rc_Pending rule)"
    and "eng_get e k = None"
    and "\<forall>(ev, t) \<in> set xs. 1 \<le> ev_AggCnt ev" "agg_sum xs \<le> max_int64"
  shows "map dc_ShouldNotify (fst (feed f rule k xs e)) = latch (total_reached (rr_N (rc_Raise rule)) xs)"
proof (cases xs)
  case Nil
  then show ?thesis by (simp add: latch_def total_reached_def)
next
  case (Cons x ys)
  obtain ev now where x: "x = (ev, now)" by force
  have "rs_CurrentState (new_state f rule ev k) = StNone" "rs_CountTotal (new_state f rule ev k) = 0"
    by (simp_all add: new_state_def)
  from count_total_run [OF assms(1,2) this assms(4,5)] feed_fresh(1) [OF assms(3), of f rule ev now ys] show ?thesis
    by (simp add: Cons x)
qed

definition three_events :: "(event \<times> gtime) list" where
  "three_events = [(sample_event, 1000000000), (sample_event, 2000000000), (sample_event, 3000000000)]"

theorem count_total_exact_witness:
  "map dc_ShouldNotify (fst (feed sample_fmt count_rule ''k'' three_events New_engine)) =
     latch (total_reached 2 three_events) \<and>
   latch (total_reached 2 three_events) = [False, True, False]"
proof -
  have "map dc_ShouldNotify (fst (feed sample_fmt count_rule ''k'' three_events New_engine)) =
      latch (total_reached (rr_N (rc_Raise count_rule)) three_events)"
    by (rule count_total_exact)
      (simp_all add: sample_rules three_events_def sample_events New_engine_def agg_sum_def max_int64_def)
  moreover have "latch (total_reached 2 three_events) = [False, True, False]" by code_simp
  ultimately show ?thesis by (simp add: count_rule_def)
qed

text \<open>
  C8. The incremental window of a \<open>count_window\<close> rule is exact: for every sequence of events
  in order of time, the stored points are the points of the whole history that lie within the
  window before the last event, the running sum is their sum, and the rule (without a pending
  stage) notifies at the first event at which that sum reaches the threshold, as long as no tick
  comes between and the total of the history fits 64 bits.
\<close>

theorem count_window_exact:
  assumes "rc_AlertType rule = ''count_window''" "\<not> rp_Enabled (rc_Pending rule)"
    and "0 < rr_WindowSec (rc_Raise rule)" "rr_WindowSec (rc_Raise rule) \<le> 9223372036"
    and "eng_get e k = None" "xs \<noteq> []"
    and "\<forall>(ev, t) \<in> set xs. 1 \<le> ev_AggCnt ev" "agg_sum xs \<le> max_int64" "times_sorted xs"
  shows "map dc_ShouldNotify (fst (feed f rule k xs e)) =
      latch (window_reached (rr_N (rc_Raise rule)) (rr_WindowSec (rc_Raise rule) * 1000000000) xs) \<and>
    (\<exists>st. eng_get (snd (feed f rule k xs e)) k = Some st \<and>
      rs_CountWindow st = recent (rr_WindowSec (rc_Raise rule) * 1000000000) xs \<and>
      rs_CountWindowSum st = window_total (rs_CountWindow st))"
proof -
  have w: "seconds (rr_WindowSec (rc_Raise rule)) = rr_WindowSec (rc_Raise rule) * 1000000000"
    using assms(3,4) by (simp add: seconds_exact)
  obtain ev now ys where xs: "xs = (ev, now) # ys" using assms(6) by (metis list.exhaust surj_pair)
  have pos: "0 < seconds (rr_WindowSec (rc_Raise rule))" using w assms(3) by simp
  have "rs_CurrentState (new_state f rule ev k) = StNone" "rs_CountWindow (new_state f rule ev k) = []"
      "rs_CountWindowSum (new_state f rule ev k) = 0"
    by (simp_all add: new_state_def)
  note run = count_window_run [OF assms(1,2) pos this assms(7-9), of f k]
  have "map dc_ShouldNotify (fst (feed f rule k xs e)) =
      latch (window_reached (rr_N (rc_Raise rule)) (rr_WindowSec (rc_Raise rule) * 1000000000) xs)"
    using run feed_fresh(1) [OF assms(5), of f rule ev now ys] by (simp add: xs w)
  moreover have "\<exists>st. eng_get (snd (feed f rule k xs e)) k = Some st \<and>
      rs_CountWindow st = recent (rr_WindowSec (rc_Raise rule) * 1000000000) xs \<and>
      rs_CountWindowSum st = window_total (rs_CountWindow st)"
    using run feed_fresh(2) [OF assms(5), of f rule ev now ys] by (simp add: xs w)
  ultimately show ?thesis ..
qed

definition spread_events :: "(event \<times> gtime) list" where
  "spread_events = [(sample_event, 1000000000), (sample_event, 20000000000), (sample_event, 25000000000)]"

theorem count_window_exact_witness:
  "map dc_ShouldNotify (fst (feed sample_fmt window_rule ''k'' spread_events New_engine)) = [False, False, True]"
proof -
  have "map dc_ShouldNotify (fst (feed sample_fmt window_rule ''k'' spread_events New_engine)) =
      latch (window_reached (rr_N (rc_Raise window_rule)) (rr_WindowSec (rc_Raise window_rule) * 1000000000) spread_events)"
    by (rule conjunct1 [OF count_window_exact])
      (simp_all add: sample_rules spread_events_def sample_events New_engine_def agg_sum_def max_int64_def times_sorted_def)
  also have "\<dots> = [False, False, True]" by code_simp
  finally show ?thesis .
qed

text \<open>
  C29. A tick of a count rule resolves an active alert exactly when its last event lies the sum
  of silence and hysteresis before, whole seconds without overflow, and otherwise leaves the
  state alone and says nothing about the alert.
\<close>

theorem silence_resolution:
  assumes "wf_engine e" "eng_get e k = Some st" "is_count_rule rule" "rs_RuleName st = rc_Name rule"
    and "is_active st" "sane_resolve rule" "rs_LastSeen st \<le> now"
  shows "about k (fst (fst (TickRuleWithFiring e rule now))) =
      (if rs_LastSeen st + (rv_SilenceSec (rc_Resolve rule) + rv_HysteresisSec (rc_Resolve rule)) * 1000000000 \<le> now
       then [resolved k ''silence_timeout'' False] else []) \<and>
    eng_get (snd (TickRuleWithFiring e rule now)) k =
      (if rs_LastSeen st + (rv_SilenceSec (rc_Resolve rule) + rv_HysteresisSec (rc_Resolve rule)) * 1000000000 \<le> now
       then Some (resetResolvedState st) else Some st)"
  using count_tick_silence [OF assms(3-7)] tick_decisions_of [OF assms(1,2), of rule now]
    wf_engine_get(1) [OF assms(1,2)]
  by simp_all

theorem silence_resolution_witness:
  "about ''k'' (fst (fst (TickRuleWithFiring sample_engine eager_rule (100 + 5 * 1000000000)))) =
     [resolved ''k'' ''silence_timeout'' False]"
proof -
  let ?st = "(new_state sample_fmt eager_rule sample_event ''k'')
     \<lparr>rs_LastSeen := 100, rs_Initialized := True, rs_CountTotal := 1, rs_ActiveCount := 1,
      rs_RaisedAt := 100, rs_CurrentState := StFiring\<rparr>"
  have "is_count_rule eager_rule" "rs_RuleName ?st = rc_Name eager_rule" "is_active ?st" "sane_resolve eager_rule"
    "rs_LastSeen ?st \<le> 100 + 5 * 1000000000"
    by (simp_all add: is_count_rule_def is_active_def sane_resolve_def sample_rules new_state_def)
  from conjunct1 [OF silence_resolution, OF sample_engine_wf sample_engine_eq this] show ?thesis
    by (simp add: sample_rules)
qed

definition overflow_rule :: rule_config where
  "overflow_rule = eager_rule\<lparr>rc_Resolve := \<lparr>rv_SilenceSec = 9223372037, rv_HysteresisSec = 0\<rparr>\<rparr>"

text \<open>
  The sum of the resolve settings is taken in 64-bit nanoseconds: with a silence of
  9223372037 seconds (accepted by the validation) the duration is negative and the next tick
  resolves the alert at the very instant of its last event.
\<close>

lemma silence_overflow_resolves_at_once:
  "fst (fst (TickRuleWithFiring
      (snd (engine_ProcessEvent sample_fmt New_engine overflow_rule sample_event ''k'' 100)) overflow_rule 100)) =
    [resolved ''k'' ''silence_timeout'' False]"
  by code_simp

section \<open>Heartbeats\<close>

text \<open>
  A \<open>missing_heartbeat\<close> alert is opened by a tick exactly when a heartbeat was seen before
  and the last one is at least the missing time ago; before the first heartbeat and while
  heartbeats arrive the tick of an idle alert says nothing.
\<close>

lemma heartbeat_opened_when_missing:
  assumes "wf_engine e" "eng_get e k = Some st" "rc_AlertType rule = ''missing_heartbeat''"
    and "rs_RuleName st = rc_Name rule" "rs_CurrentState st = StNone"
  shows "about k (fst (fst (TickRuleWithFiring e rule now))) =
    (if rs_Initialized st \<and> seconds (rr_MissingSec (rc_Raise rule)) \<le> time_Sub now (rs_LastSeen st)
     then [if rp_Enabled (rc_Pending rule) then opened k StPending False else opened k StFiring True]
     else [])"
proof -
  have "rs_PendingSince st = None"
    using wf_engine_get(2) [OF assms(1,2)] assms(5) by (simp add: wf_state_def)
  from heartbeat_raise [OF assms(3-5) this, of now] tick_decisions_of(1) [OF assms(1,2), of rule now]
  show ?thesis by (simp only: wf_engine_get(1) [OF assms(1,2)])
qed

lemma beat_engine_eq:
  "eng_get beat_engine ''k'' = Some ((new_state sample_fmt heartbeat_rule sample_event ''k'')
     \<lparr>rs_LastSeen := 100, rs_Initialized := True\<rparr>)"
  by code_simp

lemma beat_engine_wf: "wf_engine beat_engine"
  unfolding beat_engine_def by (rule wf_engine_event) simp

lemma heartbeat_opened_when_missing_witness:
  "about ''k'' (fst (fst (TickRuleWithFiring beat_engine heartbeat_rule (100 + 10 * 1000000000)))) =
     [opened ''k'' StFiring True]"
proof -
  let ?st = "(new_state sample_fmt heartbeat_rule sample_event ''k'')\<lparr>rs_LastSeen := 100, rs_Initialized := True\<rparr>"
  have "rc_AlertType heartbeat_rule = ''missing_heartbeat''" "rs_RuleName ?st = rc_Name heartbeat_rule"
      "rs_CurrentState ?st = StNone"
    by (simp_all add: sample_rules new_state_def)
  from heartbeat_opened_when_missing [OF beat_engine_wf beat_engine_eq this, of "100 + 10 * 1000000000"] show ?thesis
    by (simp add: sample_rules seconds_def time_Sub_def int64_defs)
qed

text \<open>
  Flap protection: a heartbeat resolves an active alert at once only when no hysteresis is
  configured or the first heartbeat of the recovery is at least that long ago; until then the
  alert keeps its state and only its tick is refreshed.
\<close>

lemma heartbeat_recovery_waits:
  assumes "eng_get e k = Some st" "rc_AlertType rule = ''missing_heartbeat''" "rs_Initialized st" "is_active st"
  shows "fst (engine_ProcessEvent f e rule ev k now) =
    (if seconds (rv_HysteresisSec (rc_Resolve rule)) \<le> 0 \<or>
        seconds (rv_HysteresisSec (rc_Resolve rule)) \<le>
          time_Sub now (case rs_HysteresisSince st of Some t \<Rightarrow> t | None \<Rightarrow> now)
     then resolved k ''heartbeat_recovered'' True
     else refresh k (rs_CurrentState st))"
  using assms
  by (auto simp: engine_ProcessEvent_def ensureState_def event_state_def heartbeat_event_def is_active_def Let_def
      split: option.splits)

definition alarmed_engine :: engine where
  "alarmed_engine = snd (TickRuleWithFiring beat_engine heartbeat_rule (100 + 10 * 1000000000))"

lemma heartbeat_recovery_waits_witness:
  "fst (engine_ProcessEvent sample_fmt alarmed_engine heartbeat_rule sample_event ''k'' (100 + 11 * 1000000000)) =
     refresh ''k'' StFiring"
proof -
  let ?st = "(new_state sample_fmt heartbeat_rule sample_event ''k'')
     \<lparr>rs_LastSeen := 100, rs_Initialized := True, rs_RaisedAt := 100 + 10 * 1000000000, rs_CurrentState := StFiring\<rparr>"
  have st: "eng_get alarmed_engine ''k'' = Some ?st" by code_simp
  have "rc_AlertType heartbeat_rule = ''missing_heartbeat''" "rs_Initialized ?st" "is_active ?st"
    by (simp_all add: sample_rules is_active_def)
  from heartbeat_recovery_waits [OF st this, of sample_fmt sample_event "100 + 11 * 1000000000"] show ?thesis
    by (simp add: sample_rules seconds_def new_state_def int64_defs)
qed

lemma tick_firing_ids:
  assumes "k \<in> set (snd (snd (tick_state rule now st)))" "wf_state st"
  shows "rs_AlertID st = k"
  using assms heartbeat_tick_wf(2) [OF assms(2), of rule now]
  by (auto simp: tick_state_def count_tick_def heartbeat_tick_def Let_def applyActiveCondition_def
      split: if_splits alert_state.splits option.splits)

text \<open>
  While its heartbeat is missing, a firing \<open>missing_heartbeat\<close> alert is never in the list
  of firing alerts that the tick returns, so the repeat notifications, which are sent for
  exactly that list, do not reach it; without hysteresis the alert is not listed at all.
\<close>

lemma heartbeat_firing_not_listed:
  assumes "wf_engine e" "eng_get e k = Some st" "rc_AlertType rule = ''missing_heartbeat''"
    and "seconds (rr_MissingSec (rc_Raise rule)) \<le> time_Sub now (rs_LastSeen st) \<or>
      seconds (rv_HysteresisSec (rc_Resolve rule)) \<le> 0"
  shows "k \<notin> set (snd (fst (TickRuleWithFiring e rule now)))"
proof
  assume "k \<in> set (snd (fst (TickRuleWithFiring e rule now)))"
  then obtain j s where js: "(j, s) \<in> set (eng_states e)" "k \<in> set (snd (snd (tick_state rule now s)))"
    by (auto simp: TickRuleWithFiring_def Let_def tick_loop_firing)
  have s: "eng_get e j = Some s" using assms(1) js(1) in_set_map_get [of "eng_states e" j s] by (simp add: wf_engine_def)
  have "rs_AlertID s = k" using tick_firing_ids [OF js(2) wf_engine_get(2) [OF assms(1) s]] by simp
  then have "s = st" using wf_engine_get(1) [OF assms(1) s] s assms(2) by simp
  then show False
    using js(2) assms(4) heartbeat_missing_not_listed [OF assms(3)] heartbeat_no_hysteresis_not_listed [OF assms(3)]
    by auto
qed

lemma heartbeat_firing_not_listed_witness:
  "''k'' \<notin> set (snd (fst (TickRuleWithFiring alarmed_engine heartbeat_rule (100 + 20 * 1000000000)))) \<and>
   map_option rs_CurrentState (eng_get alarmed_engine ''k'') = Some StFiring"
proof
  let ?st = "(new_state sample_fmt heartbeat_rule sample_event ''k'')
     \<lparr>rs_LastSeen := 100, rs_Initialized := True, rs_RaisedAt := 100 + 10 * 1000000000, rs_CurrentState := StFiring\<rparr>"
  have st: "eng_get alarmed_engine ''k'' = Some ?st" by code_simp
  have wf: "wf_engine alarmed_engine" unfolding alarmed_engine_def by (rule wf_engine_tick [OF beat_engine_wf])
  show "''k'' \<notin> set (snd (fst (TickRuleWithFiring alarmed_engine heartbeat_rule (100 + 20 * 1000000000))))"
    by (rule heartbeat_firing_not_listed [OF wf st])
      (simp_all add: sample_rules seconds_def time_Sub_def int64_defs)
  show "map_option rs_CurrentState (eng_get alarmed_engine ''k'') = Some StFiring" by (simp add: st)
qed

section \<open>Ticks and compaction\<close>

text \<open>
  The outcome of a tick does not depend on the iteration order of Go's map: for two orders
  of the same entries the new states, the decisions and the firing ids are the same up to
  order.
\<close>

lemma tick_order_irrelevant:
  assumes "mset (eng_states e) = mset (eng_states e')"
  shows "mset (eng_states (snd (TickRuleWithFiring e rule now))) = mset (eng_states (snd (TickRuleWithFiring e' rule now))) \<and>
    mset (fst (fst (TickRuleWithFiring e rule now))) = mset (fst (fst (TickRuleWithFiring e' rule now))) \<and>
    mset (snd (fst (TickRuleWithFiring e rule now))) = mset (snd (fst (TickRuleWithFiring e' rule now)))"
  using tick_loop_mset [OF assms, of rule now] by (simp_all add: TickRuleWithFiring_def Let_def)

definition two_engine :: "bool \<Rightarrow> engine" where
  "two_engine swap =
     (let a = (''a'', new_state sample_fmt eager_rule sample_event ''a'');
          b = (''b'', new_state sample_fmt eager_rule sample_event ''b'')
      in \<lparr>eng_states = (if swap then [b, a] else [a, b])\<rparr>)"

lemma tick_order_irrelevant_witness:
  "mset (fst (fst (TickRuleWithFiring (two_engine False) eager_rule 7))) =
   mset (fst (fst (TickRuleWithFiring (two_engine True) eager_rule 7)))"
  by (rule conjunct1 [OF conjunct2 [OF tick_order_irrelevant]]) (simp add: two_engine_def Let_def)

text \<open>
  C30. Compaction is safe and effective: it never drops or changes an alert that is pending or
  firing, it brings the number of states down to the cap or to the number of active alerts,
  and an idle state it keeps was seen no earlier than any it evicts for the cap.
\<close>

theorem compaction_safe:
  assumes "wf_engine e" "0 < maxStates"
  shows "(\<forall>k st. eng_get e k = Some st \<and> rs_CurrentState st \<noteq> StNone \<longrightarrow>
      eng_get (snd (CompactStates e now ttl maxStates)) k = Some st) \<and>
    length (eng_states (snd (CompactStates e now ttl maxStates))) \<le> max (nat maxStates) (active_count e) \<and>
    (\<forall>(j, t) \<in> set (victims e now ttl maxStates). \<forall>i kept.
      eng_get (snd (CompactStates e now ttl maxStates)) i = Some kept \<and> rs_CurrentState kept = StNone \<longrightarrow>
      t \<le> rs_LastSeen kept)"
  using compact_get_active [OF assms(1)] compact_size [OF assms] compact_oldest_first [OF assms(1)]
  by (blast intro: case_prodI2)

theorem compaction_safe_witness:
  "length (eng_states (snd (CompactStates sample_engine 200 0 1))) \<le> max (nat 1) (active_count sample_engine)"
  by (rule conjunct1 [OF conjunct2 [OF compaction_safe [OF sample_engine_wf]]]) simp

end
