(* ===== verification/Matcher.thy ===== *)
theory Matcher
  imports Config_Norm
begin

text \<open>
  Rule matching of \<open>internal/engine/matcher.go\<close>. A dereference of a nil operand is a panic
  (\<open>ErrPanic\<close>), so the safety of matching is a statement about values: for a validated
  predicate and a validated event it does not happen. \<open>regexp.Compile\<close> is the argument
  \<open>compile\<close>.
\<close>

section \<open>Matching\<close>

definition containsString :: "string list \<Rightarrow> string \<Rightarrow> bool" where
  "containsString values expected \<longleftrightarrow> list_ex (\<lambda>v. v = expected) values"

definition containsStringInsensitive :: "string list \<Rightarrow> string \<Rightarrow> bool" where
  "containsStringInsensitive values expected \<longleftrightarrow> list_ex (\<lambda>v. EqualFold v expected) values"

definition deref :: "string \<Rightarrow> 'a option \<Rightarrow> ('a \<Rightarrow> 'b result) \<Rightarrow> 'b result" where
  "deref what p k = (case p of None \<Rightarrow> Inl (ErrPanic what) | Some x \<Rightarrow> k x)"

definition unsupported :: "value_predicate \<Rightarrow> bool result" where
  "unsupported p = Inl (ErrFmt ''unsupported value predicate %s/%s'' [vp_Type p, vp_Op p])"

definition matchNumber :: "value_predicate \<Rightarrow> typed_value \<Rightarrow> bool result" where
  "matchNumber p v =
     deref ''value.N'' (tv_N v) (\<lambda>lhs. deref ''predicate.N'' (vp_N p) (\<lambda>rhs.
       if vp_Op p = ''=='' then Inr (f64_eq lhs rhs)
       else if vp_Op p = ''!='' then Inr (\<not> f64_eq lhs rhs)
       else if vp_Op p = ''>'' then Inr (f64_lt rhs lhs)
       else if vp_Op p = ''>='' then Inr (f64_le rhs lhs)
       else if vp_Op p = ''<'' then Inr (f64_lt lhs rhs)
       else if vp_Op p = ''<='' then Inr (f64_le lhs rhs)
       else unsupported p))"

definition matchText :: "(string \<Rightarrow> regex result) \<Rightarrow> value_predicate \<Rightarrow> typed_value \<Rightarrow> bool result" where
  "matchText compile p v =
     deref ''value.S'' (tv_S v) (\<lambda>lhs.
       if vp_Op p = ''=='' then deref ''predicate.S'' (vp_S p) (\<lambda>s. Inr (EqualFold lhs s))
       else if vp_Op p = ''!='' then deref ''predicate.S'' (vp_S p) (\<lambda>s. Inr (\<not> EqualFold lhs s))
       else if vp_Op p = ''prefix'' then
         deref ''predicate.S'' (vp_S p) (\<lambda>s. Inr (HasPrefix (ToLower lhs) (ToLower s)))
       else if vp_Op p = ''in'' then Inr (containsStringInsensitive (vp_In p) lhs)
       else if vp_Op p = ''match'' then
         (case vp_CompiledMatchRE p of Some re \<Rightarrow> Inr (re lhs)
          | None \<Rightarrow> deref ''predicate.S'' (vp_S p) (\<lambda>s.
              case compile s of Inl err \<Rightarrow> Inl err | Inr re \<Rightarrow> Inr (re lhs)))
       else if vp_Op p = ''*'' then
         (case vp_CompiledWildcardRE p of Some re \<Rightarrow> Inr (re (ToLower lhs))
          | None \<Rightarrow> deref ''predicate.S'' (vp_S p) (\<lambda>s.
              case CompileWildcardPattern compile s of Inl err \<Rightarrow> Inl err | Inr re \<Rightarrow> Inr (re (ToLower lhs))))
       else unsupported p)"

definition matchBool :: "value_predicate \<Rightarrow> typed_value \<Rightarrow> bool result" where
  "matchBool p v =
     deref ''value.B'' (tv_B v) (\<lambda>lhs. deref ''predicate.B'' (vp_B p) (\<lambda>rhs.
       if vp_Op p = ''=='' then Inr (lhs = rhs)
       else if vp_Op p = ''!='' then Inr (lhs \<noteq> rhs)
       else unsupported p))"

definition matchValue :: "(string \<Rightarrow> regex result) \<Rightarrow> value_predicate \<Rightarrow> typed_value \<Rightarrow> bool result" where
  "matchValue compile p v =
     (if vp_Type p \<noteq> tv_Type v then Inr False
      else if \<not> IsSupportedValuePredicateOp (vp_Type p) (vp_Op p) then unsupported p
      else if vp_Type p = ''n'' then matchNumber p v
      else if vp_Type p = ''s'' then matchText compile p v
      else if vp_Type p = ''b'' then matchBool p v
      else unsupported p)"

text \<open>The loop over \<open>rule.Match.Tags\<close>; it stops at the first tag that fails.\<close>

fun match_tags :: "(string, string list) gmap \<Rightarrow> (string, string) gmap \<Rightarrow> bool" where
  "match_tags [] tags = True"
| "match_tags ((tagKey, allowed) # rest) tags =
     (case map_get tags tagKey of None \<Rightarrow> False
      | Some eventValue \<Rightarrow>
          if \<not> containsStringInsensitive allowed eventValue then False else match_tags rest tags)"

text \<open>\<open>MatchEvent\<close>: an evaluation error is no match; only a panic escapes.\<close>

definition MatchEvent :: "(string \<Rightarrow> regex result) \<Rightarrow> rule_config \<Rightarrow> event \<Rightarrow> bool result" where
  "MatchEvent compile rule ev =
     (if \<not> containsString (rm_Type (rc_Match rule)) (ev_Type ev) then Inr False
      else if \<not> containsString (rm_Var (rc_Match rule)) (ev_Var ev) then Inr False
      else if \<not> match_tags (rm_Tags (rc_Match rule)) (ev_Tags ev) then Inr False
      else (case rm_Value (rc_Match rule) of None \<Rightarrow> Inr True
        | Some p \<Rightarrow> (case matchValue compile p (ev_Value ev) of
              Inl (ErrPanic what) \<Rightarrow> Inl (ErrPanic what)
            | Inl _ \<Rightarrow> Inr False
            | Inr ok \<Rightarrow> Inr ok)))"

definition ValidateKeyTags :: "rule_config \<Rightarrow> event \<Rightarrow> error option" where
  "ValidateKeyTags rule ev =
     (case find (\<lambda>key. map_get (ev_Tags ev) key = None) (rc_Key_FromTags rule) of
        None \<Rightarrow> None | Some key \<Rightarrow> Some (ErrFmt ''missing key tag %q'' [key]))"

section \<open>Specification\<close>

text \<open>
  The meaning of a validated predicate on a validated value, as a relation of the operand and
  the value without any error case. The regular expressions are those the validation compiled.
\<close>

definition predicate_holds :: "(string \<Rightarrow> regex result) \<Rightarrow> value_predicate \<Rightarrow> typed_value \<Rightarrow> bool" where
  "predicate_holds compile p v \<longleftrightarrow>
     vp_Type p = tv_Type v \<and>
     (case (tv_Type v = ''n'', tv_Type v = ''s'') of
        (True, _) \<Rightarrow>
          (let lhs = the (tv_N v); rhs = the (vp_N p) in
           (vp_Op p = ''=='' \<and> f64_eq lhs rhs) \<or> (vp_Op p = ''!='' \<and> \<not> f64_eq lhs rhs) \<or>
           (vp_Op p = ''>'' \<and> f64_lt rhs lhs) \<or> (vp_Op p = ''>='' \<and> f64_le rhs lhs) \<or>
           (vp_Op p = ''<'' \<and> f64_lt lhs rhs) \<or> (vp_Op p = ''<='' \<and> f64_le lhs rhs))
      | (False, True) \<Rightarrow>
          (let lhs = the (tv_S v); s = the (vp_S p) in
           (vp_Op p = ''=='' \<and> EqualFold lhs s) \<or> (vp_Op p = ''!='' \<and> \<not> EqualFold lhs s) \<or>
           (vp_Op p = ''prefix'' \<and> HasPrefix (ToLower lhs) (ToLower s)) \<or>
           (vp_Op p = ''in'' \<and> (\<exists>x \<in> set (vp_In p). EqualFold x lhs)) \<or>
           (vp_Op p = ''match'' \<and> (\<exists>re. compile s = Inr re \<and> re lhs)) \<or>
           (vp_Op p = ''*'' \<and> (\<exists>re. CompileWildcardPattern compile s = Inr re \<and> re (ToLower lhs))))
      | (False, False) \<Rightarrow>
          (vp_Op p = ''=='' \<and> the (tv_B v) = the (vp_B p)) \<or>
          (vp_Op p = ''!='' \<and> the (tv_B v) \<noteq> the (vp_B p)))"

definition selector_holds :: "rule_config \<Rightarrow> event \<Rightarrow> bool" where
  "selector_holds rule ev \<longleftrightarrow>
     ev_Type ev \<in> set (rm_Type (rc_Match rule)) \<and> ev_Var ev \<in> set (rm_Var (rc_Match rule)) \<and>
     (\<forall>(key, allowed) \<in> set (rm_Tags (rc_Match rule)).
        \<exists>value. map_get (ev_Tags ev) key = Some value \<and> (\<exists>a \<in> set allowed. EqualFold a value))"

text \<open>A rule whose value predicate, if it has one, is the result of a successful validation.\<close>

definition validated_match :: "(string \<Rightarrow> regex result) \<Rightarrow> rule_config \<Rightarrow> bool" where
  "validated_match compile rule \<longleftrightarrow>
     (case rm_Value (rc_Match rule) of None \<Rightarrow> True
      | Some p \<Rightarrow> \<exists>p0. validateValuePredicate compile p0 = Inr p)"

section \<open>Facts\<close>

lemma containsString_iff: "containsString xs x \<longleftrightarrow> x \<in> set xs"
  by (auto simp: containsString_def list_ex_iff)

lemma containsStringInsensitive_iff:
  "containsStringInsensitive xs x \<longleftrightarrow> (\<exists>a \<in> set xs. EqualFold a x)"
  by (simp add: containsStringInsensitive_def list_ex_iff)

lemma match_tags_iff:
  "match_tags ts tags \<longleftrightarrow> (\<forall>(key, allowed) \<in> set ts.
     \<exists>value. map_get tags key = Some value \<and> (\<exists>a \<in> set allowed. EqualFold a value))"
proof (induction ts)
  case (Cons t ts)
  obtain key allowed where "t = (key, allowed)" by (cases t)
  then show ?case using Cons by (cases "map_get tags key") (simp_all add: containsStringInsensitive_iff)
qed simp

lemma ops_n: "IsSupportedValuePredicateOp ''n'' op \<longleftrightarrow> op \<in> set [''=='', ''!='', ''>'', ''>='', ''<'', ''<='']"
  by (simp add: IsSupportedValuePredicateOp_def supportedValuePredicateOps_def)

lemma ops_s: "IsSupportedValuePredicateOp ''s'' op \<longleftrightarrow> op \<in> set [''=='', ''!='', ''in'', ''prefix'', ''match'', ''*'']"
  by (simp add: IsSupportedValuePredicateOp_def supportedValuePredicateOps_def)

lemma ops_b: "IsSupportedValuePredicateOp ''b'' op \<longleftrightarrow> op \<in> set [''=='', ''!='']"
  by (simp add: IsSupportedValuePredicateOp_def supportedValuePredicateOps_def)

lemma validated_n:
  assumes "validateValuePredicate compile p0 = Inr p" "vp_Type p0 = ''n''"
  shows "vp_Type p = ''n''" "IsSupportedValuePredicateOp ''n'' (vp_Op p)" "vp_N p \<noteq> None"
  using assms by (auto simp: validateValuePredicate_def Let_def split: if_splits)

lemma validated_b:
  assumes "validateValuePredicate compile p0 = Inr p" "vp_Type p0 = ''b''"
  shows "vp_Type p = ''b''" "IsSupportedValuePredicateOp ''b'' (vp_Op p)" "vp_B p \<noteq> None"
  using assms by (auto simp: validateValuePredicate_def Let_def split: if_splits)

text \<open>A validated text predicate: an operand unless the operator is \<open>in\<close>, and its regex.\<close>

definition wf_text_predicate :: "(string \<Rightarrow> regex result) \<Rightarrow> value_predicate \<Rightarrow> bool" where
  "wf_text_predicate compile p \<longleftrightarrow>
     IsSupportedValuePredicateOp ''s'' (vp_Op p) \<and> (vp_Op p = ''in'' \<or> vp_S p \<noteq> None) \<and>
     (vp_Op p = ''match'' \<longrightarrow> (\<exists>re. vp_CompiledMatchRE p = Some re \<and> compile (the (vp_S p)) = Inr re)) \<and>
     (vp_Op p = ''*'' \<longrightarrow>
       (\<exists>re. vp_CompiledWildcardRE p = Some re \<and> CompileWildcardPattern compile (the (vp_S p)) = Inr re))"

lemma validated_s:
  assumes "validateValuePredicate compile p0 = Inr p" "vp_Type p0 = ''s''"
  shows "vp_Type p = ''s''" "wf_text_predicate compile p"
proof -
  have op: "IsSupportedValuePredicateOp ''s'' (vp_Op p0)"
    by (rule ccontr) (use assms in \<open>simp add: validateValuePredicate_def Let_def\<close>)
  note unfold = validateValuePredicate_def Let_def
  have "vp_Type p = ''s'' \<and> wf_text_predicate compile p"
  proof (cases "vp_Op p0 = ''in''")
    case True
    then have "p = p0\<lparr>vp_CompiledMatchRE := None, vp_CompiledWildcardRE := None\<rparr>"
      using assms op by (simp add: unfold split: if_splits)
    then show ?thesis using assms(2) op True by (simp add: wf_text_predicate_def)
  next
    case notin: False
    then obtain s where s: "vp_S p0 = Some s"
      using assms op by (simp add: unfold split: if_splits option.splits)
    consider "vp_Op p0 = ''match''" | "vp_Op p0 = ''*''" | "vp_Op p0 \<noteq> ''match''" "vp_Op p0 \<noteq> ''*''" by blast
    then show ?thesis
    proof cases
      case 1
      then obtain re where re: "compile s = Inr re"
        using assms op s by (simp add: unfold split: sum.splits)
      then have "p = p0\<lparr>vp_CompiledWildcardRE := None, vp_CompiledMatchRE := Some re\<rparr>"
        using assms op s 1 by (simp add: unfold)
      then show ?thesis using assms(2) op 1 s re by (simp add: wf_text_predicate_def)
    next
      case 2
      then obtain re where re: "CompileWildcardPattern compile s = Inr re"
        using assms op s by (simp add: unfold split: sum.splits)
      then have "p = p0\<lparr>vp_CompiledMatchRE := None, vp_CompiledWildcardRE := Some re\<rparr>"
        using assms op s 2 by (simp add: unfold)
      then show ?thesis using assms(2) op 2 s re by (simp add: wf_text_predicate_def)
    next
      case 3
      then have "p = p0\<lparr>vp_CompiledMatchRE := None, vp_CompiledWildcardRE := None\<rparr>"
        using assms op notin s by (simp add: unfold)
      then show ?thesis using assms(2) op 3 notin s by (simp add: wf_text_predicate_def)
    qed
  qed
  then show "vp_Type p = ''s''" "wf_text_predicate compile p" by auto
qed

lemma validated_type:
  "validateValuePredicate compile p0 = Inr p \<Longrightarrow> vp_Type p0 = ''n'' \<or> vp_Type p0 = ''s'' \<or> vp_Type p0 = ''b''"
  by (rule ccontr) (simp add: validateValuePredicate_def Let_def)

lemma valid_value_cases:
  assumes "TypedValue_Validate v = None"
  shows "(tv_Type v = ''n'' \<and> tv_N v \<noteq> None) \<or> (tv_Type v = ''s'' \<and> tv_S v \<noteq> None) \<or>
    (tv_Type v = ''b'' \<and> tv_B v \<noteq> None)"
  using assms by (simp add: TypedValue_Validate_def split: if_splits)

lemma matchText_validated:
  assumes "wf_text_predicate compile p" "tv_S v = Some lhs" "tv_Type v = ''s''" "vp_Type p = ''s''"
  shows "matchText compile p v = Inr (predicate_holds compile p v)"
proof -
  have "vp_Op p \<in> set [''=='', ''!='', ''in'', ''prefix'', ''match'', ''*'']"
    using assms(1) by (simp add: wf_text_predicate_def ops_s)
  then consider "vp_Op p = ''==''" | "vp_Op p = ''!=''" | "vp_Op p = ''in''" | "vp_Op p = ''prefix''"
    | "vp_Op p = ''match''" | "vp_Op p = ''*''" by auto
  then show ?thesis
    by cases (use assms in \<open>auto simp: matchText_def deref_def predicate_holds_def wf_text_predicate_def
      containsStringInsensitive_iff\<close>)
qed

lemma matchValue_validated:
  assumes "validateValuePredicate compile p0 = Inr p" "TypedValue_Validate v = None"
  shows "matchValue compile p v = Inr (predicate_holds compile p v)"
proof (cases "vp_Type p = tv_Type v")
  case False
  then show ?thesis by (simp add: matchValue_def predicate_holds_def)
next
  case True
  consider (n) "vp_Type p0 = ''n''" | (s) "vp_Type p0 = ''s''" | (b) "vp_Type p0 = ''b''"
    using validated_type [OF assms(1)] by auto
  then show ?thesis
  proof cases
    case n
    note p = validated_n [OF assms(1) n]
    then obtain x y where "vp_N p = Some x" "tv_N v = Some y"
      using valid_value_cases [OF assms(2)] True by auto
    note xy = this
    have "vp_Op p \<in> set [''=='', ''!='', ''>'', ''>='', ''<'', ''<='']" using p(2) by (simp add: ops_n)
    then consider "vp_Op p = ''==''" | "vp_Op p = ''!=''" | "vp_Op p = ''>''" | "vp_Op p = ''>=''"
      | "vp_Op p = ''<''" | "vp_Op p = ''<=''" by auto
    then show ?thesis
      by cases (use p xy True in \<open>simp_all add: matchValue_def matchNumber_def deref_def predicate_holds_def\<close>)
  next
    case s
    note p = validated_s [OF assms(1) s]
    then obtain y where "tv_S v = Some y" using valid_value_cases [OF assms(2)] True by auto
    with matchText_validated [OF p(2) this] p True show ?thesis
      by (simp add: matchValue_def wf_text_predicate_def)
  next
    case b
    note p = validated_b [OF assms(1) b]
    then obtain x y where "vp_B p = Some x" "tv_B v = Some y"
      using valid_value_cases [OF assms(2)] True by auto
    note xy = this
    have "vp_Op p \<in> set [''=='', ''!='']" using p(2) by (simp add: ops_b)
    then consider "vp_Op p = ''==''" | "vp_Op p = ''!=''" by auto
    then show ?thesis
      by cases (use p xy True in \<open>simp_all add: matchValue_def matchBool_def deref_def predicate_holds_def\<close>)
  qed
qed

lemma MatchEvent_no_value:
  "rm_Value (rc_Match rule) = None \<Longrightarrow> MatchEvent compile rule ev = Inr (selector_holds rule ev)"
  by (simp add: MatchEvent_def selector_holds_def containsString_iff match_tags_iff)

lemma MatchEvent_validated:
  assumes "rm_Value (rc_Match rule) = Some p" "validateValuePredicate compile p0 = Inr p"
    and "Event_Validate ev = None"
  shows "MatchEvent compile rule ev =
    Inr (selector_holds rule ev \<and> predicate_holds compile p (ev_Value ev))"
proof -
  have "TypedValue_Validate (ev_Value ev) = None"
    using assms(3) by (simp add: Event_Validate_def split: if_splits option.splits)
  from matchValue_validated [OF assms(2) this] assms(1) show ?thesis
    by (simp add: MatchEvent_def selector_holds_def containsString_iff match_tags_iff)
qed

lemma ValidateKeyTags_None:
  "ValidateKeyTags rule ev = None \<longleftrightarrow> (\<forall>key \<in> set (rc_Key_FromTags rule). map_get (ev_Tags ev) key \<noteq> None)"
proof -
  have "ValidateKeyTags rule ev = None \<longleftrightarrow> find (\<lambda>key. map_get (ev_Tags ev) key = None) (rc_Key_FromTags rule) = None"
    by (simp add: ValidateKeyTags_def split: option.splits)
  then show ?thesis by (auto simp: find_None_iff)
qed

end
