(* ===== verification/Key_Builder.thy ===== *)
theory Key_Builder
  imports Config_Norm
begin

text \<open>
  Alert identifiers, from \<open>internal/engine/key_builder.go\<close>: the canonical text of the key
  tags, its hash and the sanitised path fragments. The lower-case hexadecimal SHA-1 of a byte
  string is the argument \<open>hexsha1\<close>. Strings are ordered byte by byte, as Go orders them.
\<close>

section \<open>Construction\<close>

definition sanitize_rune :: "nat \<Rightarrow> char" where
  "sanitize_rune r =
     (if 97 \<le> r \<and> r \<le> 122 then char_of r
      else if 65 \<le> r \<and> r \<le> 90 then char_of (r + 32)
      else if 48 \<le> r \<and> r \<le> 57 then char_of r
      else if r = 45 \<or> r = 95 \<or> r = 46 then char_of r
      else CHR ''_'')"

definition sanitize :: "string \<Rightarrow> string" where
  "sanitize raw =
     (let trimmed = TrimSpace raw in
      if trimmed = [] then ''_'' else map sanitize_rune (runes trimmed))"

definition sortedKeyTags :: "string list \<Rightarrow> string list" where
  "sortedKeyTags tags = (if length tags \<le> 1 \<or> sorted tags then tags else sort tags)"

text \<open>The first loop finds a missing tag; the second appends the parts.\<close>

fun missing_tag :: "string list \<Rightarrow> (string, string) gmap \<Rightarrow> string option" where
  "missing_tag [] tags = None"
| "missing_tag (tag # rest) tags = (if map_get tags tag = None then Some tag else missing_tag rest tags)"

fun append_parts :: "nat \<Rightarrow> string list \<Rightarrow> (string, string) gmap \<Rightarrow> string \<Rightarrow> string result" where
  "append_parts index [] tags canonical = Inr canonical"
| "append_parts index (tag # rest) tags canonical =
     (case map_get tags tag of
        None \<Rightarrow> Inl (ErrFmt ''required key tag %q is missing'' [tag])
      | Some value \<Rightarrow>
          append_parts (Suc index) rest tags
            (canonical @ (if index > 0 then ''\<newline>'' else []) @ tag @ ''='' @ value))"

definition BuildAlertKey :: "(string \<Rightarrow> string) \<Rightarrow> rule_config \<Rightarrow> event \<Rightarrow> string result" where
  "BuildAlertKey hexsha1 rule ev =
     (if TrimSpace (rc_Name rule) = [] then Inl (ErrMsg ''rule name is required'')
      else
        (let sortedTags = sortedKeyTags (rc_Key_FromTags rule) in
         case missing_tag sortedTags (ev_Tags ev) of
           Some tag \<Rightarrow> Inl (ErrFmt ''required key tag %q is missing'' [tag])
         | None \<Rightarrow>
             (case append_parts 0 sortedTags (ev_Tags ev) [] of
                Inl e \<Rightarrow> Inl e
              | Inr canonical \<Rightarrow>
                  Inr (''rule/'' @ sanitize (rc_Name rule) @ ''/'' @ sanitize (ev_Var ev) @ ''/'' @
                       hexsha1 canonical))))"

section \<open>Specification\<close>

text \<open>The canonical text: the parts \<open>tag=value\<close> of the sorted tags, one per line.\<close>

definition part :: "(string, string) gmap \<Rightarrow> string \<Rightarrow> string" where
  "part tags tag = tag @ ''='' @ the (map_get tags tag)"

fun join_lines :: "string list \<Rightarrow> string" where
  "join_lines [] = []"
| "join_lines [x] = x"
| "join_lines (x # y # xs) = x @ ''\<newline>'' @ join_lines (y # xs)"

definition canonical_text :: "string list \<Rightarrow> (string, string) gmap \<Rightarrow> string" where
  "canonical_text keys tags = join_lines (map (part tags) (sort keys))"

definition safe_char :: "char \<Rightarrow> bool" where
  "safe_char c \<longleftrightarrow> (let n = (of_char c :: nat) in
     (97 \<le> n \<and> n \<le> 122) \<or> (48 \<le> n \<and> n \<le> 57) \<or> n = 45 \<or> n = 95 \<or> n = 46)"

section \<open>Facts\<close>

lemma sortedKeyTags_sort [simp]: "sortedKeyTags tags = sort tags"
proof (cases "length tags \<le> 1")
  case True
  then have "sorted tags" by (cases tags) auto
  then show ?thesis by (simp add: sortedKeyTags_def sorted_sort_id)
qed (auto simp: sortedKeyTags_def sorted_sort_id)

lemma missing_tag_None: "missing_tag keys tags = None \<longleftrightarrow> (\<forall>k \<in> set keys. map_get tags k \<noteq> None)"
  by (induction keys) auto

lemma missing_tag_Some: "missing_tag keys tags = Some k \<Longrightarrow> k \<in> set keys \<and> map_get tags k = None"
  by (induction keys) (auto split: if_splits)

lemma append_parts_canonical:
  assumes "\<forall>k \<in> set keys. map_get tags k \<noteq> None"
  shows "append_parts i keys tags acc =
    Inr (acc @ (if i > 0 \<and> keys \<noteq> [] then ''\<newline>'' else []) @ join_lines (map (part tags) keys))"
  using assms
proof (induction keys arbitrary: i acc)
  case (Cons k keys)
  then obtain v where "map_get tags k = Some v" by auto
  with Cons show ?case by (cases keys) (auto simp: part_def)
qed simp

lemma BuildAlertKey_eq:
  "BuildAlertKey hexsha1 rule ev =
    (if TrimSpace (rc_Name rule) = [] then Inl (ErrMsg ''rule name is required'')
     else case missing_tag (sort (rc_Key_FromTags rule)) (ev_Tags ev) of
       Some tag \<Rightarrow> Inl (ErrFmt ''required key tag %q is missing'' [tag])
     | None \<Rightarrow> Inr (''rule/'' @ sanitize (rc_Name rule) @ ''/'' @ sanitize (ev_Var ev) @ ''/'' @
         hexsha1 (canonical_text (rc_Key_FromTags rule) (ev_Tags ev))))"
proof (cases "missing_tag (sort (rc_Key_FromTags rule)) (ev_Tags ev)")
  case None
  then have "\<forall>k \<in> set (sort (rc_Key_FromTags rule)). map_get (ev_Tags ev) k \<noteq> None"
    by (simp only: missing_tag_None)
  from append_parts_canonical [OF this, of 0 "[]"] show ?thesis
    by (simp add: BuildAlertKey_def Let_def None canonical_text_def)
qed (simp add: BuildAlertKey_def Let_def)

lemma BuildAlertKey_ok:
  "(\<exists>k. BuildAlertKey hexsha1 rule ev = Inr k) \<longleftrightarrow>
    TrimSpace (rc_Name rule) \<noteq> [] \<and> (\<forall>t \<in> set (rc_Key_FromTags rule). map_get (ev_Tags ev) t \<noteq> None)"
  using missing_tag_None [of "sort (rc_Key_FromTags rule)" "ev_Tags ev"]
  by (auto simp: BuildAlertKey_eq split: option.splits)

lemma BuildAlertKey_Inr:
  "BuildAlertKey hexsha1 rule ev = Inr k \<Longrightarrow>
    k = ''rule/'' @ sanitize (rc_Name rule) @ ''/'' @ sanitize (ev_Var ev) @ ''/'' @
         hexsha1 (canonical_text (rc_Key_FromTags rule) (ev_Tags ev))"
  by (auto simp: BuildAlertKey_eq split: if_splits option.splits)

lemma sanitize_rune_safe: "safe_char (sanitize_rune r)"
  by (auto simp: safe_char_def sanitize_rune_def Let_def)

lemma sanitize_safe: "c \<in> set (sanitize raw) \<Longrightarrow> safe_char c"
  using sanitize_rune_safe by (auto simp: sanitize_def Let_def split: if_splits) (simp add: safe_char_def)

lemma rune_values_nonempty: "ns \<noteq> [] \<Longrightarrow> rune_values ns \<noteq> []"
  by (cases ns) auto

lemma sanitize_nonempty: "sanitize raw \<noteq> []"
  by (auto simp: sanitize_def Let_def runes_def rune_values_nonempty)

lemma safe_char_facts:
  assumes "safe_char c"
  shows "\<not> is_space c" "(of_char c :: nat) < 128" "sanitize_rune (of_char c) = c" "lower_char c = c" "c \<noteq> CHR ''/''"
  using assms
  by (auto simp: safe_char_def is_space_def sanitize_rune_def lower_char_def Let_def)

lemma sanitize_of_safe:
  assumes "\<forall>c \<in> set s. safe_char c" "s \<noteq> []"
  shows "sanitize s = s"
proof -
  have "TrimSpace s = s" using assms(1) safe_char_facts(1) by (intro TrimSpace_no_space) blast
  moreover have "runes s = map of_char s" using assms(1) safe_char_facts(2) by (intro runes_ascii) blast
  moreover have "map (sanitize_rune \<circ> of_char) s = s" using assms(1) safe_char_facts(3) by (intro map_idI) auto
  ultimately show ?thesis using assms(2) by (simp add: sanitize_def)
qed

lemma sanitize_idem [simp]: "sanitize (sanitize raw) = sanitize raw"
  by (rule sanitize_of_safe) (auto simp: sanitize_nonempty sanitize_safe)

section \<open>When keys collide\<close>

text \<open>Texts without a newline that can be read back from the joined lines.\<close>

lemma line_split:
  "u @ n # v = u' @ n # v' \<Longrightarrow> n \<notin> set u \<Longrightarrow> n \<notin> set u' \<Longrightarrow> u = u' \<and> v = v'"
proof (induction u arbitrary: u')
  case Nil
  then show ?case by (cases u') auto
next
  case (Cons a u)
  then show ?case by (cases u') auto
qed

lemma join_lines_inj:
  assumes "length xs = length ys" "\<forall>x \<in> set xs. CHR ''\<newline>'' \<notin> set x" "\<forall>y \<in> set ys. CHR ''\<newline>'' \<notin> set y"
    and "join_lines xs = join_lines ys"
  shows "xs = ys"
  using assms
proof (induction xs ys rule: list_induct2)
  case (Cons x xs y ys)
  show ?case
  proof (cases xs)
    case Nil
    then show ?thesis using Cons by simp
  next
    case (Cons x' xs')
    then obtain y' ys' where ys: "ys = y' # ys'" using Cons.hyps by (cases ys) auto
    have "x @ CHR ''\<newline>'' # join_lines xs = y @ CHR ''\<newline>'' # join_lines ys"
      using Cons.prems(3) Cons ys by simp
    from line_split [OF this] Cons.prems Cons.IH show ?thesis by simp
  qed
qed simp

lemma canonical_text_inj:
  assumes "\<forall>k \<in> set keys. CHR ''\<newline>'' \<notin> set k \<and> CHR ''\<newline>'' \<notin> set (the (map_get t k)) \<and> CHR ''\<newline>'' \<notin> set (the (map_get t' k))"
    and "canonical_text keys t = canonical_text keys t'" "k \<in> set keys"
  shows "the (map_get t k) = the (map_get t' k)"
proof -
  have "map (part t) (sort keys) = map (part t') (sort keys)"
    using assms(1,2) by (intro join_lines_inj) (auto simp: canonical_text_def part_def)
  then show ?thesis using assms(3) by (auto simp: part_def)
qed

lemma canonical_text_perm:
  "mset keys = mset keys' \<Longrightarrow> canonical_text keys t = canonical_text keys' t"
proof -
  assume "mset keys = mset keys'"
  then have "sort keys = sort keys'" by (intro properties_for_sort) simp_all
  then show ?thesis by (simp add: canonical_text_def)
qed

end
