(* ===== verification/Notify_Off.thy ===== *)
theory Notify_Off
  imports Config_Norm
begin

text \<open>
  The notification off windows of \<open>internal/config/config.go\<close>: parsing of day tokens and
  clock values, compilation of a window and the test whether an instant lies in one.

  The time zone is an argument \<open>loc\<close>, the offset from UTC that holds at an instant
  (\<open>now.In(loc)\<close>). Instants count from a Monday, so the weekday of day \<open>d\<close> is
  \<open>(d + 1) mod 7\<close> in Go's numbering. The specification \<open>off_spec\<close> is the set of
  minutes of the week a window covers.
\<close>

section \<open>Calendar\<close>

type_synonym location = "gtime \<Rightarrow> int"

definition day_ns :: int where "day_ns = 86400 * 1000000000"
definition minute_ns :: int where "minute_ns = 60 * 1000000000"

text \<open>\<open>current.Hour() * 60 + current.Minute()\<close> and \<open>current.Weekday()\<close>.\<close>

definition minuteOfDay :: "location \<Rightarrow> gtime \<Rightarrow> int64" where
  "minuteOfDay loc t = ((t + loc t) mod day_ns) div minute_ns"

definition Weekday_of :: "location \<Rightarrow> gtime \<Rightarrow> nat" where
  "Weekday_of loc t = nat (((t + loc t) div day_ns + 1) mod 7)"

definition previousWeekday :: "nat \<Rightarrow> nat" where
  "previousWeekday day = (if day = 0 then 6 else day - 1)"

section \<open>Parsing\<close>

definition notifyOffWeekdays :: "(string, nat) gmap" where
  "notifyOffWeekdays = [(''mon'', 1), (''tue'', 2), (''wed'', 3), (''thu'', 4), (''fri'', 5),
     (''sat'', 6), (''sun'', 0)]"

fun parse_days_loop :: "string list \<Rightarrow> nat list \<Rightarrow> nat list result" where
  "parse_days_loop [] out = Inr out"
| "parse_days_loop (raw # rest) out =
     (case map_get notifyOffWeekdays (ToLower (TrimSpace raw)) of
        None \<Rightarrow> Inl (ErrFmt ''unsupported day %q'' [raw])
      | Some weekday \<Rightarrow> parse_days_loop rest (List.insert weekday out))"

definition parseNotifyOffDays :: "string list \<Rightarrow> nat list result" where
  "parseNotifyOffDays days =
     (if length days = 0 then Inl (ErrMsg ''days is required'') else parse_days_loop days [])"

definition parseNotifyOffClock :: "string \<Rightarrow> bool \<Rightarrow> int64 result" where
  "parseNotifyOffClock raw allow2400 =
     (let value = TrimSpace raw in
      if value = [] then Inl (ErrMsg ''time is required'')
      else (case Split value (CHR '':'') of
          [h, m] \<Rightarrow>
            (case Atoi h of None \<Rightarrow> Inl (ErrFmt ''invalid hour in %q'' [raw])
             | Some hour \<Rightarrow>
               (case Atoi m of None \<Rightarrow> Inl (ErrFmt ''invalid minute in %q'' [raw])
                | Some minute \<Rightarrow>
                    if minute < 0 \<or> minute > 59 then Inl (ErrFmt ''minute out of range in %q'' [raw])
                    else if allow2400 \<and> hour = 24 \<and> minute = 0 then Inr (24 * 60)
                    else if hour < 0 \<or> hour > 23 then Inl (ErrFmt ''hour out of range in %q'' [raw])
                    else Inr (hour * 60 + minute)))
        | _ \<Rightarrow> Inl (ErrFmt ''invalid time %q (expected HH:MM)'' [raw])))"

definition compileNotifyOffWindow :: "rule_off \<Rightarrow> compiled_off result" where
  "compileNotifyOffWindow window =
     (case parseNotifyOffDays (off_Days window) of Inl e \<Rightarrow> Inl e
      | Inr weekdays \<Rightarrow>
        (case parseNotifyOffClock (off_From window) False of Inl e \<Rightarrow> Inl (ErrWrap ''from: %w'' [] e)
         | Inr fromMinute \<Rightarrow>
           (case parseNotifyOffClock (off_To window) True of Inl e \<Rightarrow> Inl (ErrWrap ''to: %w'' [] e)
            | Inr toMinute \<Rightarrow>
                if fromMinute = toMinute
                then Inl (ErrMsg ''from and to must define non-empty interval'')
                else Inr \<lparr>co_Weekdays = weekdays, co_From = fromMinute, co_To = toMinute\<rparr>)))"

fun validateNotifyOff_from :: "nat \<Rightarrow> rule_off list \<Rightarrow> error option" where
  "validateNotifyOff_from i [] = None"
| "validateNotifyOff_from i (w # ws) =
     (case compileNotifyOffWindow w of
        Inl e \<Rightarrow> Some (ErrWrap ''notify.off[%d]: %w'' [FormatInt (int i)] e)
      | Inr _ \<Rightarrow> validateNotifyOff_from (Suc i) ws)"

definition validateNotifyOff :: "rule_off list \<Rightarrow> error option" where
  "validateNotifyOff windows = validateNotifyOff_from 0 windows"

section \<open>Evaluation\<close>

definition notifyOffContainsMinute :: "nat list \<Rightarrow> nat \<Rightarrow> nat \<Rightarrow> int \<Rightarrow> int \<Rightarrow> int \<Rightarrow> bool" where
  "notifyOffContainsMinute weekdays weekday prevWeekday minute fromMinute toMinute =
     (if fromMinute < toMinute then
        (if weekday \<notin> set weekdays then False else minute \<ge> fromMinute \<and> minute < toMinute)
      else if minute \<ge> fromMinute then weekday \<in> set weekdays
      else if minute < toMinute then prevWeekday \<in> set weekdays
      else False)"

fun off_loop :: "nat \<Rightarrow> nat \<Rightarrow> nat \<Rightarrow> int \<Rightarrow> rule_off list \<Rightarrow> bool result" where
  "off_loop i weekday prev minute [] = Inr False"
| "off_loop i weekday prev minute (w # ws) =
     (case (case off_compiled w of Some c \<Rightarrow> Inr c | None \<Rightarrow> compileNotifyOffWindow w) of
        Inl e \<Rightarrow> Inl (ErrWrap ''notify.off[%d]: %w'' [FormatInt (int i)] e)
      | Inr c \<Rightarrow>
          if notifyOffContainsMinute (co_Weekdays c) weekday prev minute (co_From c) (co_To c)
          then Inr True else off_loop (Suc i) weekday prev minute ws)"

definition NotifyOffActiveAt :: "location \<Rightarrow> rule_off list \<Rightarrow> gtime \<Rightarrow> bool result" where
  "NotifyOffActiveAt loc windows now =
     (if length windows = 0 then Inr False
      else let minute = minuteOfDay loc now;
               weekday = Weekday_of loc now;
               prevWeekday = previousWeekday weekday
           in off_loop 0 weekday prevWeekday minute windows)"

section \<open>Specification: minutes of the week\<close>

text \<open>
  A window opens at \<open>from\<close> on each of its days and stays open for \<open>off_length\<close>
  minutes, into the next day when it ends at or before its start. A minute of the week is in
  it when some opening lies less than that length before it, around the week's end.
\<close>

definition off_length :: "compiled_off \<Rightarrow> int" where
  "off_length c = (if co_From c < co_To c then co_To c - co_From c else co_To c - co_From c + 1440)"

definition off_spec :: "compiled_off \<Rightarrow> int \<Rightarrow> bool" where
  "off_spec c m \<longleftrightarrow>
     (\<exists>d \<in> set (co_Weekdays c). (m - (int d * 1440 + co_From c)) mod 10080 < off_length c)"

definition wf_off :: "compiled_off \<Rightarrow> bool" where
  "wf_off c \<longleftrightarrow> (\<forall>d \<in> set (co_Weekdays c). d < 7) \<and> co_Weekdays c \<noteq> []
     \<and> 0 \<le> co_From c \<and> co_From c < 1440 \<and> 0 \<le> co_To c \<and> co_To c \<le> 1440 \<and> co_From c \<noteq> co_To c"

section \<open>Facts\<close>

lemma minuteOfDay_range: "0 \<le> minuteOfDay loc t" "minuteOfDay loc t < 1440"
proof -
  let ?x = "(t + loc t) mod 86400000000000"
  have "0 \<le> ?x" "?x < 1440 * 60000000000" by simp_all
  then have "0 \<le> ?x div 60000000000" "?x div 60000000000 < 1440" by linarith+
  then show "0 \<le> minuteOfDay loc t" "minuteOfDay loc t < 1440"
    by (simp_all add: minuteOfDay_def day_ns_def minute_ns_def)
qed

lemma Weekday_of_range: "Weekday_of loc t < 7"
  by (simp add: Weekday_of_def nat_less_iff)

text \<open>One opening: day difference \<open>q\<close>, minute \<open>m\<close>, window from \<open>a\<close> to \<open>b\<close>.\<close>

lemma mod_week:
  fixes x :: int
  assumes "-10080 \<le> x" "x < 10080"
  shows "x mod 10080 = (if x < 0 then x + 10080 else x)"
proof (cases "x < 0")
  case True
  then have "(x + 10080) mod 10080 = x + 10080" using assms by (intro mod_pos_pos_trivial) auto
  then show ?thesis using True by simp
qed (use assms in simp)

lemma seven_cases:
  fixes q :: int
  assumes "-6 \<le> q" "q \<le> 6"
  obtains "q = 0" | "q = 1" | "q = -6" | "2 \<le> q" | "-5 \<le> q" "q \<le> -1"
  using assms by linarith

lemma opening_same_day:
  fixes q m a b :: int
  assumes "-6 \<le> q" "q \<le> 6" "0 \<le> m" "m < 1440" "0 \<le> a" "a < b" "b \<le> 1440"
  shows "(q * 1440 + (m - a)) mod 10080 < b - a \<longleftrightarrow> q = 0 \<and> a \<le> m \<and> m < b"
proof -
  have "(q * 1440 + (m - a)) mod 10080 =
      (if q * 1440 + (m - a) < 0 then q * 1440 + (m - a) + 10080 else q * 1440 + (m - a))"
    by (rule mod_week) (use assms in linarith)+
  then show ?thesis
    using assms by (cases rule: seven_cases [OF assms(1,2)]) (simp split: if_split, linarith?)+
qed

lemma opening_overnight:
  fixes q m a b :: int
  assumes "-6 \<le> q" "q \<le> 6" "0 \<le> m" "m < 1440" "0 \<le> b" "b < a" "a < 1440"
  shows "(q * 1440 + (m - a)) mod 10080 < b - a + 1440 \<longleftrightarrow>
    (q = 0 \<and> a \<le> m) \<or> ((q = 1 \<or> q = -6) \<and> m < b)"
proof -
  have "(q * 1440 + (m - a)) mod 10080 =
      (if q * 1440 + (m - a) < 0 then q * 1440 + (m - a) + 10080 else q * 1440 + (m - a))"
    by (rule mod_week) (use assms in linarith)+
  then show ?thesis
    using assms by (cases rule: seven_cases [OF assms(1,2)]) (simp split: if_split, linarith?)+
qed

lemma contains_minute_spec:
  assumes "wf_off c" "wd < 7" "0 \<le> m" "m < 1440"
  shows "notifyOffContainsMinute (co_Weekdays c) wd (previousWeekday wd) m (co_From c) (co_To c) \<longleftrightarrow>
    off_spec c (int wd * 1440 + m)"
proof -
  have arg: "int wd * 1440 + m - (int d * 1440 + co_From c) = (int wd - int d) * 1440 + (m - co_From c)"
    for d by (simp add: algebra_simps)
  have range: "-6 \<le> int wd - int d" "int wd - int d \<le> 6" if "d \<in> set (co_Weekdays c)" for d
    using assms(1,2) that by (auto simp: wf_off_def)
  show ?thesis
  proof (cases "co_From c < co_To c")
    case True
    have "(int wd * 1440 + m - (int d * 1440 + co_From c)) mod 10080 < off_length c \<longleftrightarrow>
        d = wd \<and> co_From c \<le> m \<and> m < co_To c" if "d \<in> set (co_Weekdays c)" for d
      unfolding arg using opening_same_day [OF range [OF that] assms(3,4)] True assms(1)
      by (auto simp: off_length_def wf_off_def)
    then show ?thesis using True by (auto simp: off_spec_def notifyOffContainsMinute_def)
  next
    case False
    then have lt: "co_To c < co_From c" using assms(1) by (auto simp: wf_off_def)
    have prev: "int wd - int d = 1 \<or> int wd - int d = -6 \<longleftrightarrow> d = previousWeekday wd"
      if "d \<in> set (co_Weekdays c)" for d
      using assms(1,2) that by (auto simp: previousWeekday_def wf_off_def)
    have "(int wd * 1440 + m - (int d * 1440 + co_From c)) mod 10080 < off_length c \<longleftrightarrow>
        d = wd \<and> co_From c \<le> m \<or> d = previousWeekday wd \<and> m < co_To c"
      if "d \<in> set (co_Weekdays c)" for d
      unfolding arg
      using opening_overnight [OF range [OF that] assms(3,4)] prev [OF that] lt False assms(1)
      by (auto simp: off_length_def wf_off_def)
    then show ?thesis using False lt by (auto simp: off_spec_def notifyOffContainsMinute_def)
  qed
qed

lemma case_not_two:
  "\<nexists>h k. xs = [h, k] \<Longrightarrow> (case xs of [h, k] \<Rightarrow> f h k | _ \<Rightarrow> z) = z"
  by (auto split: list.splits)

lemma parseNotifyOffClock_fields:
  assumes "parseNotifyOffClock raw allow = Inr m"
  obtains h k hour minute where "Split (TrimSpace raw) (CHR '':'') = [h, k]"
    "Atoi h = Some hour" "Atoi k = Some minute" "0 \<le> minute" "minute \<le> 59"
    "allow \<and> hour = 24 \<and> minute = 0 \<and> m = 1440 \<or>
     0 \<le> hour \<and> hour \<le> 23 \<and> m = hour * 60 + minute"
proof -
  have "\<exists>h k. Split (TrimSpace raw) (CHR '':'') = [h, k]"
    by (rule ccontr) (use assms in \<open>simp add: parseNotifyOffClock_def Let_def case_not_two split: if_splits\<close>)
  then obtain h k where hk: "Split (TrimSpace raw) (CHR '':'') = [h, k]" by auto
  from assms obtain hour where hour: "Atoi h = Some hour"
    by (simp add: parseNotifyOffClock_def Let_def hk split: if_splits option.splits)
  from assms obtain minute where minute: "Atoi k = Some minute"
    by (simp add: parseNotifyOffClock_def Let_def hk hour split: if_splits option.splits)
  show ?thesis
    by (rule that [OF hk hour minute])
      (use assms in \<open>auto simp: parseNotifyOffClock_def Let_def hk hour minute split: if_splits\<close>)
qed

lemma parseNotifyOffClock_range:
  assumes "parseNotifyOffClock raw allow = Inr m"
  shows "0 \<le> m" and "m < 1440 \<or> allow \<and> m = 1440"
  using assms by (auto elim!: parseNotifyOffClock_fields)

lemma parse_days_loop_range:
  "parse_days_loop days out = Inr ds \<Longrightarrow> \<forall>d \<in> set out. d < 7 \<Longrightarrow>
    (\<forall>d \<in> set ds. d < 7) \<and> set out \<subseteq> set ds \<and> (days \<noteq> [] \<longrightarrow> ds \<noteq> [])"
proof (induction days arbitrary: out)
  case (Cons raw rest)
  from Cons.prems(1) obtain w where w: "map_get notifyOffWeekdays (ToLower (TrimSpace raw)) = Some w"
      and rest: "parse_days_loop rest (List.insert w out) = Inr ds"
    by (simp split: option.splits)
  have "\<forall>p \<in> set notifyOffWeekdays. snd p < 7" by (simp add: notifyOffWeekdays_def)
  with map_of_SomeD [OF w] have "w < 7" by force
  then have "\<forall>d \<in> set (List.insert w out). d < 7" using Cons.prems(2) by simp
  from Cons.IH [OF rest this] have "\<forall>d \<in> set ds. d < 7" "set (List.insert w out) \<subseteq> set ds" by simp_all
  moreover from this(2) have "w \<in> set ds" "set out \<subseteq> set ds" by auto
  ultimately show ?case by (metis empty_iff list.set(1))
qed simp

lemma compileNotifyOffWindow_wf:
  assumes "compileNotifyOffWindow w = Inr c"
  shows "wf_off c"
proof -
  from assms obtain ds where ds: "parseNotifyOffDays (off_Days w) = Inr ds"
    by (simp add: compileNotifyOffWindow_def split: sum.splits)
  from assms obtain a where a: "parseNotifyOffClock (off_From w) False = Inr a"
    by (simp add: compileNotifyOffWindow_def ds split: sum.splits)
  from assms obtain b where b: "parseNotifyOffClock (off_To w) True = Inr b"
    by (simp add: compileNotifyOffWindow_def ds a split: sum.splits)
  from assms have c: "a \<noteq> b" "c = \<lparr>co_Weekdays = ds, co_From = a, co_To = b\<rparr>"
    by (simp_all add: compileNotifyOffWindow_def ds a b split: if_splits)
  have "(\<forall>d \<in> set ds. d < 7) \<and> ds \<noteq> []"
    using ds parse_days_loop_range [of "off_Days w" "[]" ds]
    by (auto simp: parseNotifyOffDays_def split: if_splits)
  then show ?thesis
    using parseNotifyOffClock_range [OF a] parseNotifyOffClock_range [OF b] c
    by (auto simp: wf_off_def)
qed

text \<open>The compiled form of a window, however it is obtained at run time.\<close>

definition off_window :: "rule_off \<Rightarrow> compiled_off result" where
  "off_window w = (case off_compiled w of Some c \<Rightarrow> Inr c | None \<Rightarrow> compileNotifyOffWindow w)"

lemma off_loop_spec:
  assumes "\<forall>w \<in> set ws. \<exists>c. off_window w = Inr c \<and> wf_off c" "wd < 7" "0 \<le> m" "m < 1440"
  shows "off_loop i wd (previousWeekday wd) m ws =
    Inr (\<exists>w \<in> set ws. \<exists>c. off_window w = Inr c \<and> off_spec c (int wd * 1440 + m))"
  using assms(1)
proof (induction ws arbitrary: i)
  case (Cons w ws)
  then obtain c where c: "off_window w = Inr c" "wf_off c" by auto
  show ?case
    using Cons c contains_minute_spec [OF c(2) assms(2-)]
    by (auto simp: off_window_def [symmetric])
qed simp

lemma validateNotifyOff_from_ok:
  "validateNotifyOff_from i ws = None \<Longrightarrow> w \<in> set ws \<Longrightarrow> \<exists>c. compileNotifyOffWindow w = Inr c"
  by (induction ws arbitrary: i) (auto split: sum.splits)

end
