(* ===== verification/Store.thy ===== *)
theory Store
  imports Config_Norm
begin

text \<open>
  The alert state store of \<open>internal/state\<close>: the interface \<open>Store\<close> (\<open>store.go\<close>) as a
  record of operations over a world \<open>'w\<close>, the contract its clients rely on as the locale
  \<open>card_store\<close>, and the single-instance implementation \<open>MemoryStore\<close>
  (\<open>memory_store.go\<close>), which satisfies it.

  A card is stored by value. The source copies the struct but shares its maps with the caller;
  the model does not follow writes through such a shared map. Each operation of
  \<open>MemoryStore\<close> holds the mutex, so it is a function of the store; \<open>HasTick\<close> drops
  the read lock before it takes the write lock, and its clock is read twice.
\<close>

section \<open>The interface\<close>

definition RuleAlertPrefix :: "string \<Rightarrow> string" where
  "RuleAlertPrefix ruleName = ''rule/'' @ ToLower (TrimSpace ruleName) @ ''/''"

record 'w store =
  so_RefreshTick :: "string \<Rightarrow> gtime \<Rightarrow> duration \<Rightarrow> 'w \<Rightarrow> error option \<times> 'w"
  so_HasTick :: "string \<Rightarrow> 'w \<Rightarrow> bool result \<times> 'w"
  so_GetCard :: "string \<Rightarrow> 'w \<Rightarrow> (alert_card \<times> uint64) result \<times> 'w"
  so_CreateCard :: "string \<Rightarrow> alert_card \<Rightarrow> 'w \<Rightarrow> uint64 result \<times> 'w"
  so_PutCard :: "string \<Rightarrow> alert_card \<Rightarrow> 'w \<Rightarrow> uint64 result \<times> 'w"
  so_UpdateCard :: "string \<Rightarrow> uint64 \<Rightarrow> alert_card \<Rightarrow> 'w \<Rightarrow> uint64 result \<times> 'w"
  so_DeleteCard :: "string \<Rightarrow> 'w \<Rightarrow> error option \<times> 'w"
  so_ListAlertIDsByRule :: "string \<Rightarrow> 'w \<Rightarrow> string list result \<times> 'w"

section \<open>The contract of the card operations\<close>

text \<open>
  \<open>cards w\<close> is the map of cards with their revisions that the world holds. An update with a
  revision that is not the current one changes nothing; one with the current revision replaces
  the card and moves the revision on.
\<close>

locale card_store =
  fixes get :: "string \<Rightarrow> 'w \<Rightarrow> (alert_card \<times> uint64) result \<times> 'w"
    and create :: "string \<Rightarrow> alert_card \<Rightarrow> 'w \<Rightarrow> uint64 result \<times> 'w"
    and update :: "string \<Rightarrow> uint64 \<Rightarrow> alert_card \<Rightarrow> 'w \<Rightarrow> uint64 result \<times> 'w"
    and delete :: "string \<Rightarrow> 'w \<Rightarrow> error option \<times> 'w"
    and cards :: "'w \<Rightarrow> string \<Rightarrow> (alert_card \<times> uint64) option"
  assumes get_result: "get k w = (case cards w k of None \<Rightarrow> Inl ErrNotFound | Some entry \<Rightarrow> Inr entry, w)"
    and create_present: "cards w k = Some entry \<Longrightarrow> create k c w = (Inl ErrConflict, w)"
    and create_absent: "cards w k = None \<Longrightarrow>
      \<exists>r w'. create k c w = (Inr r, w') \<and> cards w' = (cards w)(k \<mapsto> (c, r))"
    and update_current: "cards w k = Some (c0, r0) \<Longrightarrow>
      \<exists>r w'. update k r0 c w = (Inr r, w') \<and> r \<noteq> r0 \<and> cards w' = (cards w)(k \<mapsto> (c, r))"
    and update_stale: "cards w k = Some (c0, r) \<Longrightarrow> r \<noteq> r0 \<Longrightarrow> update k r0 c w = (Inl ErrConflict, w)"
    and update_absent: "cards w k = None \<Longrightarrow>
      \<exists>e. update k r0 c w = (Inl e, w) \<and> (e = ErrNotFound \<or> e = ErrConflict)"
    and delete_result: "fst (delete k w) = None"
    and delete_cards: "cards (snd (delete k w)) = (cards w)(k := None)"
begin

lemma get_after_create:
  "fst (create k c w) = Inr r \<Longrightarrow> fst (get k (snd (create k c w))) = Inr (c, r)"
proof -
  assume created: "fst (create k c w) = Inr r"
  then have "cards w k = None" using create_present by (cases "cards w k") force+
  from create_absent [OF this, of c] created show ?thesis by (auto simp: get_result)
qed

lemma get_after_update:
  "fst (update k r0 c w) = Inr r \<Longrightarrow> fst (get k (snd (update k r0 c w))) = Inr (c, r)"
proof -
  assume updated: "fst (update k r0 c w) = Inr r"
  obtain c1 r1 where c1: "cards w k = Some (c1, r1)"
    using updated update_absent [of w k r0 c] by (cases "cards w k") auto
  then have "r1 = r0" using updated update_stale [OF c1, of r0 c] by force
  with update_current [of w k c1 r0 c] c1 updated show ?thesis by (auto simp: get_result)
qed

lemma update_Inr_current:
  "fst (update k r0 c w) = Inr r \<Longrightarrow> \<exists>c1. cards w k = Some (c1, r0)"
  using update_absent [of w k r0 c] update_stale [of w k _ _ r0 c]
  by (cases "cards w k") (auto, metis Inl_Inr_False fst_conv)

text \<open>Compare and swap: of two writers that hold the same revision, the second fails.\<close>

lemma second_writer_fails:
  assumes "fst (update k r0 c w) = Inr r"
  shows "fst (update k r0 c' (snd (update k r0 c w))) = Inl ErrConflict"
proof -
  obtain c1 where c1: "cards w k = Some (c1, r0)" using update_Inr_current [OF assms] by auto
  obtain r' w' where w': "update k r0 c w = (Inr r', w')" "r' \<noteq> r0" "cards w' = (cards w)(k \<mapsto> (c, r'))"
    using update_current [OF c1, of c] by auto
  then show ?thesis using update_stale [of w' k c r' r0 c'] by simp
qed

lemma second_create_fails:
  assumes "fst (create k c w) = Inr r"
  shows "fst (create k c' (snd (create k c w))) = Inl ErrConflict"
proof -
  have "cards w k = None" using assms create_present by (cases "cards w k") force+
  from create_absent [OF this, of c] show ?thesis using create_present by auto
qed

lemma delete_then_get: "fst (get k (snd (delete k w))) = Inl ErrNotFound"
  by (simp add: get_result delete_cards)

end

section \<open>The memory store\<close>

record memory_store =
  ms_cards :: "(string, alert_card \<times> uint64) gmap"
  ms_ticks :: "(string, gtime) gmap"

definition NewMemoryStore :: memory_store where
  "NewMemoryStore = \<lparr>ms_cards = [], ms_ticks = []\<rparr>"

definition writeCardLocked :: "string \<Rightarrow> alert_card \<Rightarrow> uint64 \<Rightarrow> memory_store \<Rightarrow> uint64 \<times> memory_store" where
  "writeCardLocked alertID crd revision s =
     (revision, s\<lparr>ms_cards := map_put alertID (crd, revision) (ms_cards s)\<rparr>)"

definition mem_RefreshTick :: "string \<Rightarrow> gtime \<Rightarrow> duration \<Rightarrow> memory_store \<Rightarrow> error option \<times> memory_store" where
  "mem_RefreshTick alertID lastSeen ttl s =
     (let expiresAt = (if ttl > 0 then time_Add lastSeen ttl else zero_time) in
      (None, s\<lparr>ms_ticks := map_put alertID expiresAt (ms_ticks s)\<rparr>))"

text \<open>\<open>now1\<close> is the reading under the read lock, \<open>now2\<close> the one under the write lock.\<close>

definition mem_HasTick :: "gtime \<Rightarrow> gtime \<Rightarrow> string \<Rightarrow> memory_store \<Rightarrow> bool result \<times> memory_store" where
  "mem_HasTick now1 now2 alertID s =
     (case map_get (ms_ticks s) alertID of
        None \<Rightarrow> (Inr False, s)
      | Some expiresAt \<Rightarrow>
          if IsZero expiresAt \<or> Before now1 expiresAt then (Inr True, s)
          else if IsZero expiresAt \<or> Before now2 expiresAt then (Inr True, s)
          else (Inr False, s\<lparr>ms_ticks := map_del alertID (ms_ticks s)\<rparr>))"

definition mem_GetCard :: "string \<Rightarrow> memory_store \<Rightarrow> (alert_card \<times> uint64) result \<times> memory_store" where
  "mem_GetCard alertID s =
     (case map_get (ms_cards s) alertID of None \<Rightarrow> (Inl ErrNotFound, s) | Some entry \<Rightarrow> (Inr entry, s))"

definition mem_CreateCard :: "string \<Rightarrow> alert_card \<Rightarrow> memory_store \<Rightarrow> uint64 result \<times> memory_store" where
  "mem_CreateCard alertID crd s =
     (if map_get (ms_cards s) alertID \<noteq> None then (Inl ErrConflict, s)
      else (let r = writeCardLocked alertID crd 1 s in (Inr (fst r), snd r)))"

definition mem_PutCard :: "string \<Rightarrow> alert_card \<Rightarrow> memory_store \<Rightarrow> uint64 result \<times> memory_store" where
  "mem_PutCard alertID crd s =
     (let revision = (case map_get (ms_cards s) alertID of None \<Rightarrow> 0 | Some (_, r0) \<Rightarrow> r0);
          r = writeCardLocked alertID crd (revision + 1) s in (Inr (fst r), snd r))"

definition mem_UpdateCard :: "string \<Rightarrow> uint64 \<Rightarrow> alert_card \<Rightarrow> memory_store \<Rightarrow> uint64 result \<times> memory_store" where
  "mem_UpdateCard alertID expectedRevision crd s =
     (case map_get (ms_cards s) alertID of
        None \<Rightarrow> (Inl ErrNotFound, s)
      | Some (_, revision) \<Rightarrow>
          if revision \<noteq> expectedRevision then (Inl ErrConflict, s)
          else (let r = writeCardLocked alertID crd (expectedRevision + 1) s in (Inr (fst r), snd r)))"

definition mem_DeleteCard :: "string \<Rightarrow> memory_store \<Rightarrow> error option \<times> memory_store" where
  "mem_DeleteCard alertID s =
     (None, s\<lparr>ms_cards := map_del alertID (ms_cards s), ms_ticks := map_del alertID (ms_ticks s)\<rparr>)"

definition mem_ListAlertIDsByRule :: "string \<Rightarrow> memory_store \<Rightarrow> string list result \<times> memory_store" where
  "mem_ListAlertIDsByRule ruleName s =
     (Inr (filter (\<lambda>key. HasPrefix key (RuleAlertPrefix ruleName)) (map fst (ms_cards s))), s)"

definition wf_memory :: "memory_store \<Rightarrow> bool" where
  "wf_memory s \<longleftrightarrow> wf_map (ms_cards s) \<and> wf_map (ms_ticks s)"

lemmas memory_ops = mem_RefreshTick_def mem_HasTick_def mem_GetCard_def mem_CreateCard_def mem_PutCard_def
  mem_UpdateCard_def mem_DeleteCard_def mem_ListAlertIDsByRule_def writeCardLocked_def Let_def

text \<open>The cards of a memory store, and the laws.\<close>

definition mem_cards :: "memory_store \<Rightarrow> string \<Rightarrow> (alert_card \<times> uint64) option" where
  "mem_cards s = map_get (ms_cards s)"

interpretation mem: card_store mem_GetCard mem_CreateCard mem_UpdateCard mem_DeleteCard mem_cards
  by unfold_locales (auto simp: memory_ops mem_cards_def fun_eq_iff split: option.splits)

section \<open>Ticks of the memory store\<close>

lemma mem_tick_alive:
  assumes "0 < ttl" "lastSeen + ttl \<noteq> 0"
  shows "fst (mem_HasTick now now k (snd (mem_RefreshTick k lastSeen ttl s))) = Inr (now < lastSeen + ttl)"
  using assms by (simp add: memory_ops time_Add_def IsZero_def zero_time_def Before_def)

lemma mem_tick_forever:
  "ttl \<le> 0 \<Longrightarrow> fst (mem_HasTick n1 n2 k (snd (mem_RefreshTick k lastSeen ttl s))) = Inr True"
  by (simp add: memory_ops)

lemma mem_tick_other:
  "j \<noteq> k \<Longrightarrow> fst (mem_HasTick n1 n2 j (snd (mem_RefreshTick k lastSeen ttl s))) = fst (mem_HasTick n1 n2 j s)"
  by (simp add: memory_ops split: option.splits)

lemma mem_tick_keeps_cards [simp]:
  "mem_cards (snd (mem_RefreshTick k t d s)) = mem_cards s" "mem_cards (snd (mem_HasTick n1 n2 k s)) = mem_cards s"
  by (auto simp: memory_ops mem_cards_def split: option.splits)

lemma wf_memory_ops:
  assumes "wf_memory s"
  shows "wf_memory (snd (mem_RefreshTick k t d s))" "wf_memory (snd (mem_HasTick n1 n2 k s))"
    "wf_memory (snd (mem_GetCard k s))" "wf_memory (snd (mem_CreateCard k c s))"
    "wf_memory (snd (mem_PutCard k c s))" "wf_memory (snd (mem_UpdateCard k r c s))"
    "wf_memory (snd (mem_DeleteCard k s))" "wf_memory (snd (mem_ListAlertIDsByRule n s))"
  using assms by (simp_all add: wf_memory_def memory_ops split: option.splits prod.splits)

lemma mem_list_iff:
  "fst (mem_ListAlertIDsByRule n s) = Inr ids \<Longrightarrow>
    k \<in> set ids \<longleftrightarrow> mem_cards s k \<noteq> None \<and> HasPrefix k (RuleAlertPrefix n)"
proof -
  have "mem_cards s k \<noteq> None \<longleftrightarrow> k \<in> fst ` set (ms_cards s)"
    by (simp add: mem_cards_def map_of_eq_None_iff)
  moreover assume "fst (mem_ListAlertIDsByRule n s) = Inr ids"
  then have "ids = filter (\<lambda>key. HasPrefix key (RuleAlertPrefix n)) (map fst (ms_cards s))"
    by (simp add: mem_ListAlertIDsByRule_def)
  ultimately show ?thesis by (simp only: set_filter set_map mem_Collect_eq)
qed

section \<open>Keys of delete markers\<close>

text \<open>
  The consumer of tick delete markers (\<open>delete_consumer.go\<close>): the key of a subject, and the
  callback of a message. A message is acknowledged (\<open>True\<close>) or rejected for redelivery.
\<close>

definition extractKVKeyFromSubject :: "string \<Rightarrow> string \<Rightarrow> string" where
  "extractKVKeyFromSubject bucket subject =
     (let prefix = ''$KV.'' @ bucket @ ''.'' in
      if \<not> HasPrefix subject prefix then [] else TrimPrefix subject prefix)"

definition handleDeleteMarker ::
    "string \<Rightarrow> (string \<Rightarrow> string \<Rightarrow> 'w \<Rightarrow> error option \<times> 'w) option \<Rightarrow> string \<Rightarrow> string \<Rightarrow> string \<Rightarrow> 'w
      \<Rightarrow> bool \<times> 'w" where
  "handleDeleteMarker bucket handler subject reason payload w =
     (if length payload \<noteq> 0 then (True, w)
      else
        (let alertID = extractKVKeyFromSubject bucket subject in
         case handler of
           None \<Rightarrow> (True, w)
         | Some h \<Rightarrow>
             if alertID = [] then (True, w)
             else (case h alertID reason w of (Some _, w') \<Rightarrow> (False, w') | (None, w') \<Rightarrow> (True, w'))))"

lemma extract_key_roundtrip: "extractKVKeyFromSubject bucket (''$KV.'' @ bucket @ ''.'' @ key) = key"
  by (simp add: extractKVKeyFromSubject_def HasPrefix_def TrimPrefix_def)

end
