(* ===== verification/Rule_Properties.thy ===== *)
theory Rule_Properties
  imports Matcher Key_Builder Notify_Off Store Samples
begin

text \<open>
  What rule evaluation promises before the engine is reached: matching without panics, alert
  identifiers that separate what the key separates, the namespace of a rule's alerts in the
  store, and the notification off windows.
\<close>

section \<open>Matching\<close>

text \<open>
  Matching is total and means what the rule says: for a rule whose value predicate passed
  the configuration check and an event that passed the event check no nil operand is ever
  dereferenced and no evaluation error occurs, and the event matches exactly when its type,
  variable and tags are selected and the predicate holds of its value.
\<close>

lemma matching_correct:
  assumes "validated_match compile rule" "Event_Validate ev = None"
  shows "MatchEvent compile rule ev = Inr (selector_holds rule ev \<and>
    (case rm_Value (rc_Match rule) of None \<Rightarrow> True | Some p \<Rightarrow> predicate_holds compile p (ev_Value ev)))"
  using assms MatchEvent_no_value MatchEvent_validated
  by (auto simp: validated_match_def split: option.splits)

definition predicate_rule :: rule_config where
  "predicate_rule = count_rule\<lparr>rc_Match := sample_match\<lparr>rm_Value := Some sample_predicate\<rparr>\<rparr>"

lemma matching_correct_witness:
  "MatchEvent sample_compile predicate_rule sample_event = Inr True"
proof -
  have "validateValuePredicate sample_compile sample_predicate = Inr sample_predicate"
    by (simp add: validateValuePredicate_def sample_predicate_def IsSupportedValuePredicateOp_def
        supportedValuePredicateOps_def Let_def)
  then have "validated_match sample_compile predicate_rule"
    by (auto simp: validated_match_def predicate_rule_def)
  moreover have "Event_Validate sample_event = None" by code_simp
  ultimately have "MatchEvent sample_compile predicate_rule sample_event = Inr (selector_holds predicate_rule sample_event \<and>
    (case rm_Value (rc_Match predicate_rule) of None \<Rightarrow> True
     | Some p \<Rightarrow> predicate_holds sample_compile p (ev_Value sample_event)))"
    by (rule matching_correct)
  moreover have "EqualFold ''A'' ''a''" by code_simp
  then have "selector_holds predicate_rule sample_event"
    by (simp add: selector_holds_def predicate_rule_def sample_rules sample_events)
  moreover have "predicate_holds sample_compile sample_predicate (ev_Value sample_event)"
    by (simp add: predicate_holds_def sample_predicate_def sample_events f64_le_def f64_isNaN_def f64_ord_def f64_mag_def)
  ultimately show ?thesis by (simp add: predicate_rule_def)
qed

section \<open>Alert identifiers\<close>

text \<open>
  An alert id is built exactly when the rule has a name and the event carries every key
  tag, and it is \<open>rule/NAME/VAR/HASH\<close> with two non-empty fragments made of lower-case
  letters, digits, dots, dashes and underscores only; sanitising a fragment again changes
  nothing.
\<close>

lemma alert_id_shape:
  "((\<exists>k. BuildAlertKey hexsha1 rule ev = Inr k) \<longleftrightarrow>
     TrimSpace (rc_Name rule) \<noteq> [] \<and> (\<forall>t \<in> set (rc_Key_FromTags rule). map_get (ev_Tags ev) t \<noteq> None)) \<and>
   (\<forall>k. BuildAlertKey hexsha1 rule ev = Inr k \<longrightarrow>
     (\<exists>name var. k = ''rule/'' @ name @ ''/'' @ var @ ''/'' @ hexsha1 (canonical_text (rc_Key_FromTags rule) (ev_Tags ev)) \<and>
       name \<noteq> [] \<and> var \<noteq> [] \<and> (\<forall>c \<in> set name \<union> set var. safe_char c) \<and>
       sanitize name = name \<and> sanitize var = var))"
proof (intro conjI allI impI)
  show "(\<exists>k. BuildAlertKey hexsha1 rule ev = Inr k) \<longleftrightarrow>
     TrimSpace (rc_Name rule) \<noteq> [] \<and> (\<forall>t \<in> set (rc_Key_FromTags rule). map_get (ev_Tags ev) t \<noteq> None)"
    by (rule BuildAlertKey_ok)
next
  fix k
  assume "BuildAlertKey hexsha1 rule ev = Inr k"
  from BuildAlertKey_Inr [OF this] show "\<exists>name var. k = ''rule/'' @ name @ ''/'' @ var @ ''/'' @
      hexsha1 (canonical_text (rc_Key_FromTags rule) (ev_Tags ev)) \<and>
       name \<noteq> [] \<and> var \<noteq> [] \<and> (\<forall>c \<in> set name \<union> set var. safe_char c) \<and>
       sanitize name = name \<and> sanitize var = var"
    using sanitize_safe sanitize_nonempty by (intro exI [of _ "sanitize (rc_Name rule)"] exI [of _ "sanitize (ev_Var ev)"]) auto
qed

lemma alert_id_shape_witness:
  "\<exists>name var. ''rule/ct/errors/host=a'' = ''rule/'' @ name @ ''/'' @ var @ ''/'' @
      sample_hash (canonical_text (rc_Key_FromTags count_rule) (ev_Tags sample_event)) \<and>
       name \<noteq> [] \<and> var \<noteq> [] \<and> (\<forall>c \<in> set name \<union> set var. safe_char c) \<and>
       sanitize name = name \<and> sanitize var = var"
proof -
  have "BuildAlertKey sample_hash count_rule sample_event = Inr ''rule/ct/errors/host=a''" by code_simp
  then show ?thesis using alert_id_shape [of sample_hash count_rule sample_event] by blast
qed

text \<open>
  The order in which a rule lists its key tags does not matter: two rules of the same name
  whose key tags are permutations of each other give every event the same id, or the same
  error.
\<close>

lemma key_order_irrelevant:
  assumes "mset (rc_Key_FromTags rule) = mset (rc_Key_FromTags rule')" "rc_Name rule = rc_Name rule'"
  shows "BuildAlertKey hexsha1 rule ev = BuildAlertKey hexsha1 rule' ev"
proof -
  have "sort (rc_Key_FromTags rule) = sort (rc_Key_FromTags rule')"
    using assms(1) by (intro properties_for_sort) simp_all
  then show ?thesis using assms(2) unfolding BuildAlertKey_eq canonical_text_def by (simp only:)
qed

text \<open>
  C28. Alerts that differ in a key tag do not share an id, short of a hash collision: when key
  tags and their values hold no newline, two events of one rule whose values of some key tag
  differ have different texts under the hash, and their ids agree only if the hash does.
\<close>

theorem key_separates_tags:
  assumes "BuildAlertKey hexsha1 rule ev = Inr k" "BuildAlertKey hexsha1 rule ev' = Inr k'"
    and "ev_Var ev = ev_Var ev'"
    and "\<forall>t \<in> set (rc_Key_FromTags rule). CHR ''\<newline>'' \<notin> set t \<and>
      CHR ''\<newline>'' \<notin> set (the (map_get (ev_Tags ev) t)) \<and> CHR ''\<newline>'' \<notin> set (the (map_get (ev_Tags ev') t))"
    and "t \<in> set (rc_Key_FromTags rule)" "map_get (ev_Tags ev) t \<noteq> map_get (ev_Tags ev') t"
  shows "canonical_text (rc_Key_FromTags rule) (ev_Tags ev) \<noteq> canonical_text (rc_Key_FromTags rule) (ev_Tags ev') \<and>
    (k = k' \<longleftrightarrow> hexsha1 (canonical_text (rc_Key_FromTags rule) (ev_Tags ev)) =
      hexsha1 (canonical_text (rc_Key_FromTags rule) (ev_Tags ev')))"
proof
  have "map_get (ev_Tags ev) t \<noteq> None" "map_get (ev_Tags ev') t \<noteq> None"
    using assms(1,2,5) BuildAlertKey_ok by blast+
  then have "the (map_get (ev_Tags ev) t) \<noteq> the (map_get (ev_Tags ev') t)" using assms(6) by auto
  then show "canonical_text (rc_Key_FromTags rule) (ev_Tags ev) \<noteq> canonical_text (rc_Key_FromTags rule) (ev_Tags ev')"
    using canonical_text_inj [OF assms(4) _ assms(5)] by blast
  show "k = k' \<longleftrightarrow> hexsha1 (canonical_text (rc_Key_FromTags rule) (ev_Tags ev)) =
      hexsha1 (canonical_text (rc_Key_FromTags rule) (ev_Tags ev'))"
    using BuildAlertKey_Inr [OF assms(1)] BuildAlertKey_Inr [OF assms(2)] assms(3) by simp
qed

theorem key_separates_tags_witness:
  "canonical_text [''host''] [(''host'', ''a'')] \<noteq> canonical_text [''host''] [(''host'', ''b'')]"
proof -
  have "BuildAlertKey sample_hash count_rule sample_event = Inr ''rule/ct/errors/host=a''"
    "BuildAlertKey sample_hash count_rule sample_event_b = Inr ''rule/ct/errors/host=b''" by code_simp+
  from key_separates_tags [OF this, of "''host''"] show ?thesis
    by (simp add: sample_events sample_rules)
qed

definition newline_rule :: rule_config where
  "newline_rule = count_rule\<lparr>rc_Key_FromTags := [''a'', ''b'']\<rparr>"

definition newline_event :: "string \<Rightarrow> string \<Rightarrow> event" where
  "newline_event a b = sample_event\<lparr>ev_Tags := [(''a'', a), (''b'', b)]\<rparr>"

text \<open>
  Values with a newline break that separation: these two valid events differ in both key
  tags and get the same id whatever the hash, so two alerts share one state and one card.
\<close>

lemma key_collision_with_newlines:
  "Event_Validate (newline_event ''x\<newline>b=y'' ''z'') = None \<and> Event_Validate (newline_event ''x'' ''y\<newline>b=z'') = None \<and>
   BuildAlertKey hexsha1 newline_rule (newline_event ''x\<newline>b=y'' ''z'') =
   BuildAlertKey hexsha1 newline_rule (newline_event ''x'' ''y\<newline>b=z'')"
proof -
  have "Event_Validate (newline_event ''x\<newline>b=y'' ''z'') = None" "Event_Validate (newline_event ''x'' ''y\<newline>b=z'') = None"
    by code_simp+
  moreover have "sort [''a'', ''b''] = [''a'', ''b'']" by code_simp
  then have "canonical_text [''a'', ''b''] [(''a'', ''x\<newline>b=y''), (''b'', ''z'')] =
      canonical_text [''a'', ''b''] [(''a'', ''x''), (''b'', ''y\<newline>b=z'')]"
    by (simp add: canonical_text_def part_def)
  moreover have "missing_tag [''a'', ''b''] [(''a'', u), (''b'', v)] = None" for u v :: string by simp
  ultimately show ?thesis
    using \<open>sort [''a'', ''b''] = [''a'', ''b'']\<close>
    by (simp add: BuildAlertKey_eq newline_rule_def newline_event_def)
qed

section \<open>The namespace of a rule\<close>

text \<open>Names the two normalisations agree on: ASCII letters, digits, dot, dash, underscore.\<close>

definition plain_char :: "char \<Rightarrow> bool" where
  "plain_char c \<longleftrightarrow> safe_char (lower_char c) \<and> (of_char c :: nat) < 128"

lemma sanitize_plain:
  assumes "\<forall>c \<in> set (TrimSpace name). plain_char c" "TrimSpace name \<noteq> []"
  shows "sanitize name = ToLower (TrimSpace name)"
proof -
  have one: "sanitize_rune (of_char c) = lower_char c" if "plain_char c" for c
    using that by (auto simp: plain_char_def safe_char_def sanitize_rune_def lower_char_def Let_def split: if_splits)
  have "runes (TrimSpace name) = map of_char (TrimSpace name)"
    using assms(1) by (intro runes_ascii) (auto simp: plain_char_def)
  then have "sanitize name = map (sanitize_rune \<circ> of_char) (TrimSpace name)"
    using assms(2) by (simp add: sanitize_def Let_def)
  also have "\<dots> = map lower_char (TrimSpace name)" using assms(1) one by simp
  finally show ?thesis by (simp add: ToLower_def)
qed

text \<open>
  For a rule name of ASCII letters, digits, dots, dashes and underscores every alert id of
  the rule lies under the prefix by which the store lists the alerts of the rule.
\<close>

lemma plain_names_are_listed:
  assumes "BuildAlertKey hexsha1 rule ev = Inr k" "\<forall>c \<in> set (TrimSpace (rc_Name rule)). plain_char c"
  shows "HasPrefix k (RuleAlertPrefix (rc_Name rule))"
proof -
  have "TrimSpace (rc_Name rule) \<noteq> []" using assms(1) BuildAlertKey_ok by blast
  from sanitize_plain [OF assms(2) this] BuildAlertKey_Inr [OF assms(1)] show ?thesis
    unfolding HasPrefix_iff RuleAlertPrefix_def by simp
qed

text \<open>
  A rule name with a space is written to the store under one name and searched under
  another: no alert id of the rule \<open>disk usage\<close> has the prefix that the store uses to list
  that rule's alerts, so a removed rule's cards are never cleaned up.
\<close>

lemma spaced_names_are_not_listed:
  "BuildAlertKey hexsha1 (rule\<lparr>rc_Name := ''disk usage''\<rparr>) ev = Inr k \<Longrightarrow>
    \<not> HasPrefix k (RuleAlertPrefix ''disk usage'')"
proof -
  assume "BuildAlertKey hexsha1 (rule\<lparr>rc_Name := ''disk usage''\<rparr>) ev = Inr k"
  from BuildAlertKey_Inr [OF this] obtain t where k: "k = ''rule/'' @ sanitize ''disk usage'' @ t" by simp
  have "sanitize ''disk usage'' = ''disk_usage''" "RuleAlertPrefix ''disk usage'' = ''rule/disk usage/''"
    by code_simp+
  then show ?thesis by (simp add: k HasPrefix_def)
qed

lemma spaced_names_are_not_listed_witness:
  "\<not> HasPrefix ''rule/disk_usage/errors/host=a'' (RuleAlertPrefix ''disk usage'')"
proof -
  have "BuildAlertKey sample_hash (count_rule\<lparr>rc_Name := ''disk usage''\<rparr>) sample_event =
      Inr ''rule/disk_usage/errors/host=a''" by code_simp
  then show ?thesis by (rule spaced_names_are_not_listed)
qed

section \<open>Off windows\<close>

text \<open>The minute of the week, from Sunday 00:00 local time.\<close>

definition week_minute :: "location \<Rightarrow> gtime \<Rightarrow> int" where
  "week_minute loc t = int (Weekday_of loc t) * 1440 + minuteOfDay loc t"

text \<open>
  C27. Off windows are exact: for windows that pass the configuration check, compiled in advance
  or not, evaluation never fails and says yes exactly when the local minute of the week lies
  in one of them, a window being open from its start on each of its days until its end, past
  midnight and around the end of the week.
\<close>

theorem off_windows_exact:
  assumes "validateNotifyOff windows = None"
    and "\<forall>w \<in> set windows. \<forall>c. off_compiled w = Some c \<longrightarrow> compileNotifyOffWindow w = Inr c"
  shows "NotifyOffActiveAt loc windows now =
    Inr (\<exists>w \<in> set windows. \<exists>c. compileNotifyOffWindow w = Inr c \<and> off_spec c (week_minute loc now))"
proof -
  have win: "off_window w = compileNotifyOffWindow w" if "w \<in> set windows" for w
    using assms(2) that by (auto simp: off_window_def split: option.splits)
  have ok: "\<forall>w \<in> set windows. \<exists>c. off_window w = Inr c \<and> wf_off c"
    using win validateNotifyOff_from_ok [OF assms(1) [unfolded validateNotifyOff_def]] compileNotifyOffWindow_wf
    by metis
  show ?thesis
    using off_loop_spec [OF ok Weekday_of_range minuteOfDay_range, of 0 loc now] win
    by (auto simp: NotifyOffActiveAt_def Let_def week_minute_def)
qed

theorem off_windows_exact_witness:
  "NotifyOffActiveAt sample_loc [sample_off] (5 * day_ns + 3600 * 1000000000) = Inr True"
proof -
  have "validateNotifyOff [sample_off] = None" by code_simp
  moreover have "\<forall>w \<in> set [sample_off]. \<forall>c. off_compiled w = Some c \<longrightarrow> compileNotifyOffWindow w = Inr c"
    by (simp add: sample_off_def)
  ultimately have "NotifyOffActiveAt sample_loc [sample_off] (5 * day_ns + 3600 * 1000000000) =
    Inr (\<exists>w \<in> set [sample_off]. \<exists>c. compileNotifyOffWindow w = Inr c \<and>
      off_spec c (week_minute sample_loc (5 * day_ns + 3600 * 1000000000)))"
    by (rule off_windows_exact)
  moreover have "compileNotifyOffWindow sample_off = Inr \<lparr>co_Weekdays = [5], co_From = 1320, co_To = 360\<rparr>" by code_simp
  moreover have "off_spec \<lparr>co_Weekdays = [5], co_From = 1320, co_To = 360\<rparr>
      (week_minute sample_loc (5 * day_ns + 3600 * 1000000000))"
    by code_simp
  ultimately show ?thesis by simp
qed

end
