(* ===== verification/Nats_Store.thy ===== *)
theory Nats_Store
  imports Store
begin

text \<open>
  The JetStream implementation of the store (\<open>internal/state/nats_store.go\<close>). The
  key-value buckets, the publish call and the JSON codec are third-party code: they are the
  record \<open>nats_api\<close>, over payloads of a type \<open>'b\<close> and a world \<open>'w\<close>. What the store
  relies on is the predicate \<open>kv_contract\<close>, the documented behaviour of a bucket; under it
  the store satisfies the same contract as the memory store.
\<close>

section \<open>What the library provides\<close>

record ('b, 'w) kv_api =
  kv_Get :: "string \<Rightarrow> 'w \<Rightarrow> ('b \<times> uint64) result \<times> 'w"
  kv_Create :: "string \<Rightarrow> 'b \<Rightarrow> 'w \<Rightarrow> uint64 result \<times> 'w"
  kv_Put :: "string \<Rightarrow> 'b \<Rightarrow> 'w \<Rightarrow> uint64 result \<times> 'w"
  kv_Update :: "string \<Rightarrow> 'b \<Rightarrow> uint64 \<Rightarrow> 'w \<Rightarrow> uint64 result \<times> 'w"
  kv_Delete :: "string \<Rightarrow> 'w \<Rightarrow> error option \<times> 'w"
  kv_Keys :: "'w \<Rightarrow> string list result \<times> 'w"

record ('b, 'w) nats_api =
  na_tickKV :: "('b, 'w) kv_api"
  na_dataKV :: "('b, 'w) kv_api"
  na_PublishMsg :: "string \<Rightarrow> (string, string) gmap \<Rightarrow> string \<Rightarrow> 'w \<Rightarrow> error option \<times> 'w"
  na_Marshal :: "alert_card \<Rightarrow> 'b result"
  na_Unmarshal :: "'b \<Rightarrow> alert_card result"
  na_ErrKeyNotFound :: error
  na_ErrKeyExists :: error
  na_ErrNoKeysFound :: error
  na_text :: "error \<Rightarrow> string"

text \<open>\<open>strings.Contains\<close>.\<close>

definition str_Contains :: "string \<Rightarrow> string \<Rightarrow> bool" where
  "str_Contains s sub \<longleftrightarrow> list_ex (\<lambda>i. HasPrefix (drop i s) sub) [0..<Suc (length s)]"

section \<open>Operations\<close>

definition isNATSCardConflict :: "('b, 'w) nats_api \<Rightarrow> error \<Rightarrow> bool" where
  "isNATSCardConflict api err \<longleftrightarrow>
     errors_Is err (na_ErrKeyExists api) \<or> str_Contains (ToLower (na_text api err)) ''wrong last sequence''"

definition nats_writeCard ::
    "('b, 'w) nats_api \<Rightarrow> alert_card \<Rightarrow> string \<Rightarrow> ('b \<Rightarrow> 'w \<Rightarrow> uint64 result \<times> 'w) \<Rightarrow> 'w \<Rightarrow> uint64 result \<times> 'w" where
  "nats_writeCard api crd op write w =
     (case na_Marshal api crd of
        Inl err \<Rightarrow> (Inl (ErrWrap ''encode card: %w'' [] err), w)
      | Inr body \<Rightarrow>
          (case write body w of
             (Inr r, w') \<Rightarrow> (Inr r, w')
           | (Inl err, w') \<Rightarrow>
               if isNATSCardConflict api err then (Inl ErrConflict, w')
               else (Inl (ErrWrap ''%s card: %w'' [op] err), w')))"

definition nats_RefreshTick ::
    "('b, 'w) nats_api \<Rightarrow> nats_state_config \<Rightarrow> string \<Rightarrow> gtime \<Rightarrow> duration \<Rightarrow> 'w \<Rightarrow> error option \<times> 'w" where
  "nats_RefreshTick api settings alertID lastSeen ttl w =
     (let ttlMS = ttl div 1000000;
          header = (if ttl > 0 then [(''Nats-TTL'', FormatInt ttlMS @ ''ms'')] else [])
      in case na_PublishMsg api (''$KV.'' @ ns_TickBucket settings @ ''.'' @ alertID) header ''1'' w of
           (Some err, w') \<Rightarrow> (Some (ErrWrap ''publish tick: %w'' [] err), w')
         | (None, w') \<Rightarrow> (None, w'))"

definition nats_HasTick :: "('b, 'w) nats_api \<Rightarrow> string \<Rightarrow> 'w \<Rightarrow> bool result \<times> 'w" where
  "nats_HasTick api alertID w =
     (case kv_Get (na_tickKV api) alertID w of
        (Inr _, w') \<Rightarrow> (Inr True, w')
      | (Inl err, w') \<Rightarrow> if err = na_ErrKeyNotFound api then (Inr False, w') else (Inl err, w'))"

definition nats_GetCard :: "('b, 'w) nats_api \<Rightarrow> string \<Rightarrow> 'w \<Rightarrow> (alert_card \<times> uint64) result \<times> 'w" where
  "nats_GetCard api alertID w =
     (case kv_Get (na_dataKV api) alertID w of
        (Inl err, w') \<Rightarrow>
          if err = na_ErrKeyNotFound api then (Inl ErrNotFound, w')
          else (Inl (ErrWrap ''get card: %w'' [] err), w')
      | (Inr (body, r), w') \<Rightarrow>
          (case na_Unmarshal api body of
             Inl err \<Rightarrow> (Inl (ErrWrap ''decode card: %w'' [] err), w')
           | Inr crd \<Rightarrow> (Inr (crd, r), w')))"

definition nats_CreateCard :: "('b, 'w) nats_api \<Rightarrow> string \<Rightarrow> alert_card \<Rightarrow> 'w \<Rightarrow> uint64 result \<times> 'w" where
  "nats_CreateCard api alertID crd = nats_writeCard api crd ''create'' (kv_Create (na_dataKV api) alertID)"

definition nats_PutCard :: "('b, 'w) nats_api \<Rightarrow> string \<Rightarrow> alert_card \<Rightarrow> 'w \<Rightarrow> uint64 result \<times> 'w" where
  "nats_PutCard api alertID crd = nats_writeCard api crd ''put'' (kv_Put (na_dataKV api) alertID)"

definition nats_UpdateCard ::
    "('b, 'w) nats_api \<Rightarrow> string \<Rightarrow> uint64 \<Rightarrow> alert_card \<Rightarrow> 'w \<Rightarrow> uint64 result \<times> 'w" where
  "nats_UpdateCard api alertID expectedRevision crd =
     nats_writeCard api crd ''update'' (\<lambda>body. kv_Update (na_dataKV api) alertID body expectedRevision)"

definition nats_DeleteCard :: "('b, 'w) nats_api \<Rightarrow> string \<Rightarrow> 'w \<Rightarrow> error option \<times> 'w" where
  "nats_DeleteCard api alertID w =
     (let (err, w1) = kv_Delete (na_dataKV api) alertID w in
      if err \<noteq> None \<and> err \<noteq> Some (na_ErrKeyNotFound api)
      then (Some (ErrWrap ''delete card: %w'' [] (the err)), w1)
      else
        (let (err2, w2) = kv_Delete (na_tickKV api) alertID w1 in
         if err2 \<noteq> None \<and> err2 \<noteq> Some (na_ErrKeyNotFound api)
         then (Some (ErrWrap ''delete tick: %w'' [] (the err2)), w2)
         else (None, w2)))"

definition nats_ListAlertIDsByRule :: "('b, 'w) nats_api \<Rightarrow> string \<Rightarrow> 'w \<Rightarrow> string list result \<times> 'w" where
  "nats_ListAlertIDsByRule api ruleName w =
     (case kv_Keys (na_dataKV api) w of
        (Inl err, w') \<Rightarrow>
          if errors_Is err (na_ErrNoKeysFound api) then (Inr [], w')
          else (Inl (ErrWrap ''list keys: %w'' [] err), w')
      | (Inr keys, w') \<Rightarrow> (Inr (filter (\<lambda>key. HasPrefix key (RuleAlertPrefix ruleName)) keys), w'))"

definition nats_store :: "('b, 'w) nats_api \<Rightarrow> nats_state_config \<Rightarrow> 'w store" where
  "nats_store api settings =
     \<lparr>so_RefreshTick = nats_RefreshTick api settings, so_HasTick = nats_HasTick api,
      so_GetCard = nats_GetCard api, so_CreateCard = nats_CreateCard api,
      so_PutCard = nats_PutCard api, so_UpdateCard = nats_UpdateCard api,
      so_DeleteCard = nats_DeleteCard api, so_ListAlertIDsByRule = nats_ListAlertIDsByRule api\<rparr>"

section \<open>The contract of a bucket\<close>

text \<open>
  \<open>view w k\<close> is the live entry of the key. A bucket reads back what was written, creates a
  key only when it has no live entry, updates it only at its current revision and answers
  with the error \<open>wrong last sequence\<close> otherwise; the revision moves with every write.
\<close>

definition kv_contract :: "('b, 'w) nats_api \<Rightarrow> ('w \<Rightarrow> string \<Rightarrow> ('b \<times> uint64) option) \<Rightarrow> bool" where
  "kv_contract api view \<longleftrightarrow>
     (\<forall>k w. kv_Get (na_dataKV api) k w =
        (case view w k of None \<Rightarrow> Inl (na_ErrKeyNotFound api) | Some entry \<Rightarrow> Inr entry, w)) \<and>
     (\<forall>k w b. view w k = None \<longrightarrow>
        (\<exists>r w'. kv_Create (na_dataKV api) k b w = (Inr r, w') \<and> view w' = (view w)(k \<mapsto> (b, r)))) \<and>
     (\<forall>k w b. view w k \<noteq> None \<longrightarrow> kv_Create (na_dataKV api) k b w = (Inl (na_ErrKeyExists api), w)) \<and>
     (\<forall>k w b b0 r0. view w k = Some (b0, r0) \<longrightarrow>
        (\<exists>r w'. kv_Update (na_dataKV api) k b r0 w = (Inr r, w') \<and> r \<noteq> r0 \<and> view w' = (view w)(k \<mapsto> (b, r)))) \<and>
     (\<forall>k w b r0. (\<forall>b0. view w k \<noteq> Some (b0, r0)) \<longrightarrow>
        (\<exists>e. kv_Update (na_dataKV api) k b r0 w = (Inl e, w) \<and>
          str_Contains (ToLower (na_text api e)) ''wrong last sequence'')) \<and>
     (\<forall>k w. fst (kv_Delete (na_dataKV api) k w) \<in> {None, Some (na_ErrKeyNotFound api)} \<and>
        view (snd (kv_Delete (na_dataKV api) k w)) = (view w)(k := None)) \<and>
     (\<forall>k w. fst (kv_Delete (na_tickKV api) k w) \<in> {None, Some (na_ErrKeyNotFound api)} \<and>
        view (snd (kv_Delete (na_tickKV api) k w)) = view w)"

text \<open>
  The same bucket over a connection that may fail at any time: nothing is promised to succeed. A
  read that succeeds is true, and \<open>key not found\<close> is; a write that succeeds was at the current
  revision and took place; a write or a deletion that fails may have taken place all the same (the
  answer got lost), unless the error is the conflict of a stale write. Other errors are not those
  of this program. The tick bucket is another one.
\<close>

definition failing_kv :: "('b, 'w) nats_api \<Rightarrow> ('w \<Rightarrow> string \<Rightarrow> ('b \<times> uint64) option) \<Rightarrow> bool" where
  "failing_kv api view \<longleftrightarrow>
     (\<forall>k w. view (snd (kv_Get (na_dataKV api) k w)) = view w) \<and>
     (\<forall>k w entry. fst (kv_Get (na_dataKV api) k w) = Inr entry \<longrightarrow> view w k = Some entry) \<and>
     (\<forall>k w e. fst (kv_Get (na_dataKV api) k w) = Inl e \<longrightarrow>
        (if e = na_ErrKeyNotFound api then view w k = None else \<not> errors_Is e ErrNotFound)) \<and>
     (\<forall>k b r w r' w'. kv_Update (na_dataKV api) k b r w = (Inr r', w') \<longrightarrow>
        (\<exists>b0. view w k = Some (b0, r)) \<and> view w' = (view w)(k \<mapsto> (b, r'))) \<and>
     (\<forall>k b r w e w'. kv_Update (na_dataKV api) k b r w = (Inl e, w') \<longrightarrow>
        (if isNATSCardConflict api e then (\<forall>b0. view w k \<noteq> Some (b0, r)) \<and> view w' = view w
         else \<not> errors_Is e ErrConflict \<and>
           (view w' = view w \<or> (\<exists>b0 r'. view w k = Some (b0, r) \<and> view w' = (view w)(k \<mapsto> (b, r')))))) \<and>
     (\<forall>k w e w'. kv_Delete (na_dataKV api) k w = (e, w') \<longrightarrow>
        view w' = (view w)(k := None) \<or> e \<noteq> None \<and> e \<noteq> Some (na_ErrKeyNotFound api) \<and> view w' = view w) \<and>
     (\<forall>k w. view (snd (kv_Delete (na_tickKV api) k w)) = view w) \<and>
     (\<forall>k w. view (snd (kv_Get (na_tickKV api) k w)) = view w)"

lemma failing_kvD:
  assumes "failing_kv api view"
  shows "view (snd (kv_Get (na_dataKV api) k w)) = view w"
    and "fst (kv_Get (na_dataKV api) k w) = Inr entry \<Longrightarrow> view w k = Some entry"
    and "fst (kv_Get (na_dataKV api) k w) = Inl e \<Longrightarrow>
      (if e = na_ErrKeyNotFound api then view w k = None else \<not> errors_Is e ErrNotFound)"
    and "kv_Update (na_dataKV api) k b r w = (Inr r', w') \<Longrightarrow> view w' = (view w)(k \<mapsto> (b, r'))"
    and "kv_Update (na_dataKV api) k b r w = (Inl e, w') \<Longrightarrow> view w k = Some (b0, r) \<Longrightarrow>
      \<not> isNATSCardConflict api e \<and> \<not> errors_Is e ErrConflict \<and>
      (view w' = view w \<or> (\<exists>r'. view w' = (view w)(k \<mapsto> (b, r'))))"
    and "kv_Delete (na_dataKV api) k w = (d, w') \<Longrightarrow>
      view w' = (view w)(k := None) \<or> d \<noteq> None \<and> d \<noteq> Some (na_ErrKeyNotFound api) \<and> view w' = view w"
    and "view (snd (kv_Delete (na_tickKV api) k w)) = view w"
    and "view (snd (kv_Get (na_tickKV api) k w)) = view w"
  using assms unfolding failing_kv_def by metis+

text \<open>The codec reads back what it wrote, and only cards are in the bucket.\<close>

definition codec_contract :: "('b, 'w) nats_api \<Rightarrow> ('w \<Rightarrow> string \<Rightarrow> ('b \<times> uint64) option) \<Rightarrow> bool" where
  "codec_contract api view \<longleftrightarrow>
     (\<forall>c. \<exists>b. na_Marshal api c = Inr b \<and> na_Unmarshal api b = Inr c) \<and>
     (\<forall>w k b r. view w k = Some (b, r) \<longrightarrow> (\<exists>c. na_Unmarshal api b = Inr c))"

definition nats_cards ::
    "('b, 'w) nats_api \<Rightarrow> ('w \<Rightarrow> string \<Rightarrow> ('b \<times> uint64) option) \<Rightarrow> 'w \<Rightarrow> string \<Rightarrow> (alert_card \<times> uint64) option" where
  "nats_cards api view w k =
     (case view w k of None \<Rightarrow> None
      | Some (b, r) \<Rightarrow> (case na_Unmarshal api b of Inl _ \<Rightarrow> None | Inr c \<Rightarrow> Some (c, r)))"

lemma nats_cards_None:
  "codec_contract api view \<Longrightarrow> nats_cards api view w k = None \<longleftrightarrow> view w k = None"
  by (auto simp: nats_cards_def codec_contract_def split: option.splits sum.splits) (metis Inr_Inl_False)

lemma nats_cards_update:
  assumes "view w' = (view w)(k \<mapsto> (b, r))" "na_Unmarshal api b = Inr c"
  shows "nats_cards api view w' = (nats_cards api view w)(k \<mapsto> (c, r))"
  using assms by (auto simp: nats_cards_def)

lemma nats_card_store:
  assumes kv: "kv_contract api view" and codec: "codec_contract api view"
  shows "card_store (nats_GetCard api) (nats_CreateCard api) (nats_UpdateCard api) (nats_DeleteCard api)
    (nats_cards api view)"
proof
  note [simp] = nats_CreateCard_def nats_UpdateCard_def nats_writeCard_def isNATSCardConflict_def
  fix k :: string and w
  obtain marshal where marshal: "\<And>c. na_Marshal api c = Inr (marshal c)" "\<And>c. na_Unmarshal api (marshal c) = Inr c"
    using codec unfolding codec_contract_def by metis
  show "nats_GetCard api k w =
      (case nats_cards api view w k of None \<Rightarrow> Inl ErrNotFound | Some entry \<Rightarrow> Inr entry, w)"
  proof -
    have "kv_Get (na_dataKV api) k w =
        (case view w k of None \<Rightarrow> Inl (na_ErrKeyNotFound api) | Some entry \<Rightarrow> Inr entry, w)"
      using kv by (simp add: kv_contract_def)
    moreover have "\<exists>c. na_Unmarshal api b = Inr c" if "view w k = Some (b, r)" for b r
      using codec that unfolding codec_contract_def by blast
    ultimately show ?thesis
      by (cases "view w k") (auto simp: nats_GetCard_def nats_cards_def)
  qed
  fix c
  show "nats_CreateCard api k c w = (Inl ErrConflict, w)" if "nats_cards api view w k = Some entry" for entry
  proof -
    have "view w k \<noteq> None" using that nats_cards_None [OF codec] by (metis option.distinct(1))
    then have "kv_Create (na_dataKV api) k (marshal c) w = (Inl (na_ErrKeyExists api), w)"
      using kv by (simp add: kv_contract_def)
    then show ?thesis by (simp add: marshal)
  qed
  show "\<exists>r w'. nats_CreateCard api k c w = (Inr r, w') \<and>
      nats_cards api view w' = (nats_cards api view w)(k \<mapsto> (c, r))" if "nats_cards api view w k = None"
  proof -
    have "view w k = None" using that nats_cards_None [OF codec] by blast
    then obtain r w' where "kv_Create (na_dataKV api) k (marshal c) w = (Inr r, w')"
        "view w' = (view w)(k \<mapsto> (marshal c, r))"
      using kv unfolding kv_contract_def by metis
    then show ?thesis using nats_cards_update [OF _ marshal(2)] by (auto simp: marshal(1))
  qed
  show "\<exists>r w'. nats_UpdateCard api k r0 c w = (Inr r, w') \<and> r \<noteq> r0 \<and>
      nats_cards api view w' = (nats_cards api view w)(k \<mapsto> (c, r))"
    if "nats_cards api view w k = Some (c0, r0)" for c0 r0
  proof -
    from that obtain b0 where "view w k = Some (b0, r0)"
      by (auto simp: nats_cards_def split: option.splits sum.splits)
    then obtain r w' where "kv_Update (na_dataKV api) k (marshal c) r0 w = (Inr r, w')" "r \<noteq> r0"
        "view w' = (view w)(k \<mapsto> (marshal c, r))"
      using kv unfolding kv_contract_def by metis
    then show ?thesis using nats_cards_update [OF _ marshal(2)] by (auto simp: marshal(1))
  qed
  have mismatch: "nats_UpdateCard api k r0 c w = (Inl ErrConflict, w)"
    if "\<forall>b0. view w k \<noteq> Some (b0, r0)" for r0
  proof -
    from that obtain e where "kv_Update (na_dataKV api) k (marshal c) r0 w = (Inl e, w)"
        "str_Contains (ToLower (na_text api e)) ''wrong last sequence''"
      using kv unfolding kv_contract_def by metis
    then show ?thesis by (simp add: marshal(1))
  qed
  show "nats_UpdateCard api k r0 c w = (Inl ErrConflict, w)"
    if "nats_cards api view w k = Some (c0, r)" "r \<noteq> r0" for c0 r r0
    by (rule mismatch) (use that in \<open>auto simp: nats_cards_def split: sum.splits\<close>)
  show "\<exists>e. nats_UpdateCard api k r0 c w = (Inl e, w) \<and> (e = ErrNotFound \<or> e = ErrConflict)"
    if "nats_cards api view w k = None" for r0
    using mismatch [of r0] that nats_cards_None [OF codec, of w k] by simp
  obtain e1 w1 where d1: "kv_Delete (na_dataKV api) k w = (e1, w1)" by force
  obtain e2 w2 where d2: "kv_Delete (na_tickKV api) k w1 = (e2, w2)" by force
  have "e1 \<in> {None, Some (na_ErrKeyNotFound api)}" "view w1 = (view w)(k := None)"
    "e2 \<in> {None, Some (na_ErrKeyNotFound api)}" "view w2 = view w1"
    using kv d1 d2 unfolding kv_contract_def by (metis fst_conv snd_conv)+
  then show "fst (nats_DeleteCard api k w) = None"
      "nats_cards api view (snd (nats_DeleteCard api k w)) = (nats_cards api view w)(k := None)"
    using d1 d2 by (auto simp: nats_DeleteCard_def nats_cards_def fun_eq_iff)
qed

end
