(* ===== verification/Store_Properties.thy ===== *)
theory Store_Properties
  imports Nats_Store Samples
begin

text \<open>
  What the stores promise: no lost update on the memory store as long as a card is not deleted,
  the same contract for the JetStream store, the life of a tick, and the way back from the
  subject of an expired tick to its alert.
\<close>

section \<open>Histories of the memory store\<close>

datatype mem_op =
    RefreshTickOp string gtime duration
  | HasTickOp gtime gtime string
  | CreateCardOp string alert_card
  | PutCardOp string alert_card
  | UpdateCardOp string uint64 alert_card
  | DeleteCardOp string

fun mem_step :: "mem_op \<Rightarrow> memory_store \<Rightarrow> memory_store" where
  "mem_step (RefreshTickOp k t d) s = snd (mem_RefreshTick k t d s)"
| "mem_step (HasTickOp n1 n2 k) s = snd (mem_HasTick n1 n2 k s)"
| "mem_step (CreateCardOp k c) s = snd (mem_CreateCard k c s)"
| "mem_step (PutCardOp k c) s = snd (mem_PutCard k c s)"
| "mem_step (UpdateCardOp k r c) s = snd (mem_UpdateCard k r c s)"
| "mem_step (DeleteCardOp k) s = snd (mem_DeleteCard k s)"

text \<open>
  One operation that is not a delete of the key leaves its entry alone or replaces it under the
  next revision.
\<close>

lemma mem_step_revision:
  assumes "mem_cards s k = Some (c, r)" "\<not> (\<exists>j. a = DeleteCardOp j \<and> j = k)"
  shows "mem_cards (mem_step a s) k = Some (c, r) \<or> (\<exists>c'. mem_cards (mem_step a s) k = Some (c', r + 1))"
  using assms by (cases a) (auto simp: mem_cards_def memory_ops split: option.splits prod.splits)

text \<open>After any number of such operations the revision has moved by the number of writes.\<close>

lemma mem_history_revision:
  assumes "mem_cards s k = Some (c, r)" "DeleteCardOp k \<notin> set ops"
  shows "\<exists>n c'. n \<le> length ops \<and> mem_cards (fold mem_step ops s) k = Some (c', r + of_nat n) \<and> (n = 0 \<longrightarrow> c' = c)"
  using assms
proof (induction ops arbitrary: s c r)
  case (Cons a ops)
  have tail: "DeleteCardOp k \<notin> set ops" and head: "\<not> (\<exists>j. a = DeleteCardOp j \<and> j = k)"
    using Cons.prems(2) by auto
  from mem_step_revision [OF Cons.prems(1) head] show ?case
  proof
    assume "mem_cards (mem_step a s) k = Some (c, r)"
    from Cons.IH [OF this tail] show ?case using le_SucI by fastforce
  next
    assume "\<exists>c'. mem_cards (mem_step a s) k = Some (c', r + 1)"
    then obtain c1 where "mem_cards (mem_step a s) k = Some (c1, r + 1)" by blast
    from Cons.IH [OF this tail] obtain n c' where "n \<le> length ops"
        "mem_cards (fold mem_step ops (mem_step a s)) k = Some (c', r + 1 + of_nat n)"
      by blast
    then show ?case by (intro exI [of _ "Suc n"] exI [of _ c']) (simp add: add.assoc)
  qed
qed simp

lemma of_nat_zero_word64: "of_nat n = (0 :: 64 word) \<Longrightarrow> n < 2 ^ 64 \<Longrightarrow> n = 0"
  by (auto simp: word_of_nat_eq_0_iff dvd_imp_le dest!: dvd_imp_le)

text \<open>
  C17. No lost update: whatever operations other callers run on the memory store between a read
  of a card and a successful \<open>UpdateCard\<close> with the revision that was read, the card that is
  replaced is the card that was read, as long as the key is not deleted in between and the
  revision counter does not run through its 64 bits.
\<close>

theorem no_lost_update:
  assumes "fst (mem_GetCard k s) = Inr (c, r)"
    and "DeleteCardOp k \<notin> set ops" "length ops < 2 ^ 64"
    and "fst (mem_UpdateCard k r new (fold mem_step ops s)) = Inr r'"
  shows "fst (mem_GetCard k (fold mem_step ops s)) = Inr (c, r) \<and>
    fst (mem_GetCard k (snd (mem_UpdateCard k r new (fold mem_step ops s)))) = Inr (new, r')"
proof
  have "mem_cards s k = Some (c, r)"
    using assms(1) by (simp add: mem.get_result split: option.splits)
  from mem_history_revision [OF this assms(2)] obtain n c' where n: "n \<le> length ops" "n = 0 \<longrightarrow> c' = c"
    and now: "mem_cards (fold mem_step ops s) k = Some (c', r + of_nat n)" by blast
  obtain c1 where "mem_cards (fold mem_step ops s) k = Some (c1, r)"
    using mem.update_Inr_current [OF assms(4)] by blast
  then have "of_nat n = (0 :: 64 word)" using now by simp
  then have "n = 0" using n(1) assms(3) of_nat_zero_word64 by (meson le_less_trans)
  then show "fst (mem_GetCard k (fold mem_step ops s)) = Inr (c, r)" using now n(2) by (simp add: mem.get_result)
  show "fst (mem_GetCard k (snd (mem_UpdateCard k r new (fold mem_step ops s)))) = Inr (new, r')"
    by (rule mem.get_after_update [OF assms(4)])
qed

definition card_a :: alert_card where
  "card_a = empty_card\<lparr>ac_AlertID := ''k'', ac_State := StFiring\<rparr>"

definition card_b :: alert_card where
  "card_b = empty_card\<lparr>ac_AlertID := ''k'', ac_State := StPending\<rparr>"

definition one_card :: memory_store where
  "one_card = snd (mem_CreateCard ''k'' card_a NewMemoryStore)"

theorem no_lost_update_witness:
  "fst (mem_GetCard ''k'' (fold mem_step [CreateCardOp ''k'' card_b, PutCardOp ''j'' card_b] one_card)) = Inr (card_a, 1)"
proof -
  have "fst (mem_GetCard ''k'' one_card) = Inr (card_a, 1)"
    "DeleteCardOp ''k'' \<notin> set [CreateCardOp ''k'' card_b, PutCardOp ''j'' card_b]"
    "length [CreateCardOp ''k'' card_b, PutCardOp ''j'' card_b] < 2 ^ 64"
    "fst (mem_UpdateCard ''k'' 1 card_b
       (fold mem_step [CreateCardOp ''k'' card_b, PutCardOp ''j'' card_b] one_card)) = Inr 2"
    by (simp_all add: one_card_def NewMemoryStore_def memory_ops)
  from conjunct1 [OF no_lost_update [OF this]] show ?thesis .
qed

text \<open>
  Deletion breaks the guard: the memory store starts a new card at revision 1 again, so a
  writer that read the first card succeeds with its stale revision against the second one and
  replaces a card it never saw.
\<close>

lemma stale_update_after_recreate:
  "\<exists>ops. fst (mem_GetCard ''k'' one_card) = Inr (card_a, 1) \<and>
     fst (mem_GetCard ''k'' (fold mem_step ops one_card)) = Inr (card_b, 1) \<and>
     fst (mem_UpdateCard ''k'' 1 card_a (fold mem_step ops one_card)) = Inr 2"
  by (intro exI [of _ "[DeleteCardOp ''k'', CreateCardOp ''k'' card_b]"])
    (simp add: one_card_def NewMemoryStore_def memory_ops)

section \<open>The JetStream store\<close>

text \<open>
  C18. The JetStream store keeps the contract of the memory store: for buckets that read back
  what was written, create only absent keys and update only at the current revision, and a
  codec that decodes what it encodes, its card operations form a compare-and-swap map of cards,
  with \<open>ErrNotFound\<close> and \<open>ErrConflict\<close> as the store's callers expect them.
\<close>

theorem nats_store_contract:
  assumes "kv_contract api view" "codec_contract api view"
  shows "card_store (nats_GetCard api) (nats_CreateCard api) (nats_UpdateCard api) (nats_DeleteCard api)
    (nats_cards api view)"
  using assms by (rule nats_card_store)

text \<open>A bucket whose world is the map of its entries, and the identity as the codec.\<close>

type_synonym bucket_world = "string \<Rightarrow> (alert_card \<times> uint64) option"

definition map_kv :: "(alert_card, bucket_world) kv_api" where
  "map_kv =
     \<lparr>kv_Get = \<lambda>k w. (case w k of None \<Rightarrow> Inl (ErrMsg ''key not found'') | Some entry \<Rightarrow> Inr entry, w),
      kv_Create = \<lambda>k b w. (if w k = None then (Inr 1, w(k \<mapsto> (b, 1))) else (Inl (ErrMsg ''key exists''), w)),
      kv_Put = \<lambda>k b w. (Inr 1, w(k \<mapsto> (b, 1))),
      kv_Update = \<lambda>k b r w. (case w k of
          None \<Rightarrow> (Inl (ErrMsg ''wrong last sequence''), w)
        | Some (_, r0) \<Rightarrow> if r0 = r then (Inr (r + 1), w(k \<mapsto> (b, r + 1))) else (Inl (ErrMsg ''wrong last sequence''), w)),
      kv_Delete = \<lambda>k w. (None, w(k := None)),
      kv_Keys = \<lambda>w. (Inr [], w)\<rparr>"

definition map_api :: "(alert_card, bucket_world) nats_api" where
  "map_api =
     \<lparr>na_tickKV = map_kv\<lparr>kv_Delete := \<lambda>k w. (None, w)\<rparr>, na_dataKV = map_kv,
      na_PublishMsg = \<lambda>subject header body w. (None, w), na_Marshal = Inr, na_Unmarshal = Inr,
      na_ErrKeyNotFound = ErrMsg ''key not found'', na_ErrKeyExists = ErrMsg ''key exists'',
      na_ErrNoKeysFound = ErrMsg ''no keys found'', na_text = \<lambda>e. ''wrong last sequence''\<rparr>"

lemma map_api_kv: "kv_contract map_api (\<lambda>w. w)"
proof -
  have "str_Contains (ToLower ''wrong last sequence'') ''wrong last sequence''" by code_simp
  then show ?thesis by (auto simp: kv_contract_def map_api_def map_kv_def split: option.splits)
qed

lemma map_api_codec: "codec_contract map_api (\<lambda>w. w)"
  by (simp add: codec_contract_def map_api_def)

theorem nats_store_contract_witness:
  "card_store (nats_GetCard map_api) (nats_CreateCard map_api) (nats_UpdateCard map_api) (nats_DeleteCard map_api)
    (nats_cards map_api (\<lambda>w. w))"
  by (rule nats_store_contract [OF map_api_kv map_api_codec])

section \<open>Ticks\<close>

text \<open>
  A tick lives exactly for its time: after a refresh at an instant other than the zero time
  minus the TTL, \<open>HasTick\<close> answers yes while the clock is before the instant plus the TTL, no
  matter what happened before and how often other ticks are refreshed, checked or cards are
  written; with a TTL of zero or less it never expires.
\<close>

lemma tick_lives_for_its_ttl:
  assumes "n1 \<le> n2" "lastSeen + ttl \<noteq> 0"
    and "\<forall>a \<in> set ops. (\<exists>j t d. a = RefreshTickOp j t d \<and> j \<noteq> k) \<or> (\<exists>x y j. a = HasTickOp x y j \<and> j \<noteq> k) \<or>
      (\<exists>j c. a = PutCardOp j c) \<or> (\<exists>j c. a = CreateCardOp j c) \<or> (\<exists>j r c. a = UpdateCardOp j r c)"
  shows "fst (mem_HasTick n1 n2 k (fold mem_step ops (snd (mem_RefreshTick k lastSeen ttl s)))) =
    Inr (ttl \<le> 0 \<or> n1 < lastSeen + ttl)"
proof -
  have keep: "map_get (ms_ticks (mem_step a s')) k = map_get (ms_ticks s') k" if "a \<in> set ops" for a s'
    using that assms(3) by (cases a) (fastforce simp: memory_ops split: option.splits prod.splits)+
  have "set xs \<subseteq> set ops \<Longrightarrow> map_get (ms_ticks (fold mem_step xs s')) k = map_get (ms_ticks s') k" for xs s'
    by (induction xs arbitrary: s') (simp_all add: keep)
  then have "map_get (ms_ticks (fold mem_step ops (snd (mem_RefreshTick k lastSeen ttl s)))) k =
      Some (if ttl > 0 then time_Add lastSeen ttl else zero_time)"
    by (simp add: mem_RefreshTick_def Let_def)
  then show ?thesis
    using assms(1,2) by (auto simp: mem_HasTick_def time_Add_def IsZero_def zero_time_def Before_def)
qed

lemma tick_lives_for_its_ttl_witness:
  "fst (mem_HasTick 149 149 ''k'' (fold mem_step [RefreshTickOp ''j'' 3 4] (snd (mem_RefreshTick ''k'' 100 50 one_card)))) = Inr True \<and>
   fst (mem_HasTick 150 150 ''k'' (fold mem_step [RefreshTickOp ''j'' 3 4] (snd (mem_RefreshTick ''k'' 100 50 one_card)))) = Inr False"
  using tick_lives_for_its_ttl [of 149 149 100 50 "[RefreshTickOp ''j'' 3 4]" "''k''" one_card]
    tick_lives_for_its_ttl [of 150 150 100 50 "[RefreshTickOp ''j'' 3 4]" "''k''" one_card]
  by simp

text \<open>
  The delete marker of a tick comes back to its alert: on the subject under which
  \<open>RefreshTick\<close> publishes the tick of an alert, an empty message calls the handler exactly with
  that alert and the marker's reason, and it is acknowledged exactly when the handler succeeds;
  a message with a payload never reaches the handler.
\<close>

lemma expired_tick_reaches_its_alert:
  assumes "alertID \<noteq> []"
  shows "handleDeleteMarker bucket (Some h) (''$KV.'' @ bucket @ ''.'' @ alertID) reason payload w =
    (if payload = [] then (fst (h alertID reason w) = None, snd (h alertID reason w)) else (True, w))"
  using assms unfolding handleDeleteMarker_def extract_key_roundtrip Let_def
  by (simp split: prod.splits option.splits)

lemma expired_tick_reaches_its_alert_witness:
  "handleDeleteMarker ''tick'' (Some (\<lambda>k reason w. (if k = ''rule/a/b/c'' then None else Some ErrNotFound, Suc w)))
     ''$KV.tick.rule/a/b/c'' ''MaxAge'' [] 0 = (True, 1)"
  using expired_tick_reaches_its_alert [of "''rule/a/b/c''" "''tick''"
      "\<lambda>k reason w. (if k = ''rule/a/b/c'' then None else Some ErrNotFound, Suc w)" "''MaxAge''" "[]" 0]
  by simp

end
