(* ===== verification/Dispatch.thy ===== *)
theory Dispatch
  imports Config_Norm
begin

text \<open>
  The notification dispatcher of \<open>internal/notify/notify.go\<close>: template selection, delivery
  with retries and backoff, and the construction of a dispatcher from the configuration.

  A sender (\<open>ChannelSender.Send\<close>) acts on a world \<open>'w\<close>. Go's template engine gives the
  arguments \<open>parse\<close> (parsing a body) and the rendering function inside a parsed template.
  \<open>wait\<close> is the select statement between the retry timer and the context: it returns the
  context's error when the context ends first. The retry loop need not end, so it is a partial
  function whose value \<open>None\<close> means that \<open>Send\<close> never returns.
\<close>

section \<open>Data\<close>

record send_result =
  sr_MessageID :: int64
  sr_ExternalRef :: string

definition no_send_result :: send_result where
  "no_send_result = \<lparr>sr_MessageID = 0, sr_ExternalRef = []\<rparr>"

type_synonym template = "notification \<Rightarrow> string result"
type_synonym 'w sender = "notification \<Rightarrow> 'w \<Rightarrow> send_result result \<times> 'w"

record compiled_template =
  ct_channel :: string
  ct_body :: "template option"

record 'w dispatcher =
  ds_senders :: "(string, 'w sender) gmap"
  ds_channels :: "string list"
  ds_retries :: "(string, notify_retry) gmap"
  ds_templates :: "(string, compiled_template) gmap"
  ds_templateErrs :: "(string, error) gmap"

section \<open>Templates\<close>

definition templateKey :: "string \<Rightarrow> string \<Rightarrow> string" where
  "templateKey channel name = ToLower (TrimSpace channel) @ ''/'' @ ToLower (TrimSpace name)"

type_synonym template_set = "(string, compiled_template) gmap \<times> (string, error) gmap"

fun collectCompiledTemplates ::
    "(string \<Rightarrow> string \<Rightarrow> template result) \<Rightarrow> string \<Rightarrow> named_template list \<Rightarrow> template_set \<Rightarrow> template_set" where
  "collectCompiledTemplates parse channel [] acc = acc"
| "collectCompiledTemplates parse channel (t # ts) (compiled, parseErrs) =
     (let name = ToLower (TrimSpace (tpl_Name t)) in
      if name = [] then collectCompiledTemplates parse channel ts (compiled, parseErrs)
      else
        (let key = templateKey channel name;
             entry = parse (''notify.'' @ channel @ ''.name-template.'' @ name @ ''.message'') (tpl_Message t)
         in case entry of
              Inl err \<Rightarrow> collectCompiledTemplates parse channel ts
                (map_put key \<lparr>ct_channel = channel, ct_body = None\<rparr> compiled, map_put key err parseErrs)
            | Inr body \<Rightarrow> collectCompiledTemplates parse channel ts
                (map_put key \<lparr>ct_channel = channel, ct_body = Some body\<rparr> compiled, parseErrs)))"

definition buildTemplateSet ::
    "(string \<Rightarrow> string \<Rightarrow> template result) \<Rightarrow> notify_config \<Rightarrow> template_set" where
  "buildTemplateSet parse cfg =
     fold (\<lambda>channel. collectCompiledTemplates parse channel (NotifyChannelTemplates cfg channel))
       NotifyChannelNames ([], [])"

definition resolveTemplate :: "'w dispatcher \<Rightarrow> string \<Rightarrow> string \<Rightarrow> compiled_template result" where
  "resolveTemplate d templateName channel =
     (let name = ToLower (TrimSpace templateName); key = templateKey channel name in
      if name = [] then Inl (ErrMsg ''notify template name is required'')
      else (case map_get (ds_templateErrs d) key of
          Some err \<Rightarrow> Inl (ErrWrap ''notify template %q is invalid: %w'' [templateName] err)
        | None \<Rightarrow>
            (case map_get (ds_templates d) key of
               None \<Rightarrow> Inl (ErrFmt ''notify template %q is not configured'' [templateName])
             | Some compiled \<Rightarrow>
                 if ct_body compiled = None
                 then Inl (ErrFmt ''notify template %q is not configured'' [templateName])
                 else if ct_channel compiled \<noteq> channel
                 then Inl (ErrFmt ''notify template %q is bound to channel %q, not %q''
                             [templateName, ct_channel compiled, channel])
                 else Inr compiled)))"

text \<open>A template without a body is a nil pointer; \<open>resolveTemplate\<close> never returns one.\<close>

definition renderMessage :: "compiled_template \<Rightarrow> notification \<Rightarrow> string result" where
  "renderMessage entry n =
     (case ct_body entry of
        None \<Rightarrow> Inl (ErrPanic ''nil template'')
      | Some execute \<Rightarrow>
          (case execute n of
             Inl err \<Rightarrow> Inl (ErrWrap ''render notify template for channel %q: %w'' [ct_channel entry] err)
           | Inr rendered \<Rightarrow> Inr rendered))"

section \<open>Delivery\<close>

definition next_backoff :: "notify_retry \<Rightarrow> duration \<Rightarrow> duration" where
  "next_backoff retry backoff =
     (if EqualFold (nr_Backoff retry) ''exponential'' then
        (let doubled = wrap64 (backoff * 2); maxBackoff = milliseconds (nr_MaxMS retry) in
         if doubled > maxBackoff then maxBackoff else doubled)
      else backoff)"

partial_function (option) retry_loop ::
    "'w sender \<Rightarrow> (duration \<Rightarrow> 'w \<Rightarrow> error option \<times> 'w) \<Rightarrow> string \<Rightarrow> notify_retry \<Rightarrow> notification
      \<Rightarrow> int64 \<Rightarrow> duration \<Rightarrow> 'w \<Rightarrow> (send_result result \<times> 'w) option" where
  [code]: "retry_loop send wait channel retry n attempt0 backoff w =
     (let attempt = wrap64 (attempt0 + 1) in
      case send n w of
        (Inr result, w1) \<Rightarrow> Some (Inr result, w1)
      | (Inl err, w1) \<Rightarrow>
          if permanent_Is (Some err) then Some (Inl err, w1)
          else if nr_MaxAttempts retry > 0 \<and> attempt \<ge> nr_MaxAttempts retry
          then Some (Inl (ErrWrap ''channel %s failed after %d attempts: %w'' [channel, FormatInt attempt] err), w1)
          else
            (case wait backoff w1 of
               (Some done_err, w2) \<Rightarrow> Some (Inl done_err, w2)
             | (None, w2) \<Rightarrow> retry_loop send wait channel retry n attempt (next_backoff retry backoff) w2))"

definition sendWithRetry ::
    "(duration \<Rightarrow> 'w \<Rightarrow> error option \<times> 'w) \<Rightarrow> string \<Rightarrow> 'w sender \<Rightarrow> notification \<Rightarrow> notify_retry
      \<Rightarrow> 'w \<Rightarrow> (send_result result \<times> 'w) option" where
  "sendWithRetry wait channel send n retry w =
     (if \<not> nr_Enabled retry then Some (send n w)
      else retry_loop send wait channel retry n 0 (milliseconds (nr_InitialMS retry)) w)"

definition marked :: "error \<Rightarrow> 'a result" where
  "marked e = Inl (ErrPermanent (Some e))"

definition dispatcher_Send ::
    "(duration \<Rightarrow> 'w \<Rightarrow> error option \<times> 'w) \<Rightarrow> 'w dispatcher \<Rightarrow> string \<Rightarrow> string \<Rightarrow> notification
      \<Rightarrow> 'w \<Rightarrow> (send_result result \<times> 'w) option" where
  "dispatcher_Send wait d channel templateName n w =
     (case map_get (ds_senders d) channel of
        None \<Rightarrow> Some (marked (ErrFmt ''notify channel %q is not configured'' [channel]), w)
      | Some send \<Rightarrow>
          (case resolveTemplate d templateName channel of
             Inl err \<Rightarrow> Some (marked err, w)
           | Inr compiled \<Rightarrow>
               (let rendered = n\<lparr>nt_Channel := channel\<rparr> in
                case renderMessage compiled rendered of
                  Inl err \<Rightarrow> Some (marked err, w)
                | Inr message \<Rightarrow>
                    sendWithRetry wait channel send (rendered\<lparr>nt_Message := message\<rparr>)
                      (case map_get (ds_retries d) channel of None \<Rightarrow> zero_retry | Some r \<Rightarrow> r) w)))"

section \<open>Construction\<close>

text \<open>
  \<open>factory\<close> is \<open>channelSenderFactories\<close>: the transport of a channel built from the
  configuration, or none for an unknown channel.
\<close>

definition enabled_senders ::
    "(string \<Rightarrow> notify_config \<Rightarrow> 'w sender option) \<Rightarrow> notify_config \<Rightarrow> (string \<times> 'w sender) list" where
  "enabled_senders factory cfg =
     List.map_filter (\<lambda>channel.
       if \<not> NotifyChannelEnabled cfg channel then None
       else (case factory channel cfg of None \<Rightarrow> None | Some sender \<Rightarrow> Some (channel, sender)))
     NotifyChannelNames"

definition NewDispatcher ::
    "(string \<Rightarrow> string \<Rightarrow> template result) \<Rightarrow> (string \<Rightarrow> notify_config \<Rightarrow> 'w sender option) \<Rightarrow> notify_config
      \<Rightarrow> 'w dispatcher" where
  "NewDispatcher parse factory cfg =
     (let senders = enabled_senders factory cfg; templates = buildTemplateSet parse cfg in
      \<lparr>ds_senders = senders, ds_channels = sort (map fst senders),
       ds_retries = map (\<lambda>(channel, _). (channel, NotifyChannelRetry cfg channel)) senders,
       ds_templates = fst templates, ds_templateErrs = snd templates\<rparr>)"

section \<open>Facts on retries\<close>

text \<open>A sender that fails for good stops the loop; so does the last allowed attempt.\<close>

lemma retry_loop_ok:
  "send n w = (Inr r, w1) \<Longrightarrow> retry_loop send wait ch retry n a b w = Some (Inr r, w1)"
  by (subst retry_loop.simps) simp

lemma retry_loop_permanent:
  "send n w = (Inl e, w1) \<Longrightarrow> permanent_Is (Some e) \<Longrightarrow>
    retry_loop send wait ch retry n a b w = Some (Inl e, w1)"
  by (subst retry_loop.simps) simp

lemma retry_loop_last:
  "send n w = (Inl e, w1) \<Longrightarrow> \<not> permanent_Is (Some e) \<Longrightarrow> 0 < nr_MaxAttempts retry \<Longrightarrow>
    nr_MaxAttempts retry \<le> wrap64 (a + 1) \<Longrightarrow>
    retry_loop send wait ch retry n a b w =
      Some (Inl (ErrWrap ''channel %s failed after %d attempts: %w'' [ch, FormatInt (wrap64 (a + 1))] e), w1)"
  by (subst retry_loop.simps) (simp add: Let_def)

lemma retry_loop_again:
  "send n w = (Inl e, w1) \<Longrightarrow> \<not> permanent_Is (Some e) \<Longrightarrow>
    \<not> (0 < nr_MaxAttempts retry \<and> nr_MaxAttempts retry \<le> wrap64 (a + 1)) \<Longrightarrow>
    retry_loop send wait ch retry n a b w =
      (case wait b w1 of (Some d, w2) \<Rightarrow> Some (Inl d, w2)
       | (None, w2) \<Rightarrow> retry_loop send wait ch retry n (wrap64 (a + 1)) (next_backoff retry b) w2)"
  by (subst retry_loop.simps) (auto simp: Let_def)

text \<open>
  With a positive bound the loop returns, after at most that many sends: \<open>count\<close> is any
  count of the sends that the world keeps.
\<close>

lemma retry_loop_bounded:
  fixes count :: "'w \<Rightarrow> nat"
  assumes sends: "\<And>m u. count (snd (send m u)) = Suc (count u)"
    and waits: "\<And>d u. count (snd (wait d u)) = count u"
    and bound: "0 < nr_MaxAttempts retry" "nr_MaxAttempts retry \<le> max_int64"
    and a: "0 \<le> a" "a < nr_MaxAttempts retry"
  shows "\<exists>r w'. retry_loop send wait ch retry n a b w = Some (r, w') \<and> count w < count w' \<and>
    int (count w') \<le> int (count w) + (nr_MaxAttempts retry - a)"
  using a
proof (induction "nat (nr_MaxAttempts retry - a)" arbitrary: a b w)
  case (Suc m)
  obtain r w1 where s: "send n w = (r, w1)" by force
  have c1: "count w1 = Suc (count w)" using sends [of n w] s by simp
  have a1: "wrap64 (a + 1) = a + 1" using Suc.prems bound by (simp add: int64_defs)
  show ?case
  proof (cases r)
    case (Inr x)
    then show ?thesis using s c1 Suc.prems by (simp add: retry_loop_ok)
  next
    case (Inl e)
    consider "permanent_Is (Some e)" | "\<not> permanent_Is (Some e)" "nr_MaxAttempts retry \<le> a + 1"
      | "\<not> permanent_Is (Some e)" "a + 1 < nr_MaxAttempts retry" by linarith
    then show ?thesis
    proof cases
      case 1
      then show ?thesis using s Inl c1 Suc.prems by (simp add: retry_loop_permanent)
    next
      case 2
      then show ?thesis using s Inl c1 Suc.prems a1 bound by (simp add: retry_loop_last)
    next
      case 3
      obtain d w2 where w2: "wait b w1 = (d, w2)" by force
      have c2: "count w2 = count w1" using waits [of b w1] w2 by simp
      have step: "retry_loop send wait ch retry n a b w =
          (case d of Some x \<Rightarrow> Some (Inl x, w2)
           | None \<Rightarrow> retry_loop send wait ch retry n (a + 1) (next_backoff retry b) w2)"
        using retry_loop_again [of send n w e w1 retry a wait ch b] s Inl 3 a1 w2
        by (cases d) auto
      show ?thesis
      proof (cases d)
        case (Some x)
        then show ?thesis using step c1 c2 Suc.prems by simp
      next
        case None
        have "\<exists>r w'. retry_loop send wait ch retry n (a + 1) (next_backoff retry b) w2 = Some (r, w') \<and>
            count w2 < count w' \<and> int (count w') \<le> int (count w2) + (nr_MaxAttempts retry - (a + 1))"
          by (rule Suc.hyps(1)) (use Suc.hyps(2) Suc.prems 3 in auto)
        then show ?thesis using None step c1 c2 by auto
      qed
    qed
  qed
qed simp

text \<open>Without a bound, a channel that keeps failing is retried forever.\<close>

lemma retry_loop_diverges:
  assumes fails: "\<And>u. \<exists>e u'. send n u = (Inl e, u') \<and> \<not> permanent_Is (Some e)"
    and waits: "\<And>d u. fst (wait d u) = None" and bound: "nr_MaxAttempts retry \<le> 0"
  shows "retry_loop send wait ch retry n a b w = None"
proof -
  let ?P = "\<lambda>s v c q m a b w y. s = send \<and> v = wait \<and> q = retry \<and> m = n \<longrightarrow> False"
  have "?P send wait ch retry n a b w y" if "retry_loop send wait ch retry n a b w = Some y" for y
  proof (rule retry_loop.raw_induct [where P = ?P, OF _ that], intro impI)
    fix rec s v c q m a' b' w y'
    assume IH: "\<And>s v c q m a b w y. rec s v c q m a b w = Some y \<Longrightarrow> ?P s v c q m a b w y"
      and body: "(let attempt = wrap64 (a' + 1) in
        case s m w of
          (Inr result, w1) \<Rightarrow> Some (Inr result, w1)
        | (Inl err, w1) \<Rightarrow>
            if permanent_Is (Some err) then Some (Inl err, w1)
            else if nr_MaxAttempts q > 0 \<and> attempt \<ge> nr_MaxAttempts q
            then Some (Inl (ErrWrap ''channel %s failed after %d attempts: %w'' [c, FormatInt attempt] err), w1)
            else
              (case v b' w1 of
                 (Some done_err, w2) \<Rightarrow> Some (Inl done_err, w2)
               | (None, w2) \<Rightarrow> rec s v c q m attempt (next_backoff q b') w2)) = Some y'"
      and eq: "s = send \<and> v = wait \<and> q = retry \<and> m = n"
    obtain e w1 where e: "send m w = (Inl e, w1)" "\<not> permanent_Is (Some e)" using fails eq by blast
    obtain w2 where w2: "wait b' w1 = (None, w2)" using waits by (metis prod.collapse)
    have "rec s v c q m (wrap64 (a' + 1)) (next_backoff q b') w2 = Some y'"
      using body eq e w2 bound by (simp add: Let_def)
    from IH [OF this] eq show False by simp
  qed
  then show ?thesis by (metis not_Some_eq)
qed

lemma next_backoff_capped:
  assumes "EqualFold (nr_Backoff retry) ''exponential''"
  shows "next_backoff retry b \<le> milliseconds (nr_MaxMS retry)"
  using assms by (simp add: next_backoff_def Let_def)

lemma next_backoff_doubles:
  assumes "EqualFold (nr_Backoff retry) ''exponential''" "0 \<le> b" "b \<le> 4611686018427387903"
  shows "next_backoff retry b = min (2 * b) (milliseconds (nr_MaxMS retry))"
proof -
  have "wrap64 (b * 2) = 2 * b" using assms by (simp add: int64_defs)
  then show ?thesis using assms(1) by (simp add: next_backoff_def Let_def)
qed

section \<open>Facts on sending\<close>

definition bounded_retry :: "notify_retry \<Rightarrow> bool" where
  "bounded_retry r \<longleftrightarrow> \<not> nr_Enabled r \<or> (0 < nr_MaxAttempts r \<and> nr_MaxAttempts r \<le> max_int64)"

lemma retry_loop_total:
  assumes "0 < nr_MaxAttempts retry" "nr_MaxAttempts retry \<le> max_int64"
  shows "\<exists>y. retry_loop send wait ch retry n 0 b w = Some y"
proof -
  let ?send = "\<lambda>m (u, c). case send m u of (r, u') \<Rightarrow> (r, (u', Suc c))"
  have gen: "0 \<le> a \<Longrightarrow> a < nr_MaxAttempts retry \<Longrightarrow> \<exists>y. retry_loop send wait ch retry n a b w = Some y" for a b w
  proof (induction "nat (nr_MaxAttempts retry - a)" arbitrary: a b w)
    case (Suc m)
    have a1: "wrap64 (a + 1) = a + 1" using Suc.prems assms by (simp add: int64_defs)
    have IH: "a + 1 < nr_MaxAttempts retry \<Longrightarrow> \<exists>y. retry_loop send wait ch retry n (a + 1) b' w' = Some y" for b' w'
      by (rule Suc.hyps(1)) (use Suc.hyps(2) Suc.prems in auto)
    show ?case
      by (subst retry_loop.simps)
        (use IH in \<open>auto simp: a1 Let_def assms split: prod.splits sum.splits option.splits\<close>)
  qed simp
  show ?thesis by (rule gen) (use assms in auto)
qed

lemma sendWithRetry_total:
  "bounded_retry retry \<Longrightarrow> \<exists>y. sendWithRetry wait ch send n retry w = Some y"
  using retry_loop_total by (auto simp: sendWithRetry_def bounded_retry_def)

lemma dispatcher_Send_total:
  assumes "\<forall>r \<in> snd ` set (ds_retries d). bounded_retry r"
  shows "\<exists>y. dispatcher_Send wait d channel t n w = Some y"
proof -
  let ?r = "case map_get (ds_retries d) channel of None \<Rightarrow> zero_retry | Some r \<Rightarrow> r"
  have "bounded_retry zero_retry" by (simp add: bounded_retry_def zero_retry_def)
  then have "bounded_retry ?r"
    using assms by (force split: option.splits dest: map_of_SomeD)
  then have "\<exists>y. sendWithRetry wait channel send m ?r w = Some y" for send m
    by (rule sendWithRetry_total)
  then show ?thesis
    unfolding dispatcher_Send_def Let_def by (auto split: option.splits sum.splits)
qed

text \<open>Configuration mistakes are permanent errors and touch no transport.\<close>

lemma dispatcher_Send_unconfigured:
  assumes "map_get (ds_senders d) channel = None \<or> (\<exists>e. resolveTemplate d t channel = Inl e)"
  shows "\<exists>e. dispatcher_Send wait d channel t n w = Some (Inl e, w) \<and> permanent_Is (Some e)"
  using assms
  by (auto simp: dispatcher_Send_def marked_def permanent_Is_def split: option.splits)

lemma resolveTemplate_bound:
  "resolveTemplate d t channel = Inr c \<Longrightarrow> ct_channel c = channel \<and> ct_body c \<noteq> None"
  by (auto simp: resolveTemplate_def Let_def split: if_splits option.splits)

end
