(* ===== verification/Notify_Queue.thy ===== *)
theory Notify_Queue
  imports Config_Norm
begin

text \<open>
  The asynchronous delivery queue of \<open>internal/notifyqueue\<close>: jobs and their identifiers
  (\<open>queue.go\<close>), the producer and the worker callback (\<open>nats.go\<close>).

  JetStream, JSON and the hexadecimal SHA-1 are arguments. The worker callback answers each
  message once; \<open>ack\<close> is that answer. \<open>m_Delivered\<close> is the delivery count of the
  message's metadata, \<open>None\<close> when the metadata cannot be read.
\<close>

section \<open>Jobs\<close>

record job =
  jb_ID :: string
  jb_RouteKey :: string
  jb_RouteMode :: string
  jb_Channel :: string
  jb_Template :: string
  jb_Notification :: notification
  jb_CreatedAt :: gtime

definition job_text :: "string \<Rightarrow> string \<Rightarrow> notification \<Rightarrow> string" where
  "job_text channel templateName n =
     channel @ ''|'' @ templateName @ ''|'' @ nt_AlertID n @ ''|'' @ state_name (nt_State n) @ ''|'' @
     nt_Message n @ ''|'' @ FormatInt (UnixNano_of (nt_Timestamp n)) @ ''|'' @ nt_ExternalRef n @ ''|'' @
     nt_RouteKey n @ ''|'' @ nt_RouteMode n"

definition BuildJobID :: "(string \<Rightarrow> string) \<Rightarrow> string \<Rightarrow> string \<Rightarrow> notification \<Rightarrow> string" where
  "BuildJobID hexsha1 channel templateName n = hexsha1 (job_text channel templateName n)"

datatype dlq_reason = ReasonNone | ReasonPermanentError | ReasonMaxDeliverExceeded

fun reason_name :: "dlq_reason \<Rightarrow> string" where
  "reason_name ReasonNone = []"
| "reason_name ReasonPermanentError = ''permanent_error''"
| "reason_name ReasonMaxDeliverExceeded = ''max_deliver_exceeded''"

record dlq_entry =
  dq_Job :: job
  dq_Reason :: dlq_reason
  dq_Error :: string
  dq_Attempts :: uint64
  dq_MaxDeliver :: int64
  dq_Subject :: string
  dq_FailedAt :: gtime
  dq_OriginalMsgID :: string

section \<open>Producer\<close>

record ('b, 'w) queue_api =
  qa_MarshalJob :: "job \<Rightarrow> 'b result"
  qa_UnmarshalJob :: "'b \<Rightarrow> job result"
  qa_MarshalDLQ :: "dlq_entry \<Rightarrow> 'b result"
  qa_Publish :: "string \<Rightarrow> (string, string) gmap \<Rightarrow> 'b \<Rightarrow> 'w \<Rightarrow> error option \<times> 'w"
  qa_Now :: "'w \<Rightarrow> gtime \<times> 'w"
  qa_text :: "error \<Rightarrow> string"

abbreviation notifyQueueSubject :: string where "notifyQueueSubject \<equiv> ''alerting.notify.jobs''"
abbreviation notifyQueueDLQSubject :: string where "notifyQueueDLQSubject \<equiv> ''alerting.notify.jobs.dlq''"

definition producer_Enqueue :: "('b, 'w) queue_api \<Rightarrow> job \<Rightarrow> 'w \<Rightarrow> error option \<times> 'w" where
  "producer_Enqueue api j w =
     (case qa_MarshalJob api j of
        Inl err \<Rightarrow> (Some (ErrWrap ''marshal notify queue job: %w'' [] err), w)
      | Inr body \<Rightarrow>
          (let header = (if TrimSpace (jb_ID j) \<noteq> [] then [(''Nats-Msg-Id'', TrimSpace (jb_ID j))] else [])
           in case qa_Publish api notifyQueueSubject header body w of
                (Some err, w') \<Rightarrow> (Some (ErrWrap ''publish notify queue job: %w'' [] err), w')
              | (None, w') \<Rightarrow> (None, w')))"

section \<open>Worker\<close>

record 'b queue_message =
  m_Data :: 'b
  m_Subject :: string
  m_MsgID :: string
  m_Delivered :: "uint64 option"

datatype ack = Ack | Nak | NakWithDelay duration

definition deliveryAttempts :: "'b queue_message \<Rightarrow> uint64" where
  "deliveryAttempts m =
     (case m_Delivered m of None \<Rightarrow> 1 | Some n \<Rightarrow> if n \<le> 0 then 1 else n)"

definition isMaxDeliverExceeded :: "uint64 \<Rightarrow> int64 \<Rightarrow> bool" where
  "isMaxDeliverExceeded attempts maxDeliver =
     (if maxDeliver \<le> 0 then False else attempts \<ge> word_of_int maxDeliver)"

definition publishDLQ ::
    "('b, 'w) queue_api \<Rightarrow> bool \<Rightarrow> 'b queue_message \<Rightarrow> job \<Rightarrow> dlq_reason \<Rightarrow> error \<Rightarrow> uint64 \<Rightarrow> int64
      \<Rightarrow> 'w \<Rightarrow> error option \<times> 'w" where
  "publishDLQ api dlq m j reason cause attempts maxDeliver w =
     (if \<not> dlq then (None, w)
      else
        (let (failedAt, w1) = qa_Now api w;
             entry = \<lparr>dq_Job = j, dq_Reason = reason, dq_Error = TrimSpace (qa_text api cause),
               dq_Attempts = attempts, dq_MaxDeliver = maxDeliver, dq_Subject = m_Subject m,
               dq_FailedAt = failedAt, dq_OriginalMsgID = TrimSpace (m_MsgID m)\<rparr>
         in case qa_MarshalDLQ api entry of
              Inl err \<Rightarrow> (Some (ErrWrap ''marshal notify dlq entry: %w'' [] err), w1)
            | Inr body \<Rightarrow>
                (let header = (if TrimSpace (jb_ID j) \<noteq> [] then
                       [(''Nats-Msg-Id'', TrimSpace (jb_ID j) @ '':dlq:'' @ reason_name reason @ '':'' @
                          FormatInt (uint attempts))] else [])
                 in case qa_Publish api notifyQueueDLQSubject header body w1 of
                      (Some err, w2) \<Rightarrow> (Some (ErrWrap ''publish notify dlq entry: %w'' [] err), w2)
                    | (None, w2) \<Rightarrow> (None, w2))))"

definition nak_answer :: "duration \<Rightarrow> ack" where
  "nak_answer nackDelay = (if nackDelay > 0 then NakWithDelay nackDelay else Nak)"

definition failure_reason :: "error \<Rightarrow> uint64 \<Rightarrow> int64 \<Rightarrow> dlq_reason" where
  "failure_reason err attempts maxDeliver =
     (if permanent_Is (Some err) then ReasonPermanentError
      else if isMaxDeliverExceeded attempts maxDeliver then ReasonMaxDeliverExceeded
      else ReasonNone)"

text \<open>The callback of \<open>NewNATSWorker\<close> on one message, with a handler.\<close>

definition worker_handle ::
    "('b, 'w) queue_api \<Rightarrow> notify_queue \<Rightarrow> (job \<Rightarrow> 'w \<Rightarrow> error option \<times> 'w) \<Rightarrow> 'b queue_message
      \<Rightarrow> 'w \<Rightarrow> ack \<times> 'w" where
  "worker_handle api cfg handler m w =
     (let nackDelay = milliseconds (nq_NackDelayMS cfg) in
      case qa_UnmarshalJob api (m_Data m) of
        Inl _ \<Rightarrow> (Ack, w)
      | Inr j \<Rightarrow>
          (case handler j w of
             (None, w1) \<Rightarrow> (Ack, w1)
           | (Some err, w1) \<Rightarrow>
               (let attempts = deliveryAttempts m; reason = failure_reason err attempts (nq_MaxDeliver cfg) in
                if reason \<noteq> ReasonNone then
                  (if nq_DLQ cfg then
                     (case publishDLQ api (nq_DLQ cfg) m j reason err attempts (nq_MaxDeliver cfg) w1 of
                        (Some _, w2) \<Rightarrow> (nak_answer nackDelay, w2)
                      | (None, w2) \<Rightarrow> (Ack, w2))
                   else (Ack, w1))
                else (nak_answer nackDelay, w1))))"

section \<open>Facts\<close>

text \<open>When a message that decodes is taken off the queue.\<close>

lemma worker_handle_ack:
  assumes "qa_UnmarshalJob api (m_Data m) = Inr j" "handler j w = (r, w1)"
  shows "fst (worker_handle api cfg handler m w) = Ack \<longleftrightarrow>
    (case r of None \<Rightarrow> True
     | Some err \<Rightarrow> failure_reason err (deliveryAttempts m) (nq_MaxDeliver cfg) \<noteq> ReasonNone \<and>
         (nq_DLQ cfg \<longrightarrow> fst (publishDLQ api True m j (failure_reason err (deliveryAttempts m) (nq_MaxDeliver cfg))
            err (deliveryAttempts m) (nq_MaxDeliver cfg) w1) = None))"
  using assms
  by (auto simp: worker_handle_def Let_def nak_answer_def split: option.splits prod.splits)

lemma failure_reason_none:
  "failure_reason err attempts maxDeliver = ReasonNone \<longleftrightarrow>
    \<not> permanent_Is (Some err) \<and> \<not> isMaxDeliverExceeded attempts maxDeliver"
  by (simp add: failure_reason_def)

lemma isMaxDeliverExceeded_int:
  assumes "in_int64 maxDeliver"
  shows "isMaxDeliverExceeded attempts maxDeliver \<longleftrightarrow> 0 < maxDeliver \<and> maxDeliver \<le> uint attempts"
proof (cases "0 < maxDeliver")
  case True
  then have "uint (word_of_int maxDeliver :: 64 word) = maxDeliver"
    using assms by (simp add: int64_defs uint_word_of_int)
  then show ?thesis using True by (simp add: isMaxDeliverExceeded_def word_le_def)
qed (simp add: isMaxDeliverExceeded_def)

lemma deliveryAttempts_pos: "1 \<le> deliveryAttempts m"
proof (cases "m_Delivered m")
  case (Some n)
  have "0 < n \<Longrightarrow> 1 \<le> n" by (simp add: word_le_nat_alt word_less_nat_alt Suc_le_eq)
  then show ?thesis using Some by (auto simp: deliveryAttempts_def word_gt_0)
qed (simp add: deliveryAttempts_def)

end
