(* ===== verification/Delivery_Properties.thy ===== *)
theory Delivery_Properties
  imports Dispatch Notify_Queue Samples
begin

text \<open>
  What delivery promises: the outcome of the retry loop attempt by attempt, the schedule of its
  delays, the template a channel gets, and when the queue worker takes a job off the queue.
\<close>

section \<open>Retries\<close>

fun transient :: "'a result \<Rightarrow> bool" where
  "transient (Inl e) = (\<not> permanent_Is (Some e))"
| "transient (Inr _) = False"

text \<open>The world before attempt \<open>i\<close>, counted from 0, when all attempts before it failed.\<close>

fun before_attempt ::
    "'w sender \<Rightarrow> (duration \<Rightarrow> 'w \<Rightarrow> error option \<times> 'w) \<Rightarrow> notify_retry \<Rightarrow> notification \<Rightarrow> nat \<Rightarrow> duration
      \<Rightarrow> 'w \<Rightarrow> 'w" where
  "before_attempt send wait retry n 0 b w = w"
| "before_attempt send wait retry n (Suc i) b w =
     before_attempt send wait retry n i (next_backoff retry b) (snd (wait b (snd (send n w))))"

lemma retry_loop_skip:
  assumes bound: "0 < nr_MaxAttempts retry" "nr_MaxAttempts retry \<le> max_int64"
    and waits: "\<And>d u. fst (wait d u) = None"
    and fails: "\<forall>i < k. transient (fst (send n (before_attempt send wait retry n i b w)))"
    and a: "0 \<le> a" "a + int k < nr_MaxAttempts retry"
  shows "retry_loop send wait ch retry n a b w =
    retry_loop send wait ch retry n (a + int k) ((next_backoff retry ^^ k) b) (before_attempt send wait retry n k b w)"
  using fails a
proof (induction k arbitrary: a b w)
  case (Suc k)
  obtain r w1 where s: "send n w = (r, w1)" by force
  have "transient r" using Suc.prems(1) s by force
  then obtain e where e: "r = Inl e" "\<not> permanent_Is (Some e)" by (cases r) auto
  have a1: "wrap64 (a + 1) = a + 1" using Suc.prems(2,3) bound by (simp add: int64_defs)
  obtain w2 where w2: "wait b w1 = (None, w2)" using waits by (metis prod.collapse)
  have "retry_loop send wait ch retry n a b w =
      retry_loop send wait ch retry n (a + 1) (next_backoff retry b) w2"
    using retry_loop_again [of send n w e w1 retry a wait ch b] s e a1 w2 Suc.prems(3) by simp
  also have "\<dots> = retry_loop send wait ch retry n (a + 1 + int k) ((next_backoff retry ^^ k) (next_backoff retry b))
      (before_attempt send wait retry n k (next_backoff retry b) w2)"
  proof (rule Suc.IH)
    show "\<forall>i<k. transient (fst (send n (before_attempt send wait retry n i (next_backoff retry b) w2)))"
    proof (intro allI impI)
      fix i assume "i < k"
      then have "transient (fst (send n (before_attempt send wait retry n (Suc i) b w)))"
        using Suc.prems(1) by blast
      then show "transient (fst (send n (before_attempt send wait retry n i (next_backoff retry b) w2)))"
        by (simp add: s w2)
    qed
  qed (use Suc.prems in auto)
  finally show ?case by (simp add: s w2 funpow_swap1 ac_simps)
qed simp

text \<open>
  C19. With retries enabled and a positive attempt limit, and a context that does not end during
  the waits, the delivery always returns: with the
  outcome of the first attempt that succeeds or fails for good, made in the world that the
  failed attempts and the waits before it left, or, when every attempt up to the limit fails,
  with the last error after exactly the limit of attempts.
\<close>

theorem retry_outcome:
  assumes "nr_Enabled retry" "0 < nr_MaxAttempts retry" "nr_MaxAttempts retry \<le> max_int64"
    and "\<And>d u. fst (wait d u) = None"
  shows "(\<forall>k. int k < nr_MaxAttempts retry \<and>
        (\<forall>i < k. transient (fst (send n (before_attempt send wait retry n i (milliseconds (nr_InitialMS retry)) w)))) \<and>
        \<not> transient (fst (send n (before_attempt send wait retry n k (milliseconds (nr_InitialMS retry)) w))) \<longrightarrow>
        sendWithRetry wait ch send n retry w =
          Some (send n (before_attempt send wait retry n k (milliseconds (nr_InitialMS retry)) w))) \<and>
    ((\<forall>i < nat (nr_MaxAttempts retry).
        transient (fst (send n (before_attempt send wait retry n i (milliseconds (nr_InitialMS retry)) w)))) \<longrightarrow>
      (\<exists>e w'. send n (before_attempt send wait retry n (nat (nr_MaxAttempts retry) - 1)
            (milliseconds (nr_InitialMS retry)) w) = (Inl e, w') \<and>
        sendWithRetry wait ch send n retry w =
          Some (Inl (ErrWrap ''channel %s failed after %d attempts: %w'' [ch, FormatInt (nr_MaxAttempts retry)] e), w')))"
    (is "(\<forall>k. ?first k \<longrightarrow> ?result k) \<and> (?all \<longrightarrow> ?exhausted)")
proof (intro conjI allI impI)
  let ?b = "milliseconds (nr_InitialMS retry)"
  have loop: "sendWithRetry wait ch send n retry w = retry_loop send wait ch retry n (int k) ((next_backoff retry ^^ k) ?b)
      (before_attempt send wait retry n k ?b w)"
    if "\<forall>i < k. transient (fst (send n (before_attempt send wait retry n i ?b w)))" "int k < nr_MaxAttempts retry" for k
    using retry_loop_skip [where a = 0, OF assms(2,3,4) that(1)] that(2) assms(1) by (simp add: sendWithRetry_def)
  show "?result k" if "?first k" for k
  proof -
    obtain r w1 where s: "send n (before_attempt send wait retry n k ?b w) = (r, w1)" by force
    then show ?thesis
      using loop [of k] that by (cases r) (auto simp: retry_loop_ok retry_loop_permanent)
  qed
  show ?exhausted if ?all
  proof -
    let ?k = "nat (nr_MaxAttempts retry) - 1"
    have k: "int ?k < nr_MaxAttempts retry" "wrap64 (int ?k + 1) = nr_MaxAttempts retry" "?k < nat (nr_MaxAttempts retry)"
      using assms(2,3) by (simp_all add: int64_defs)
    obtain r w1 where s: "send n (before_attempt send wait retry n ?k ?b w) = (r, w1)" by force
    have "transient r" using that k(3) s by (metis fst_conv)
    then obtain e where e: "r = Inl e" "\<not> permanent_Is (Some e)" by (cases r) auto
    have "sendWithRetry wait ch send n retry w =
        retry_loop send wait ch retry n (int ?k) ((next_backoff retry ^^ ?k) ?b) (before_attempt send wait retry n ?k ?b w)"
      by (rule loop) (use that k in auto)
    also have "\<dots> = Some (Inl (ErrWrap ''channel %s failed after %d attempts: %w''
        [ch, FormatInt (nr_MaxAttempts retry)] e), w1)"
      using retry_loop_last [of send n _ e w1 retry "int ?k"] s e assms(2) k(2) by simp
    finally show ?thesis using s e(1) by blast
  qed
qed

text \<open>A sender that plays a list of outcomes, and a wait that counts.\<close>

definition scripted :: "notification \<Rightarrow> send_result result list \<times> nat \<Rightarrow> send_result result \<times> send_result result list \<times> nat" where
  "scripted n s = (case fst s of [] \<Rightarrow> (Inl ErrNotFound, s) | r # rs \<Rightarrow> (r, rs, snd s))"

definition counted_wait :: "duration \<Rightarrow> send_result result list \<times> nat \<Rightarrow> error option \<times> send_result result list \<times> nat" where
  "counted_wait d s = (None, fst s, Suc (snd s))"

definition sample_outcomes :: "send_result result list" where
  "sample_outcomes = [Inl ErrConflict, Inr no_send_result, Inl ErrConflict]"

lemma conflict_transient [simp]: "transient (Inl ErrConflict)"
  by (simp add: permanent_Is_def)

theorem retry_outcome_witness:
  "sendWithRetry counted_wait ''http'' scripted sample_notification sample_retry (sample_outcomes, 0) =
     Some (Inr no_send_result, [Inl ErrConflict], 1)"
proof -
  let ?b = "milliseconds (nr_InitialMS sample_retry)"
  have one: "before_attempt scripted counted_wait sample_retry sample_notification 1 ?b (sample_outcomes, 0) = (tl sample_outcomes, 1)"
    by (simp add: scripted_def counted_wait_def sample_outcomes_def)
  have first: "int 1 < nr_MaxAttempts sample_retry \<and>
      (\<forall>i < 1. transient (fst (scripted sample_notification (before_attempt scripted counted_wait sample_retry sample_notification i ?b (sample_outcomes, 0))))) \<and>
      \<not> transient (fst (scripted sample_notification (before_attempt scripted counted_wait sample_retry sample_notification 1 ?b (sample_outcomes, 0))))"
    unfolding one by (simp add: scripted_def sample_outcomes_def sample_retry_def permanent_Is_def)
  have "nr_Enabled sample_retry" "0 < nr_MaxAttempts sample_retry" "nr_MaxAttempts sample_retry \<le> max_int64"
    "\<And>d u. fst (counted_wait d u) = None"
    by (simp_all add: sample_retry_def max_int64_def counted_wait_def)
  note outcome = conjunct1 [OF retry_outcome [where ch = "''http''" and send = scripted and n = sample_notification
      and w = "(sample_outcomes, 0)", OF this]]
  have "sendWithRetry counted_wait ''http'' scripted sample_notification sample_retry (sample_outcomes, 0) =
      Some (scripted sample_notification (before_attempt scripted counted_wait sample_retry sample_notification 1 ?b (sample_outcomes, 0)))"
    by (rule mp [OF spec [OF outcome, of 1] first])
  then show ?thesis unfolding one by (simp add: scripted_def sample_outcomes_def)
qed

text \<open>
  Without a positive attempt limit (zero when the field is set explicitly) and with a
  context that never ends, a channel that keeps failing holds its caller forever: \<open>Send\<close> does
  not return.
\<close>

lemma unlimited_retry_never_returns:
  assumes "nr_Enabled retry" "nr_MaxAttempts retry \<le> 0"
    and "\<And>m u. transient (fst (send m u))" "\<And>d u. fst (wait d u) = None"
  shows "sendWithRetry wait ch send n retry w = None"
proof -
  have "\<exists>e u'. send n u = (Inl e, u') \<and> \<not> permanent_Is (Some e)" for u
    using assms(3) [of n u] by (cases "send n u"; cases "fst (send n u)") auto
  from retry_loop_diverges [where send = send and n = n and wait = wait, OF this assms(4,2)] assms(1)
  show ?thesis by (simp add: sendWithRetry_def)
qed

lemma unlimited_retry_never_returns_witness:
  "sendWithRetry (\<lambda>d u. (None, u)) ''http'' (\<lambda>m u. (Inl ErrConflict, u)) sample_notification (sample_retry\<lparr>nr_MaxAttempts := 0\<rparr>) () = None"
  by (rule unlimited_retry_never_returns) (simp_all add: sample_retry_def permanent_Is_def)

text \<open>
  The delays double up to the configured maximum: with exponential backoff the wait after
  attempt \<open>i\<close> (from 0) is the smaller of the initial delay times two to the \<open>i\<close> and the maximum,
  and with any other backoff it is always the initial delay.
\<close>

lemma backoff_schedule:
  assumes "0 \<le> nr_InitialMS retry" "nr_InitialMS retry \<le> nr_MaxMS retry" "nr_MaxMS retry \<le> 4611686018427"
  shows "(next_backoff retry ^^ i) (milliseconds (nr_InitialMS retry)) =
    (if EqualFold (nr_Backoff retry) ''exponential''
     then min (nr_InitialMS retry * 2 ^ i) (nr_MaxMS retry) * 1000000
     else nr_InitialMS retry * 1000000)"
proof -
  have ms: "milliseconds (nr_InitialMS retry) = nr_InitialMS retry * 1000000"
      "milliseconds (nr_MaxMS retry) = nr_MaxMS retry * 1000000"
    using assms by (simp_all add: milliseconds_def int64_defs)
  have "(next_backoff retry ^^ i) (nr_InitialMS retry * 1000000) = min (nr_InitialMS retry * 2 ^ i) (nr_MaxMS retry) * 1000000"
    if e: "EqualFold (nr_Backoff retry) ''exponential''"
  proof (induction i)
    case (Suc i)
    let ?x = "min (nr_InitialMS retry * 2 ^ i) (nr_MaxMS retry)"
    have x: "0 \<le> ?x" "?x \<le> 4611686018427" using assms by (auto simp: min_def)
    have "next_backoff retry (?x * 1000000) = min (2 * (?x * 1000000)) (nr_MaxMS retry * 1000000)"
      using next_backoff_doubles [OF e, of "?x * 1000000"] x ms by simp
    also have "\<dots> = min (nr_InitialMS retry * 2 ^ Suc i) (nr_MaxMS retry) * 1000000"
      using assms by (simp add: min_def)
    finally show ?case using Suc by simp
  qed (use assms in simp)
  moreover have "(next_backoff retry ^^ i) x = x" if "\<not> EqualFold (nr_Backoff retry) ''exponential''" for x
    by (induction i) (simp_all add: next_backoff_def that)
  ultimately show ?thesis by (simp add: ms)
qed

lemma backoff_schedule_witness:
  "map (\<lambda>i. (next_backoff sample_retry ^^ i) (milliseconds (nr_InitialMS sample_retry))) [0, 3, 9] =
     [10000000, 80000000, 1000000000]"
proof -
  have "EqualFold ''exponential'' ''exponential''" by code_simp
  then have "(next_backoff sample_retry ^^ i) (milliseconds (nr_InitialMS sample_retry)) =
      min (10 * 2 ^ i) 1000 * 1000000" for i
    using backoff_schedule [of sample_retry i] by (simp add: sample_retry_def)
  then show ?thesis by simp
qed

section \<open>Templates\<close>

text \<open>Where the entries of a template set come from.\<close>

definition template_origin ::
    "(string \<Rightarrow> string \<Rightarrow> template result) \<Rightarrow> notify_config \<Rightarrow> string \<Rightarrow> compiled_template \<Rightarrow> bool" where
  "template_origin parse cfg key c \<longleftrightarrow>
     (\<exists>t \<in> set (NotifyChannelTemplates cfg (ct_channel c)).
        key = templateKey (ct_channel c) (ToLower (TrimSpace (tpl_Name t))) \<and>
        (\<forall>body. ct_body c = Some body \<longrightarrow>
           parse (''notify.'' @ ct_channel c @ ''.name-template.'' @ ToLower (TrimSpace (tpl_Name t)) @ ''.message'')
             (tpl_Message t) = Inr body))"

lemma collect_origin:
  assumes "\<forall>key c. map_get (fst acc) key = Some c \<longrightarrow> template_origin parse cfg key c"
    and "set ts \<subseteq> set (NotifyChannelTemplates cfg channel)"
  shows "\<forall>key c. map_get (fst (collectCompiledTemplates parse channel ts acc)) key = Some c \<longrightarrow> template_origin parse cfg key c"
  using assms
proof (induction ts arbitrary: acc)
  case (Cons t ts)
  obtain compiled errs where acc: "acc = (compiled, errs)" by force
  let ?name = "ToLower (TrimSpace (tpl_Name t))"
  show ?case
  proof (cases "?name = []")
    case True
    then show ?thesis using Cons.IH [OF Cons.prems(1)] Cons.prems(2) by (simp add: acc)
  next
    case False
    let ?parsed = "parse (''notify.'' @ channel @ ''.name-template.'' @ ?name @ ''.message'') (tpl_Message t)"
    have put_ok: "\<forall>key c. map_get (map_put (templateKey channel ?name) \<lparr>ct_channel = channel, ct_body = body\<rparr> compiled) key
          = Some c \<longrightarrow> template_origin parse cfg key c"
      if "\<forall>b. body = Some b \<longrightarrow> ?parsed = Inr b" for body
      using Cons.prems that by (auto simp: acc template_origin_def split: if_splits)
    show ?thesis
    proof (cases ?parsed)
      case (Inl err)
      then show ?thesis
        using False Cons.IH [of "(map_put (templateKey channel ?name) \<lparr>ct_channel = channel, ct_body = None\<rparr> compiled,
            map_put (templateKey channel ?name) err errs)"] put_ok [of None] Cons.prems(2)
        by (simp add: acc Let_def)
    next
      case (Inr body)
      then show ?thesis
        using False Cons.IH [of "(map_put (templateKey channel ?name) \<lparr>ct_channel = channel, ct_body = Some body\<rparr> compiled,
            errs)"] put_ok [of "Some body"] Cons.prems(2)
        by (simp add: acc Let_def)
    qed
  qed
qed simp

lemma build_origin:
  assumes "map_get (fst (buildTemplateSet parse cfg)) key = Some c"
  shows "template_origin parse cfg key c"
proof -
  have sets: "\<forall>key c. map_get (fst (fold (\<lambda>channel. collectCompiledTemplates parse channel (NotifyChannelTemplates cfg channel))
        names acc)) key = Some c \<longrightarrow> template_origin parse cfg key c"
    if "\<forall>key c. map_get (fst acc) key = Some c \<longrightarrow> template_origin parse cfg key c" for names acc
    using that
  proof (induction names arbitrary: acc)
    case (Cons name names)
    show ?case using Cons.IH [OF collect_origin [OF Cons.prems subset_refl]] by simp
  qed simp
  show ?thesis using sets [of "([], [])"] assms by (simp add: buildTemplateSet_def)
qed

text \<open>
  A dispatcher renders a notification with a template of the channel it goes to: whatever
  template name a route gives, the template that is found is one configured under that channel,
  its name is the given one up to case and surrounding space, and it parsed without error.
\<close>

lemma template_belongs_to_channel:
  assumes "resolveTemplate (NewDispatcher parse factory cfg) templateName channel = Inr c"
  shows "\<exists>t body. t \<in> set (NotifyChannelTemplates cfg channel) \<and>
    ToLower (TrimSpace (tpl_Name t)) = ToLower (TrimSpace templateName) \<and> ct_body c = Some body \<and>
    parse (''notify.'' @ channel @ ''.name-template.'' @ ToLower (TrimSpace (tpl_Name t)) @ ''.message'') (tpl_Message t)
      = Inr body"
proof -
  let ?key = "templateKey channel (ToLower (TrimSpace templateName))"
  have c: "ct_channel c = channel" "ct_body c \<noteq> None" using resolveTemplate_bound [OF assms] by simp_all
  have "map_get (fst (buildTemplateSet parse cfg)) ?key = Some c"
    using assms by (auto simp: resolveTemplate_def NewDispatcher_def Let_def split: if_splits option.splits)
  from build_origin [OF this] obtain t where t: "t \<in> set (NotifyChannelTemplates cfg channel)"
    "?key = templateKey channel (ToLower (TrimSpace (tpl_Name t)))"
    "\<forall>body. ct_body c = Some body \<longrightarrow> parse (''notify.'' @ channel @ ''.name-template.'' @
        ToLower (TrimSpace (tpl_Name t)) @ ''.message'') (tpl_Message t) = Inr body"
    unfolding template_origin_def c(1) by blast
  have "ToLower (TrimSpace (tpl_Name t)) = ToLower (TrimSpace templateName)"
    using t(2) by (simp add: templateKey_def TrimSpace_ToLower)
  then show ?thesis using t c(2) by blast
qed

definition sample_notify :: notify_config where
  "sample_notify = zero_notify\<lparr>nc_HTTP := (nc_HTTP zero_notify)\<lparr>hn_Enabled := True, hn_Retry := sample_retry,
     hn_NameTemplate := [\<lparr>tpl_Name = '' Base'', tpl_Message = ''alert''\<rparr>]\<rparr>\<rparr>"

definition sample_parse :: "string \<Rightarrow> string \<Rightarrow> template result" where
  "sample_parse name body = Inr (\<lambda>n. Inr (body @ nt_ShortID n))"

definition sample_factory :: "string \<Rightarrow> notify_config \<Rightarrow> (send_result result list \<times> nat) sender option" where
  "sample_factory channel cfg = Some scripted"

lemma template_belongs_to_channel_witness:
  "\<exists>t body. t \<in> set (NotifyChannelTemplates sample_notify ''http'') \<and>
    ToLower (TrimSpace (tpl_Name t)) = ToLower (TrimSpace ''BASE'') \<and>
    sample_parse (''notify.'' @ ''http'' @ ''.name-template.'' @ ToLower (TrimSpace (tpl_Name t)) @ ''.message'') (tpl_Message t)
      = Inr body"
proof -
  have "isl (resolveTemplate (NewDispatcher sample_parse sample_factory sample_notify) ''BASE'' ''http'') = False"
    by code_simp
  then obtain c where "resolveTemplate (NewDispatcher sample_parse sample_factory sample_notify) ''BASE'' ''http'' = Inr c"
    by (cases "resolveTemplate (NewDispatcher sample_parse sample_factory sample_notify) ''BASE'' ''http''") simp_all
  from template_belongs_to_channel [OF this] show ?thesis by blast
qed

section \<open>The worker\<close>

text \<open>
  C32. A queued job leaves the queue exactly when it is delivered, or has failed for good or on
  its last allowed delivery and, with a dead letter queue, was written there; every other
  failure asks for redelivery. A message that is not a job is dropped.
\<close>

theorem worker_ack_policy:
  assumes "in_int64 (nq_MaxDeliver cfg)"
  shows "fst (worker_handle api cfg handler m w) = Ack \<longleftrightarrow>
    (case qa_UnmarshalJob api (m_Data m) of
       Inl _ \<Rightarrow> True
     | Inr j \<Rightarrow>
         (case fst (handler j w) of
            None \<Rightarrow> True
          | Some err \<Rightarrow>
              (permanent_Is (Some err) \<or>
                 0 < nq_MaxDeliver cfg \<and> nq_MaxDeliver cfg \<le> uint (deliveryAttempts m)) \<and>
              (nq_DLQ cfg \<longrightarrow> fst (publishDLQ api True m j
                 (if permanent_Is (Some err) then ReasonPermanentError else ReasonMaxDeliverExceeded) err
                 (deliveryAttempts m) (nq_MaxDeliver cfg) (snd (handler j w))) = None)))"
proof (cases "qa_UnmarshalJob api (m_Data m)")
  case (Inr j)
  obtain r w1 where h: "handler j w = (r, w1)" by force
  show ?thesis
    using worker_handle_ack [of api m j handler w r w1 cfg] Inr h
    by (cases r) (auto simp: Inr h failure_reason_def isMaxDeliverExceeded_int [OF assms])
qed (simp add: worker_handle_def Let_def)

definition sample_queue :: notify_queue where
  "sample_queue = zero_queue\<lparr>nq_Enabled := True, nq_NackDelayMS := 5, nq_MaxDeliver := 3, nq_DLQ := True\<rparr>"

definition unit_queue_api :: "(job, nat) queue_api" where
  "unit_queue_api = \<lparr>qa_MarshalJob = Inr, qa_UnmarshalJob = Inr, qa_MarshalDLQ = \<lambda>entry. Inr (dq_Job entry),
     qa_Publish = \<lambda>subject header body w. (None, Suc w), qa_Now = \<lambda>w. (7, w), qa_text = \<lambda>e. ''failed''\<rparr>"

definition sample_job :: job where
  "sample_job = \<lparr>jb_ID = ''j1'', jb_RouteKey = ''http'', jb_RouteMode = ''history'', jb_Channel = ''http'',
     jb_Template = ''base'', jb_Notification = sample_notification, jb_CreatedAt = 7\<rparr>"

definition queued :: "job \<Rightarrow> uint64 \<Rightarrow> job queue_message" where
  "queued j n = \<lparr>m_Data = j, m_Subject = notifyQueueSubject, m_MsgID = jb_ID j, m_Delivered = Some n\<rparr>"

theorem worker_ack_policy_witness:
  "fst (worker_handle unit_queue_api sample_queue (\<lambda>q w. (Some ErrConflict, w)) (queued sample_job 2) 0) \<noteq> Ack \<and>
   fst (worker_handle unit_queue_api sample_queue (\<lambda>q w. (Some ErrConflict, w)) (queued sample_job 3) 0) = Ack"
proof -
  have "in_int64 (nq_MaxDeliver sample_queue)" by (simp add: sample_queue_def in_int64_def int64_defs)
  note policy = worker_ack_policy [OF this, of unit_queue_api "\<lambda>q w. (Some ErrConflict, w)" _ 0]
  show ?thesis
    unfolding policy
    by (simp add: unit_queue_api_def queued_def sample_queue_def deliveryAttempts_def permanent_Is_def
        publishDLQ_def Let_def zero_queue_def)
qed

end
