(* ===== verification/Manager_Base.thy ===== *)
theory Manager_Base
  imports Engine Matcher Key_Builder Notify_Off Store Dispatch Notify_Queue
begin

text \<open>
  The pure parts of \<open>internal/app/manager.go\<close>: effective notification settings, route
  normalisation, card and notification construction, and the rule index.
\<close>

section \<open>Routes\<close>

record norm_route =
  nro_Key :: string
  nro_Channel :: string
  nro_Template :: string
  nro_Mode :: string

definition normalizedNotifyRouteFromConfig :: "rule_route \<Rightarrow> bool \<Rightarrow> norm_route option" where
  "normalizedNotifyRouteFromConfig route alreadyNormalized =
     (let channel0 = TrimSpace (ro_Channel route); templateName = TrimSpace (ro_Template route) in
      if channel0 = [] \<or> templateName = [] then None
      else
        (let channel = (if \<not> alreadyNormalized then ToLower channel0 else channel0);
             key0 = TrimSpace (ro_Name route);
             key1 = (if \<not> alreadyNormalized then ToLower key0 else key0);
             routeKey = (if key1 = [] then channel else key1);
             mode0 = TrimSpace (ro_Mode route);
             mode = (if alreadyNormalized then (if mode0 = [] then NotifyRouteModeHistory else mode0)
                     else NormalizeNotifyRouteMode mode0)
         in Some \<lparr>nro_Key = routeKey, nro_Channel = channel, nro_Template = templateName, nro_Mode = mode\<rparr>))"

definition route_of_norm :: "norm_route \<Rightarrow> rule_route" where
  "route_of_norm r = \<lparr>ro_Name = nro_Key r, ro_Channel = nro_Channel r, ro_Template = nro_Template r,
     ro_Mode = nro_Mode r\<rparr>"

section \<open>Rules\<close>

definition compile_off :: "rule_off \<Rightarrow> rule_off" where
  "compile_off w = (case compileNotifyOffWindow w of Inl _ \<Rightarrow> w | Inr c \<Rightarrow> w\<lparr>off_compiled := Some c\<rparr>)"

definition normalizeRule :: "rule_config \<Rightarrow> rule_config" where
  "normalizeRule rule =
     (let r1 = (if length (rc_Key_FromTags rule) > 1 \<and> \<not> sorted (rc_Key_FromTags rule)
                then rule\<lparr>rc_Key_FromTags := sort (rc_Key_FromTags rule)\<rparr> else rule);
          r2 = (if length (rn_Route (rc_Notify r1)) > 0
                then r1\<lparr>rc_Notify := (rc_Notify r1)\<lparr>rn_Route :=
                  List.map_filter (\<lambda>route. map_option route_of_norm (normalizedNotifyRouteFromConfig route False))
                    (rn_Route (rc_Notify r1))\<rparr>\<rparr> else r1)
      in if length (rn_Off (rc_Notify r2)) > 0
         then r2\<lparr>rc_Notify := (rc_Notify r2)\<lparr>rn_Off := map compile_off (rn_Off (rc_Notify r2))\<rparr>\<rparr>
         else r2)"

text \<open>
  \<open>buildRuleIndex\<close>. Two rules of one name keep the last in the lookup and both in the
  sorted slice; \<open>sort.Slice\<close> leaves their order open, the stable sort is one of its results.
\<close>

definition buildRuleIndex :: "rule_config list \<Rightarrow> (string, rule_config) gmap \<times> rule_config list" where
  "buildRuleIndex rules =
     (fold (\<lambda>rule byName. map_put (rc_Name (normalizeRule rule)) (normalizeRule rule) byName) rules [],
      sort_key rc_Name (map normalizeRule rules))"

section \<open>Effective settings\<close>

definition shouldDropOutOfOrder :: "rule_config \<Rightarrow> event \<Rightarrow> gtime \<Rightarrow> bool" where
  "shouldDropOutOfOrder rule ev now \<longleftrightarrow>
     (oo_MaxLateMS (rc_OutOfOrder rule) > 0 \<and>
        wrap64 (UnixMilli_of now - ev_DT ev) > oo_MaxLateMS (rc_OutOfOrder rule)) \<or>
     (oo_MaxFutureSkewMS (rc_OutOfOrder rule) > 0 \<and>
        ev_DT ev > wrap64 (UnixMilli_of now + oo_MaxFutureSkewMS (rc_OutOfOrder rule)))"

definition repeatEnabled :: "config \<Rightarrow> rule_config \<Rightarrow> bool" where
  "repeatEnabled cfg rule =
     (case rn_Repeat (rc_Notify rule) of Some b \<Rightarrow> b | None \<Rightarrow> nc_Repeat (cf_Notify cfg))"

definition repeatEvery :: "config \<Rightarrow> rule_config \<Rightarrow> duration" where
  "repeatEvery cfg rule =
     (let s0 = nc_RepeatEverySec (cf_Notify cfg);
          s1 = (if rn_RepeatEverySec (rc_Notify rule) > 0 then rn_RepeatEverySec (rc_Notify rule) else s0);
          s2 = (if s1 \<le> 0 then 300 else s1)
      in seconds s2)"

definition notifyOnPending :: "config \<Rightarrow> rule_config \<Rightarrow> bool" where
  "notifyOnPending cfg rule =
     (case rn_OnPending (rc_Notify rule) of Some b \<Rightarrow> b | None \<Rightarrow> nc_OnPending (cf_Notify cfg))"

definition repeatPerChannel :: "config \<Rightarrow> bool" where
  "repeatPerChannel cfg = nc_RepeatPerChannel (cf_Notify cfg)"

definition runtimeStateIdleTTL :: "config \<Rightarrow> duration" where
  "runtimeStateIdleTTL cfg =
     (if sc_RuntimeStateIdleSec (cf_Service cfg) \<le> 0 then 0
      else seconds (sc_RuntimeStateIdleSec (cf_Service cfg)))"

definition runtimeStateMax :: "config \<Rightarrow> int64" where
  "runtimeStateMax cfg = sc_RuntimeStateMax (cf_Service cfg)"

definition notificationMessage :: "alert_state \<Rightarrow> string \<Rightarrow> string" where
  "notificationMessage st resolveCause =
     (case st of
        StPending \<Rightarrow> ''alert entered pending''
      | StFiring \<Rightarrow> ''alert is firing''
      | StResolved \<Rightarrow> if resolveCause = [] then ''alert resolved'' else ''alert resolved: '' @ resolveCause
      | StNone \<Rightarrow> ''alert state changed'')"

section \<open>Cards and notifications\<close>

definition applyCardStateTransition :: "alert_card \<Rightarrow> alert_state \<Rightarrow> string \<Rightarrow> gtime \<Rightarrow> alert_card" where
  "applyCardStateTransition c st resolveCause now =
     (case st of
        StPending \<Rightarrow> c\<lparr>ac_PendingSince := Some now, ac_ClosedAt := None, ac_ResolveCause := []\<rparr>
      | StFiring \<Rightarrow> c\<lparr>ac_PendingSince := None, ac_ClosedAt := None, ac_ResolveCause := []\<rparr>
      | StResolved \<Rightarrow> c\<lparr>ac_ClosedAt := Some now, ac_ResolveCause := resolveCause\<rparr>
      | StNone \<Rightarrow> c)"

definition resolveCardRaisedAt :: "alert_card \<Rightarrow> gtime \<Rightarrow> alert_card" where
  "resolveCardRaisedAt c fallback =
     (if \<not> IsZero (ac_RaisedAt c) then c
      else if IsZero (ac_LastSeenAt c) then c\<lparr>ac_RaisedAt := fallback\<rparr>
      else c\<lparr>ac_RaisedAt := ac_LastSeenAt c\<rparr>)"

definition shortAlertID :: "string \<Rightarrow> string" where
  "shortAlertID alertID =
     (let trimmed = TrimSpace alertID in
      if trimmed = [] then []
      else
        (let tail_part = after_last trimmed (CHR ''/'');
             short = (if CHR ''/'' \<in> set trimmed \<and> tail_part \<noteq> [] then tail_part else trimmed)
         in if length short > 5 then take 5 short else short))"

definition startedAt :: "gtime \<Rightarrow> gtime \<Rightarrow> gtime option" where
  "startedAt value fallback =
     (let started0 = (if IsZero value then fallback else value);
          started = (if IsZero started0 then time_UnixMilli 0 else started0) in Some started)"

definition alertDuration :: "gtime \<Rightarrow> gtime \<Rightarrow> duration" where
  "alertDuration start fin = (if IsZero start \<or> Before fin start then 0 else time_Sub fin start)"

definition buildNotification ::
    "string \<Rightarrow> string \<Rightarrow> string \<Rightarrow> (string, string) gmap \<Rightarrow> string \<Rightarrow> alert_state \<Rightarrow> string \<Rightarrow> gtime \<Rightarrow> gtime
      \<Rightarrow> notification" where
  "buildNotification alertID ruleName varName tags metric st message now raisedAt =
     \<lparr>nt_Channel = [], nt_RouteKey = [], nt_RouteMode = [], nt_AlertID = alertID,
      nt_ShortID = shortAlertID alertID, nt_RuleName = ruleName, nt_State = st, nt_Message = message,
      nt_ReplyToMessageID = None, nt_ExternalRef = [], nt_Tags = tags, nt_Var = varName,
      nt_MetricValue = metric, nt_StartedAt = startedAt raisedAt now, nt_Duration = 0, nt_Timestamp = now\<rparr>"

definition buildResolvedCardNotification :: "alert_card \<Rightarrow> string \<Rightarrow> gtime \<Rightarrow> notification" where
  "buildResolvedCardNotification c message now =
     (buildNotification (ac_AlertID c) (ac_RuleName c) (ac_Var c) (ac_Tags c) (ac_MetricValue c)
        StResolved message now (ac_RaisedAt c))\<lparr>nt_Duration := alertDuration (ac_RaisedAt c) now\<rparr>"

section \<open>Facts\<close>

lemma normalized_route_fixed:
  assumes "normalizedNotifyRouteFromConfig route False = Some r"
  shows "normalizedNotifyRouteFromConfig (route_of_norm r) True = Some r"
proof -
  have lower: "TrimSpace (ToLower (TrimSpace s)) = ToLower (TrimSpace s)" for s
    by (simp add: TrimSpace_ToLower)
  have mode: "TrimSpace (NormalizeNotifyRouteMode s) = NormalizeNotifyRouteMode s"
      "NormalizeNotifyRouteMode s \<noteq> []" for s
    by (auto simp: NormalizeNotifyRouteMode_def normalizeLowerDefault_def Let_def TrimSpace_ToLower
        TrimSpace_no_space is_space_def)
  show ?thesis
    using assms
    by (auto simp: normalizedNotifyRouteFromConfig_def route_of_norm_def Let_def lower mode split: if_splits)
qed

lemma buildRuleIndex_names:
  "fst ` set (fst (buildRuleIndex rules)) = (rc_Name \<circ> normalizeRule) ` set rules"
proof -
  have "fst ` set (fold (\<lambda>rule m. map_put (g rule) (h rule) m) rules m0) = g ` set rules \<union> fst ` set m0"
    for g :: "rule_config \<Rightarrow> string" and h :: "rule_config \<Rightarrow> rule_config" and m0
    by (induction rules arbitrary: m0) (auto simp: dom_update)
  then show ?thesis by (simp add: buildRuleIndex_def comp_def)
qed

lemma normalizeRule_Name [simp]: "rc_Name (normalizeRule rule) = rc_Name rule"
  by (simp add: normalizeRule_def Let_def)

lemma normalizeRule_tags: "rc_Key_FromTags (normalizeRule rule) = sort (rc_Key_FromTags rule)"
proof -
  have "length tags \<le> 1 \<Longrightarrow> sorted tags" for tags :: "string list" by (cases tags) auto
  then have "length tags \<le> 1 \<or> sorted tags \<Longrightarrow> sort tags = tags" for tags :: "string list"
    by (auto simp: sorted_sort_id)
  then show ?thesis by (auto simp: normalizeRule_def Let_def not_less)
qed

lemma sorted_rules: "sorted (map rc_Name (snd (buildRuleIndex rules)))"
  by (simp add: buildRuleIndex_def)

lemma after_last_append: "CHR ''/'' \<notin> set t \<Longrightarrow> after_last (s @ ''/'' @ t) (CHR ''/'') = t"
proof -
  assume "CHR ''/'' \<notin> set t"
  then have "takeWhile (\<lambda>d. d \<noteq> CHR ''/'') (rev t) = rev t"
    by (intro takeWhile_eq_all_conv [THEN iffD2]) auto
  then show ?thesis by (simp only: after_last_def rev_append takeWhile_tail append_Cons rev.simps append_assoc
      append_Nil takeWhile.simps simp_thms if_False append_Nil2 rev_rev_ident)
qed

end
