(* ===== verification/Manager.thy ===== *)
theory Manager
  imports Manager_Base
begin

text \<open>
  The coordinator of \<open>internal/app/manager.go\<close>: event processing, ticks, persistence of
  transitions with compare and swap, notification dispatch, resolution by expiry and
  configuration changes.

  \<open>env\<close> holds what the manager is given and does not change: the store, the clock, the local
  time zone and the library functions. \<open>manager\<close> is its own state; dispatcher and producer are
  the functions they offer, or none. An operation takes the manager and the world \<open>'w\<close> and
  returns both. \<open>Some e\<close> is an error result, \<open>None\<close> is nil. Log calls are left out.
  An operation runs alone here; two instances that share a store are treated in
  \<open>Concurrent_Instances\<close>.
\<close>

section \<open>State\<close>

record 'w env =
  en_store :: "'w store"
  en_Now :: "'w \<Rightarrow> gtime \<times> 'w"
  en_Loc :: location
  en_fmt_float :: "float64 \<Rightarrow> string"
  en_hexsha1 :: "string \<Rightarrow> string"
  en_compile :: "string \<Rightarrow> regex result"

type_synonym 'w send_op = "string \<Rightarrow> string \<Rightarrow> notification \<Rightarrow> 'w \<Rightarrow> send_result result \<times> 'w"
type_synonym 'w enqueue_op = "job \<Rightarrow> 'w \<Rightarrow> error option \<times> 'w"

record 'w manager =
  mg_cfg :: config
  mg_rules :: "(string, rule_config) gmap"
  mg_sorted :: "rule_config list"
  mg_engine :: engine
  mg_dispatcher :: "'w send_op option"
  mg_producer :: "'w enqueue_op option"

type_synonym tick_refresh = "gtime \<times> duration"
type_synonym pending_refresh = "(string, tick_refresh) gmap"

record card_write =
  cw_card :: alert_card
  cw_allowNotify :: bool
  cw_seedExtRefs :: bool

definition NewManager :: "config \<Rightarrow> 'w send_op option \<Rightarrow> 'w manager" where
  "NewManager cfg dispatcher =
     (let index = buildRuleIndex (cf_Rule cfg) in
      \<lparr>mg_cfg = cfg, mg_rules = fst index, mg_sorted = snd index, mg_engine = New_engine,
       mg_dispatcher = dispatcher, mg_producer = None\<rparr>)"

definition SetDispatcher :: "'w send_op option \<Rightarrow> 'w manager \<Rightarrow> 'w manager" where
  "SetDispatcher d m = m\<lparr>mg_dispatcher := d\<rparr>"

definition SetQueueProducer :: "'w enqueue_op option \<Rightarrow> 'w manager \<Rightarrow> 'w manager" where
  "SetQueueProducer p m = m\<lparr>mg_producer := p\<rparr>"

definition ruleByName :: "'w manager \<Rightarrow> string \<Rightarrow> rule_config option" where
  "ruleByName m name = map_get (mg_rules m) name"

definition manager_GetStateSnapshot :: "'w manager \<Rightarrow> string \<Rightarrow> runtime_state option" where
  "manager_GetStateSnapshot m alertID = engine_GetStateSnapshot (mg_engine m) alertID"

section \<open>Per-route notifications\<close>

definition shouldSkipNotificationByOff :: "'w env \<Rightarrow> rule_config \<Rightarrow> gtime \<Rightarrow> bool" where
  "shouldSkipNotificationByOff env rule now =
     (case NotifyOffActiveAt (en_Loc env) (rn_Off (rc_Notify rule)) now of Inl _ \<Rightarrow> False | Inr active \<Rightarrow> active)"

definition shouldDropTrackerNotification :: "bool \<Rightarrow> norm_route \<Rightarrow> notification \<Rightarrow> bool" where
  "shouldDropTrackerNotification dropTrackerWithoutRef route n =
     (if \<not> dropTrackerWithoutRef \<or> nt_State n \<noteq> StResolved \<or>
         (nro_Channel route \<noteq> NotifyChannelJira \<and> nro_Channel route \<noteq> NotifyChannelYouTrack) \<or>
         TrimSpace (nt_ExternalRef n) \<noteq> []
      then False else True)"

definition prepareNotificationForRoute ::
    "'w env \<Rightarrow> 'w manager \<Rightarrow> notification \<Rightarrow> norm_route \<Rightarrow> 'w \<Rightarrow> notification option \<times> 'w" where
  "prepareNotificationForRoute env m n route w =
     (let n1 = n\<lparr>nt_Channel := nro_Channel route, nt_RouteKey := nro_Key route, nt_RouteMode := nro_Mode route\<rparr>;
          (n2, w1) = (if IsZero (nt_Timestamp n1)
                      then (let (t, w') = en_Now env w in (n1\<lparr>nt_Timestamp := t\<rparr>, w')) else (n1, w));
          n3 = (if TrimSpace (nt_ExternalRef n2) = [] then
                  (case GetChannelExternalRef (mg_engine m) (nt_AlertID n2) (nro_Key route) of
                     Some ref \<Rightarrow> n2\<lparr>nt_ExternalRef := ref\<rparr> | None \<Rightarrow> n2)
                else n2)
      in if nt_State n3 = StResolved then
           (if nro_Mode route = NotifyRouteModeActiveOnly then
              (if TrimSpace (nt_ExternalRef n3) = [] then (None, w1) else (Some n3, w1))
            else if nro_Channel route = NotifyChannelMattermost \<and> TrimSpace (nt_ExternalRef n3) = [] then (None, w1)
            else if nro_Channel route = NotifyChannelTelegram then
              (case GetChannelMessageID (mg_engine m) (nt_AlertID n3) (nro_Key route) of
                 Some mid \<Rightarrow> (Some (n3\<lparr>nt_ReplyToMessageID := Some mid\<rparr>), w1)
               | None \<Rightarrow> (Some n3, w1))
            else (Some n3, w1))
         else (Some n3, w1))"

text \<open>The callback may fail, which ends the loop; \<open>'a\<close> is what it accumulates.\<close>

fun forEachRouteNotification ::
    "'w env \<Rightarrow> 'w manager \<Rightarrow> notification \<Rightarrow> rule_route list \<Rightarrow> bool
      \<Rightarrow> (norm_route \<Rightarrow> notification \<Rightarrow> 'a \<Rightarrow> 'w \<Rightarrow> error option \<times> 'a \<times> 'w) \<Rightarrow> 'a \<Rightarrow> 'w
      \<Rightarrow> error option \<times> 'a \<times> 'w" where
  "forEachRouteNotification env m n [] drop_refless f acc w = (None, acc, w)"
| "forEachRouteNotification env m n (route # routes) drop_refless f acc w =
     (case normalizedNotifyRouteFromConfig route True of
        None \<Rightarrow> forEachRouteNotification env m n routes drop_refless f acc w
      | Some r \<Rightarrow>
          (case prepareNotificationForRoute env m n r w of
             (None, w1) \<Rightarrow> forEachRouteNotification env m n routes drop_refless f acc w1
           | (Some perRoute, w1) \<Rightarrow>
               if shouldDropTrackerNotification drop_refless r perRoute
               then forEachRouteNotification env m n routes drop_refless f acc w1
               else (case f r perRoute acc w1 of
                       (Some err, acc2, w2) \<Rightarrow> (Some err, acc2, w2)
                     | (None, acc2, w2) \<Rightarrow> forEachRouteNotification env m n routes drop_refless f acc2 w2)))"

type_synonym route_results = "(norm_route \<times> send_result) list"

definition send_route ::
    "'w send_op \<Rightarrow> norm_route \<Rightarrow> notification \<Rightarrow> route_results \<Rightarrow> 'w \<Rightarrow> error option \<times> route_results \<times> 'w" where
  "send_route send route n results w =
     (case send (nro_Channel route) (nro_Template route) n w of
        (Inl err, w') \<Rightarrow> (Some err, results, w')
      | (Inr r, w') \<Rightarrow> (None, results @ [(route, r)], w'))"

definition notifyRoutes ::
    "'w env \<Rightarrow> 'w manager \<Rightarrow> notification \<Rightarrow> rule_route list \<Rightarrow> bool \<Rightarrow> 'w \<Rightarrow> route_results result \<times> 'w" where
  "notifyRoutes env m n routes drop_refless w =
     (case mg_dispatcher m of
        None \<Rightarrow> (Inr [], w)
      | Some send \<Rightarrow>
          (case forEachRouteNotification env m n routes drop_refless (send_route send) [] w of
             (Some err, _, w') \<Rightarrow> (Inl err, w')
           | (None, results, w') \<Rightarrow> (Inr results, w')))"

text \<open>\<open>success\<close> and \<open>firstErr\<close> of \<open>enqueueNotificationJobs\<close>; a failed enqueue goes on.\<close>

definition enqueue_route ::
    "'w env \<Rightarrow> 'w enqueue_op \<Rightarrow> norm_route \<Rightarrow> notification \<Rightarrow> int64 \<times> error option \<Rightarrow> 'w
      \<Rightarrow> error option \<times> (int64 \<times> error option) \<times> 'w" where
  "enqueue_route env enqueue route n acc w =
     (let (created, w1) = en_Now env w;
          j = \<lparr>jb_ID = BuildJobID (en_hexsha1 env) (nro_Channel route) (nro_Template route) n,
            jb_RouteKey = nro_Key route, jb_RouteMode = nro_Mode route, jb_Channel = nro_Channel route,
            jb_Template = nro_Template route, jb_Notification = n, jb_CreatedAt = created\<rparr>
      in case enqueue j w1 of
           (Some err, w2) \<Rightarrow> (None, (fst acc, if snd acc = None then Some err else snd acc), w2)
         | (None, w2) \<Rightarrow> (None, (fst acc + 1, snd acc), w2))"

definition enqueueNotificationJobs ::
    "'w env \<Rightarrow> 'w enqueue_op \<Rightarrow> 'w manager \<Rightarrow> notification \<Rightarrow> rule_route list \<Rightarrow> 'w \<Rightarrow> error option \<times> 'w" where
  "enqueueNotificationJobs env enqueue m n routes w =
     (if length routes = 0 then (None, w)
      else
        (let (_, (success, firstErr), w1) =
               forEachRouteNotification env m n routes False (enqueue_route env enqueue) (0, None) w
         in if success = 0 \<and> firstErr \<noteq> None then (firstErr, w1) else (None, w1)))"

section \<open>Delivery effects\<close>

definition capture_one :: "notification \<Rightarrow> bool \<Rightarrow> norm_route \<times> send_result
    \<Rightarrow> engine \<times> (string, string) gmap \<Rightarrow> engine \<times> (string, string) gmap" where
  "capture_one n perChannel entry acc =
     (let route = fst entry; result = snd entry; e0 = fst acc; updates0 = snd acc;
          e1 = (if nt_State n \<noteq> StResolved \<and> nro_Channel route = NotifyChannelTelegram \<and>
                   nro_Mode route \<noteq> NotifyRouteModeActiveOnly \<and> sr_MessageID result > 0 \<and>
                   GetChannelMessageID e0 (nt_AlertID n) (nro_Key route) = None
                then snd (SetChannelMessageID e0 (nt_AlertID n) (nro_Key route) (sr_MessageID result)) else e0);
          ref = TrimSpace (sr_ExternalRef result);
          e2 = (if ref \<noteq> [] then snd (SetChannelExternalRef e1 (nt_AlertID n) (nro_Key route) ref) else e1);
          updates = (if ref \<noteq> [] then map_put (nro_Key route) ref updates0 else updates0);
          notifyKey = (if perChannel then nro_Key route else ''global'')
      in (snd (SetLastNotified e2 (nt_AlertID n) notifyKey (nt_Timestamp n)), updates))"

definition captureDeliveryEffects ::
    "notification \<Rightarrow> route_results \<Rightarrow> 'w manager \<Rightarrow> (string, string) gmap \<times> 'w manager" where
  "captureDeliveryEffects n results m =
     (let r = fold (capture_one n (repeatPerChannel (mg_cfg m))) results (mg_engine m, [])
      in (snd r, m\<lparr>mg_engine := fst r\<rparr>))"

definition seedExternalRefs :: "string \<Rightarrow> (string, string) gmap \<Rightarrow> 'w manager \<Rightarrow> 'w manager" where
  "seedExternalRefs alertID refs m =
     m\<lparr>mg_engine := fold (\<lambda>(channel, ref) e.
          if TrimSpace ref = [] then e else snd (SetChannelExternalRef e alertID channel (TrimSpace ref)))
        refs (mg_engine m)\<rparr>"

text \<open>The inner loop of \<open>persistExternalRefs\<close>: a missing key reads as the empty string.\<close>

fun merge_refs :: "(string, string) gmap \<Rightarrow> (string, string) gmap \<Rightarrow> bool \<Rightarrow> (string, string) gmap \<times> bool" where
  "merge_refs [] refs changed = (refs, changed)"
| "merge_refs ((routeKey, ref) # updates) refs changed =
     (if (case map_get refs routeKey of None \<Rightarrow> [] | Some v \<Rightarrow> v) = ref
      then merge_refs updates refs changed
      else merge_refs updates (map_put routeKey ref refs) True)"

fun persist_refs_loop ::
    "nat \<Rightarrow> 'w store \<Rightarrow> string \<Rightarrow> (string, string) gmap \<Rightarrow> 'w \<Rightarrow> error option \<times> 'w" where
  "persist_refs_loop 0 store alertID updates w =
     (Some (ErrFmt ''persist external refs conflict retries exceeded for %s'' [alertID]), w)"
| "persist_refs_loop (Suc attempts) store alertID updates w =
     (case so_GetCard store alertID w of
        (Inl err, w1) \<Rightarrow> if errors_Is err ErrNotFound then (None, w1) else (Some err, w1)
      | (Inr (c, revision), w1) \<Rightarrow>
          (let merged = merge_refs updates (ac_ExternalRefs c) False in
           if \<not> snd merged then (None, w1)
           else (case so_UpdateCard store alertID revision (c\<lparr>ac_ExternalRefs := fst merged\<rparr>) w1 of
                   (Inl err, w2) \<Rightarrow>
                     if errors_Is err ErrConflict then persist_refs_loop attempts store alertID updates w2
                     else (Some err, w2)
                 | (Inr _, w2) \<Rightarrow> (None, w2))))"

definition persistExternalRefs ::
    "'w store \<Rightarrow> string \<Rightarrow> (string, string) gmap \<Rightarrow> 'w \<Rightarrow> error option \<times> 'w" where
  "persistExternalRefs store alertID updates w =
     (if length updates = 0 then (None, w) else persist_refs_loop 3 store alertID updates w)"

definition applyDeliveryResults ::
    "'w env \<Rightarrow> notification \<Rightarrow> route_results \<Rightarrow> 'w manager \<Rightarrow> 'w \<Rightarrow> error option \<times> 'w manager \<times> 'w" where
  "applyDeliveryResults env n results m w =
     (let (updates, m1) = captureDeliveryEffects n results m in
      if nt_State n = StResolved \<or> length updates = 0 then (None, m1, w)
      else (let (err, w1) = persistExternalRefs (en_store env) (nt_AlertID n) updates w in (err, m1, w1)))"

section \<open>Dispatch\<close>

definition dispatchNotification ::
    "'w env \<Rightarrow> rule_config \<Rightarrow> notification \<Rightarrow> rule_route list \<Rightarrow> 'w manager \<Rightarrow> 'w
      \<Rightarrow> error option \<times> 'w manager \<times> 'w" where
  "dispatchNotification env rule n routeOverride m w =
     (let routes = (if length routeOverride > 0 then routeOverride else rn_Route (rc_Notify rule));
          (notifyAt, w1) = (if IsZero (nt_Timestamp n) then en_Now env w else (nt_Timestamp n, w))
      in if shouldSkipNotificationByOff env rule notifyAt then (None, m, w1)
         else (case mg_producer m of
             Some enqueue \<Rightarrow> (let (err, w2) = enqueueNotificationJobs env enqueue m n routes w1 in (err, m, w2))
           | None \<Rightarrow>
               (case notifyRoutes env m n routes False w1 of
                  (Inl err, w2) \<Rightarrow> (Some err, m, w2)
                | (Inr results, w2) \<Rightarrow> applyDeliveryResults env n results m w2)))"

definition ProcessQueuedNotification ::
    "'w env \<Rightarrow> job \<Rightarrow> 'w manager \<Rightarrow> 'w \<Rightarrow> error option \<times> 'w manager \<times> 'w" where
  "ProcessQueuedNotification env j m w =
     (case normalizedNotifyRouteFromConfig \<lparr>ro_Name = jb_RouteKey j, ro_Channel = jb_Channel j,
         ro_Template = jb_Template j, ro_Mode = jb_RouteMode j\<rparr> True of
        None \<Rightarrow> (None, m, w)
      | Some route \<Rightarrow>
          (let n = jb_Notification j;
               (skip, w1) = (case ruleByName m (nt_RuleName n) of
                   None \<Rightarrow> (False, w)
                 | Some rule \<Rightarrow> (let (t, w') = en_Now env w in (shouldSkipNotificationByOff env rule t, w')))
           in if skip then (None, m, w1)
              else (case notifyRoutes env m n [route_of_norm route] True w1 of
                  (Inl err, w2) \<Rightarrow>
                    if permanent_Is (Some err) then (permanent_Mark (Some err), m, w2) else (Some err, m, w2)
                | (Inr results, w2) \<Rightarrow> applyDeliveryResults env n results m w2)))"

section \<open>Persistence of a decision\<close>

definition resolvePersistConflict :: "'w env \<Rightarrow> string \<Rightarrow> 'w \<Rightarrow> card_write result \<times> 'w" where
  "resolvePersistConflict env alertID w =
     (case so_GetCard (en_store env) alertID w of
        (Inl err, w1) \<Rightarrow>
          if errors_Is err ErrNotFound
          then (Inr \<lparr>cw_card = empty_card, cw_allowNotify = False, cw_seedExtRefs = False\<rparr>, w1)
          else (Inl err, w1)
      | (Inr (c, _), w1) \<Rightarrow> (Inr \<lparr>cw_card = c, cw_allowNotify = False, cw_seedExtRefs = True\<rparr>, w1))"

text \<open>The card a transition writes: a fresh one, or the stored one carried over.\<close>

definition fresh_card ::
    "rule_config \<Rightarrow> string \<Rightarrow> alert_identity \<Rightarrow> string \<Rightarrow> int64 \<Rightarrow> decision \<Rightarrow> gtime \<Rightarrow> alert_card" where
  "fresh_card rule alertID ident metric eventCount d now =
     applyCardStateTransition
       (empty_card\<lparr>ac_AlertID := alertID, ac_RuleName := rc_Name rule, ac_Var := ai_Var ident,
          ac_Tags := ai_Tags ident, ac_MetricValue := metric, ac_EventCount := eventCount,
          ac_State := dc_State d, ac_RaisedAt := now, ac_LastSeenAt := now\<rparr>)
       (dc_State d) (dc_ResolveCause d) now"

definition moved_card :: "alert_card \<Rightarrow> string \<Rightarrow> int64 \<Rightarrow> decision \<Rightarrow> gtime \<Rightarrow> alert_card" where
  "moved_card c metric eventCount d now =
     applyCardStateTransition
       (c\<lparr>ac_LastSeenAt := now, ac_State := dc_State d, ac_MetricValue := metric, ac_EventCount := eventCount\<rparr>)
       (dc_State d) (dc_ResolveCause d) now"

definition persistDecisionCard ::
    "'w env \<Rightarrow> engine \<Rightarrow> rule_config \<Rightarrow> string \<Rightarrow> alert_identity \<Rightarrow> string \<Rightarrow> decision \<Rightarrow> gtime \<Rightarrow> 'w
      \<Rightarrow> card_write result \<times> 'w" where
  "persistDecisionCard env e rule alertID ident metric d now w =
     (let eventCount = (case engine_GetStateSnapshot e alertID of None \<Rightarrow> 0 | Some st \<Rightarrow> rs_ActiveCount st) in
      case so_GetCard (en_store env) alertID w of
        (Inl err, w1) \<Rightarrow>
          if \<not> errors_Is err ErrNotFound then (Inl err, w1)
          else
            (let c = fresh_card rule alertID ident metric eventCount d now in
             case so_CreateCard (en_store env) alertID c w1 of
               (Inl createErr, w2) \<Rightarrow>
                 if \<not> errors_Is createErr ErrConflict then (Inl createErr, w2)
                 else resolvePersistConflict env alertID w2
             | (Inr _, w2) \<Rightarrow> (Inr \<lparr>cw_card = c, cw_allowNotify = True, cw_seedExtRefs = True\<rparr>, w2))
      | (Inr (c0, revision), w1) \<Rightarrow>
          (let allowNotify = (ac_State c0 \<noteq> dc_State d); c = moved_card c0 metric eventCount d now in
           case so_UpdateCard (en_store env) alertID revision c w1 of
             (Inl updateErr, w2) \<Rightarrow>
               if \<not> errors_Is updateErr ErrConflict then (Inl updateErr, w2)
               else resolvePersistConflict env alertID w2
           | (Inr _, w2) \<Rightarrow> (Inr \<lparr>cw_card = c, cw_allowNotify = allowNotify, cw_seedExtRefs = True\<rparr>, w2)))"

section \<open>Decisions\<close>

text \<open>
  \<open>pending\<close> is \<open>pendingTickRefresh\<close>: \<open>None\<close> for the nil map, else the refreshes that a
  batch has gathered. It is part of the result because the source writes through the map.
\<close>

definition note_refresh :: "string \<Rightarrow> gtime \<Rightarrow> duration \<Rightarrow> pending_refresh \<Rightarrow> pending_refresh" where
  "note_refresh alertID now ttl p =
     (case map_get p alertID of
        None \<Rightarrow> map_put alertID (now, ttl) p
      | Some prev \<Rightarrow> if Before (fst prev) now then map_put alertID (now, ttl) p else p)"

definition refresh_decision ::
    "'w env \<Rightarrow> rule_config \<Rightarrow> string \<Rightarrow> decision \<Rightarrow> gtime \<Rightarrow> pending_refresh option \<Rightarrow> 'w
      \<Rightarrow> error option \<times> pending_refresh option \<times> 'w" where
  "refresh_decision env rule alertID d now pending w =
     (if dc_ShouldStore d \<and> dc_State d \<noteq> StResolved then
        (let ttl = ResolveTimeout rule in
         case pending of
           None \<Rightarrow>
             (case so_RefreshTick (en_store env) alertID now ttl w of
                (Some err, w1) \<Rightarrow> (Some (ErrWrap ''refresh tick: %w'' [] err), None, w1)
              | (None, w1) \<Rightarrow> (None, None, w1))
         | Some p \<Rightarrow> (None, Some (note_refresh alertID now ttl p), w))
      else (None, pending, w))"

text \<open>The write of a state change: the result, and the manager with the refs seeded.\<close>

definition persist_change ::
    "'w env \<Rightarrow> rule_config \<Rightarrow> string \<Rightarrow> alert_identity \<Rightarrow> decision \<Rightarrow> gtime \<Rightarrow> 'w manager \<Rightarrow> 'w
      \<Rightarrow> (bool \<times> gtime) result \<times> 'w manager \<times> 'w" where
  "persist_change env rule alertID ident d now m w =
     (if dc_StateChanged d then
        (case persistDecisionCard env (mg_engine m) rule alertID ident (ai_MetricValue ident) d now w of
           (Inl err, w1) \<Rightarrow> (Inl err, m, w1)
         | (Inr res, w1) \<Rightarrow>
             (Inr (dc_ShouldNotify d \<and> cw_allowNotify res, ac_RaisedAt (cw_card res)),
              if cw_seedExtRefs res then seedExternalRefs alertID (ac_ExternalRefs (cw_card res)) m else m, w1))
      else (Inr (dc_ShouldNotify d, zero_time), m, w))"

definition decision_notification ::
    "rule_config \<Rightarrow> string \<Rightarrow> alert_identity \<Rightarrow> decision \<Rightarrow> gtime \<Rightarrow> gtime \<Rightarrow> notification" where
  "decision_notification rule alertID ident d now raisedAt =
     (let n = buildNotification alertID (rc_Name rule) (ai_Var ident) (ai_Tags ident) (ai_MetricValue ident)
                (dc_State d) (notificationMessage (dc_State d) (dc_ResolveCause d)) now raisedAt
      in if dc_State d = StResolved then n\<lparr>nt_Duration := alertDuration raisedAt now\<rparr> else n)"

definition notify_decision ::
    "'w env \<Rightarrow> rule_config \<Rightarrow> string \<Rightarrow> alert_identity \<Rightarrow> decision \<Rightarrow> gtime \<Rightarrow> bool \<Rightarrow> gtime
      \<Rightarrow> 'w manager \<Rightarrow> 'w \<Rightarrow> error option \<times> 'w manager \<times> 'w" where
  "notify_decision env rule alertID ident d now shouldNotify raisedAt m w =
     (if shouldNotify \<and> \<not> (dc_State d = StPending \<and> \<not> notifyOnPending (mg_cfg m) rule)
      then dispatchNotification env rule (decision_notification rule alertID ident d now raisedAt) [] m w
      else (None, m, w))"

definition finish_decision ::
    "'w env \<Rightarrow> string \<Rightarrow> decision \<Rightarrow> 'w manager \<Rightarrow> 'w \<Rightarrow> error option \<times> 'w manager \<times> 'w" where
  "finish_decision env alertID d m w =
     (if dc_State d = StResolved then
        (case so_DeleteCard (en_store env) alertID w of
           (Some err, w1) \<Rightarrow> (Some err, m, w1)
         | (None, w1) \<Rightarrow> (None, m\<lparr>mg_engine := RemoveAlertState (mg_engine m) alertID\<rparr>, w1))
      else (None, m, w))"

definition applyDecision ::
    "'w env \<Rightarrow> rule_config \<Rightarrow> string \<Rightarrow> decision \<Rightarrow> gtime \<Rightarrow> pending_refresh option \<Rightarrow> 'w manager \<Rightarrow> 'w
      \<Rightarrow> error option \<times> pending_refresh option \<times> 'w manager \<times> 'w" where
  "applyDecision env rule alertID d now pending m w =
     (if \<not> dc_ShouldStore d \<and> \<not> dc_ShouldNotify d then (None, pending, m, w)
      else (case GetAlertIdentity (mg_engine m) alertID of
          None \<Rightarrow> (None, pending, m, w)
        | Some ident \<Rightarrow>
            (case refresh_decision env rule alertID d now pending w of
               (Some err, p1, w1) \<Rightarrow> (Some err, p1, m, w1)
             | (None, p1, w1) \<Rightarrow>
                 (case persist_change env rule alertID ident d now m w1 of
                    (Inl err, m2, w2) \<Rightarrow> (Some err, p1, m2, w2)
                  | (Inr (shouldNotify, raisedAt), m2, w2) \<Rightarrow>
                      (case notify_decision env rule alertID ident d now shouldNotify raisedAt m2 w2 of
                         (Some err, m3, w3) \<Rightarrow> (Some err, p1, m3, w3)
                       | (None, m3, w3) \<Rightarrow>
                           (case finish_decision env alertID d m3 w3 of
                              (err, m4, w4) \<Rightarrow> (err, p1, m4, w4)))))))"

section \<open>Events\<close>

text \<open>The loop of \<open>processEvent\<close> over the sorted rules. A panic of the matcher unwinds it.\<close>

fun process_rules ::
    "'w env \<Rightarrow> rule_config list \<Rightarrow> event \<Rightarrow> gtime \<Rightarrow> pending_refresh option \<Rightarrow> 'w manager \<Rightarrow> 'w
      \<Rightarrow> error option \<times> pending_refresh option \<times> 'w manager \<times> 'w" where
  "process_rules env [] ev now pending m w = (None, pending, m, w)"
| "process_rules env (rule # rules) ev now pending m w =
     (if shouldDropOutOfOrder rule ev now then process_rules env rules ev now pending m w
      else (case MatchEvent (en_compile env) rule ev of
          Inl panic \<Rightarrow> (Some panic, pending, m, w)
        | Inr False \<Rightarrow> process_rules env rules ev now pending m w
        | Inr True \<Rightarrow>
            (case BuildAlertKey (en_hexsha1 env) rule ev of
               Inl _ \<Rightarrow> process_rules env rules ev now pending m w
             | Inr alertID \<Rightarrow>
                 (let (d, e1) = engine_ProcessEvent (en_fmt_float env) (mg_engine m) rule ev alertID now;
                      m1 = m\<lparr>mg_engine := e1\<rparr> in
                  if \<not> dc_Matched d then process_rules env rules ev now pending m1 w
                  else (case applyDecision env rule alertID d now pending m1 w of
                      (Some err, p2, m2, w2) \<Rightarrow> (Some err, p2, m2, w2)
                    | (None, p2, m2, w2) \<Rightarrow> process_rules env rules ev now p2 m2 w2)))))"

definition processEvent ::
    "'w env \<Rightarrow> event \<Rightarrow> pending_refresh option \<Rightarrow> 'w manager \<Rightarrow> 'w
      \<Rightarrow> error option \<times> pending_refresh option \<times> 'w manager \<times> 'w" where
  "processEvent env ev pending m w =
     (let (now, w1) = en_Now env w in process_rules env (mg_sorted m) ev now pending m w1)"

definition Push :: "'w env \<Rightarrow> event \<Rightarrow> 'w manager \<Rightarrow> 'w \<Rightarrow> error option \<times> 'w manager \<times> 'w" where
  "Push env ev m w = (case processEvent env ev None m w of (err, _, m1, w1) \<Rightarrow> (err, m1, w1))"

fun flushTickRefresh :: "'w store \<Rightarrow> pending_refresh \<Rightarrow> 'w \<Rightarrow> error option \<times> 'w" where
  "flushTickRefresh store [] w = (None, w)"
| "flushTickRefresh store ((alertID, tick) # rest) w =
     (case so_RefreshTick store alertID (fst tick) (snd tick) w of
        (Some err, w1) \<Rightarrow> (Some (ErrWrap ''refresh tick: %w'' [] err), w1)
      | (None, w1) \<Rightarrow> flushTickRefresh store rest w1)"

fun push_loop ::
    "'w env \<Rightarrow> event list \<Rightarrow> pending_refresh option \<Rightarrow> 'w manager \<Rightarrow> 'w
      \<Rightarrow> error option \<times> pending_refresh option \<times> 'w manager \<times> 'w" where
  "push_loop env [] pending m w = (None, pending, m, w)"
| "push_loop env (ev # evs) pending m w =
     (case processEvent env ev pending m w of
        (Some err, p1, m1, w1) \<Rightarrow> (Some err, p1, m1, w1)
      | (None, p1, m1, w1) \<Rightarrow> push_loop env evs p1 m1 w1)"

definition PushBatch :: "'w env \<Rightarrow> event list \<Rightarrow> 'w manager \<Rightarrow> 'w \<Rightarrow> error option \<times> 'w manager \<times> 'w" where
  "PushBatch env evs m w =
     (case push_loop env evs (Some []) m w of
        (Some err, _, m1, w1) \<Rightarrow> (Some err, m1, w1)
      | (None, p1, m1, w1) \<Rightarrow>
          (let (err, w2) = flushTickRefresh (en_store env) (case p1 of None \<Rightarrow> [] | Some p \<Rightarrow> p) w1
           in (err, m1, w2)))"

section \<open>Ticks\<close>

fun apply_decisions ::
    "'w env \<Rightarrow> rule_config \<Rightarrow> gtime \<Rightarrow> decision list \<Rightarrow> 'w manager \<Rightarrow> 'w
      \<Rightarrow> error option \<times> 'w manager \<times> 'w" where
  "apply_decisions env rule now [] m w = (None, m, w)"
| "apply_decisions env rule now (d # ds) m w =
     (case applyDecision env rule (dc_AlertID d) d now None m w of
        (Some err, _, m1, w1) \<Rightarrow> (Some err, m1, w1)
      | (None, _, m1, w1) \<Rightarrow> apply_decisions env rule now ds m1 w1)"

text \<open>The key is due again when it was never sent, or at least the interval ago.\<close>

definition repeat_due :: "engine \<Rightarrow> string \<Rightarrow> string \<Rightarrow> gtime \<Rightarrow> duration \<Rightarrow> bool" where
  "repeat_due e alertID key now every =
     (let last_sent = (case GetLastNotified e alertID key of None \<Rightarrow> zero_time | Some t \<Rightarrow> t)
      in \<not> (\<not> IsZero last_sent \<and> time_Sub now last_sent < every))"

fun repeat_routes ::
    "'w env \<Rightarrow> rule_config \<Rightarrow> notification \<Rightarrow> gtime \<Rightarrow> duration \<Rightarrow> rule_route list \<Rightarrow> 'w manager \<Rightarrow> 'w
      \<Rightarrow> 'w manager \<times> 'w" where
  "repeat_routes env rule n now every [] m w = (m, w)"
| "repeat_routes env rule n now every (route # routes) m w =
     (case normalizedNotifyRouteFromConfig route True of
        None \<Rightarrow> repeat_routes env rule n now every routes m w
      | Some r \<Rightarrow>
          if \<not> repeat_due (mg_engine m) (nt_AlertID n) (nro_Key r) now every
          then repeat_routes env rule n now every routes m w
          else (case dispatchNotification env rule n [route] m w of
                  (_, m1, w1) \<Rightarrow> repeat_routes env rule n now every routes m1 w1))"

definition repeat_alert ::
    "'w env \<Rightarrow> rule_config \<Rightarrow> bool \<Rightarrow> gtime \<Rightarrow> string \<Rightarrow> 'w manager \<Rightarrow> 'w \<Rightarrow> 'w manager \<times> 'w" where
  "repeat_alert env rule perChannel now alertID m w =
     (let routes = rn_Route (rc_Notify rule); every = repeatEvery (mg_cfg m) rule in
      case GetRepeatSnapshot (mg_engine m) alertID of
        None \<Rightarrow> (m, w)
      | Some snap \<Rightarrow>
          if \<not> repeatEnabled (mg_cfg m) rule \<or> length routes = 0 then (m, w)
          else
            (let n = buildNotification alertID (rc_Name rule) (rps_Var snap) (rps_Tags snap)
                       (rps_MetricValue snap) StFiring ''firing repeat'' now (rps_RaisedAt snap) in
             if \<not> perChannel then
               (if \<not> repeat_due (mg_engine m) alertID ''global'' now every then (m, w)
                else (case dispatchNotification env rule n [] m w of (_, m1, w1) \<Rightarrow> (m1, w1)))
             else repeat_routes env rule n now every routes m w))"

fun repeat_loop ::
    "'w env \<Rightarrow> rule_config \<Rightarrow> bool \<Rightarrow> gtime \<Rightarrow> string list \<Rightarrow> 'w manager \<Rightarrow> 'w \<Rightarrow> 'w manager \<times> 'w" where
  "repeat_loop env rule perChannel now [] m w = (m, w)"
| "repeat_loop env rule perChannel now (alertID # ids) m w =
     (case repeat_alert env rule perChannel now alertID m w of
        (m1, w1) \<Rightarrow> repeat_loop env rule perChannel now ids m1 w1)"

fun tick_rules ::
    "'w env \<Rightarrow> rule_config list \<Rightarrow> bool \<Rightarrow> gtime \<Rightarrow> 'w manager \<Rightarrow> 'w \<Rightarrow> error option \<times> 'w manager \<times> 'w" where
  "tick_rules env [] perChannel now m w = (None, m, w)"
| "tick_rules env (rule # rules) perChannel now m w =
     (let ((decisions, firing), e1) = TickRuleWithFiring (mg_engine m) rule now in
      case apply_decisions env rule now decisions (m\<lparr>mg_engine := e1\<rparr>) w of
        (Some err, m1, w1) \<Rightarrow> (Some err, m1, w1)
      | (None, m1, w1) \<Rightarrow>
          (case repeat_loop env rule perChannel now firing m1 w1 of
             (m2, w2) \<Rightarrow> tick_rules env rules perChannel now m2 w2))"

definition manager_Tick :: "'w env \<Rightarrow> 'w manager \<Rightarrow> 'w \<Rightarrow> error option \<times> 'w manager \<times> 'w" where
  "manager_Tick env m w =
     (let (now, w1) = en_Now env w in
      case tick_rules env (mg_sorted m) (repeatPerChannel (mg_cfg m)) now m w1 of
        (Some err, m2, w2) \<Rightarrow> (Some err, m2, w2)
      | (None, m2, w2) \<Rightarrow>
          (let idleTTL = runtimeStateIdleTTL (mg_cfg m2); maxStates = runtimeStateMax (mg_cfg m2) in
           if idleTTL > 0 \<or> maxStates > 0
           then (None, m2\<lparr>mg_engine := snd (CompactStates (mg_engine m2) now idleTTL maxStates)\<rparr>, w2)
           else (None, m2, w2)))"

section \<open>Expiry and configuration\<close>

definition ResolveByTTL ::
    "'w env \<Rightarrow> string \<Rightarrow> string \<Rightarrow> 'w manager \<Rightarrow> 'w \<Rightarrow> error option \<times> 'w manager \<times> 'w" where
  "ResolveByTTL env alertID reason0 m w =
     (case so_HasTick (en_store env) alertID w of
        (Inl err, w1) \<Rightarrow> (Some err, m, w1)
      | (Inr True, w1) \<Rightarrow> (None, m, w1)
      | (Inr False, w1) \<Rightarrow>
          (case so_GetCard (en_store env) alertID w1 of
             (Inl err, w2) \<Rightarrow> if errors_Is err ErrNotFound then (None, m, w2) else (Some err, m, w2)
           | (Inr (c0, revision), w2) \<Rightarrow>
               if ac_State c0 \<noteq> StPending \<and> ac_State c0 \<noteq> StFiring then (None, m, w2)
               else
                 (let reason = (if reason0 = [] then ''ttl_expired'' else reason0);
                      (closedAt, w3) = en_Now env w2;
                      c = (resolveCardRaisedAt (c0\<lparr>ac_State := StResolved\<rparr>) closedAt)
                            \<lparr>ac_ClosedAt := Some closedAt, ac_ResolveCause := reason\<rparr>
                  in case so_UpdateCard (en_store env) alertID revision c w3 of
                       (Inl err, w4) \<Rightarrow>
                         if errors_Is err ErrConflict then (None, m, w4) else (Some err, m, w4)
                     | (Inr _, w4) \<Rightarrow>
                         (case ruleByName m (ac_RuleName c) of
                            None \<Rightarrow> (None, m, w4)
                          | Some rule \<Rightarrow>
                              (let m1 = seedExternalRefs alertID (ac_ExternalRefs c) m;
                                   (_, m2, w5) = dispatchNotification env rule
                                     (buildResolvedCardNotification c (notificationMessage StResolved reason) closedAt)
                                     [] m1 w4;
                                   (_, w6) = so_DeleteCard (en_store env) alertID w5
                               in (None, m2\<lparr>mg_engine := RemoveAlertState (mg_engine m2) alertID\<rparr>, w6))))))"

text \<open>The loop of \<open>cleanupRemovedRule\<close> over the listed ids; its inner errors are dropped.\<close>

fun cleanup_ids ::
    "'w env \<Rightarrow> rule_config \<Rightarrow> gtime \<Rightarrow> string list \<Rightarrow> 'w manager \<Rightarrow> 'w \<Rightarrow> 'w manager \<times> 'w" where
  "cleanup_ids env removedRule now [] m w = (m, w)"
| "cleanup_ids env removedRule now (alertID # ids) m w =
     (case so_GetCard (en_store env) alertID w of
        (Inl _, w1) \<Rightarrow> cleanup_ids env removedRule now ids m w1
      | (Inr (c0, _), w1) \<Rightarrow>
          (let (m2, w2) =
                 (if ac_State c0 = StPending \<or> ac_State c0 = StFiring then
                    (let m1 = seedExternalRefs alertID (ac_ExternalRefs c0) m;
                         c = resolveCardRaisedAt c0 now;
                         (_, m', w') = dispatchNotification env removedRule
                           (buildResolvedCardNotification c ''resolved due rule removal'' now) [] m1 w1
                     in (m', w'))
                  else (m, w1));
               (_, w3) = so_DeleteCard (en_store env) alertID w2
           in cleanup_ids env removedRule now ids
                (m2\<lparr>mg_engine := RemoveAlertState (mg_engine m2) alertID\<rparr>) w3))"

definition cleanupRemovedRule ::
    "'w env \<Rightarrow> rule_config \<Rightarrow> 'w manager \<Rightarrow> 'w \<Rightarrow> error option \<times> 'w manager \<times> 'w" where
  "cleanupRemovedRule env removedRule m w =
     (case so_ListAlertIDsByRule (en_store env) (rc_Name removedRule) w of
        (Inl err, w1) \<Rightarrow> (Some err, m, w1)
      | (Inr ids, w1) \<Rightarrow>
          (let (now, w2) = en_Now env w1; (m3, w3) = cleanup_ids env removedRule now ids m w2
           in (None, m3, w3)))"

fun cleanup_rules ::
    "'w env \<Rightarrow> (string, rule_config) gmap \<Rightarrow> (string, rule_config) gmap \<Rightarrow> 'w manager \<Rightarrow> 'w
      \<Rightarrow> error option \<times> 'w manager \<times> 'w" where
  "cleanup_rules env [] newRules m w = (None, m, w)"
| "cleanup_rules env ((ruleName, oldRule) # rest) newRules m w =
     (if map_get newRules ruleName \<noteq> None then cleanup_rules env rest newRules m w
      else (case cleanupRemovedRule env oldRule m w of
          (Some err, m1, w1) \<Rightarrow> (Some err, m1, w1)
        | (None, m1, w1) \<Rightarrow> cleanup_rules env rest newRules m1 w1))"

definition ApplyConfig :: "'w env \<Rightarrow> config \<Rightarrow> 'w manager \<Rightarrow> 'w \<Rightarrow> error option \<times> 'w manager \<times> 'w" where
  "ApplyConfig env cfg m w =
     (let index = buildRuleIndex (cf_Rule cfg);
          m1 = m\<lparr>mg_cfg := cfg, mg_rules := fst index, mg_sorted := snd index\<rparr>
      in cleanup_rules env (mg_rules m) (fst index) m1 w)"

end
