(* ===== verification/Manager_Invariants.thy ===== *)
theory Manager_Invariants
  imports Manager Engine_Invariants
begin

text \<open>
  The operations of the manager reach its engine only through the operations of the engine and
  leave the rest of it alone, whatever the store, the dispatcher and the queue do. So a property
  of managers that the engine's operations keep is kept by every call: that the engine is well
  formed, and what the configuration of the manager is.
\<close>

section \<open>Properties that bookkeeping keeps\<close>

text \<open>What deliveries do to the engine: they record times, messages and references.\<close>

locale bookkeeping_inv =
  fixes inv :: "'w manager \<Rightarrow> bool"
  assumes notified: "inv m \<Longrightarrow> inv (m\<lparr>mg_engine := snd (SetLastNotified (mg_engine m) k c now)\<rparr>)"
    and message: "inv m \<Longrightarrow> inv (m\<lparr>mg_engine := snd (SetChannelMessageID (mg_engine m) k c mid)\<rparr>)"
    and reference: "inv m \<Longrightarrow> inv (m\<lparr>mg_engine := snd (SetChannelExternalRef (mg_engine m) k c ref)\<rparr>)"
begin

lemmas bookkeeping = notified [of "m\<lparr>mg_engine := e\<rparr>" for m e, simplified]
  message [of "m\<lparr>mg_engine := e\<rparr>" for m e, simplified] reference [of "m\<lparr>mg_engine := e\<rparr>" for m e, simplified]

lemma capture_one_inv: "inv (m\<lparr>mg_engine := fst acc\<rparr>) \<Longrightarrow> inv (m\<lparr>mg_engine := fst (capture_one n p entry acc)\<rparr>)"
  by (simp add: capture_one_def Let_def bookkeeping)

lemma capture_inv: "inv m \<Longrightarrow> inv (snd (captureDeliveryEffects n rs m))"
proof -
  have "inv (m\<lparr>mg_engine := fst acc\<rparr>) \<Longrightarrow> inv (m\<lparr>mg_engine := fst (fold (capture_one n p) rs acc)\<rparr>)" for p acc
    by (induction rs arbitrary: acc) (simp_all add: capture_one_inv)
  from this [of "(mg_engine m, [])"] show "inv m \<Longrightarrow> inv (snd (captureDeliveryEffects n rs m))"
    by (simp add: captureDeliveryEffects_def Let_def)
qed

lemma seed_inv: "inv m \<Longrightarrow> inv (seedExternalRefs k refs m)"
proof -
  have "inv (m\<lparr>mg_engine := e\<rparr>) \<Longrightarrow> inv (m\<lparr>mg_engine := fold (\<lambda>(channel, ref) e.
          if TrimSpace ref = [] then e else snd (SetChannelExternalRef e k channel (TrimSpace ref))) refs e\<rparr>)" for e
    by (induction refs arbitrary: e) (auto simp: bookkeeping)
  from this [of "mg_engine m"] show "inv m \<Longrightarrow> inv (seedExternalRefs k refs m)" by (simp add: seedExternalRefs_def)
qed

lemma delivery_inv: "applyDeliveryResults env n rs m w = (err, m', w') \<Longrightarrow> inv m \<Longrightarrow> inv m'"
  using capture_inv [of m n rs] by (auto simp: applyDeliveryResults_def Let_def split: prod.splits if_splits)

lemma dispatch_inv: "dispatchNotification env rule n ro m w = (err, m', w') \<Longrightarrow> inv m \<Longrightarrow> inv m'"
  by (auto simp: dispatchNotification_def Let_def delivery_inv split: prod.splits if_splits option.splits sum.splits)

lemma queued_inv: "ProcessQueuedNotification env j m w = (err, m', w') \<Longrightarrow> inv m \<Longrightarrow> inv m'"
  by (auto simp: ProcessQueuedNotification_def Let_def delivery_inv split: prod.splits if_splits option.splits sum.splits)

lemma persist_inv: "persist_change env rule k ident d now m w = (r, m', w') \<Longrightarrow> inv m \<Longrightarrow> inv m'"
  by (auto simp: persist_change_def seed_inv split: prod.splits if_splits sum.splits)

lemma notify_inv: "notify_decision env rule k ident d now b t m w = (r, m', w') \<Longrightarrow> inv m \<Longrightarrow> inv m'"
  by (auto simp: notify_decision_def dispatch_inv split: if_splits)

lemma repeat_routes_inv: "repeat_routes env rule n now every routes m w = (m', w') \<Longrightarrow> inv m \<Longrightarrow> inv m'"
proof (induction routes arbitrary: m w)
  case (Cons route routes)
  obtain e1 m1 w1 where step: "dispatchNotification env rule n [route] m w = (e1, m1, w1)" by (metis prod_cases3)
  have "inv m1" by (rule dispatch_inv [OF step Cons.prems(2)])
  then show ?case
    using Cons.prems Cons.IH [of m1 w1] Cons.IH [of m w] step by (auto split: option.splits if_splits)
qed simp

lemma repeat_alert_inv: "repeat_alert env rule pc now k m w = (m', w') \<Longrightarrow> inv m \<Longrightarrow> inv m'"
  by (auto simp: repeat_alert_def Let_def repeat_routes_inv split: option.splits if_splits prod.splits dest!: dispatch_inv)

lemma repeat_loop_inv: "repeat_loop env rule pc now ids m w = (m', w') \<Longrightarrow> inv m \<Longrightarrow> inv m'"
proof (induction ids arbitrary: m w)
  case (Cons k ids)
  obtain m1 w1 where step: "repeat_alert env rule pc now k m w = (m1, w1)" by force
  have "inv m1" by (rule repeat_alert_inv [OF step Cons.prems(2)])
  then show ?case using Cons.prems(1) Cons.IH [of m1 w1] step by simp
qed simp

end

section \<open>Properties that all operations of the engine keep\<close>

locale manager_inv = bookkeeping_inv inv for inv :: "'w manager \<Rightarrow> bool" +
  assumes engine_event: "inv m \<Longrightarrow> inv (m\<lparr>mg_engine := snd (engine_ProcessEvent f (mg_engine m) rule ev k now)\<rparr>)"
    and tick: "inv m \<Longrightarrow> inv (m\<lparr>mg_engine := snd (TickRuleWithFiring (mg_engine m) rule now)\<rparr>)"
    and remove: "inv m \<Longrightarrow> inv (m\<lparr>mg_engine := RemoveAlertState (mg_engine m) k\<rparr>)"
    and compact: "inv m \<Longrightarrow> inv (m\<lparr>mg_engine := snd (CompactStates (mg_engine m) now idle cap)\<rparr>)"
begin

lemma finish_inv: "finish_decision env k d m w = (r, m', w') \<Longrightarrow> inv m \<Longrightarrow> inv m'"
  by (auto simp: finish_decision_def remove split: if_splits prod.splits option.splits)

lemma decision_inv:
  assumes "applyDecision env rule k d now p m w = (err, p', m', w')" "inv m"
  shows "inv m'"
  using assms
  by (auto simp: applyDecision_def split: if_splits option.splits prod.splits sum.splits
      dest!: persist_inv notify_inv finish_inv)

lemma rules_inv: "process_rules env rules ev now p m w = (err, p', m', w') \<Longrightarrow> inv m \<Longrightarrow> inv m'"
proof (induction rules arbitrary: p m w)
  case (Cons rule rules)
  let ?skip = "process_rules env rules ev now p m w = (err, p', m', w')"
  consider (skip) ?skip | (panic) "m' = m"
    | (event) alertID where "BuildAlertKey (en_hexsha1 env) rule ev = Inr alertID"
        "MatchEvent (en_compile env) rule ev = Inr True" "\<not> shouldDropOutOfOrder rule ev now"
    using Cons.prems(1) by (auto split: if_splits sum.splits bool.splits)
  then show ?case
  proof cases
    case skip
    then show ?thesis using Cons.IH Cons.prems(2) by blast
  next
    case panic
    then show ?thesis using Cons.prems(2) by simp
  next
    case (event alertID)
    obtain d e1 where step: "engine_ProcessEvent (en_fmt_float env) (mg_engine m) rule ev alertID now = (d, e1)"
      by force
    let ?m1 = "m\<lparr>mg_engine := e1\<rparr>"
    have inv1: "inv ?m1"
      using engine_event [OF Cons.prems(2), of "en_fmt_float env" rule ev alertID now] step by simp
    show ?thesis
    proof (cases "dc_Matched d")
      case False
      then have "process_rules env rules ev now p ?m1 w = (err, p', m', w')"
        using Cons.prems(1) event step by simp
      then show ?thesis using Cons.IH inv1 by blast
    next
      case True
      obtain err2 p2 m2 w2 where ad: "applyDecision env rule alertID d now p ?m1 w = (err2, p2, m2, w2)"
        by (metis prod_cases4)
      have inv2: "inv m2" by (rule decision_inv [OF ad inv1])
      show ?thesis
      proof (cases err2)
        case None
        then have "process_rules env rules ev now p2 m2 w2 = (err, p', m', w')"
          using Cons.prems(1) event step True ad by simp
        then show ?thesis using Cons.IH inv2 by blast
      next
        case (Some x)
        then have "m' = m2" using Cons.prems(1) event step True ad by simp
        then show ?thesis using inv2 by simp
      qed
    qed
  qed
qed simp

lemma processEvent_inv: "processEvent env ev p m w = (err, p', m', w') \<Longrightarrow> inv m \<Longrightarrow> inv m'"
  by (auto simp: processEvent_def Let_def rules_inv split: prod.splits)

lemma Push_inv: "Push env ev m w = (err, m', w') \<Longrightarrow> inv m \<Longrightarrow> inv m'"
  by (auto simp: Push_def processEvent_inv split: prod.splits)

lemma push_loop_inv: "push_loop env evs p m w = (err, p', m', w') \<Longrightarrow> inv m \<Longrightarrow> inv m'"
proof (induction evs arbitrary: p m w)
  case (Cons ev evs)
  obtain e1 p1 m1 w1 where step: "processEvent env ev p m w = (e1, p1, m1, w1)" by (metis prod_cases4)
  have "inv m1" by (rule processEvent_inv [OF step Cons.prems(2)])
  then show ?case using Cons.prems(1) Cons.IH [of p1 m1 w1] step by (cases e1) auto
qed simp

lemma PushBatch_inv: "PushBatch env evs m w = (err, m', w') \<Longrightarrow> inv m \<Longrightarrow> inv m'"
  by (auto simp: PushBatch_def Let_def push_loop_inv split: prod.splits option.splits)

lemma apply_decisions_inv: "apply_decisions env rule now ds m w = (err, m', w') \<Longrightarrow> inv m \<Longrightarrow> inv m'"
proof (induction ds arbitrary: m w)
  case (Cons d ds)
  obtain e1 p1 m1 w1 where step: "applyDecision env rule (dc_AlertID d) d now None m w = (e1, p1, m1, w1)"
    by (metis prod_cases4)
  have "inv m1" by (rule decision_inv [OF step Cons.prems(2)])
  then show ?case using Cons.prems(1) Cons.IH [of m1 w1] step by (cases e1) auto
qed simp

lemma tick_rules_inv: "tick_rules env rules pc now m w = (err, m', w') \<Longrightarrow> inv m \<Longrightarrow> inv m'"
proof (induction rules arbitrary: m w)
  case (Cons rule rules)
  obtain ds firing e1 where ticked: "TickRuleWithFiring (mg_engine m) rule now = ((ds, firing), e1)"
    by (metis prod.collapse)
  have inv1: "inv (m\<lparr>mg_engine := e1\<rparr>)" using tick [OF Cons.prems(2), of rule now] ticked by simp
  obtain err1 m1 w1 where ap: "apply_decisions env rule now ds (m\<lparr>mg_engine := e1\<rparr>) w = (err1, m1, w1)"
    by (metis prod_cases3)
  have inv2: "inv m1" by (rule apply_decisions_inv [OF ap inv1])
  obtain m2 w2 where rp: "repeat_loop env rule pc now firing m1 w1 = (m2, w2)" by force
  have "inv m2" by (rule repeat_loop_inv [OF rp inv2])
  then show ?case using Cons.prems(1) Cons.IH [of m2 w2] ticked ap rp inv2 by (cases err1) auto
qed simp

lemma Tick_inv: "manager_Tick env m w = (err, m', w') \<Longrightarrow> inv m \<Longrightarrow> inv m'"
  by (auto simp: manager_Tick_def Let_def compact dest!: tick_rules_inv split: prod.splits option.splits if_splits)

lemma ResolveByTTL_inv: "ResolveByTTL env k reason m w = (err, m', w') \<Longrightarrow> inv m \<Longrightarrow> inv m'"
  by (auto simp: ResolveByTTL_def Let_def remove seed_inv
      split: prod.splits option.splits if_splits sum.splits bool.splits dest!: dispatch_inv)

lemma cleanup_ids_inv: "cleanup_ids env rule now ids m w = (m', w') \<Longrightarrow> inv m \<Longrightarrow> inv m'"
proof (induction ids arbitrary: m w)
  case (Cons k ids)
  obtain r w1 where got: "so_GetCard (en_store env) k w = (r, w1)" by force
  show ?case
  proof (cases r)
    case (Inl e)
    then show ?thesis using got Cons by auto
  next
    case (Inr x)
    obtain c0 rev0 where x: "x = (c0, rev0)" by force
    obtain e m2 w2 where disp: "dispatchNotification env rule
        (buildResolvedCardNotification (resolveCardRaisedAt c0 now) ''resolved due rule removal'' now) []
        (seedExternalRefs k (ac_ExternalRefs c0) m) w1 = (e, m2, w2)" by (metis prod_cases3)
    have "inv m2" by (rule dispatch_inv [OF disp seed_inv [OF Cons.prems(2)]])
    then show ?thesis
      using Cons.prems disp got Inr x
      by (auto simp: Let_def remove split: if_splits prod.splits intro: Cons.IH)
  qed
qed simp

lemma cleanup_rules_inv: "cleanup_rules env old new m w = (err, m', w') \<Longrightarrow> inv m \<Longrightarrow> inv m'"
proof (induction old arbitrary: m w)
  case (Cons entry old)
  obtain name rule where entry: "entry = (name, rule)" by force
  obtain e1 m1 w1 where step: "cleanupRemovedRule env rule m w = (e1, m1, w1)" by (metis prod_cases3)
  have "inv m1"
    using step Cons.prems(2)
    by (auto simp: cleanupRemovedRule_def Let_def split: prod.splits sum.splits dest!: cleanup_ids_inv)
  then show ?case
    using Cons.prems Cons.IH [of m1 w1] Cons.IH [of m w] step by (cases e1) (auto simp: entry split: if_splits)
qed simp

text \<open>A configuration change first replaces the configuration, then cleans up.\<close>

lemma ApplyConfig_inv:
  assumes "ApplyConfig env cfg m w = (err, m', w')"
    and "inv (m\<lparr>mg_cfg := cfg, mg_rules := fst (buildRuleIndex (cf_Rule cfg)), mg_sorted := snd (buildRuleIndex (cf_Rule cfg))\<rparr>)"
  shows "inv m'"
  using assms cleanup_rules_inv unfolding ApplyConfig_def Let_def by blast

end

section \<open>The engine is well formed\<close>

lemma wf_bookkeeping:
  "wf_engine e \<Longrightarrow> wf_engine (snd (SetLastNotified e k c t))"
  "wf_engine e \<Longrightarrow> wf_engine (snd (SetChannelMessageID e k c n))"
  "wf_engine e \<Longrightarrow> wf_engine (snd (SetChannelExternalRef e k c v))"
  using engine_step_wf [of e _ "OpLastNotified k c t"] engine_step_wf [of e _ "OpMessageID k c n"]
    engine_step_wf [of e _ "OpExternalRef k c v"] by simp_all

interpretation wf: manager_inv "\<lambda>m. wf_engine (mg_engine m)"
  by unfold_locales (simp_all add: wf_bookkeeping wf_engine_remove wf_engine_event wf_engine_tick wf_engine_compact)

section \<open>The configuration stays\<close>

definition manager_settings where
  "manager_settings m = (mg_cfg m, mg_rules m, mg_sorted m, mg_dispatcher m, mg_producer m)"

interpretation set: manager_inv "\<lambda>m. manager_settings m = settings" for settings
  by unfold_locales (simp_all add: manager_settings_def)

lemma ApplyConfig_settings:
  assumes "ApplyConfig env cfg m w = (err, m', w')"
  shows "manager_settings m' =
    (cfg, fst (buildRuleIndex (cf_Rule cfg)), snd (buildRuleIndex (cf_Rule cfg)), mg_dispatcher m, mg_producer m)"
  by (rule set.ApplyConfig_inv [OF assms]) (simp add: manager_settings_def)

section \<open>Reachable managers\<close>

text \<open>The calls the service makes on a manager, and the environment's own steps.\<close>

datatype 'w manager_op =
    MPush event
  | MPushBatch "event list"
  | MTick
  | MResolve string string
  | MApplyConfig config
  | MQueued job
  | MSetDispatcher "'w send_op option"
  | MSetProducer "'w enqueue_op option"
  | MWorld 'w

fun manager_call :: "'w env \<Rightarrow> 'w manager_op \<Rightarrow> 'w manager \<Rightarrow> 'w \<Rightarrow> error option \<times> 'w manager \<times> 'w" where
  "manager_call env (MPush ev) m w = Push env ev m w"
| "manager_call env (MPushBatch evs) m w = PushBatch env evs m w"
| "manager_call env MTick m w = manager_Tick env m w"
| "manager_call env (MResolve k reason) m w = ResolveByTTL env k reason m w"
| "manager_call env (MApplyConfig cfg) m w = ApplyConfig env cfg m w"
| "manager_call env (MQueued j) m w = ProcessQueuedNotification env j m w"
| "manager_call env (MSetDispatcher d) m w = (None, SetDispatcher d m, w)"
| "manager_call env (MSetProducer p) m w = (None, SetQueueProducer p m, w)"
| "manager_call env (MWorld w') m w = (None, m, w')"

definition manager_step :: "'w env \<Rightarrow> 'w manager_op \<Rightarrow> 'w manager \<Rightarrow> 'w \<Rightarrow> 'w manager \<times> 'w" where
  "manager_step env op m w = snd (manager_call env op m w)"

inductive manager_reach :: "'w env \<Rightarrow> 'w manager \<Rightarrow> 'w \<Rightarrow> bool" for env where
  start: "manager_reach env (NewManager cfg d) w"
| step: "manager_reach env m w \<Longrightarrow> manager_step env op m w = (m', w') \<Longrightarrow> manager_reach env m' w'"

lemma manager_step_wf:
  assumes "wf_engine (mg_engine m)" "manager_step env op m w = (m', w')"
  shows "wf_engine (mg_engine m')"
proof -
  obtain err where "manager_call env op m w = (err, m', w')" using assms(2) by (metis manager_step_def prod.collapse)
  then show ?thesis
    using assms(1)
    by (cases op) (auto simp: SetDispatcher_def SetQueueProducer_def
        dest: wf.Push_inv wf.PushBatch_inv wf.Tick_inv wf.ResolveByTTL_inv wf.ApplyConfig_inv wf.queued_inv)
qed

lemma manager_reach_wf: "manager_reach env m w \<Longrightarrow> wf_engine (mg_engine m)"
proof (induction rule: manager_reach.induct)
  case (start cfg d w)
  then show ?case by (simp add: NewManager_def Let_def)
next
  case (step m w op m' w')
  show ?case by (rule manager_step_wf [OF step.IH step.hyps(2)])
qed

end
