(* ===== verification/Manager_Facts.thy ===== *)
theory Manager_Facts
  imports Manager_Invariants
begin

text \<open>
  What the manager does with the store and the notifications. The facts that need the contract
  of the store are proved once, inside \<open>store_env\<close>; \<open>ticked_env\<close> adds that the tick
  operations leave the cards alone.
\<close>

section \<open>Suppression\<close>

text \<open>A notification of a state change is allowed only after the write of the change succeeded.\<close>

lemma resolvePersistConflict_silent:
  "resolvePersistConflict env k w = (Inr res, w') \<Longrightarrow> \<not> cw_allowNotify res"
  by (auto simp: resolvePersistConflict_def split: prod.splits sum.splits if_splits)

definition wrote :: "'w env \<Rightarrow> string \<Rightarrow> alert_card \<Rightarrow> 'w \<Rightarrow> bool" where
  "wrote env k c w' \<longleftrightarrow>
     (\<exists>w1 r. so_CreateCard (en_store env) k c w1 = (Inr r, w')) \<or>
     (\<exists>w1 r0 r. so_UpdateCard (en_store env) k r0 c w1 = (Inr r, w'))"

lemma persist_allow_wrote:
  assumes "persistDecisionCard env e rule k ident metric d now w = (Inr res, w')" "cw_allowNotify res"
  shows "wrote env k (cw_card res) w'"
  using assms
  by (auto simp: persistDecisionCard_def Let_def wrote_def split: prod.splits sum.splits if_splits
      dest: resolvePersistConflict_silent)

lemma off_window_silent:
  assumes "\<not> IsZero (nt_Timestamp n)" "NotifyOffActiveAt (en_Loc env) (rn_Off (rc_Notify rule)) (nt_Timestamp n) = Inr True"
  shows "dispatchNotification env rule n ro m w = (None, m, w)"
  using assms by (simp add: dispatchNotification_def shouldSkipNotificationByOff_def)

lemma out_of_order_ignored:
  assumes "\<forall>rule \<in> set rules. shouldDropOutOfOrder rule ev now"
  shows "process_rules env rules ev now p m w = (None, p, m, w)"
  using assms by (induction rules) auto

text \<open>An event that no rule matches changes nothing either.\<close>

lemma unmatched_ignored:
  assumes "\<forall>rule \<in> set rules. MatchEvent (en_compile env) rule ev = Inr False"
  shows "process_rules env rules ev now p m w = (None, p, m, w)"
  using assms by (induction rules) auto

section \<open>Enqueueing\<close>

text \<open>The enqueue loop never stops early and counts what it did.\<close>

lemma enqueue_route_continues: "fst (enqueue_route env q r n acc w) = None"
  by (auto simp: enqueue_route_def Let_def split: prod.splits option.splits)

lemma forEach_enqueue_none:
  "fst (forEachRouteNotification env m n routes b (enqueue_route env q) acc w) = None"
proof (induction routes arbitrary: acc w)
  case (Cons route routes)
  have "enqueue_route env q r p acc w = (Some x, y) \<Longrightarrow> False" for r p acc w x y
    using enqueue_route_continues [of env q r p acc w] by simp
  then show ?case using Cons by (cases acc) (fastforce split: option.splits prod.splits)
qed simp

lemma enqueue_success_mono:
  "0 \<le> fst acc \<Longrightarrow> 0 \<le> fst (fst (snd (forEachRouteNotification env m n routes b (enqueue_route env q) acc w)))
    \<and> fst acc \<le> fst (fst (snd (forEachRouteNotification env m n routes b (enqueue_route env q) acc w)))"
proof (induction routes arbitrary: acc w)
  case (Cons route routes)
  have step: "fst acc \<le> fst (fst (snd (enqueue_route env q r p acc w)))" for r p acc w
    by (auto simp: enqueue_route_def Let_def split: prod.splits option.splits)
  have none: "enqueue_route env q r p acc w = (Some x, y) \<Longrightarrow> False" for r p acc w x y
    using enqueue_route_continues [of env q r p acc w] by simp
  show ?case
  proof (cases "normalizedNotifyRouteFromConfig route True")
    case (Some r)
    obtain o1 w1 where prep: "prepareNotificationForRoute env m n r w = (o1, w1)" by force
    show ?thesis
    proof (cases o1)
      case None
      then show ?thesis using Cons Some prep by simp
    next
      case (Some p)
      obtain x acc2 w2 where st: "enqueue_route env q r p acc w1 = (x, acc2, w2)" by (metis prod_cases3)
      have "x = None" using enqueue_route_continues [of env q r p acc w1] st by simp
      moreover have "fst acc \<le> fst acc2" using step [of acc r p w1] st by simp
      ultimately show ?thesis
        using Cons.IH [of acc2 w2] Cons.IH [of acc w1] Cons.prems st prep Some
          \<open>normalizedNotifyRouteFromConfig route True = Some r\<close> by auto
    qed
  qed (use Cons in simp)
qed simp

section \<open>External references\<close>

lemma merge_refs_mono: "snd (merge_refs us refs True)"
  by (induction us arbitrary: refs) auto

lemma merge_refs_same: "\<not> snd (merge_refs us refs False) \<Longrightarrow> fst (merge_refs us refs False) = refs"
proof (induction us)
  case (Cons u us)
  obtain k v where "u = (k, v)" by force
  then show ?case using Cons merge_refs_mono by (auto split: if_splits)
qed simp

lemma merge_refs_get:
  "wf_map us \<Longrightarrow> (\<forall>(k, v) \<in> set us. v \<noteq> []) \<Longrightarrow>
    map_get (fst (merge_refs us refs b)) k = (case map_get us k of Some v \<Rightarrow> Some v | None \<Rightarrow> map_get refs k)"
proof (induction us arbitrary: refs b)
  case (Cons u us)
  obtain j v where u: "u = (j, v)" by force
  have wf: "wf_map us" "map_get us j = None" using Cons.prems(1) by (auto simp: u wf_map_def map_of_eq_None_iff)
  have v: "v \<noteq> []" using Cons.prems(2) by (simp add: u)
  show ?case
    using Cons.IH [OF wf(1), of "map_put j v refs" True] Cons.IH [OF wf(1), of refs b] Cons.prems(2) v wf(2)
    by (auto simp: u split: option.splits if_splits)
qed simp

section \<open>Facts under the contract of the store\<close>

definition event_count :: "engine \<Rightarrow> string \<Rightarrow> int64" where
  "event_count e k = (case engine_GetStateSnapshot e k of None \<Rightarrow> 0 | Some st \<Rightarrow> rs_ActiveCount st)"

locale store_env = card_store "so_GetCard (en_store env)" "so_CreateCard (en_store env)"
    "so_UpdateCard (en_store env)" "so_DeleteCard (en_store env)" cards
  for env :: "'w env" and cards :: "'w \<Rightarrow> string \<Rightarrow> (alert_card \<times> uint64) option"
begin

lemma persist_absent:
  assumes "cards w k = None"
  shows "\<exists>r w'. persistDecisionCard env e rule k ident metric d now w =
      (Inr \<lparr>cw_card = fresh_card rule k ident metric (event_count e k) d now, cw_allowNotify = True,
            cw_seedExtRefs = True\<rparr>, w')
    \<and> cards w' = (cards w)(k \<mapsto> (fresh_card rule k ident metric (event_count e k) d now, r))"
proof -
  obtain r w' where "so_CreateCard (en_store env) k (fresh_card rule k ident metric (event_count e k) d now) w = (Inr r, w')"
      "cards w' = (cards w)(k \<mapsto> (fresh_card rule k ident metric (event_count e k) d now, r))"
    using create_absent [OF assms] by blast
  then show ?thesis
    using assms by (auto simp: persistDecisionCard_def get_result Let_def event_count_def [symmetric])
qed

lemma persist_present:
  assumes "cards w k = Some (c0, r0)"
  shows "\<exists>r w'. persistDecisionCard env e rule k ident metric d now w =
      (Inr \<lparr>cw_card = moved_card c0 metric (event_count e k) d now, cw_allowNotify = (ac_State c0 \<noteq> dc_State d),
            cw_seedExtRefs = True\<rparr>, w')
    \<and> cards w' = (cards w)(k \<mapsto> (moved_card c0 metric (event_count e k) d now, r))"
proof -
  obtain r w' where "so_UpdateCard (en_store env) k r0 (moved_card c0 metric (event_count e k) d now) w = (Inr r, w')"
      "cards w' = (cards w)(k \<mapsto> (moved_card c0 metric (event_count e k) d now, r))"
    using update_current [OF assms] by blast
  then show ?thesis
    using assms by (auto simp: persistDecisionCard_def get_result Let_def event_count_def [symmetric])
qed

lemma persist_refs:
  assumes "cards w k = Some (c, r)" "updates \<noteq> []"
  shows "\<exists>r' w'. persistExternalRefs (en_store env) k updates w = (None, w') \<and>
    cards w' = (cards w)(k \<mapsto> (c\<lparr>ac_ExternalRefs := fst (merge_refs updates (ac_ExternalRefs c) False)\<rparr>, r'))"
proof -
  let ?refs = "merge_refs updates (ac_ExternalRefs c) False"
  obtain n :: nat where n: "3 = Suc n" by (metis numeral_3_eq_3)
  have three: "persistExternalRefs (en_store env) k updates w = persist_refs_loop (Suc n) (en_store env) k updates w"
    using assms(2) by (simp add: persistExternalRefs_def n)
  show ?thesis
  proof (cases "snd ?refs")
    case False
    then have "c\<lparr>ac_ExternalRefs := fst ?refs\<rparr> = c" by (simp add: merge_refs_same)
    moreover have "cards w = (cards w)(k \<mapsto> (c, r))" using assms(1) by (simp add: fun_upd_idem)
    ultimately show ?thesis unfolding three using False assms(1) by (auto simp: get_result Let_def)
  next
    case True
    obtain r' w' where "so_UpdateCard (en_store env) k r (c\<lparr>ac_ExternalRefs := fst ?refs\<rparr>) w = (Inr r', w')"
        "cards w' = (cards w)(k \<mapsto> (c\<lparr>ac_ExternalRefs := fst ?refs\<rparr>, r'))"
      using update_current [OF assms(1)] by blast
    then show ?thesis unfolding three using True assms(1) by (auto simp: get_result Let_def)
  qed
qed

lemma finish_resolved:
  assumes "finish_decision env k d m w = (err, m', w')" "dc_State d = StResolved"
  shows "err = None" "cards w' k = None" "eng_get (mg_engine m') k = None"
proof -
  obtain w1 where "so_DeleteCard (en_store env) k w = (None, w1)" "cards w1 = (cards w)(k := None)"
    using delete_result delete_cards by (metis prod.collapse)
  then show "err = None" "cards w' k = None" "eng_get (mg_engine m') k = None"
    using assms by (auto simp: finish_decision_def RemoveAlertState_def)
qed

lemma resolved_cleans_up:
  assumes "applyDecision env rule k d now p m w = (None, p', m', w')"
    and "dc_State d = StResolved" "dc_ShouldStore d" "eng_get (mg_engine m) k \<noteq> None"
  shows "cards w' k = None \<and> eng_get (mg_engine m') k = None"
proof -
  from assms obtain m3 w3 where "finish_decision env k d m3 w3 = (None, m', w')"
    by (auto simp: applyDecision_def GetAlertIdentity_def split: option.splits prod.splits sum.splits)
  from finish_resolved [OF this assms(2)] show ?thesis by simp
qed

end

text \<open>Reading the clock leaves the cards alone; this is all that delivery asks of the environment.\<close>

locale clocked_env =
  fixes env :: "'w env" and cards :: "'w \<Rightarrow> string \<Rightarrow> (alert_card \<times> uint64) option"
  assumes clock_cards: "cards (snd (en_Now env w)) = cards w"

locale ticked_env = store_env env cards + clocked_env env cards
  for env :: "'w env" and cards :: "'w \<Rightarrow> string \<Rightarrow> (alert_card \<times> uint64) option" +
  assumes refresh_cards: "cards (snd (so_RefreshTick (en_store env) k t d w)) = cards w"
    and hastick_cards: "cards (snd (so_HasTick (en_store env) k w)) = cards w"
begin

lemma ttl_alive:
  assumes "so_HasTick (en_store env) k w = (Inr True, w')"
  shows "ResolveByTTL env k reason m w = (None, m, w')"
  using assms by (simp add: ResolveByTTL_def)

lemma ttl_missing_card:
  assumes "so_HasTick (en_store env) k w = (Inr False, w1)" "cards w k = None"
  shows "ResolveByTTL env k reason m w = (None, m, w1)"
proof -
  have "cards w1 k = None" using hastick_cards [of k w] assms by simp
  then show ?thesis using assms(1) by (simp add: ResolveByTTL_def get_result)
qed

lemma ttl_resolves:
  assumes "so_HasTick (en_store env) k w = (Inr False, w1)" "cards w k = Some (c, r)"
    and "ac_State c = StPending \<or> ac_State c = StFiring" "ruleByName m (ac_RuleName c) = Some rule"
  shows "\<exists>m' w'. ResolveByTTL env k reason m w = (None, m', w') \<and> cards w' k = None \<and>
    eng_get (mg_engine m') k = None"
proof -
  have c1: "cards w1 k = Some (c, r)" using hastick_cards [of k w] assms(1,2) by simp
  obtain closed w3 where now: "en_Now env w1 = (closed, w3)" by force
  have c3: "cards w3 k = Some (c, r)" using clock_cards [of w1] now c1 by simp
  let ?reason = "if reason = [] then ''ttl_expired'' else reason"
  let ?c = "(resolveCardRaisedAt (c\<lparr>ac_State := StResolved\<rparr>) closed)\<lparr>ac_ClosedAt := Some closed, ac_ResolveCause := ?reason\<rparr>"
  obtain r' w4 where up: "so_UpdateCard (en_store env) k r ?c w3 = (Inr r', w4)"
    using update_current [OF c3] by blast
  have name: "ac_RuleName ?c = ac_RuleName c" by (simp add: resolveCardRaisedAt_def)
  obtain x m2 w5 where disp: "dispatchNotification env rule
      (buildResolvedCardNotification ?c (notificationMessage StResolved ?reason) closed) []
      (seedExternalRefs k (ac_ExternalRefs ?c) m) w4 = (x, m2, w5)" by (metis prod_cases3)
  obtain w6 where del: "so_DeleteCard (en_store env) k w5 = (None, w6)" "cards w6 = (cards w5)(k := None)"
    using delete_result delete_cards by (metis prod.collapse)
  have "ResolveByTTL env k reason m w =
      (None, m2\<lparr>mg_engine := RemoveAlertState (mg_engine m2) k\<rparr>, w6)"
    using assms(1,3,4) c1 now up name disp del(1) by (auto simp: ResolveByTTL_def get_result Let_def)
  then show ?thesis using del(2) by (simp add: RemoveAlertState_def)
qed

end

end
