(* ===== verification/Manager_Cards.thy ===== *)
theory Manager_Cards
  imports Manager_Facts
begin

text \<open>
  What the delivery of a notification does to the stored cards: nothing, apart from the external
  references of the alert it is about. The laws of the store come from \<open>ticked_env\<close>, or from
  \<open>failing_env\<close> when its calls may fail; of the dispatcher and the queue it is assumed that they
  do not write to the store.
\<close>

definition keeps_cards :: "('w \<Rightarrow> 'c) \<Rightarrow> 'w manager \<Rightarrow> bool" where
  "keeps_cards cards m \<longleftrightarrow>
     (\<forall>send. mg_dispatcher m = Some send \<longrightarrow> (\<forall>c t n w. cards (snd (send c t n w)) = cards w)) \<and>
     (\<forall>enqueue. mg_producer m = Some enqueue \<longrightarrow> (\<forall>j w. cards (snd (enqueue j w)) = cards w))"

lemma keeps_cards_engine [simp]: "keeps_cards cards (m\<lparr>mg_engine := e\<rparr>) = keeps_cards cards m"
  by (simp add: keeps_cards_def)

lemma keeps_cards_seed [simp]: "keeps_cards cards (seedExternalRefs k refs m) = keeps_cards cards m"
  by (simp add: seedExternalRefs_def)

text \<open>The card of an alert apart from its external references.\<close>

definition core :: "(alert_card \<times> 'r) option \<Rightarrow> alert_card option" where
  "core entry = map_option (\<lambda>e. (fst e)\<lparr>ac_ExternalRefs := []\<rparr>) entry"

lemma core_simps [simp]:
  "core None = None" "core (Some (c, r)) = Some (c\<lparr>ac_ExternalRefs := []\<rparr>)"
  by (simp_all add: core_def)

lemma core_None_iff [simp]: "core entry = None \<longleftrightarrow> entry = None"
  by (simp add: core_def)

lemma applyDelivery_manager:
  "applyDeliveryResults env n rs m w = (err, m', w') \<Longrightarrow>
    mg_dispatcher m' = mg_dispatcher m \<and> mg_producer m' = mg_producer m"
  by (auto simp: applyDeliveryResults_def captureDeliveryEffects_def Let_def split: if_splits prod.splits)

lemma dispatch_manager:
  "dispatchNotification env rule n ro m w = (err, m', w') \<Longrightarrow>
    mg_dispatcher m' = mg_dispatcher m \<and> mg_producer m' = mg_producer m"
  by (auto simp: dispatchNotification_def Let_def
      split: if_splits prod.splits option.splits sum.splits dest: applyDelivery_manager)

text \<open>Preparing a notification does at most read the clock.\<close>

lemma prepare_world:
  "snd (prepareNotificationForRoute env m n r w) = w \<or> (\<exists>t. en_Now env w = (t, snd (prepareNotificationForRoute env m n r w)))"
proof -
  define n1 where "n1 = n\<lparr>nt_Channel := nro_Channel r, nt_RouteKey := nro_Key r, nt_RouteMode := nro_Mode r\<rparr>"
  obtain n2 w1 where now: "(if IsZero (nt_Timestamp n1)
      then (let (t, w') = en_Now env w in (n1\<lparr>nt_Timestamp := t\<rparr>, w')) else (n1, w)) = (n2, w1)" by force
  have "snd (prepareNotificationForRoute env m n r w) = w1"
    unfolding prepareNotificationForRoute_def n1_def [symmetric] Let_def now [unfolded Let_def] prod.case
    by (simp add: if_distrib [where f = snd] option.case_distrib [where h = snd] option.case_eq_if)
  then show ?thesis using now by (auto split: if_splits prod.splits)
qed

text \<open>The card a state change writes over the card found before.\<close>

definition next_card ::
    "rule_config \<Rightarrow> string \<Rightarrow> alert_identity \<Rightarrow> int64 \<Rightarrow> decision \<Rightarrow> gtime \<Rightarrow> alert_card option \<Rightarrow> alert_card" where
  "next_card rule k ident cnt d now old =
     (case old of None \<Rightarrow> fresh_card rule k ident (ai_MetricValue ident) cnt d now
      | Some c \<Rightarrow> moved_card c (ai_MetricValue ident) cnt d now)"

lemma next_card_fields:
  "ac_State (next_card rule k ident cnt d now old) = dc_State d"
  "ac_MetricValue (next_card rule k ident cnt d now old) = ai_MetricValue ident"
  "ac_EventCount (next_card rule k ident cnt d now old) = cnt"
  "ac_LastSeenAt (next_card rule k ident cnt d now old) = now"
  "ac_RaisedAt (next_card rule k ident cnt d now old) = (case old of None \<Rightarrow> now | Some c \<Rightarrow> ac_RaisedAt c)"
  "dc_State d = StPending \<Longrightarrow> ac_PendingSince (next_card rule k ident cnt d now old) = Some now"
  by (auto simp: next_card_def fresh_card_def moved_card_def applyCardStateTransition_def
      split: option.splits alert_state.splits)

text \<open>The references that the results of a delivery report, and the cards with them added.\<close>

definition reported_refs :: "route_results \<Rightarrow> (string, string) gmap" where
  "reported_refs results = fold (\<lambda>(route, result) refs.
     if TrimSpace (sr_ExternalRef result) \<noteq> [] then map_put (nro_Key route) (TrimSpace (sr_ExternalRef result)) refs else refs)
     results []"

lemma capture_reports: "fst (captureDeliveryEffects n results m) = reported_refs results"
proof -
  have "snd (fold (capture_one n b) results (e, refs)) = fold (\<lambda>(route, result) refs.
     if TrimSpace (sr_ExternalRef result) \<noteq> [] then map_put (nro_Key route) (TrimSpace (sr_ExternalRef result)) refs else refs)
     results refs" for b e refs
    by (induction results arbitrary: e refs) (auto simp: capture_one_def Let_def)
  then show ?thesis by (simp add: captureDeliveryEffects_def reported_refs_def Let_def)
qed

lemma reported_refs_wf: "wf_map (reported_refs results)" "(key, ref) \<in> set (reported_refs results) \<Longrightarrow> ref \<noteq> []"
proof -
  define f :: "norm_route \<times> send_result \<Rightarrow> (string, string) gmap \<Rightarrow> (string, string) gmap" where "f = (\<lambda>(route, result) refs.
     if TrimSpace (sr_ExternalRef result) \<noteq> [] then map_put (nro_Key route) (TrimSpace (sr_ExternalRef result)) refs else refs)"
  have "wf_map (fold f results refs) \<and> (\<forall>(key, ref) \<in> set (fold f results refs). ref \<noteq> [])"
    if "wf_map refs \<and> (\<forall>(key, ref) \<in> set refs. ref \<noteq> [])" for refs
    using that
  proof (induction results arbitrary: refs)
    case (Cons x xs)
    obtain route result where x: "x = (route, result)" by force
    have "wf_map (f x refs) \<and> (\<forall>(key, ref) \<in> set (f x refs). ref \<noteq> [])"
      using Cons.prems by (auto simp: f_def x set_map_put_wf)
    from Cons.IH [OF this] show ?case by simp
  qed simp
  from this [of "[]"] show "wf_map (reported_refs results)" "(key, ref) \<in> set (reported_refs results) \<Longrightarrow> ref \<noteq> []"
    by (auto simp: reported_refs_def f_def wf_map_def)
qed

definition refs_added ::
    "string \<Rightarrow> (string, string) gmap \<Rightarrow> (string \<Rightarrow> (alert_card \<times> 'r) option) \<Rightarrow> (string \<Rightarrow> (alert_card \<times> 'r) option) \<Rightarrow> bool" where
  "refs_added k refs cs cs' \<longleftrightarrow>
     (case cs k of
        None \<Rightarrow> cs' = cs
      | Some (c, r) \<Rightarrow>
          if refs = [] then cs' = cs
          else \<exists>r'. cs' = cs(k \<mapsto> (c\<lparr>ac_ExternalRefs := fst (merge_refs refs (ac_ExternalRefs c) False)\<rparr>, r')))"

lemma refs_added_Nil [simp]: "refs_added k [] cs cs' \<longleftrightarrow> cs' = cs"
  by (auto simp: refs_added_def split: option.splits)

lemma refs_added_core: "refs_added k refs cs cs' \<Longrightarrow> core (cs' j) = core (cs j)"
  by (auto simp: refs_added_def split: option.splits if_splits)

text \<open>Whether a state change is notified, given the card found before.\<close>

definition change_notified :: "config \<Rightarrow> rule_config \<Rightarrow> decision \<Rightarrow> alert_card option \<Rightarrow> bool" where
  "change_notified cfg rule d old \<longleftrightarrow>
     dc_ShouldNotify d \<and> (case old of None \<Rightarrow> True | Some c \<Rightarrow> ac_State c \<noteq> dc_State d) \<and>
     \<not> (dc_State d = StPending \<and> \<not> notifyOnPending cfg rule)"

text \<open>The references a dispatch brings: those of a direct delivery that succeeds.\<close>

definition delivered_refs ::
    "'w env \<Rightarrow> rule_config \<Rightarrow> notification \<Rightarrow> rule_route list \<Rightarrow> 'w manager \<Rightarrow> 'w \<Rightarrow> (string, string) gmap" where
  "delivered_refs env rule n routeOverride m w =
     (let routes = (if length routeOverride > 0 then routeOverride else rn_Route (rc_Notify rule));
          (notifyAt, w1) = (if IsZero (nt_Timestamp n) then en_Now env w else (nt_Timestamp n, w))
      in if shouldSkipNotificationByOff env rule notifyAt \<or> mg_producer m \<noteq> None \<or> nt_State n = StResolved then []
         else (case fst (notifyRoutes env m n routes False w1) of Inl _ \<Rightarrow> [] | Inr results \<Rightarrow> reported_refs results))"

lemma delivered_refs_wf:
  "wf_map (delivered_refs env rule n ro m w)" "(key, ref) \<in> set (delivered_refs env rule n ro m w) \<Longrightarrow> ref \<noteq> []"
proof -
  have "delivered_refs env rule n ro m w = [] \<or> (\<exists>results. delivered_refs env rule n ro m w = reported_refs results)"
    by (auto simp: delivered_refs_def case_prod_beta Let_def split: sum.split)
  then show "wf_map (delivered_refs env rule n ro m w)" "(key, ref) \<in> set (delivered_refs env rule n ro m w) \<Longrightarrow> ref \<noteq> []"
    by (auto simp: wf_map_def [of "[]"] reported_refs_wf(1) dest: reported_refs_wf(2))
qed

context clocked_env
begin

lemma prepare_cards: "cards (snd (prepareNotificationForRoute env m n r w)) = cards w"
  using prepare_world [of env m n r w] clock_cards [of w] by auto

lemma forEach_cards:
  assumes "\<And>r p acc w. cards (snd (snd (f r p acc w))) = cards w"
  shows "cards (snd (snd (forEachRouteNotification env m n routes b f acc w))) = cards w"
proof (induction routes arbitrary: acc w)
  case (Cons route routes)
  show ?case
  proof (cases "normalizedNotifyRouteFromConfig route True")
    case (Some r)
    obtain o1 w1 where prep: "prepareNotificationForRoute env m n r w = (o1, w1)" by force
    have w1: "cards w1 = cards w" using prepare_cards [of m n r w] prep by simp
    have f: "f r p acc w1 = (x, acc2, w2) \<Longrightarrow> cards w2 = cards w1" for p x acc2 w2
      using assms [of r p acc w1] by simp
    show ?thesis
      using Some prep w1 by (auto simp: Cons.IH split: option.splits prod.splits dest!: f)
  qed (simp add: Cons.IH)
qed simp

lemma notifyRoutes_cards:
  assumes "keeps_cards cards m"
  shows "cards (snd (notifyRoutes env m n routes b w)) = cards w"
proof (cases "mg_dispatcher m")
  case (Some send)
  have send: "cards (snd (send c t p u)) = cards u" for c t p u
    using assms Some unfolding keeps_cards_def by blast
  have "cards (snd (snd (send_route send r p acc u))) = cards u" for r p acc u
    using send [of "nro_Channel r" "nro_Template r" p u] by (auto simp: send_route_def split: prod.splits sum.splits)
  then have "cards (snd (snd (forEachRouteNotification env m n routes b (send_route send) [] w))) = cards w"
    by (rule forEach_cards)
  then show ?thesis using Some by (auto simp: notifyRoutes_def split: prod.splits option.splits)
qed (simp add: notifyRoutes_def)

lemma enqueue_cards:
  assumes "keeps_cards cards m" "mg_producer m = Some enqueue"
  shows "cards (snd (enqueueNotificationJobs env enqueue m n routes w)) = cards w"
proof -
  have enq: "cards (snd (enqueue j u)) = cards u" for j u
    using assms unfolding keeps_cards_def by blast
  have "cards (snd (snd (enqueue_route env enqueue r p acc u))) = cards u" for r p acc u
  proof -
    obtain t u1 where now: "en_Now env u = (t, u1)" by force
    have "cards u1 = cards u" using clock_cards [of u] now by simp
    then show ?thesis
      using now enq [of _ u1] by (auto simp: enqueue_route_def Let_def split: prod.splits option.splits)
        (metis snd_conv)+
  qed
  then have "cards (snd (snd (forEachRouteNotification env m n routes False (enqueue_route env enqueue) (0, None) w))) = cards w"
    by (rule forEach_cards)
  then show ?thesis by (auto simp: enqueueNotificationJobs_def Let_def split: prod.splits)
qed

lemma dispatch_resolved:
  assumes "dispatchNotification env rule n ro m w = (err, m', w')" "keeps_cards cards m" "nt_State n = StResolved"
  shows "cards w' = cards w"
proof -
  let ?routes = "if length ro > 0 then ro else rn_Route (rc_Notify rule)"
  obtain t w1 where now: "(if IsZero (nt_Timestamp n) then en_Now env w else (nt_Timestamp n, w)) = (t, w1)" by force
  have w1: "cards w1 = cards w" using now clock_cards [of w] by (auto split: if_splits)
  note sent = notifyRoutes_cards [OF assms(2), of n ?routes False w1]
  have "w' = w1 \<or> w' = snd (notifyRoutes env m n ?routes False w1) \<or>
      (\<exists>enqueue. mg_producer m = Some enqueue \<and> w' = snd (enqueueNotificationJobs env enqueue m n ?routes w1))"
    using assms(1) [unfolded dispatchNotification_def Let_def now prod.case] assms(3)
    by (auto simp: applyDeliveryResults_def Let_def split: if_splits option.splits prod.splits sum.splits)
  then show ?thesis using w1 sent enqueue_cards [OF assms(2)] by auto
qed

end

context ticked_env
begin

lemma persistRefs_added: "refs_added k updates (cards w) (cards (snd (persistExternalRefs (en_store env) k updates w)))"
proof (cases "updates = [] \<or> cards w k = None")
  case True
  obtain n :: nat where n: "3 = Suc n" by (metis numeral_3_eq_3)
  show ?thesis using True by (auto simp: persistExternalRefs_def n get_result refs_added_def split: option.splits)
next
  case False
  then obtain c r where "cards w k = Some (c, r)" "updates \<noteq> []" by auto
  from persist_refs [OF this] \<open>cards w k = Some (c, r)\<close> \<open>updates \<noteq> []\<close> show ?thesis by (auto simp: refs_added_def)
qed

lemma applyDelivery_added:
  assumes "applyDeliveryResults env n rs m w = (err, m', w')"
  shows "refs_added (nt_AlertID n) (if nt_State n = StResolved then [] else reported_refs rs) (cards w) (cards w')"
proof (cases "nt_State n = StResolved \<or> reported_refs rs = []")
  case True
  then have "w' = w" using assms capture_reports [of n rs m] by (auto simp: applyDeliveryResults_def Let_def split: prod.splits)
  then show ?thesis using True by auto
next
  case False
  then have "w' = snd (persistExternalRefs (en_store env) (nt_AlertID n) (reported_refs rs) w)"
    using assms capture_reports [of n rs m] by (auto simp: applyDeliveryResults_def Let_def split: prod.splits)
  then show ?thesis using False persistRefs_added by simp
qed

lemma dispatch_added:
  assumes "dispatchNotification env rule n ro m w = (err, m', w')" "keeps_cards cards m"
  shows "refs_added (nt_AlertID n) (delivered_refs env rule n ro m w) (cards w) (cards w')"
proof -
  let ?routes = "if length ro > 0 then ro else rn_Route (rc_Notify rule)"
  obtain t w1 where now: "(if IsZero (nt_Timestamp n) then en_Now env w else (nt_Timestamp n, w)) = (t, w1)" by force
  have w1: "cards w1 = cards w" using now clock_cards [of w] by (auto split: if_splits)
  obtain sent w2 where sent: "notifyRoutes env m n ?routes False w1 = (sent, w2)" by force
  have w2: "cards w2 = cards w" using notifyRoutes_cards [OF assms(2), of n ?routes False w1] sent w1 by simp
  note run = assms(1) [unfolded dispatchNotification_def Let_def now prod.case]
  note refs = delivered_refs_def [of env rule n ro m w, unfolded Let_def now prod.case sent fst_conv]
  consider (resolved) "nt_State n = StResolved" | (off) "shouldSkipNotificationByOff env rule t"
    | (queue) enqueue where "mg_producer m = Some enqueue" "\<not> shouldSkipNotificationByOff env rule t"
    | (direct) "mg_producer m = None" "\<not> shouldSkipNotificationByOff env rule t" "nt_State n \<noteq> StResolved" by auto
  then show ?thesis
  proof cases
    case resolved
    then show ?thesis using dispatch_resolved [OF assms resolved] refs by simp
  next
    case off
    then show ?thesis using run refs w1 by simp
  next
    case (queue enqueue)
    then have "w' = snd (enqueueNotificationJobs env enqueue m n ?routes w1)" using run by (auto split: prod.splits)
    then show ?thesis using queue refs w1 enqueue_cards [OF assms(2) queue(1), of n ?routes w1] by simp
  next
    case direct
    show ?thesis
    proof (cases sent)
      case (Inl e)
      then show ?thesis using run refs direct sent w2 by simp
    next
      case (Inr results)
      then have "applyDeliveryResults env n results m w2 = (err, m', w')" using run direct sent by simp
      from applyDelivery_added [OF this] show ?thesis using refs direct Inr w2 by simp
    qed
  qed
qed

lemma applyDelivery_core:
  assumes "applyDeliveryResults env n rs m w = (err, m', w')"
  shows "core (cards w' j) = core (cards w j)"
  using refs_added_core [OF applyDelivery_added [OF assms]] .

lemma dispatch_core:
  assumes "dispatchNotification env rule n ro m w = (err, m', w')" "keeps_cards cards m"
  shows "core (cards w' j) = core (cards w j)" "nt_State n = StResolved \<Longrightarrow> cards w' = cards w"
  using refs_added_core [OF dispatch_added [OF assms]] dispatch_resolved [OF assms] by blast+

section \<open>A stored transition\<close>

lemma refresh_decision_cards:
  "refresh_decision env rule k d now p w = (x, p1, w1) \<Longrightarrow> cards w1 = cards w"
proof -
  have "so_RefreshTick (en_store env) k t ttl w = (y, u) \<Longrightarrow> cards u = cards w" for t ttl y u
    using refresh_cards [of k t ttl w] by simp
  then show "refresh_decision env rule k d now p w = (x, p1, w1) \<Longrightarrow> cards w1 = cards w"
    by (auto simp: refresh_decision_def Let_def split: if_splits option.splits prod.splits)
qed

lemma persist_change_cards:
  assumes "persist_change env rule k ident d now m w = (Inr y, m', w')" "dc_StateChanged d"
  defines "new \<equiv> next_card rule k ident (event_count (mg_engine m) k) d now (map_option fst (cards w k))"
  shows "\<exists>r. cards w' = (cards w)(k \<mapsto> (new, r))"
    and "y = (dc_ShouldNotify d \<and> (case cards w k of None \<Rightarrow> True | Some (c, _) \<Rightarrow> ac_State c \<noteq> dc_State d), ac_RaisedAt new)"
    and "m' = seedExternalRefs k (ac_ExternalRefs new) m"
proof -
  have "(\<exists>r. cards w' = (cards w)(k \<mapsto> (new, r))) \<and>
      y = (dc_ShouldNotify d \<and> (case cards w k of None \<Rightarrow> True | Some (c, _) \<Rightarrow> ac_State c \<noteq> dc_State d), ac_RaisedAt new) \<and>
      m' = seedExternalRefs k (ac_ExternalRefs new) m"
  proof (cases "cards w k")
    case None
    from persist_absent [OF this, of "mg_engine m" rule ident "ai_MetricValue ident" d now] show ?thesis
      using assms(1,2) None by (auto simp: persist_change_def next_card_def new_def)
  next
    case (Some entry)
    then obtain c0 r0 where "cards w k = Some (c0, r0)" by (cases entry) simp
    from persist_present [OF this, of "mg_engine m" rule ident "ai_MetricValue ident" d now] show ?thesis
      using assms(1,2) \<open>cards w k = Some (c0, r0)\<close> by (auto simp: persist_change_def next_card_def new_def)
  qed
  then show "\<exists>r. cards w' = (cards w)(k \<mapsto> (new, r))"
    "y = (dc_ShouldNotify d \<and> (case cards w k of None \<Rightarrow> True | Some (c, _) \<Rightarrow> ac_State c \<noteq> dc_State d), ac_RaisedAt new)"
    "m' = seedExternalRefs k (ac_ExternalRefs new) m" by blast+
qed

lemma persist_change_keeps:
  "persist_change env rule k ident d now m w = (x, m', w') \<Longrightarrow> keeps_cards cards m' = keeps_cards cards m"
  by (auto simp: persist_change_def split: if_splits prod.splits sum.splits)

lemma decision_notification_about [simp]:
  "nt_State (decision_notification rule k ident d now t) = dc_State d"
  "nt_AlertID (decision_notification rule k ident d now t) = k"
  by (simp_all add: decision_notification_def buildNotification_def Let_def)

lemma notify_decision_added:
  assumes "notify_decision env rule k ident d now b t m w = (err, m', w')" "keeps_cards cards m"
  shows "refs_added k (if b \<and> \<not> (dc_State d = StPending \<and> \<not> notifyOnPending (mg_cfg m) rule)
      then delivered_refs env rule (decision_notification rule k ident d now t) [] m w else []) (cards w) (cards w')"
    and "dc_State d = StResolved \<Longrightarrow> cards w' = cards w"
proof -
  let ?n = "decision_notification rule k ident d now t"
  let ?told = "b \<and> \<not> (dc_State d = StPending \<and> \<not> notifyOnPending (mg_cfg m) rule)"
  have "refs_added k (if ?told then delivered_refs env rule ?n [] m w else []) (cards w) (cards w') \<and>
      (dc_State d = StResolved \<longrightarrow> cards w' = cards w)"
  proof (cases ?told)
    case True
    then have "dispatchNotification env rule ?n [] m w = (err, m', w')" using assms(1) by (simp add: notify_decision_def)
    from dispatch_added [OF this assms(2)] dispatch_core(2) [OF this assms(2)] True show ?thesis by simp
  next
    case False
    then have "w' = w" using assms(1) by (auto simp: notify_decision_def)
    then show ?thesis unfolding if_not_P [OF False] by simp
  qed
  then show "refs_added k (if ?told then delivered_refs env rule ?n [] m w else []) (cards w) (cards w')"
    "dc_State d = StResolved \<Longrightarrow> cards w' = cards w" by blast+
qed

lemma applyDecision_phases:
  assumes "applyDecision env rule k d now p m w = (None, p', m', w')"
    and "dc_StateChanged d" "dc_ShouldStore d" "GetAlertIdentity (mg_engine m) k = Some ident"
  obtains w1 y m2 w2 m3 w3 where "cards w1 = cards w"
    "persist_change env rule k ident d now m w1 = (Inr y, m2, w2)"
    "notify_decision env rule k ident d now (fst y) (snd y) m2 w2 = (None, m3, w3)"
    "finish_decision env k d m3 w3 = (None, m', w')"
  using assms refresh_decision_cards [of rule k d now p w]
  by (auto simp: applyDecision_def split: option.splits prod.splits sum.splits)

lemma applyDecision_stored:
  assumes "applyDecision env rule k d now p m w = (None, p', m', w')" "keeps_cards cards m"
    and "dc_StateChanged d" "dc_ShouldStore d" "GetAlertIdentity (mg_engine m) k = Some ident"
  defines "new \<equiv> next_card rule k ident (event_count (mg_engine m) k) d now (map_option fst (cards w k))"
  shows "dc_State d \<noteq> StResolved \<Longrightarrow> \<exists>r w2. cards w2 = (cards w)(k \<mapsto> (new, r)) \<and>
      refs_added k (if change_notified (mg_cfg m) rule d (map_option fst (cards w k))
        then delivered_refs env rule (decision_notification rule k ident d now (ac_RaisedAt new)) []
          (seedExternalRefs k (ac_ExternalRefs new) m) w2 else []) (cards w2) (cards w')"
    and "dc_State d = StResolved \<Longrightarrow> cards w' = (cards w)(k := None)"
proof -
  from applyDecision_phases [OF assms(1,3,4,5)] obtain w1 y m2 w2 m3 w3 where ph: "cards w1 = cards w"
    "persist_change env rule k ident d now m w1 = (Inr y, m2, w2)"
    "notify_decision env rule k ident d now (fst y) (snd y) m2 w2 = (None, m3, w3)"
    "finish_decision env k d m3 w3 = (None, m', w')" .
  note change = persist_change_cards [OF ph(2) assms(3), unfolded ph(1), folded new_def]
  obtain r where w2: "cards w2 = (cards w)(k \<mapsto> (new, r))" using change(1) by blast
  have m2: "keeps_cards cards m2" using persist_change_keeps [OF ph(2)] assms(2) by simp
  note w3 = notify_decision_added [OF ph(3) m2]
  have told: "(fst y \<and> \<not> (dc_State d = StPending \<and> \<not> notifyOnPending (mg_cfg m2) rule)) =
      change_notified (mg_cfg m) rule d (map_option fst (cards w k))"
    by (auto simp: change(2,3) change_notified_def seedExternalRefs_def split: option.splits)
  show "\<exists>r w2. cards w2 = (cards w)(k \<mapsto> (new, r)) \<and>
      refs_added k (if change_notified (mg_cfg m) rule d (map_option fst (cards w k))
        then delivered_refs env rule (decision_notification rule k ident d now (ac_RaisedAt new)) []
          (seedExternalRefs k (ac_ExternalRefs new) m) w2 else []) (cards w2) (cards w')" if "dc_State d \<noteq> StResolved"
  proof -
    have "w' = w3" using ph(4) that by (simp add: finish_decision_def)
    moreover have raised: "snd y = ac_RaisedAt new" by (simp add: change(2))
    ultimately show ?thesis using w2 w3(1) [unfolded told, unfolded raised change(3)] by blast
  qed
  show "cards w' = (cards w)(k := None)" if "dc_State d = StResolved"
  proof -
    have "cards w' = (cards w3)(k := None)"
      using ph(4) that delete_cards [of k w3] by (auto simp: finish_decision_def split: prod.splits option.splits)
    then show ?thesis using w3(2) [OF that] w2 by simp
  qed
qed

lemma applyDecision_card:
  assumes "applyDecision env rule k d now p m w = (None, p', m', w')" "keeps_cards cards m"
    and "dc_StateChanged d" "dc_ShouldStore d" "GetAlertIdentity (mg_engine m) k = Some ident"
  shows "dc_State d \<noteq> StResolved \<Longrightarrow> core (cards w' j) = (if j = k then
      Some ((next_card rule k ident (event_count (mg_engine m) k) d now (map_option fst (cards w k)))\<lparr>ac_ExternalRefs := []\<rparr>)
      else core (cards w j))"
    and "dc_State d = StResolved \<Longrightarrow> cards w' = (cards w)(k := None)"
  using applyDecision_stored [OF assms] by (auto dest: refs_added_core [where j = j])

section \<open>Removed rules\<close>

lemma cleanup_ids_cards:
  assumes "cleanup_ids env rule now ids m w = (m', w')" "keeps_cards cards m"
  shows "cards w' = (\<lambda>k. if k \<in> set ids then None else cards w k) \<and> keeps_cards cards m'"
  using assms
proof (induction ids arbitrary: m w)
  case (Cons k ids)
  show ?case
  proof (cases "cards w k")
    case None
    then have "cleanup_ids env rule now ids m w = (m', w')" using Cons.prems(1) by (simp add: get_result)
    from Cons.IH [OF this Cons.prems(2)] None show ?thesis by (auto simp: fun_eq_iff)
  next
    case (Some entry)
    then obtain c0 r0 where c0: "cards w k = Some (c0, r0)" by (cases entry) simp
    let ?sent = "if ac_State c0 = StPending \<or> ac_State c0 = StFiring then
        (let m1 = seedExternalRefs k (ac_ExternalRefs c0) m; c = resolveCardRaisedAt c0 now;
             (_, m', w') = dispatchNotification env rule
               (buildResolvedCardNotification c ''resolved due rule removal'' now) [] m1 w in (m', w'))
      else (m, w)"
    obtain m2 w2 where sent: "?sent = (m2, w2)" by force
    have two: "keeps_cards cards m2 \<and> cards w2 = cards w"
    proof (cases "ac_State c0 = StPending \<or> ac_State c0 = StFiring")
      case True
      let ?n = "buildResolvedCardNotification (resolveCardRaisedAt c0 now) ''resolved due rule removal'' now"
      obtain e where d: "dispatchNotification env rule ?n [] (seedExternalRefs k (ac_ExternalRefs c0) m) w = (e, m2, w2)"
        using sent True by (auto simp: Let_def split: prod.splits)
      have "nt_State ?n = StResolved" by (simp add: buildResolvedCardNotification_def buildNotification_def)
      then show ?thesis
        using dispatch_core(2) [OF d] dispatch_manager [OF d] Cons.prems(2)
        by (simp add: keeps_cards_def seedExternalRefs_def)
    qed (use sent Cons.prems(2) in auto)
    obtain x w3 where del: "so_DeleteCard (en_store env) k w2 = (x, w3)" "cards w3 = (cards w2)(k := None)"
      using delete_cards by (metis prod.collapse)
    have "cleanup_ids env rule now ids (m2\<lparr>mg_engine := RemoveAlertState (mg_engine m2) k\<rparr>) w3 = (m', w')"
      using Cons.prems(1) sent del(1) by (simp add: get_result c0)
    from Cons.IH [OF this] two del(2) show ?thesis by (auto simp: fun_eq_iff)
  qed
qed simp

end

section \<open>Calls that fail\<close>

text \<open>
  A store whose calls may fail at any time. A read that fails tells nothing, unless the error is
  that there is no card; a write or a deletion that fails may have happened all the same, unless
  the error is a conflict, which an up-to-date write does not get.
\<close>

locale failing_env = clocked_env +
  assumes get_keeps: "cards (snd (so_GetCard (en_store env) k w)) = cards w"
    and get_honest: "fst (so_GetCard (en_store env) k w) = Inr entry \<Longrightarrow> cards w k = Some entry"
    and get_absent: "fst (so_GetCard (en_store env) k w) = Inl e \<Longrightarrow> errors_Is e ErrNotFound \<Longrightarrow> cards w k = None"
    and update_done: "so_UpdateCard (en_store env) k r c w = (Inr r', w') \<Longrightarrow> cards w' = (cards w)(k \<mapsto> (c, r'))"
    and update_failed: "so_UpdateCard (en_store env) k r c w = (Inl e, w') \<Longrightarrow> cards w k = Some (c0, r) \<Longrightarrow>
      \<not> errors_Is e ErrConflict \<and> (cards w' = cards w \<or> (\<exists>r'. cards w' = (cards w)(k \<mapsto> (c, r'))))"
    and delete_done: "so_DeleteCard (en_store env) k w = (None, w') \<Longrightarrow> cards w' = (cards w)(k := None)"
    and delete_failed: "so_DeleteCard (en_store env) k w = (Some e, w') \<Longrightarrow> cards w' = cards w \<or> cards w' = (cards w)(k := None)"
    and failing_tick: "cards (snd (so_HasTick (en_store env) k w)) = cards w"
begin

lemma ttl_outcome:
  assumes "ResolveByTTL env k reason m w = (err, m', w')" "so_HasTick (en_store env) k w = (Inr False, w1)"
    and "cards w k = Some (c, r)" "ac_State c = StPending \<or> ac_State c = StFiring"
    and "ruleByName m (ac_RuleName c) = Some rule" "keeps_cards cards m"
  shows "\<exists>c'. ac_State c' = StResolved \<and> ac_ClosedAt c' \<noteq> None \<and>
    (case err of
       Some e \<Rightarrow> m' = m \<and> (cards w' = cards w \<or> (\<exists>r'. cards w' = (cards w)(k \<mapsto> (c', r')))) \<and>
         (\<exists>w2. cards w2 = cards w \<and> (fst (so_GetCard (en_store env) k w2) = Inl e \<or> fst (so_UpdateCard (en_store env) k r c' w2) = Inl e))
     | None \<Rightarrow> eng_get (mg_engine m') k = None \<and>
         (cards w' = (cards w)(k := None) \<or>
          (\<exists>r' w2 e. cards w' = (cards w)(k \<mapsto> (c', r')) \<and> so_DeleteCard (en_store env) k w2 = (Some e, w'))))"
proof -
  have w1: "cards w1 = cards w" using failing_tick [of k w] assms(2) by simp
  obtain x w2 where get: "so_GetCard (en_store env) k w1 = (x, w2)" by force
  have w2: "cards w2 = cards w" using get_keeps [of k w1] get w1 by simp
  obtain closed w3 where now: "en_Now env w2 = (closed, w3)" by force
  have w3: "cards w3 = cards w" using clock_cards [of w2] now w2 by simp
  let ?reason = "if reason = [] then ''ttl_expired'' else reason"
  define c1 where "c1 = (resolveCardRaisedAt (c\<lparr>ac_State := StResolved\<rparr>) closed)\<lparr>ac_ClosedAt := Some closed, ac_ResolveCause := ?reason\<rparr>"
  have c1: "ac_State c1 = StResolved" "ac_ClosedAt c1 \<noteq> None" "ac_RuleName c1 = ac_RuleName c"
    by (simp_all add: c1_def resolveCardRaisedAt_def)
  note run = assms(1) [unfolded ResolveByTTL_def assms(2) prod.case sum.case bool.case get]
  show ?thesis
  proof (cases x)
    case (Inl e)
    then have "\<not> errors_Is e ErrNotFound" using get_absent [of k w1 e] get w1 assms(3) by auto
    then have "err = Some e" "m' = m" "w' = w2" using run Inl by simp_all
    then show ?thesis using c1 w1 w2 get Inl by (intro exI [of _ c1]) auto
  next
    case (Inr entry)
    then have "entry = (c, r)" using get_honest [of k w1 entry] get w1 assms(3) by simp
    note run = run [unfolded Inr this sum.case prod.case Let_def now]
    obtain y w4 where up: "so_UpdateCard (en_store env) k r c1 w3 = (y, w4)" by force
    show ?thesis
    proof (cases y)
      case (Inl e)
      note failed = update_failed [OF up [unfolded Inl], of c] w3 assms(3)
      then have "err = Some e" "m' = m" "w' = w4"
        using run up Inl assms(4) by (auto simp: c1_def split: if_splits)
      then show ?thesis using c1 failed up Inl w3 by (intro exI [of _ c1]) auto
    next
      case written: (Inr r')
      have w4: "cards w4 = (cards w)(k \<mapsto> (c1, r'))" using update_done [OF up [unfolded written]] w3 by simp
      let ?n = "buildResolvedCardNotification c1 (notificationMessage StResolved ?reason) closed"
      let ?m1 = "seedExternalRefs k (ac_ExternalRefs c1) m"
      obtain z m2 w5 where disp: "dispatchNotification env rule ?n [] ?m1 w4 = (z, m2, w5)" by (metis prod_cases3)
      have "nt_State ?n = StResolved" by (simp add: buildResolvedCardNotification_def buildNotification_def)
      then have w5: "cards w5 = (cards w)(k \<mapsto> (c1, r'))" using dispatch_resolved [OF disp] assms(6) w4 by simp
      obtain del w6 where del: "so_DeleteCard (en_store env) k w5 = (del, w6)" by force
      have outcome: "err = None" "m' = m2\<lparr>mg_engine := RemoveAlertState (mg_engine m2) k\<rparr>" "w' = w6"
        using run up written assms(4,5) c1(3) disp del by (auto simp: c1_def split: if_splits)
      have "cards w6 = (cards w)(k := None) \<or>
          cards w6 = (cards w)(k \<mapsto> (c1, r')) \<and> (\<exists>w2 e. so_DeleteCard (en_store env) k w2 = (Some e, w6))"
      proof (cases del)
        case None
        then show ?thesis using delete_done [of k w5 w6] del w5 by simp
      next
        case (Some e)
        then show ?thesis using delete_failed [of k w5 e w6] del w5 by auto
      qed
      then show ?thesis using c1 outcome by (intro exI [of _ c1]) (auto simp: RemoveAlertState_def)
    qed
  qed
qed

end

text \<open>A store that always works is one of them.\<close>

sublocale ticked_env \<subseteq> failing_env env cards
proof
  fix k :: string and w w' and c c0 :: alert_card and r r' :: uint64 and e :: error and entry :: "alert_card \<times> uint64"
  show "cards (snd (so_GetCard (en_store env) k w)) = cards w" by (simp add: get_result)
  show "cards w k = Some entry" if "fst (so_GetCard (en_store env) k w) = Inr entry"
    using that by (simp add: get_result split: option.splits)
  show "cards w k = None" if "fst (so_GetCard (en_store env) k w) = Inl e" "errors_Is e ErrNotFound"
    using that by (simp add: get_result split: option.splits)
  show "cards w' = (cards w)(k \<mapsto> (c, r'))" if "so_UpdateCard (en_store env) k r c w = (Inr r', w')"
  proof (cases "cards w k")
    case None
    then show ?thesis using that update_absent [of w k r c] by auto
  next
    case (Some old)
    then obtain c1 r1 where old: "cards w k = Some (c1, r1)" by (cases old) simp
    then show ?thesis using that update_current [OF old, of c] update_stale [OF old, of r c] by (cases "r1 = r") auto
  qed
  show "\<not> errors_Is e ErrConflict \<and> (cards w' = cards w \<or> (\<exists>r'. cards w' = (cards w)(k \<mapsto> (c, r'))))"
    if "so_UpdateCard (en_store env) k r c w = (Inl e, w')" "cards w k = Some (c0, r)"
    using update_current [OF that(2), of c] that(1) by auto
  show "cards w' = (cards w)(k := None)" if "so_DeleteCard (en_store env) k w = (None, w')"
    using delete_cards [of k w] that by simp
  show "cards w' = cards w \<or> cards w' = (cards w)(k := None)" if "so_DeleteCard (en_store env) k w = (Some e, w')"
    using delete_cards [of k w] that by simp
  show "cards (snd (so_HasTick (en_store env) k w)) = cards w" by (rule hastick_cards)
qed

text \<open>The listing of a rule's alerts is by prefix, over the cards that exist.\<close>

locale listing_env = ticked_env +
  assumes list_result: "\<exists>ids. so_ListAlertIDsByRule (en_store env) n w = (Inr ids, w) \<and>
    set ids = {k. cards w k \<noteq> None \<and> HasPrefix k (RuleAlertPrefix n)}"
begin

lemma cleanup_rule_cards:
  assumes "cleanupRemovedRule env rule m w = (err, m', w')" "keeps_cards cards m"
  shows "err = None \<and> keeps_cards cards m' \<and>
    cards w' = (\<lambda>k. if HasPrefix k (RuleAlertPrefix (rc_Name rule)) then None else cards w k)"
proof -
  obtain ids where ids: "so_ListAlertIDsByRule (en_store env) (rc_Name rule) w = (Inr ids, w)"
    "set ids = {k. cards w k \<noteq> None \<and> HasPrefix k (RuleAlertPrefix (rc_Name rule))}"
    using list_result by blast
  obtain t w1 where now: "en_Now env w = (t, w1)" by force
  have "cards w1 = cards w" using clock_cards [of w] now by simp
  obtain m2 w2 where cl: "cleanup_ids env rule t ids m w1 = (m2, w2)" by force
  have "cards w2 = (\<lambda>k. if k \<in> set ids then None else cards w k)" "keeps_cards cards m2"
    using cleanup_ids_cards [OF cl assms(2)] \<open>cards w1 = cards w\<close> by (auto simp: fun_eq_iff)
  moreover have "err = None" "m' = m2" "w' = w2"
    using assms(1) ids(1) now cl by (simp_all add: cleanupRemovedRule_def)
  ultimately show ?thesis
    using ids(2) by (simp add: fun_eq_iff) (metis not_Some_eq surj_pair)
qed

lemma cleanup_rules_cards:
  assumes "cleanup_rules env old new m w = (err, m', w')" "keeps_cards cards m"
  shows "err = None \<and> cards w' = (\<lambda>k. if \<exists>(name, rule) \<in> set old. map_get new name = None \<and>
      HasPrefix k (RuleAlertPrefix (rc_Name rule)) then None else cards w k)"
  using assms
proof (induction old arbitrary: m w)
  case (Cons entry old)
  obtain name rule where entry: "entry = (name, rule)" by force
  show ?case
  proof (cases "map_get new name")
    case None
    obtain e1 m1 w1 where step: "cleanupRemovedRule env rule m w = (e1, m1, w1)" by (metis prod_cases3)
    note one = cleanup_rule_cards [OF step Cons.prems(2)]
    then have "cleanup_rules env old new m1 w1 = (err, m', w')"
      using Cons.prems(1) step None by (simp add: entry)
    from Cons.IH [OF this] one show ?thesis by (auto simp: entry None fun_eq_iff)
  next
    case (Some r)
    then have "cleanup_rules env old new m w = (err, m', w')" using Cons.prems(1) by (simp add: entry)
    from Cons.IH [OF this Cons.prems(2)] show ?thesis by (simp add: entry Some)
  qed
qed simp

end

end
