(* ===== verification/Single_Instance.thy ===== *)
theory Single_Instance
  imports Manager_Cards Nats_Store
begin

text \<open>
  The manager on the memory store, the wiring of the service in \<open>single\<close> mode
  (\<open>internal/app/service.go\<close>): the world holds the store and the clock, and keeps a record
  of what was delivered and enqueued. The store contracts of \<open>Manager_Facts\<close> and \<open>Manager_Cards\<close> hold for it.
  The second part lifts the same contract to the JetStream store.
\<close>

section \<open>The world of one instance\<close>

record single_world =
  sw_store :: memory_store
  sw_now :: gtime
  sw_sent :: "(string \<times> string \<times> notification) list"
  sw_jobs :: "job list"

definition on_store :: "(memory_store \<Rightarrow> 'r \<times> memory_store) \<Rightarrow> single_world \<Rightarrow> 'r \<times> single_world" where
  "on_store f w = (let r = f (sw_store w) in (fst r, w\<lparr>sw_store := snd r\<rparr>))"

definition memory_ops_store :: "single_world store" where
  "memory_ops_store =
     \<lparr>so_RefreshTick = \<lambda>k t d. on_store (mem_RefreshTick k t d),
      so_HasTick = \<lambda>k w. on_store (mem_HasTick (sw_now w) (sw_now w) k) w,
      so_GetCard = \<lambda>k. on_store (mem_GetCard k),
      so_CreateCard = \<lambda>k c. on_store (mem_CreateCard k c),
      so_PutCard = \<lambda>k c. on_store (mem_PutCard k c),
      so_UpdateCard = \<lambda>k r c. on_store (mem_UpdateCard k r c),
      so_DeleteCard = \<lambda>k. on_store (mem_DeleteCard k),
      so_ListAlertIDsByRule = \<lambda>n. on_store (mem_ListAlertIDsByRule n)\<rparr>"

definition single_env ::
    "location \<Rightarrow> (float64 \<Rightarrow> string) \<Rightarrow> (string \<Rightarrow> string) \<Rightarrow> (string \<Rightarrow> regex result) \<Rightarrow> single_world env" where
  "single_env loc fmt_float hexsha1 compile =
     \<lparr>en_store = memory_ops_store, en_Now = \<lambda>w. (sw_now w, w), en_Loc = loc,
      en_fmt_float = fmt_float, en_hexsha1 = hexsha1, en_compile = compile\<rparr>"

definition single_cards :: "single_world \<Rightarrow> string \<Rightarrow> (alert_card \<times> uint64) option" where
  "single_cards w = mem_cards (sw_store w)"

lemma single_env_sel [simp]:
  "en_store (single_env loc ff hs cp) = memory_ops_store" "en_Now (single_env loc ff hs cp) w = (sw_now w, w)"
  "en_Loc (single_env loc ff hs cp) = loc" "en_fmt_float (single_env loc ff hs cp) = ff"
  "en_hexsha1 (single_env loc ff hs cp) = hs" "en_compile (single_env loc ff hs cp) = cp"
  by (simp_all add: single_env_def)

lemma memory_ops_store_sel [simp]:
  "so_GetCard memory_ops_store k w = on_store (mem_GetCard k) w"
  "so_CreateCard memory_ops_store k c w = on_store (mem_CreateCard k c) w"
  "so_UpdateCard memory_ops_store k r c w = on_store (mem_UpdateCard k r c) w"
  "so_DeleteCard memory_ops_store k w = on_store (mem_DeleteCard k) w"
  "so_RefreshTick memory_ops_store k t d w = on_store (mem_RefreshTick k t d) w"
  "so_HasTick memory_ops_store k w = on_store (mem_HasTick (sw_now w) (sw_now w) k) w"
  "so_ListAlertIDsByRule memory_ops_store n w = on_store (mem_ListAlertIDsByRule n) w"
  by (simp_all add: memory_ops_store_def)

interpretation single: listing_env "single_env loc ff hs cp" single_cards for loc ff hs cp
proof
  fix k :: string and w :: single_world and c :: alert_card
  show "so_GetCard (en_store (single_env loc ff hs cp)) k w =
      (case single_cards w k of None \<Rightarrow> Inl ErrNotFound | Some entry \<Rightarrow> Inr entry, w)"
    by (simp add: on_store_def mem.get_result single_cards_def)
  show "so_CreateCard (en_store (single_env loc ff hs cp)) k c w = (Inl ErrConflict, w)"
    if "single_cards w k = Some entry" for entry
    using that by (simp add: on_store_def mem.create_present single_cards_def)
  show "\<exists>r w'. so_CreateCard (en_store (single_env loc ff hs cp)) k c w = (Inr r, w') \<and>
      single_cards w' = (single_cards w)(k \<mapsto> (c, r))" if "single_cards w k = None"
    using that mem.create_absent [of "sw_store w" k c] by (auto simp: on_store_def single_cards_def)
  show "\<exists>r w'. so_UpdateCard (en_store (single_env loc ff hs cp)) k r0 c w = (Inr r, w') \<and> r \<noteq> r0 \<and>
      single_cards w' = (single_cards w)(k \<mapsto> (c, r))" if "single_cards w k = Some (c0, r0)" for c0 r0
    using that mem.update_current [of "sw_store w" k c0 r0 c] by (auto simp: on_store_def single_cards_def)
  show "so_UpdateCard (en_store (single_env loc ff hs cp)) k r0 c w = (Inl ErrConflict, w)"
    if "single_cards w k = Some (c0, r)" "r \<noteq> r0" for c0 r r0
    using that mem.update_stale [of "sw_store w" k c0 r r0 c] by (simp add: on_store_def single_cards_def Let_def)
  show "\<exists>e. so_UpdateCard (en_store (single_env loc ff hs cp)) k r0 c w = (Inl e, w) \<and>
      (e = ErrNotFound \<or> e = ErrConflict)" if "single_cards w k = None" for r0
    using that mem.update_absent [of "sw_store w" k r0 c] by (auto simp: on_store_def single_cards_def)
  show "fst (so_DeleteCard (en_store (single_env loc ff hs cp)) k w) = None"
    by (simp add: on_store_def mem.delete_result)
  show "single_cards (snd (so_DeleteCard (en_store (single_env loc ff hs cp)) k w)) = (single_cards w)(k := None)"
    by (simp add: on_store_def single_cards_def mem.delete_cards Let_def)
  fix t d
  show "single_cards (snd (so_RefreshTick (en_store (single_env loc ff hs cp)) k t d w)) = single_cards w"
    by (simp add: on_store_def single_cards_def Let_def)
  show "single_cards (snd (so_HasTick (en_store (single_env loc ff hs cp)) k w)) = single_cards w"
    by (simp add: on_store_def single_cards_def Let_def)
  show "single_cards (snd (en_Now (single_env loc ff hs cp) w)) = single_cards w" by simp
  show "\<exists>ids. so_ListAlertIDsByRule (en_store (single_env loc ff hs cp)) n w = (Inr ids, w) \<and>
      set ids = {k. single_cards w k \<noteq> None \<and> HasPrefix k (RuleAlertPrefix n)}" for n
  proof -
    obtain ids where ids: "mem_ListAlertIDsByRule n (sw_store w) = (Inr ids, sw_store w)"
      by (simp add: mem_ListAlertIDsByRule_def)
    then have "set ids = {k. mem_cards (sw_store w) k \<noteq> None \<and> HasPrefix k (RuleAlertPrefix n)}"
      using mem_list_iff [of n "sw_store w" ids] by auto
    then show ?thesis using ids by (simp add: on_store_def single_cards_def)
  qed
qed

text \<open>A dispatcher and a queue that record what they are given, for closed examples.\<close>

definition recording_send :: "single_world send_op" where
  "recording_send channel templateName n w =
     (Inr no_send_result, w\<lparr>sw_sent := sw_sent w @ [(channel, templateName, n)]\<rparr>)"

definition failing_send :: "single_world send_op" where
  "failing_send channel templateName n w = (Inl (ErrMsg ''unreachable''), w)"

definition recording_enqueue :: "single_world enqueue_op" where
  "recording_enqueue j w = (None, w\<lparr>sw_jobs := sw_jobs w @ [j]\<rparr>)"

definition fresh_world :: "gtime \<Rightarrow> single_world" where
  "fresh_world t = \<lparr>sw_store = NewMemoryStore, sw_now = t, sw_sent = [], sw_jobs = []\<rparr>"

section \<open>The JetStream store\<close>

definition nats_env ::
    "('b, 'w) nats_api \<Rightarrow> nats_state_config \<Rightarrow> ('w \<Rightarrow> gtime \<times> 'w) \<Rightarrow> location \<Rightarrow> (float64 \<Rightarrow> string)
      \<Rightarrow> (string \<Rightarrow> string) \<Rightarrow> (string \<Rightarrow> regex result) \<Rightarrow> 'w env" where
  "nats_env api settings now loc fmt_float hexsha1 compile =
     \<lparr>en_store = nats_store api settings, en_Now = now, en_Loc = loc,
      en_fmt_float = fmt_float, en_hexsha1 = hexsha1, en_compile = compile\<rparr>"

lemma nats_store_env:
  assumes "kv_contract api view" "codec_contract api view"
  shows "store_env (nats_env api settings now loc ff hs cp) (nats_cards api view)"
  using nats_card_store [OF assms] by (simp add: store_env_def nats_env_def nats_store_def)

text \<open>Over a connection that may fail it is still a store whose calls may fail, and no worse.\<close>

lemma nats_failing_env:
  assumes kv: "failing_kv api view" and codec: "codec_contract api view" and clock: "\<And>w. view (snd (now w)) = view w"
  shows "failing_env (nats_env api settings now loc ff hs cp) (nats_cards api view)"
proof -
  let ?env = "nats_env api settings now loc ff hs cp"
  have ops: "so_GetCard (en_store ?env) = nats_GetCard api" "so_UpdateCard (en_store ?env) = nats_UpdateCard api"
    "so_DeleteCard (en_store ?env) = nats_DeleteCard api" "so_HasTick (en_store ?env) = nats_HasTick api" "en_Now ?env = now"
    by (simp_all add: nats_env_def nats_store_def)
  note laws = failing_kvD [OF kv]
  obtain marshal where marshal: "\<And>c. na_Marshal api c = Inr (marshal c)" "\<And>c. na_Unmarshal api (marshal c) = Inr c"
    using codec unfolding codec_contract_def by metis
  have same: "nats_cards api view w' = nats_cards api view w" if "view w' = view w" for w w'
    using that by (simp add: nats_cards_def fun_eq_iff)
  have update: "nats_UpdateCard api k r c w = (case kv_Update (na_dataKV api) k (marshal c) r w of
      (Inr r', w') \<Rightarrow> (Inr r', w')
    | (Inl e, w') \<Rightarrow> if isNATSCardConflict api e then (Inl ErrConflict, w')
        else (Inl (ErrWrap ''%s card: %w'' [''update''] e), w'))" for k r c w
    by (simp add: nats_UpdateCard_def nats_writeCard_def marshal(1))
  show ?thesis
  proof (unfold_locales, unfold ops)
    fix k :: string and w w' and c c0 :: alert_card and r r' :: uint64 and e :: error and entry :: "alert_card \<times> uint64"
    obtain x w1 where get: "kv_Get (na_dataKV api) k w = (x, w1)" by force
    have unmarshal: "\<exists>c. na_Unmarshal api b = Inr c" if "view w k = Some (b, r)" for b r
      using codec that unfolding codec_contract_def by blast
    show "nats_cards api view (snd (now w)) = nats_cards api view w"
      by (rule same [OF clock])
    show "nats_cards api view (snd (nats_GetCard api k w)) = nats_cards api view w"
      by (rule same) (use laws(1) [of k w] get in \<open>auto simp: nats_GetCard_def split: sum.splits prod.splits\<close>)
    show "nats_cards api view w k = Some entry"
      if "fst (nats_GetCard api k w) = Inr entry"
      using that laws(2) [of k w] get by (auto simp: nats_GetCard_def nats_cards_def split: sum.splits prod.splits if_splits)
    show "nats_cards api view w k = None"
      if "fst (nats_GetCard api k w) = Inl e" "errors_Is e ErrNotFound"
    proof (cases x)
      case (Inl e0)
      then have "e0 = na_ErrKeyNotFound api" using that laws(3) [of k w e0] get by (auto simp: nats_GetCard_def split: if_splits)
      then show ?thesis using laws(3) [of k w e0] get Inl by (simp add: nats_cards_def)
    next
      case (Inr entry0)
      obtain b r0 where entry0: "entry0 = (b, r0)" by force
      have "view w k = Some (b, r0)" using laws(2) [of k w entry0] get Inr by (simp add: entry0)
      from unmarshal [OF this] have False using that(1) get Inr by (auto simp: nats_GetCard_def entry0)
      then show ?thesis ..
    qed
    obtain y w2 where up: "kv_Update (na_dataKV api) k (marshal c) r w = (y, w2)" by force
    show "nats_cards api view w' = (nats_cards api view w)(k \<mapsto> (c, r'))"
      if "nats_UpdateCard api k r c w = (Inr r', w')"
    proof -
      have "y = Inr r'" "w2 = w'" using that up by (auto simp: update split: sum.splits if_splits)
      then have "view w' = (view w)(k \<mapsto> (marshal c, r'))" using laws(4) [of k "marshal c" r w r' w'] up by simp
      from nats_cards_update [OF this marshal(2)] show ?thesis .
    qed
    show "\<not> errors_Is e ErrConflict \<and> (nats_cards api view w' = nats_cards api view w \<or>
        (\<exists>r'. nats_cards api view w' = (nats_cards api view w)(k \<mapsto> (c, r'))))"
      if "nats_UpdateCard api k r c w = (Inl e, w')"
        "nats_cards api view w k = Some (c0, r)"
    proof -
      from that(2) obtain b0 where "view w k = Some (b0, r)" by (auto simp: nats_cards_def split: option.splits sum.splits)
      from that(1) up obtain e0 where y: "y = Inl e0" "w2 = w'" by (auto simp: update split: sum.splits if_splits)
      have "kv_Update (na_dataKV api) k (marshal c) r w = (Inl e0, w')" using up y by simp
      note failed = laws(5) [OF this \<open>view w k = Some (b0, r)\<close>]
      have e: "e = ErrWrap ''%s card: %w'' [''update''] e0" using that(1) up y failed by (simp add: update)
      from failed show ?thesis using nats_cards_update [OF _ marshal(2)] same [of w' w] by (auto simp: e)
    qed
    obtain d1 w3 where del: "kv_Delete (na_dataKV api) k w = (d1, w3)" by force
    obtain d2 w4 where tick: "kv_Delete (na_tickKV api) k w3 = (d2, w4)" by force
    have w4: "view w4 = view w3" using laws(7) [of k w3] tick by simp
    have gone: "nats_cards api view u = (nats_cards api view w)(k := None)" if "view u = (view w)(k := None)" for u
      using that by (auto simp: nats_cards_def)
    have deleted: "nats_DeleteCard api k w = (d, w') \<Longrightarrow>
        view w' = (view w)(k := None) \<or> d \<noteq> None \<and> view w' = view w" for d
      using laws(6) [OF del] w4 del tick by (auto simp: nats_DeleteCard_def split: if_splits)
    show "nats_cards api view w' = (nats_cards api view w)(k := None)"
      if "nats_DeleteCard api k w = (None, w')"
      using deleted [of None] that gone [of w'] by auto
    show "nats_cards api view w' = nats_cards api view w \<or> nats_cards api view w' = (nats_cards api view w)(k := None)"
      if "nats_DeleteCard api k w = (Some e, w')"
      using deleted [of "Some e"] that gone [of w'] same [of w' w] by auto
    obtain t w5 where has: "kv_Get (na_tickKV api) k w = (t, w5)" by force
    show "nats_cards api view (snd (nats_HasTick api k w)) = nats_cards api view w"
      by (rule same) (use laws(8) [of k w] has in \<open>auto simp: nats_HasTick_def split: sum.splits\<close>)
  qed
qed

end
