(* ===== verification/Concurrent_Instances.thy ===== *)
theory Concurrent_Instances
  imports Single_Instance
begin

text \<open>
  Several instances that share one store. \<open>persistDecisionCard\<close> reads the card and then
  writes it; between the two another instance may act. Each instance is a process that takes
  these two steps, and a run interleaves them in any order.
\<close>

section \<open>The two steps\<close>

definition persist_read :: "'w env \<Rightarrow> string \<Rightarrow> 'w \<Rightarrow> (alert_card \<times> uint64) option result \<times> 'w" where
  "persist_read env k w =
     (case so_GetCard (en_store env) k w of
        (Inl err, w1) \<Rightarrow> if \<not> errors_Is err ErrNotFound then (Inl err, w1) else (Inr None, w1)
      | (Inr entry, w1) \<Rightarrow> (Inr (Some entry), w1))"

definition persist_write ::
    "'w env \<Rightarrow> rule_config \<Rightarrow> string \<Rightarrow> alert_identity \<Rightarrow> string \<Rightarrow> int64 \<Rightarrow> decision \<Rightarrow> gtime
      \<Rightarrow> (alert_card \<times> uint64) option \<Rightarrow> 'w \<Rightarrow> card_write result \<times> 'w" where
  "persist_write env rule k ident metric cnt d now seen w =
     (case seen of
        None \<Rightarrow>
          (case so_CreateCard (en_store env) k (fresh_card rule k ident metric cnt d now) w of
             (Inl err, w2) \<Rightarrow>
               if \<not> errors_Is err ErrConflict then (Inl err, w2) else resolvePersistConflict env k w2
           | (Inr _, w2) \<Rightarrow> (Inr \<lparr>cw_card = fresh_card rule k ident metric cnt d now, cw_allowNotify = True,
                cw_seedExtRefs = True\<rparr>, w2))
      | Some (c0, r0) \<Rightarrow>
          (case so_UpdateCard (en_store env) k r0 (moved_card c0 metric cnt d now) w of
             (Inl err, w2) \<Rightarrow>
               if \<not> errors_Is err ErrConflict then (Inl err, w2) else resolvePersistConflict env k w2
           | (Inr _, w2) \<Rightarrow> (Inr \<lparr>cw_card = moved_card c0 metric cnt d now,
                cw_allowNotify = (ac_State c0 \<noteq> dc_State d), cw_seedExtRefs = True\<rparr>, w2)))"

text \<open>Run without interruption, the two steps are \<open>persistDecisionCard\<close>.\<close>

lemma persist_two_steps:
  "persistDecisionCard env e rule k ident metric d now w =
     (case persist_read env k w of
        (Inl err, w1) \<Rightarrow> (Inl err, w1)
      | (Inr seen, w1) \<Rightarrow> persist_write env rule k ident metric (event_count e k) d now seen w1)"
  by (auto simp: persistDecisionCard_def persist_read_def persist_write_def Let_def event_count_def
      split: prod.splits sum.splits)

section \<open>Interleavings\<close>

record persist_job =
  pj_rule :: rule_config
  pj_ident :: alert_identity
  pj_count :: int64
  pj_decision :: decision
  pj_now :: gtime

datatype pc = PStart | PRead "(alert_card \<times> uint64) option" | PDone bool

definition allowed :: "card_write result \<Rightarrow> bool" where
  "allowed r = (case r of Inl _ \<Rightarrow> False | Inr res \<Rightarrow> cw_allowNotify res)"

inductive instance_step ::
    "'w env \<Rightarrow> string \<Rightarrow> persist_job list \<Rightarrow> pc list \<times> 'w \<Rightarrow> pc list \<times> 'w \<Rightarrow> bool"
  for env k jobs where
  reads: "i < length pcs \<Longrightarrow> pcs ! i = PStart \<Longrightarrow> persist_read env k w = (Inr seen, w') \<Longrightarrow>
    instance_step env k jobs (pcs, w) (pcs[i := PRead seen], w')"
| read_fails: "i < length pcs \<Longrightarrow> pcs ! i = PStart \<Longrightarrow> persist_read env k w = (Inl err, w') \<Longrightarrow>
    instance_step env k jobs (pcs, w) (pcs[i := PDone False], w')"
| writes: "i < length pcs \<Longrightarrow> pcs ! i = PRead seen \<Longrightarrow>
    persist_write env (pj_rule (jobs ! i)) k (pj_ident (jobs ! i)) (ai_MetricValue (pj_ident (jobs ! i)))
      (pj_count (jobs ! i)) (pj_decision (jobs ! i)) (pj_now (jobs ! i)) seen w = (r, w') \<Longrightarrow>
    instance_step env k jobs (pcs, w) (pcs[i := PDone (allowed r)], w')"

inductive_cases instance_stepE: "instance_step env k jobs (pcs, w) s"

inductive instance_run ::
    "'w env \<Rightarrow> string \<Rightarrow> persist_job list \<Rightarrow> pc list \<times> 'w \<Rightarrow> pc list \<times> 'w \<Rightarrow> bool"
  for env k jobs where
  refl: "instance_run env k jobs s s"
| step: "instance_run env k jobs s t \<Longrightarrow> instance_step env k jobs t u \<Longrightarrow> instance_run env k jobs s u"

definition senders :: "pc list \<Rightarrow> nat" where
  "senders pcs = length (filter (\<lambda>p. p = PDone True) pcs)"

lemma senders_update:
  "i < length pcs \<Longrightarrow> pcs ! i \<noteq> PDone True \<Longrightarrow>
    senders (pcs[i := p]) = senders pcs + (if p = PDone True then 1 else 0)"
proof (induction pcs arbitrary: i)
  case (Cons q pcs)
  then show ?case by (cases i) (auto simp: senders_def)
qed simp

lemma fresh_card_State [simp]: "ac_State (fresh_card rule k ident metric cnt d now) = dc_State d"
  by (simp add: fresh_card_def applyCardStateTransition_def split: alert_state.splits)

lemma moved_card_State [simp]: "ac_State (moved_card c metric cnt d now) = dc_State d"
  by (simp add: moved_card_def applyCardStateTransition_def split: alert_state.splits)

text \<open>
  The invariant of a run in which every instance opens the alert in the state \<open>st\<close>: nothing
  is written and no instance is done, or the card is in that state, one instance may send, and
  what an instance has read is either nothing or a card in that state.
\<close>

definition opening_inv ::
    "('w \<Rightarrow> string \<Rightarrow> (alert_card \<times> uint64) option) \<Rightarrow> string \<Rightarrow> alert_state \<Rightarrow> pc list \<times> 'w \<Rightarrow> bool" where
  "opening_inv cards k st s \<longleftrightarrow>
     (let pcs = fst s; w = snd s in
      (cards w k = None \<and> senders pcs = 0 \<and> (\<forall>p \<in> set pcs. p = PStart \<or> p = PRead None)) \<or>
      (\<exists>c r. cards w k = Some (c, r) \<and> ac_State c = st \<and> senders pcs = 1 \<and>
         (\<forall>seen. PRead seen \<in> set pcs \<longrightarrow> seen = None \<or> (\<exists>c' r'. seen = Some (c', r') \<and> ac_State c' = st))))"

lemma set_list_updateD: "x \<in> set (xs[i := y]) \<Longrightarrow> x = y \<or> x \<in> set xs"
  using set_update_subset_insert by fastforce

context store_env
begin

lemma persist_read_cards:
  "persist_read env k w = (Inr (cards w k), w)"
  by (simp add: persist_read_def get_result split: option.splits)

lemma resolveConflict_cards:
  "resolvePersistConflict env k w = (r, w') \<Longrightarrow> w' = w \<and> \<not> allowed r"
  by (auto simp: resolvePersistConflict_def get_result allowed_def split: option.splits if_splits)

lemma opening_step:
  assumes inv: "opening_inv cards k st (pcs, w)" and len: "length jobs = length pcs"
    and jobs: "\<forall>j \<in> set jobs. dc_State (pj_decision j) = st"
    and step: "instance_step env k jobs (pcs, w) (pcs', w')"
  shows "opening_inv cards k st (pcs', w')"
  using step
proof cases
  case (reads i seen)
  then have "seen = cards w k" "w' = w" by (auto simp: persist_read_cards)
  moreover have "senders pcs' = senders pcs" using reads by (simp add: senders_update)
  ultimately show ?thesis
    using inv reads by (auto simp: opening_inv_def Let_def dest!: set_list_updateD)
next
  case (read_fails i err)
  then show ?thesis by (simp add: persist_read_cards)
next
  case (writes i seen r)
  let ?j = "jobs ! i"
  have st: "dc_State (pj_decision ?j) = st" using jobs len writes(2) by simp
  have sends: "senders pcs' = senders pcs + (if allowed r then 1 else 0)"
    using writes by (simp add: senders_update)
  have others: "PRead s \<in> set pcs' \<Longrightarrow> PRead s \<in> set pcs" for s
    using writes(1) by (auto dest!: set_list_updateD)
  have mem: "PRead seen \<in> set pcs" using writes(2,3) nth_mem by metis
  show ?thesis
  proof (cases "cards w k")
    case None
    then have none: "seen = None" "senders pcs = 0" "\<forall>p \<in> set pcs. p = PStart \<or> p = PRead None"
      using inv mem by (auto simp: opening_inv_def)
    obtain rev w2 where cr: "so_CreateCard (en_store env) k (fresh_card (pj_rule ?j) k (pj_ident ?j)
        (ai_MetricValue (pj_ident ?j)) (pj_count ?j) (pj_decision ?j) (pj_now ?j)) w = (Inr rev, w2)"
      "cards w2 = (cards w)(k \<mapsto> (fresh_card (pj_rule ?j) k (pj_ident ?j) (ai_MetricValue (pj_ident ?j))
        (pj_count ?j) (pj_decision ?j) (pj_now ?j), rev))"
      using create_absent [OF None] by blast
    have "w' = w2" "allowed r"
      using writes(4) none(1) cr(1) by (auto simp: persist_write_def allowed_def)
    then show ?thesis
      using cr(2) st sends none others by (auto simp: opening_inv_def)
  next
    case (Some entry)
    then obtain c rev where entry: "cards w k = Some (c, rev)" "ac_State c = st" "senders pcs = 1"
        "\<forall>s. PRead s \<in> set pcs \<longrightarrow> s = None \<or> (\<exists>c' r'. s = Some (c', r') \<and> ac_State c' = st)"
      using inv by (auto simp: opening_inv_def)
    show ?thesis
    proof (cases seen)
      case None
      then have "persist_write env (pj_rule ?j) k (pj_ident ?j) (ai_MetricValue (pj_ident ?j)) (pj_count ?j)
          (pj_decision ?j) (pj_now ?j) seen w = resolvePersistConflict env k w"
        using create_present [OF entry(1)] by (simp add: persist_write_def)
      then have "w' = w \<and> \<not> allowed r" using writes(4) resolveConflict_cards [of k w r w'] by simp
      then show ?thesis using entry sends others by (auto simp: opening_inv_def)
    next
      case (Some seen')
      then obtain c' r' where seen: "seen = Some (c', r')" "ac_State c' = st" using entry(4) mem by auto
      show ?thesis
      proof (cases "r' = rev")
        case True
        obtain rev2 w2 where up: "so_UpdateCard (en_store env) k rev (moved_card c' (ai_MetricValue (pj_ident ?j))
            (pj_count ?j) (pj_decision ?j) (pj_now ?j)) w = (Inr rev2, w2)"
          "cards w2 = (cards w)(k \<mapsto> (moved_card c' (ai_MetricValue (pj_ident ?j)) (pj_count ?j)
            (pj_decision ?j) (pj_now ?j), rev2))"
          using update_current [OF entry(1)] by blast
        have "w' = w2" "\<not> allowed r"
          using writes(4) seen True up(1) st by (auto simp: persist_write_def allowed_def)
        then show ?thesis using up(2) st sends entry others by (auto simp: opening_inv_def)
      next
        case False
        then have "persist_write env (pj_rule ?j) k (pj_ident ?j) (ai_MetricValue (pj_ident ?j)) (pj_count ?j)
            (pj_decision ?j) (pj_now ?j) seen w = resolvePersistConflict env k w"
          using update_stale [OF entry(1)] seen(1) by (simp add: persist_write_def)
        then have "w' = w \<and> \<not> allowed r" using writes(4) resolveConflict_cards [of k w r w'] by simp
        then show ?thesis using entry sends others by (auto simp: opening_inv_def)
      qed
    qed
  qed
qed

lemma instance_step_length:
  "instance_step env k jobs (pcs, w) (pcs', w') \<Longrightarrow> length pcs' = length pcs"
  by (erule instance_stepE) auto

lemma opening_run:
  assumes "instance_run env k jobs (pcs0, w0) (pcs, w)" "opening_inv cards k st (pcs0, w0)"
    and "length jobs = length pcs0" "\<forall>j \<in> set jobs. dc_State (pj_decision j) = st"
  shows "opening_inv cards k st (pcs, w)"
proof -
  have "instance_run env k jobs s t \<Longrightarrow> s = (pcs0, w0) \<Longrightarrow>
      opening_inv cards k st t \<and> length (fst t) = length pcs0" for s t
  proof (induction rule: instance_run.induct)
    case (refl s)
    then show ?case using assms(2) by simp
  next
    case (step s t u)
    obtain p v q x where tu: "t = (p, v)" "u = (q, x)" by (metis prod.collapse)
    show ?case
      using opening_step [of k st p v jobs q x] instance_step_length [of k jobs p v q x]
        step.IH [OF step.prems] step.hyps(2) assms(3,4) tu by auto
  qed
  then show ?thesis using assms(1) by fastforce
qed

text \<open>
  However the instances interleave, at most one of them may send the opening, and one may as
  soon as one of them is done.
\<close>

lemma one_sender:
  assumes "cards w0 k = None" "\<forall>j \<in> set jobs. dc_State (pj_decision j) = st"
    and "instance_run env k jobs (replicate (length jobs) PStart, w0) (pcs, w)"
  shows "senders pcs \<le> 1 \<and> ((\<exists>b. PDone b \<in> set pcs) \<longrightarrow> senders pcs = 1)"
proof -
  have "senders (replicate (length jobs) PStart) = 0" by (simp add: senders_def)
  then have "opening_inv cards k st (replicate (length jobs) PStart, w0)"
    using assms(1) by (simp add: opening_inv_def)
  from opening_run [OF assms(3) this _ assms(2)] show ?thesis by (auto simp: opening_inv_def Let_def)
qed

text \<open>
  The suppression rests on the card. An instance that resolves after another has resolved the
  alert and deleted its card finds none, and may send the resolution again.
\<close>

lemma late_resolve_allowed:
  assumes "cards w k = None" "dc_State d = StResolved"
  shows "\<exists>res w'. persistDecisionCard env e rule k ident metric d now w = (Inr res, w') \<and> cw_allowNotify res
    \<and> (\<exists>c r. cards w' k = Some (c, r) \<and> ac_State c = StResolved)"
proof -
  obtain r w' where p: "persistDecisionCard env e rule k ident metric d now w =
      (Inr \<lparr>cw_card = fresh_card rule k ident metric (event_count e k) d now, cw_allowNotify = True,
            cw_seedExtRefs = True\<rparr>, w')"
    "cards w' = (cards w)(k \<mapsto> (fresh_card rule k ident metric (event_count e k) d now, r))"
    using persist_absent [OF assms(1)] by blast
  then show ?thesis using assms(2) by auto
qed

end

end
