(* ===== verification/Manager_Properties.thy ===== *)
theory Manager_Properties
  imports Concurrent_Instances Store_Properties
begin

text \<open>
  What the manager promises: the engine's invariant over every history of calls, the card that a
  decision leaves, notification only after a successful write, expiry, references, off windows,
  the queue, and what instances that share a store may send.
\<close>

section \<open>Samples\<close>

definition sample_env :: "single_world env" where
  "sample_env = single_env sample_loc sample_fmt sample_hash sample_compile"

definition sample_manager :: "single_world manager" where
  "sample_manager = NewManager sample_config (Some recording_send)"

definition key_a :: string where "key_a = ''rule/ct/errors/host=a''"
definition key_b :: string where "key_b = ''rule/ct/errors/host=b''"

definition base_time :: gtime where "base_time = 1000 * 1000000000"

text \<open>The manager right after its engine has seen the first event, and the decision on it.\<close>

definition seen_manager :: "single_world manager" where
  "seen_manager = sample_manager\<lparr>mg_engine :=
     snd (engine_ProcessEvent sample_fmt New_engine eager_rule sample_event key_a base_time)\<rparr>"

definition open_decision :: decision where
  "open_decision = opened key_a StFiring True"

definition opened_run where
  "opened_run = applyDecision sample_env eager_rule key_a open_decision base_time None seen_manager (fresh_world base_time)"

lemma opened_run_ok: "fst opened_run = None"
  by code_simp

lemma sample_keeps: "keeps_cards single_cards sample_manager" "keeps_cards single_cards seen_manager"
  by (simp_all add: keeps_cards_def sample_manager_def seen_manager_def NewManager_def Let_def recording_send_def single_cards_def)

lemma seen_identity: "GetAlertIdentity (mg_engine seen_manager) key_a =
    Some \<lparr>ai_Var = ''errors'', ai_Tags = [(''host'', ''a'')], ai_MetricValue = ''5''\<rparr>"
  by code_simp

section \<open>State\<close>

text \<open>
  Whatever calls reach a manager (events, batches, ticks, expiry callbacks, queued jobs,
  configuration changes, swaps of dispatcher and producer) and whatever the store, the clock,
  the transports and the queue do in between, its engine stays well formed.
\<close>

lemma manager_engine_invariant:
  assumes "manager_reach env m w"
  shows "wf_engine (mg_engine m)"
  using assms by (rule manager_reach_wf)

lemma manager_engine_invariant_witness:
  "wf_engine (mg_engine (fst (manager_step sample_env (MPush sample_event) sample_manager (fresh_world base_time))))"
proof -
  have "manager_reach sample_env sample_manager (fresh_world base_time)"
    unfolding sample_manager_def by (rule manager_reach.start)
  from manager_reach.step [OF this prod.collapse [symmetric]] show ?thesis
    by (rule manager_engine_invariant)
qed

text \<open>
  C5. An instance alone on the memory store keeps the cards in step with its decisions. When
  \<open>applyDecision\<close> succeeds on a state change, the card of the alert is the fresh card or the
  stored card moved to the state of the decision, with its metric, count and instant; on top of
  the references of that card it has exactly those which the delivery of this change has reported,
  and nothing else is different in it. A resolution leaves neither the card nor the runtime state.
  Every other card, references and revision included, is as it was.
\<close>

theorem decision_reflected_in_cards:
  assumes "applyDecision (single_env loc ff hs cp) rule k d now p m w = (None, p', m', w')"
    and "keeps_cards single_cards m" "dc_StateChanged d" "dc_ShouldStore d"
    and "GetAlertIdentity (mg_engine m) k = Some ident"
  shows "if dc_State d = StResolved
    then single_cards w' = (single_cards w)(k := None) \<and> eng_get (mg_engine m') k = None
    else \<exists>new r0 w2 refs c r.
      new = next_card rule k ident (event_count (mg_engine m) k) d now (map_option fst (single_cards w k)) \<and>
      ac_State new = dc_State d \<and> ac_MetricValue new = ai_MetricValue ident \<and>
      ac_EventCount new = event_count (mg_engine m) k \<and> ac_LastSeenAt new = now \<and>
      single_cards w2 = (single_cards w)(k \<mapsto> (new, r0)) \<and>
      refs = (if change_notified (mg_cfg m) rule d (map_option fst (single_cards w k))
        then delivered_refs (single_env loc ff hs cp) rule (decision_notification rule k ident d now (ac_RaisedAt new)) []
          (seedExternalRefs k (ac_ExternalRefs new) m) w2
        else []) \<and>
      single_cards w' = (single_cards w)(k \<mapsto> (c, r)) \<and>
      c\<lparr>ac_ExternalRefs := ac_ExternalRefs new\<rparr> = new \<and>
      (\<forall>key. map_get (ac_ExternalRefs c) key =
        (case map_get refs key of Some ref \<Rightarrow> Some ref | None \<Rightarrow> map_get (ac_ExternalRefs new) key))"
proof (cases "dc_State d = StResolved")
  case True
  have "eng_get (mg_engine m) k \<noteq> None" using assms(5) by (auto simp: GetAlertIdentity_def split: option.splits)
  then show ?thesis
    using True single.resolved_cleans_up [OF assms(1) True assms(4)] single.applyDecision_card(2) [OF assms]
    by simp
next
  case False
  define new where "new = next_card rule k ident (event_count (mg_engine m) k) d now (map_option fst (single_cards w k))"
  define refs_of where "refs_of w2 = (if change_notified (mg_cfg m) rule d (map_option fst (single_cards w k))
        then delivered_refs (single_env loc ff hs cp) rule (decision_notification rule k ident d now (ac_RaisedAt new)) []
          (seedExternalRefs k (ac_ExternalRefs new) m) w2
        else [])" for w2
  obtain r0 w2 where w2: "single_cards w2 = (single_cards w)(k \<mapsto> (new, r0))"
    "refs_added k (refs_of w2) (single_cards w2) (single_cards w')"
    using single.applyDecision_stored(1) [OF assms False] unfolding new_def refs_of_def by blast
  have wf: "wf_map (refs_of w2)" "\<forall>(key, ref) \<in> set (refs_of w2). ref \<noteq> []"
    by (auto simp: refs_of_def delivered_refs_wf wf_map_def [of "[]"] dest: delivered_refs_wf(2))
  obtain c r where c: "single_cards w' = (single_cards w)(k \<mapsto> (c, r))" "c\<lparr>ac_ExternalRefs := ac_ExternalRefs new\<rparr> = new"
    "ac_ExternalRefs c = fst (merge_refs (refs_of w2) (ac_ExternalRefs new) False)"
    using w2 by (cases "refs_of w2 = []") (auto simp: refs_added_def)
  have fields: "ac_State new = dc_State d" "ac_MetricValue new = ai_MetricValue ident"
    "ac_EventCount new = event_count (mg_engine m) k" "ac_LastSeenAt new = now"
    by (simp_all add: new_def next_card_fields)
  have refs: "\<forall>key. map_get (ac_ExternalRefs c) key =
      (case map_get (refs_of w2) key of Some ref \<Rightarrow> Some ref | None \<Rightarrow> map_get (ac_ExternalRefs new) key)"
    by (simp add: c(3) merge_refs_get [OF wf])
  show ?thesis
    unfolding if_not_P [OF False]
    by (intro exI conjI, rule new_def, (rule fields)+, rule w2(1), rule refs_of_def, rule c(1), rule c(2), rule refs)
qed

theorem decision_reflected_in_cards_witness:
  "map_option (\<lambda>e. (ac_State (fst e), ac_MetricValue (fst e))) (single_cards (snd (snd (snd opened_run))) key_a) = Some (StFiring, ''5'') \<and>
   single_cards (snd (snd (snd opened_run))) key_b = None"
proof -
  have run: "applyDecision (single_env sample_loc sample_fmt sample_hash sample_compile) eager_rule key_a open_decision
      base_time None seen_manager (fresh_world base_time) =
      (None, fst (snd opened_run), fst (snd (snd opened_run)), snd (snd (snd opened_run)))"
    using opened_run_ok unfolding opened_run_def sample_env_def by (simp add: prod_eq_iff)
  have d: "dc_StateChanged open_decision" "dc_ShouldStore open_decision" "dc_State open_decision = StFiring"
    by (simp_all add: open_decision_def opened_def)
  note stored = decision_reflected_in_cards [OF run sample_keeps(2) d(1,2) seen_identity]
  from stored obtain new c r where
    c: "ac_State new = dc_State open_decision"
      "ac_MetricValue new = ai_MetricValue \<lparr>ai_Var = ''errors'', ai_Tags = [(''host'', ''a'')], ai_MetricValue = ''5''\<rparr>" "c\<lparr>ac_ExternalRefs := ac_ExternalRefs new\<rparr> = new"
      "single_cards (snd (snd (snd opened_run))) = (single_cards (fresh_world base_time))(key_a \<mapsto> (c, r))"
    by (simp only: d(3) alert_state.distinct if_False) (elim exE conjE, blast)
  have "ac_State c = StFiring" "ac_MetricValue c = ''5''"
    using c(1,2) d(3) arg_cong [OF c(3), of ac_State] arg_cong [OF c(3), of ac_MetricValue] by simp_all
  then show ?thesis
    using c(4) by (simp add: key_a_def key_b_def fresh_world_def single_cards_def mem_cards_def NewMemoryStore_def)
qed

text \<open>
  No notification of a state change goes out before the change is stored: whenever
  \<open>applyDecision\<close> goes on to notify, the card of the change has been created or updated in the
  store as the last step before, and the notification carries the raise time of that card.
\<close>

lemma notification_needs_write:
  assumes "persist_change env rule k ident d now m w = (Inr (True, raisedAt), m', w')" "dc_StateChanged d"
  shows "\<exists>c. wrote env k c w' \<and> raisedAt = ac_RaisedAt c"
  using assms persist_allow_wrote [of env "mg_engine m" rule k ident "ai_MetricValue ident" d now w]
  by (auto simp: persist_change_def split: prod.splits sum.splits if_splits)

lemma notification_needs_write_witness:
  "\<exists>c. wrote sample_env key_a c (snd (snd (persist_change sample_env eager_rule key_a
      \<lparr>ai_Var = ''errors'', ai_Tags = [(''host'', ''a'')], ai_MetricValue = ''5''\<rparr> open_decision base_time
      seen_manager (fresh_world base_time)))) \<and> base_time = ac_RaisedAt c"
proof -
  let ?r = "persist_change sample_env eager_rule key_a
      \<lparr>ai_Var = ''errors'', ai_Tags = [(''host'', ''a'')], ai_MetricValue = ''5''\<rparr> open_decision base_time
      seen_manager (fresh_world base_time)"
  have "fst ?r = Inr (True, base_time)" by code_simp
  then have "?r = (Inr (True, base_time), fst (snd ?r), snd (snd ?r))" by (simp add: prod_eq_iff)
  from notification_needs_write [OF this] show ?thesis by (simp add: open_decision_def opened_def)
qed

section \<open>Expiry and references\<close>

text \<open>
  C13. Expiry over JetStream, where delete markers of ticks bring it about, with calls of the
  store that may fail. While the tick of an alert is alive or cannot be read the callback changes
  nothing. Once it has expired, an alert with a pending or firing card of a known rule is resolved:
  the callback returns no error, the runtime state is gone and so is the card, even when the
  notification fails; only when the final deletion fails does the card stay behind, closed. An
  error is one of reading or updating the card; it leaves the manager alone, so the marker comes
  again. No other card is touched, and when the bucket works the alert is always resolved.
\<close>

theorem expiry_resolves:
  assumes "env = nats_env api settings now loc ff hs cp" "cards = nats_cards api view"
    and "failing_kv api view" "codec_contract api view" "\<And>w. view (snd (now w)) = view w" "keeps_cards cards m"
    and "cards w k = Some (c, r)" "ac_State c = StPending \<or> ac_State c = StFiring"
    and "ruleByName m (ac_RuleName c) = Some rule"
    and "nats_HasTick api k w = (tick, w1)" "ResolveByTTL env k reason m w = (err, m', w')"
  shows "(case tick of
      Inl e \<Rightarrow> err = Some e \<and> m' = m \<and> cards w' = cards w
    | Inr True \<Rightarrow> err = None \<and> m' = m \<and> cards w' = cards w
    | Inr False \<Rightarrow> \<exists>c'. ac_State c' = StResolved \<and> ac_ClosedAt c' \<noteq> None \<and>
        (case err of
           Some e \<Rightarrow> m' = m \<and> (cards w' = cards w \<or> (\<exists>r'. cards w' = (cards w)(k \<mapsto> (c', r')))) \<and>
             (\<exists>w2. cards w2 = cards w \<and> (fst (nats_GetCard api k w2) = Inl e \<or> fst (nats_UpdateCard api k r c' w2) = Inl e))
         | None \<Rightarrow> eng_get (mg_engine m') k = None \<and>
             (cards w' = (cards w)(k := None) \<or>
              (\<exists>r' w2 e. cards w' = (cards w)(k \<mapsto> (c', r')) \<and> nats_DeleteCard api k w2 = (Some e, w'))))) \<and>
    (kv_contract api view \<and> tick = Inr False \<longrightarrow>
      err = None \<and> cards w' = (cards w)(k := None) \<and> eng_get (mg_engine m') k = None)"
proof -
  note env = nats_failing_env [OF assms(3-5), of settings loc ff hs cp, folded assms(1,2)]
  have ops: "so_HasTick (en_store env) = nats_HasTick api" "so_GetCard (en_store env) = nats_GetCard api"
    "so_UpdateCard (en_store env) = nats_UpdateCard api" "so_DeleteCard (en_store env) = nats_DeleteCard api"
    by (simp_all add: assms(1) nats_env_def nats_store_def)
  have tick: "so_HasTick (en_store env) k w = (tick, w1)" by (simp add: ops assms(10))
  have same: "cards w1 = cards w" using failing_env.failing_tick [OF env, of k w] by (simp add: tick)
  show ?thesis
  proof (cases "tick = Inr False")
    case True
    note outcome = failing_env.ttl_outcome [OF env assms(11) tick [unfolded True] assms(7,8,9,6), unfolded ops]
    moreover have "err = None \<and> cards w' = (cards w)(k := None)" if "kv_contract api view"
    proof -
      note works = nats_card_store [OF that assms(4), folded assms(2)]
      have "fst (nats_GetCard api k w2) \<noteq> Inl e \<and> fst (nats_UpdateCard api k r c' w2) \<noteq> Inl e"
        if "cards w2 = cards w" for w2 c' e
        using card_store.get_result [OF works, of k w2] card_store.update_current [OF works, of w2 k c r c'] that assms(7) by auto
      moreover have "nats_DeleteCard api k w2 \<noteq> (Some e, w')" for w2 e
        using card_store.delete_result [OF works, of k w2] by auto
      ultimately show ?thesis using outcome by (cases err) auto
    qed
    ultimately show ?thesis using True by auto
  next
    case False
    then show ?thesis using assms(11) same by (auto simp: ResolveByTTL_def tick split: sum.splits bool.splits)
  qed
qed

text \<open>A tick bucket that is empty, and one card.\<close>

definition expired_api :: "(alert_card, bucket_world) nats_api" where
  "expired_api = map_api\<lparr>na_tickKV := (na_tickKV map_api)\<lparr>kv_Get := (\<lambda>k w. (Inl (ErrMsg ''key not found''), w))\<rparr>\<rparr>"

definition tick_settings :: nats_state_config where
  "tick_settings = \<lparr>ns_URL = [''nats://a''], ns_TickBucket = ''tick'', ns_DataBucket = ''data'', ns_DeleteConsumerName = ''resolver'',
     ns_DeleteDeliverGroup = ''resolvers'', ns_DeleteSubjectWildcard = ''$KV.tick.>'', ns_EnableDeleteConsumer = True,
     ns_AllowCreateBuckets = True, ns_ResolveReasonByTTLOnly = False\<rparr>"

definition stored_card :: alert_card where
  "stored_card = empty_card\<lparr>ac_AlertID := key_a, ac_RuleName := ''ct'', ac_State := StFiring\<rparr>"

lemma expired_api_laws:
  "kv_contract expired_api (\<lambda>w. w)" "codec_contract expired_api (\<lambda>w. w)" "failing_kv expired_api (\<lambda>w. w)"
proof -
  have conflict: "isNATSCardConflict expired_api e" for e
  proof -
    have "str_Contains (ToLower ''wrong last sequence'') ''wrong last sequence''" by code_simp
    then show ?thesis by (simp add: isNATSCardConflict_def expired_api_def map_api_def)
  qed
  show "kv_contract expired_api (\<lambda>w. w)"
  proof -
    have "str_Contains (ToLower ''wrong last sequence'') ''wrong last sequence''" by code_simp
    then show ?thesis by (auto simp: kv_contract_def expired_api_def map_api_def map_kv_def split: option.splits)
  qed
  show "codec_contract expired_api (\<lambda>w. w)" using map_api_codec by (simp add: codec_contract_def expired_api_def)
  show "failing_kv expired_api (\<lambda>w. w)"
    by (auto simp: failing_kv_def conflict) (auto simp: expired_api_def map_api_def map_kv_def split: option.splits if_splits)
qed

theorem expiry_resolves_witness:
  "\<exists>m' w'. ResolveByTTL (nats_env expired_api tick_settings (\<lambda>w. (5, w)) sample_loc sample_fmt sample_hash sample_compile) key_a ''MaxAge''
      (NewManager sample_config None) [key_a \<mapsto> (stored_card, 3)] = (None, m', w') \<and>
    w' key_a = None \<and> eng_get (mg_engine m') key_a = None"
proof -
  let ?env = "nats_env expired_api tick_settings (\<lambda>w. (5, w)) sample_loc sample_fmt sample_hash sample_compile"
  let ?m = "NewManager sample_config None :: bucket_world manager"
  let ?w = "[key_a \<mapsto> (stored_card, 3)] :: bucket_world"
  obtain err m' w' where run: "ResolveByTTL ?env key_a ''MaxAge'' ?m ?w = (err, m', w')" by (metis prod_cases3)
  have cards: "nats_cards expired_api (\<lambda>w. w) = (\<lambda>w. w)"
    by (auto simp: nats_cards_def expired_api_def map_api_def fun_eq_iff split: option.splits)
  have "keeps_cards (\<lambda>w. w) ?m" by (simp add: keeps_cards_def NewManager_def Let_def)
  moreover have "ruleByName ?m ''ct'' \<noteq> None"
    by (simp add: ruleByName_def NewManager_def Let_def sample_config_def buildRuleIndex_def sample_rules)
  then obtain rule where "ruleByName ?m (ac_RuleName stored_card) = Some rule" by (auto simp: stored_card_def)
  moreover have "nats_HasTick expired_api key_a ?w = (Inr False, ?w)"
    by (simp add: nats_HasTick_def expired_api_def map_api_def)
  ultimately show ?thesis
    using expiry_resolves [OF HOL.refl HOL.refl expired_api_laws(3,2) _ _ _ _ _ _ run, of stored_card 3 rule "Inr False" ?w]
      expired_api_laws(1) run by (simp add: cards stored_card_def)
qed

text \<open>
  When the last deletion fails its error is dropped: the callback reports success, so the marker
  does not come again, and a closed card stays in the bucket.
\<close>

definition undeletable_api :: "(alert_card, bucket_world) nats_api" where
  "undeletable_api = expired_api\<lparr>na_dataKV := (na_dataKV expired_api)\<lparr>kv_Delete := (\<lambda>k w. (Some (ErrMsg ''timeout''), w))\<rparr>\<rparr>"

lemma failed_deletion_keeps_card:
  "case ResolveByTTL (nats_env undeletable_api tick_settings (\<lambda>w. (5, w)) sample_loc sample_fmt sample_hash sample_compile) key_a ''MaxAge''
      (NewManager sample_config None) [key_a \<mapsto> (stored_card, 3)] of
     (err, m', w') \<Rightarrow> err = None \<and> map_option (\<lambda>e. ac_State (fst e)) (w' key_a) = Some StResolved"
  by code_simp

definition opened_world :: single_world where
  "opened_world = (snd (snd (snd opened_run)))\<lparr>sw_now := base_time + 100 * 1000000000\<rparr>"

text \<open>
  External references survive: after \<open>persistExternalRefs\<close> on an existing card, every
  reference of the update reads back from the card, every other reference and every other
  field is as before, and no other card has changed.
\<close>

lemma external_refs_persisted:
  assumes "single_cards w k = Some (c, r)" "updates \<noteq> []" "wf_map updates" "\<forall>(key, ref) \<in> set updates. ref \<noteq> []"
  shows "\<exists>c' r' w'. persistExternalRefs (en_store (single_env loc ff hs cp)) k updates w = (None, w') \<and>
    single_cards w' = (single_cards w)(k \<mapsto> (c', r')) \<and> c'\<lparr>ac_ExternalRefs := ac_ExternalRefs c\<rparr> = c \<and>
    (\<forall>key. map_get (ac_ExternalRefs c') key =
       (case map_get updates key of Some ref \<Rightarrow> Some ref | None \<Rightarrow> map_get (ac_ExternalRefs c) key))"
proof -
  from single.persist_refs [OF assms(1,2), of loc ff hs cp] obtain r' w' where
    p: "persistExternalRefs (en_store (single_env loc ff hs cp)) k updates w = (None, w')"
    "single_cards w' = (single_cards w)(k \<mapsto>
       (c\<lparr>ac_ExternalRefs := fst (merge_refs updates (ac_ExternalRefs c) False)\<rparr>, r'))" by blast
  show ?thesis
    by (intro exI [of _ "c\<lparr>ac_ExternalRefs := fst (merge_refs updates (ac_ExternalRefs c) False)\<rparr>"] exI [of _ r'] exI [of _ w'])
      (use p merge_refs_get [OF assms(3,4)] in simp)
qed

lemma external_refs_persisted_witness:
  "\<exists>w'. persistExternalRefs (en_store sample_env) key_a [(''jira'', ''OPS-1'')] opened_world = (None, w') \<and>
     map_option (\<lambda>e. map_get (ac_ExternalRefs (fst e)) ''jira'') (single_cards w' key_a) = Some (Some ''OPS-1'')"
proof -
  have "map_option (\<lambda>e. ac_State (fst e)) (single_cards opened_world key_a) = Some StFiring" by code_simp
  then obtain c r where "single_cards opened_world key_a = Some (c, r)" by auto
  from external_refs_persisted [OF this, of "[(''jira'', ''OPS-1'')]" sample_loc sample_fmt sample_hash sample_compile]
  show ?thesis unfolding sample_env_def by (fastforce simp: wf_map_def)
qed

section \<open>Suppression\<close>

text \<open>The manager with nothing to deliver to.\<close>

definition silent :: "'w manager \<Rightarrow> 'w manager" where
  "silent m = m\<lparr>mg_dispatcher := None, mg_producer := None\<rparr>"

lemma persist_change_silent:
  "persist_change env rule k ident d now (silent m) w =
    (case persist_change env rule k ident d now m w of (r, m', w') \<Rightarrow> (r, silent m', w'))"
  by (auto simp: persist_change_def silent_def seedExternalRefs_def split: prod.splits sum.splits)

lemma finish_decision_silent:
  "finish_decision env k d (silent m) w = (case finish_decision env k d m w of (r, m', w') \<Rightarrow> (r, silent m', w'))"
  by (auto simp: finish_decision_def silent_def split: prod.splits option.splits)

lemma notify_decision_off:
  assumes "\<not> IsZero now" "NotifyOffActiveAt (en_Loc env) (rn_Off (rc_Notify rule)) now = Inr True"
  shows "notify_decision env rule k ident d now b t m w = (None, m, w)"
proof -
  have "nt_Timestamp (decision_notification rule k ident d now t) = now"
    by (simp add: decision_notification_def buildNotification_def Let_def)
  then show ?thesis
    using assms off_window_silent [of "decision_notification rule k ident d now t" env rule]
    by (simp add: notify_decision_def)
qed

text \<open>
  C31. Inside an off window of its rule a decision is carried out as by a manager that has no
  dispatcher and no queue: nothing is handed to either, while the tick, the card, the engine
  and the result are those of the same decision outside the delivery.
\<close>

theorem off_window_only_silences:
  assumes "\<not> IsZero now" "NotifyOffActiveAt (en_Loc env) (rn_Off (rc_Notify rule)) now = Inr True"
  shows "applyDecision env rule k d now p (silent m) w =
    (case applyDecision env rule k d now p m w of (err, p', m', w') \<Rightarrow> (err, p', silent m', w'))"
proof -
  have "mg_engine (silent m) = mg_engine m" by (simp add: silent_def)
  then show ?thesis
    by (simp add: applyDecision_def persist_change_silent finish_decision_silent notify_decision_off [OF assms]
        split: prod.splits option.splits sum.splits)
qed

definition off_rule :: rule_config where
  "off_rule = eager_rule\<lparr>rc_Notify := (rc_Notify eager_rule)\<lparr>rn_Off := [sample_off]\<rparr>\<rparr>"

theorem off_window_only_silences_witness:
  "sw_sent (snd (snd (snd (applyDecision sample_env off_rule key_a open_decision (5 * day_ns + 3600 * 1000000000) None
     (silent seen_manager) (fresh_world 0))))) =
   sw_sent (snd (snd (snd (applyDecision sample_env off_rule key_a open_decision (5 * day_ns + 3600 * 1000000000) None
     seen_manager (fresh_world 0)))))"
proof -
  have "\<not> IsZero (5 * day_ns + 3600 * 1000000000)" by code_simp
  moreover have "NotifyOffActiveAt sample_loc [sample_off] (5 * day_ns + 3600 * 1000000000) = Inr True" by code_simp
  then have "NotifyOffActiveAt (en_Loc sample_env) (rn_Off (rc_Notify off_rule)) (5 * day_ns + 3600 * 1000000000) = Inr True"
    by (simp add: sample_env_def off_rule_def)
  ultimately show ?thesis by (simp add: off_window_only_silences split: prod.splits)
qed

section \<open>Queueing\<close>

text \<open>Jobs accepted so far, for a queue and a clock that keep count of them.\<close>

definition counts_accepted :: "('w \<Rightarrow> nat) \<Rightarrow> 'w env \<Rightarrow> 'w enqueue_op \<Rightarrow> bool" where
  "counts_accepted accepted env enqueue \<longleftrightarrow>
     (\<forall>w. accepted (snd (en_Now env w)) = accepted w) \<and>
     (\<forall>j w. accepted (snd (enqueue j w)) = accepted w + (if fst (enqueue j w) = None then 1 else 0))"

lemma enqueue_route_count:
  assumes "counts_accepted accepted env enqueue" "enqueue_route env enqueue r n acc w = (x, acc', w')"
  shows "int (accepted w') - fst acc' = int (accepted w) - fst acc"
proof -
  obtain t w1 where now: "en_Now env w = (t, w1)" by force
  have w1: "accepted w1 = accepted w" using assms(1) now unfolding counts_accepted_def by (metis snd_conv)
  define j where "j = \<lparr>jb_ID = BuildJobID (en_hexsha1 env) (nro_Channel r) (nro_Template r) n,
            jb_RouteKey = nro_Key r, jb_RouteMode = nro_Mode r, jb_Channel = nro_Channel r,
            jb_Template = nro_Template r, jb_Notification = n, jb_CreatedAt = t\<rparr>"
  obtain e w2 where enq: "enqueue j w1 = (e, w2)" by force
  have w2: "accepted w2 = accepted w1 + (if e = None then 1 else 0)"
    using assms(1) enq unfolding counts_accepted_def by (metis fst_conv snd_conv)
  have "enqueue_route env enqueue r n acc w =
      (case e of Some err \<Rightarrow> (None, (fst acc, if snd acc = None then Some err else snd acc), w2)
       | None \<Rightarrow> (None, (fst acc + 1, snd acc), w2))"
    by (simp add: enqueue_route_def now j_def [symmetric] enq)
  then show ?thesis using assms(2) w1 w2 by (cases e) auto
qed

lemma prepare_accepted:
  assumes "\<forall>w. accepted (snd (en_Now env w)) = accepted w" "prepareNotificationForRoute env m n r w = (x, w')"
  shows "accepted w' = accepted w"
proof -
  have "accepted u = accepted v" if "en_Now env v = (t, u)" for t u v
    using assms(1) that by (metis snd_conv)
  then show ?thesis using assms(2) prepare_world [of env m n r w] by auto
qed

lemma forEach_count:
  assumes "counts_accepted accepted env enqueue"
    and "forEachRouteNotification env m n routes b (enqueue_route env enqueue) acc w = (x, acc', w')"
  shows "int (accepted w') - fst acc' = int (accepted w) - fst acc"
  using assms(2)
proof (induction routes arbitrary: acc w)
  case (Cons route routes)
  have clock: "\<forall>w. accepted (snd (en_Now env w)) = accepted w" using assms(1) by (simp add: counts_accepted_def)
  show ?case
  proof (cases "normalizedNotifyRouteFromConfig route True")
    case None
    then show ?thesis using Cons by simp
  next
    case (Some r)
    obtain o1 w1 where prep: "prepareNotificationForRoute env m n r w = (o1, w1)" by force
    have w1: "accepted w1 = accepted w" by (rule prepare_accepted [OF clock prep])
    show ?thesis
    proof (cases "\<exists>p. o1 = Some p \<and> \<not> shouldDropTrackerNotification b r p")
      case False
      then have "forEachRouteNotification env m n routes b (enqueue_route env enqueue) acc w1 = (x, acc', w')"
        using Cons.prems Some prep by (auto split: option.splits)
      from Cons.IH [OF this] w1 show ?thesis by simp
    next
      case True
      then obtain p where p: "o1 = Some p" "\<not> shouldDropTrackerNotification b r p" by blast
      obtain y acc2 w2 where st: "enqueue_route env enqueue r p acc w1 = (y, acc2, w2)" by (metis prod_cases3)
      have "y = None" using enqueue_route_continues [of env enqueue r p acc w1] st by simp
      then have "forEachRouteNotification env m n routes b (enqueue_route env enqueue) acc2 w2 = (x, acc', w')"
        using Cons.prems Some prep p st by simp
      from Cons.IH [OF this] enqueue_route_count [OF assms(1) st] w1 show ?thesis by simp
    qed
  qed
qed simp

text \<open>
  Queueing reports an error only when nothing was queued: if the jobs of a notification
  cannot all be accepted but one is, the call succeeds, so a caller that retries after an error
  does not send a route twice.
\<close>

lemma enqueue_error_means_nothing_queued:
  assumes "counts_accepted accepted env enqueue"
    and "enqueueNotificationJobs env enqueue m n routes w = (Some err, w')"
  shows "accepted w' = accepted w"
proof -
  obtain x acc w1 where "forEachRouteNotification env m n routes False (enqueue_route env enqueue) (0, None) w = (x, acc, w1)"
    by (metis prod_cases3)
  then obtain success firstErr where loop:
      "forEachRouteNotification env m n routes False (enqueue_route env enqueue) (0, None) w = (x, (success, firstErr), w1)"
    by (cases acc) simp
  have "success = 0 \<and> w' = w1"
    using assms(2) by (simp add: enqueueNotificationJobs_def loop split: if_splits)
  then show ?thesis using forEach_count [OF assms(1) loop] by simp
qed

definition full_queue :: "single_world enqueue_op" where
  "full_queue j w = (Some (ErrMsg ''stream full''), w)"

lemma enqueue_error_means_nothing_queued_witness:
  "length (sw_jobs (snd (enqueueNotificationJobs sample_env full_queue sample_manager
     (decision_notification eager_rule key_a \<lparr>ai_Var = ''errors'', ai_Tags = [], ai_MetricValue = ''5''\<rparr>
        open_decision base_time base_time) [sample_route, sample_route] (fresh_world base_time)))) = 0"
proof -
  let ?r = "enqueueNotificationJobs sample_env full_queue sample_manager
     (decision_notification eager_rule key_a \<lparr>ai_Var = ''errors'', ai_Tags = [], ai_MetricValue = ''5''\<rparr>
        open_decision base_time base_time) [sample_route, sample_route] (fresh_world base_time)"
  have route: "normalizedNotifyRouteFromConfig sample_route True =
      Some \<lparr>nro_Key = ''http'', nro_Channel = ''http'', nro_Template = ''base'', nro_Mode = ''history''\<rparr>" by code_simp
  have "fst ?r = Some (ErrMsg ''stream full'')"
    by (simp add: enqueueNotificationJobs_def route prepareNotificationForRoute_def shouldDropTrackerNotification_def
        enqueue_route_def full_queue_def Let_def sample_env_def decision_notification_def buildNotification_def
        open_decision_def opened_def base_time_def IsZero_def zero_time_def GetChannelExternalRef_def
        sample_manager_def NewManager_def New_engine_def
        split: option.split)
  then have r: "?r = (Some (ErrMsg ''stream full''), snd ?r)" by (simp add: prod_eq_iff)
  have "counts_accepted (length \<circ> sw_jobs) sample_env full_queue"
    by (simp add: counts_accepted_def sample_env_def full_queue_def)
  from enqueue_error_means_nothing_queued [OF this r] show ?thesis by (simp add: fresh_world_def)
qed

end
