(* ===== verification/Card_Mirror.thy ===== *)
theory Card_Mirror
  imports Single_Instance Rule_Properties
begin

text \<open>
  The stored cards against the engine: how the decisions of the engine take the cards from the
  lives they show to the lives of the engine, call by call. \<open>owed\<close> is the relation in the
  middle of a call, when the engine has moved and some of its decisions are not yet applied;
  between calls nothing is owed and every alert has the card its runtime state says.
\<close>

section \<open>Views\<close>

definition state_view :: "runtime_state \<Rightarrow> string \<times> alert_state \<times> gtime option" where
  "state_view st = (rs_RuleName st, rs_CurrentState st, rs_PendingSince st)"

definition engine_view :: "engine \<Rightarrow> string \<Rightarrow> (string \<times> alert_state \<times> gtime option) option" where
  "engine_view e k = map_option state_view (eng_get e k)"

definition card_view :: "(alert_card \<times> 'r) option \<Rightarrow> (string \<times> alert_state \<times> gtime option) option" where
  "card_view entry = map_option (\<lambda>c. (ac_RuleName c, ac_State c, ac_PendingSince c)) (core entry)"

lemma card_view_simps [simp]:
  "card_view None = None" "card_view (Some (c, r)) = Some (ac_RuleName c, ac_State c, ac_PendingSince c)"
  by (simp_all add: card_view_def)

lemma card_view_None [simp]: "card_view entry = None \<longleftrightarrow> entry = None"
  by (simp add: card_view_def)

lemma card_view_core: "core x = core y \<Longrightarrow> card_view x = card_view y"
  by (simp add: card_view_def)

lemma engine_view_life: "engine_view e k = engine_view e' k \<Longrightarrow> life_of (eng_get e k) = life_of (eng_get e' k)"
  by (cases "eng_get e k"; cases "eng_get e' k") (auto simp: engine_view_def state_view_def intro: life_of_cong)

lemma engine_view_None [simp]: "engine_view e k = None \<longleftrightarrow> eng_get e k = None"
  by (simp add: engine_view_def)

lemma engine_view_bookkeeping:
  "engine_view (snd (SetLastNotified e k c t)) = engine_view e"
  "engine_view (snd (SetChannelMessageID e k c n)) = engine_view e"
  "engine_view (snd (SetChannelExternalRef e k c v)) = engine_view e"
  by (auto simp: SetLastNotified_def SetChannelMessageID_def SetChannelExternalRef_def engine_view_def state_view_def
      fun_eq_iff split: option.splits)

interpretation view: bookkeeping_inv "\<lambda>m. engine_view (mg_engine m) = V" for V
  by unfold_locales (simp_all add: engine_view_bookkeeping)

lemma engine_view_remove: "engine_view (RemoveAlertState e k) = (engine_view e)(k := None)"
  by (simp add: engine_view_def RemoveAlertState_def fun_eq_iff)

section \<open>What a card shows\<close>

fun shows_life :: "(string \<times> alert_state \<times> gtime option) option \<Rightarrow> life \<Rightarrow> bool" where
  "shows_life v Idle \<longleftrightarrow> v = None"
| "shows_life v (PendingFrom t) \<longleftrightarrow> (\<exists>n. v = Some (n, StPending, Some t))"
| "shows_life v Firing \<longleftrightarrow> (\<exists>n s. v = Some (n, StFiring, s))"

type_synonym 'r cards = "string \<Rightarrow> (alert_card \<times> 'r) option"

definition in_step :: "'r cards \<Rightarrow> engine \<Rightarrow> bool" where
  "in_step cs e \<longleftrightarrow> (\<forall>k. shows_life (card_view (cs k)) (life_of (eng_get e k)))"

text \<open>The cards show lives from which the decisions \<open>ds\<close> lead to those of the engine.\<close>

definition owed :: "rule_config \<Rightarrow> gtime \<Rightarrow> decision list \<Rightarrow> 'r cards \<Rightarrow> engine \<Rightarrow> bool" where
  "owed rule now ds cs e \<longleftrightarrow>
     (\<forall>k. \<exists>l. shows_life (card_view (cs k)) l \<and> life_step rule now k l (about k ds) (life_of (eng_get e k)))"

text \<open>Decisions that can be applied: none resolves quietly, a change is about a known alert of the rule.\<close>

definition sound_decisions :: "(string \<Rightarrow> string \<Rightarrow> bool) \<Rightarrow> rule_config \<Rightarrow> decision list \<Rightarrow> engine \<Rightarrow> bool" where
  "sound_decisions P rule ds e \<longleftrightarrow> (\<forall>d \<in> set ds. (quiet d \<longrightarrow> dc_State d \<noteq> StResolved) \<and>
     (dc_StateChanged d \<longrightarrow> eng_get e (dc_AlertID d) \<noteq> None \<and> P (dc_AlertID d) (rc_Name rule)))"

definition filed :: "(string \<Rightarrow> string \<Rightarrow> bool) \<Rightarrow> (string \<Rightarrow> (string \<times> alert_state \<times> gtime option) option) \<Rightarrow> bool" where
  "filed P view \<longleftrightarrow> (\<forall>k n s t. view k = Some (n, s, t) \<longrightarrow> P k n)"

lemma engine_view_subset:
  assumes "filed P (engine_view e)" "\<And>k v. engine_view e' k = Some v \<Longrightarrow> engine_view e k = Some v"
  shows "filed P (engine_view e')"
  using assms unfolding filed_def by blast

lemma owed_Nil: "owed rule now [] cs e \<longleftrightarrow> in_step cs e"
proof -
  have "life_step rule now k l [] l' \<longleftrightarrow> l' = l" for k l l'
    by (auto elim: life_stepE intro: life_step.stay)
  then show ?thesis by (simp add: owed_def in_step_def about_def)
qed

lemma life_step_head_quiet: "life_step rule now k l (d # ds) l' \<Longrightarrow> quiet d \<Longrightarrow> life_step rule now k l ds l'"
  by (auto elim!: life_stepE intro: life_step.intros)

lemma life_step_head_change:
  "life_step rule now k l (d # ds) l' \<Longrightarrow> \<not> quiet d \<Longrightarrow> ds = [] \<and> dc_StateChanged d \<and> dc_ShouldStore d"
  by (auto elim!: life_stepE)

section \<open>The decisions of the engine\<close>

text \<open>The rule an alert id belongs to, by its prefix.\<close>

definition under_rule :: "string \<Rightarrow> string \<Rightarrow> bool" where
  "under_rule k n \<longleftrightarrow> HasPrefix k (RuleAlertPrefix n)"

lemma event_decision_state:
  assumes "wf_state st" "quiet (fst (event_state f st rule ev k now))"
  shows "dc_State (fst (event_state f st rule ev k now)) \<noteq> StResolved"
  using assms
  by (auto simp: event_state_def Let_def applyActiveCondition_def heartbeat_event_def no_decision_def wf_state_def
      split: alert_state.splits option.splits if_splits)

lemma unmatched_quiet: "\<not> dc_Matched (fst (event_state f st rule ev k now)) \<Longrightarrow> quiet (fst (event_state f st rule ev k now))"
  by (auto simp: event_state_def Let_def applyActiveCondition_def heartbeat_event_def
      split: alert_state.splits option.splits if_splits)

lemma tick_decision_state:
  assumes "wf_state st" "d \<in> set (fst (snd (tick_state rule now st)))"
  shows "(quiet d \<longrightarrow> dc_State d \<noteq> StResolved) \<and> rs_RuleName st = rc_Name rule"
  using assms
  by (auto simp: tick_state_def count_tick_def heartbeat_tick_def Let_def applyActiveCondition_def wf_state_def no_decision_def
      split: alert_state.splits option.splits if_splits)

lemma tick_state_rule: "rs_RuleName (fst (tick_state rule now st)) = rs_RuleName st"
  by (auto simp: tick_state_def count_tick_def heartbeat_tick_def Let_def applyActiveCondition_def
      split: alert_state.splits option.splits if_splits)

lemma event_owed:
  assumes "wf_engine e" "in_step cs e" "P k (rc_Name rule)" "engine_ProcessEvent f e rule ev k now = (d, e1)"
  shows "owed rule now [d] cs e1 \<and> sound_decisions P rule [d] e1 \<and> (dc_StateChanged d \<longrightarrow> dc_AlertID d = k) \<and>
    (\<not> dc_Matched d \<longrightarrow> quiet d)"
proof -
  let ?st = "ensureState f e rule ev k"
  have d: "d = fst (event_state f ?st rule ev k now)" "e1 = eng_put e k (snd (event_state f ?st rule ev k now))"
    using assms(4) by (auto simp: engine_ProcessEvent_def Let_def)
  have "engine_step f (OpEvent rule ev k now) e = ([d], e1)" using assms(4) by simp
  from engine_step_life [OF assms(1) this] have "owed rule now [d] cs e1"
    using assms(2) by (auto simp: owed_def in_step_def)
  moreover have "dc_StateChanged d \<longrightarrow> dc_AlertID d = k"
    using event_decision_id [OF ensureState_wf(2) [OF assms(1), of f rule ev k], of f rule ev now] by (auto simp: d quiet_def)
  ultimately show ?thesis
    using event_decision_state [OF ensureState_wf(1) [OF assms(1)]] assms(3) unmatched_quiet by (auto simp: sound_decisions_def d)
qed

lemma event_filed:
  assumes "filed under_rule (engine_view e)" "under_rule k (rc_Name rule)" "wf_engine e"
  shows "filed under_rule (engine_view (snd (engine_ProcessEvent f e rule ev k now)))"
proof -
  let ?st = "ensureState f e rule ev k"
  have "under_rule k (rs_RuleName ?st)"
    using assms(1,2) by (auto simp: ensureState_def new_state_def filed_def engine_view_def state_view_def split: option.splits)
  moreover have "rs_RuleName (snd (event_state f ?st rule ev k now)) = rs_RuleName ?st"
    by (rule event_state_wf(3) [OF ensureState_wf(1) [OF assms(3)]])
  ultimately show ?thesis
    using assms(1) by (auto simp: filed_def engine_view_def state_view_def engine_ProcessEvent_def Let_def)
qed

lemma tick_owed:
  assumes "wf_engine e" "in_step cs e" "TickRuleWithFiring e rule now = ((ds, firing), e1)"
    and "\<And>k s t. engine_view e k = Some (rc_Name rule, s, t) \<Longrightarrow> P k (rc_Name rule)"
  shows "owed rule now ds cs e1 \<and> sound_decisions P rule ds e1"
proof -
  have "engine_step f (OpTick rule now) e = (ds, e1)" for f using assms(3) by simp
  from engine_step_life [OF assms(1) this] have "owed rule now ds cs e1"
    using assms(2) by (auto simp: owed_def in_step_def)
  moreover have "sound_decisions P rule ds e1"
    unfolding sound_decisions_def
  proof
    fix d
    assume d: "d \<in> set ds"
    then have "d \<in> set (about (dc_AlertID d) ds)" by (simp add: about_def)
    then obtain st where st: "eng_get e (dc_AlertID d) = Some st" "d \<in> set (fst (snd (tick_state rule now st)))"
      using about_tick [OF assms(1), of "dc_AlertID d" rule now] assms(3) by (auto split: option.splits)
    have "eng_get e1 (dc_AlertID d) \<noteq> None" using tick_get [of e rule now "dc_AlertID d"] assms(3) st(1) by simp
    moreover have "P (dc_AlertID d) (rc_Name rule)"
      using assms(4) [of "dc_AlertID d"] st tick_decision_state [OF wf_engine_get(2) [OF assms(1) st(1)] st(2)]
      by (auto simp: engine_view_def state_view_def)
    ultimately show "(quiet d \<longrightarrow> dc_State d \<noteq> StResolved) \<and>
        (dc_StateChanged d \<longrightarrow> eng_get e1 (dc_AlertID d) \<noteq> None \<and> P (dc_AlertID d) (rc_Name rule))"
      using tick_decision_state [OF wf_engine_get(2) [OF assms(1) st(1)] st(2)] by blast
  qed
  ultimately show ?thesis by simp
qed

lemma tick_filed: "filed P (engine_view e) \<Longrightarrow> filed P (engine_view (snd (TickRuleWithFiring e rule now)))"
  by (auto simp: filed_def engine_view_def state_view_def tick_get tick_state_rule option.map_comp comp_def)

section \<open>Applying decisions\<close>

context ticked_env
begin

lemma applyDecision_quiet:
  assumes "applyDecision env rule k d now p m w = (None, p', m', w')" "quiet d" "dc_State d \<noteq> StResolved"
  shows "m' = m \<and> cards w' = cards w"
  using assms refresh_decision_cards [of rule k d now p w]
  by (auto simp: applyDecision_def quiet_def persist_change_def notify_decision_def finish_decision_def
      split: if_splits option.splits prod.splits)

lemma applyDecision_view:
  assumes "applyDecision env rule k d now p m w = (None, p', m', w')"
    and "dc_StateChanged d" "dc_ShouldStore d" "eng_get (mg_engine m) k \<noteq> None"
  shows "engine_view (mg_engine m') =
    (if dc_State d = StResolved then (engine_view (mg_engine m))(k := None) else engine_view (mg_engine m))"
proof -
  obtain ident where ident: "GetAlertIdentity (mg_engine m) k = Some ident"
    using assms(4) by (auto simp: GetAlertIdentity_def)
  from applyDecision_phases [OF assms(1-3) ident] obtain w1 y m2 w2 m3 w3 where ph:
    "persist_change env rule k ident d now m w1 = (Inr y, m2, w2)"
    "notify_decision env rule k ident d now (fst y) (snd y) m2 w2 = (None, m3, w3)"
    "finish_decision env k d m3 w3 = (None, m', w')" .
  have "engine_view (mg_engine m3) = engine_view (mg_engine m)"
    using view.notify_inv [OF ph(2)] view.persist_inv [OF ph(1)] by simp
  then show ?thesis using ph(3)
    by (auto simp: finish_decision_def engine_view_remove split: if_splits prod.splits option.splits)
qed

lemma applyDecision_keeps:
  "applyDecision env rule k d now p m w = (err, p', m', w') \<Longrightarrow> keeps_cards cards m \<Longrightarrow> keeps_cards cards m'"
  using set.decision_inv [of env rule k d now p m w err p' m' w' "manager_settings m"]
  by (simp add: manager_settings_def keeps_cards_def)

lemma decision_owed:
  assumes run: "applyDecision env rule k d now p m w = (None, p', m', w')" and keeps: "keeps_cards cards m"
    and owed: "owed rule now (d # ds) (cards w) (mg_engine m)" and sound: "sound_decisions P rule (d # ds) (mg_engine m)"
    and id: "dc_StateChanged d \<Longrightarrow> dc_AlertID d = k" and filed: "filed P (\<lambda>k. card_view (cards w k))" "filed Q (engine_view (mg_engine m))"
  shows "owed rule now ds (cards w') (mg_engine m') \<and> sound_decisions P rule ds (mg_engine m') \<and>
    filed P (\<lambda>k. card_view (cards w' k)) \<and> filed Q (engine_view (mg_engine m'))"
proof (cases "quiet d")
  case True
  have "dc_State d \<noteq> StResolved" using sound True by (simp add: sound_decisions_def)
  from applyDecision_quiet [OF run True this] have same: "m' = m" "cards w' = cards w" by simp_all
  have "\<exists>l. shows_life (card_view (cards w j)) l \<and> life_step rule now j l (about j ds) (life_of (eng_get (mg_engine m) j))" for j
  proof -
    obtain l where "shows_life (card_view (cards w j)) l"
      "life_step rule now j l (about j (d # ds)) (life_of (eng_get (mg_engine m) j))" using owed unfolding owed_def by blast
    then show ?thesis using life_step_head_quiet [OF _ True] by (cases "dc_AlertID d = j") (auto simp: about_def)
  qed
  then show ?thesis using same sound filed by (simp add: owed_def sound_decisions_def)
next
  case loud: False
  let ?k = "dc_AlertID d"
  obtain l where l: "shows_life (card_view (cards w ?k)) l"
    "life_step rule now ?k l (d # about ?k ds) (life_of (eng_get (mg_engine m) ?k))"
    using owed [unfolded owed_def, rule_format, of ?k] by (auto simp: about_def)
  from life_step_head_change [OF l(2) loud] have d: "about ?k ds = []" "dc_StateChanged d" "dc_ShouldStore d" by simp_all
  have k: "k = ?k" using id d(2) by simp
  have known: "eng_get (mg_engine m) k \<noteq> None" "P k (rc_Name rule)" using sound d(2) k by (simp_all add: sound_decisions_def)
  obtain ident where ident: "GetAlertIdentity (mg_engine m) k = Some ident"
    using known by (auto simp: GetAlertIdentity_def)
  note card = applyDecision_card [OF run keeps d(2,3) ident]
  note view = applyDecision_view [OF run d(2,3) known(1)]
  have other: "card_view (cards w' j) = card_view (cards w j) \<and> engine_view (mg_engine m') j = engine_view (mg_engine m) j"
    if "j \<noteq> k" for j
    using card(1) [of j] card(2) view that by (cases "dc_State d = StResolved") (auto intro: card_view_core)
  have rest: "dc_AlertID x \<noteq> k" if "x \<in> set ds" for x
    using d(1) that k by (auto simp: about_def filter_empty_conv)
  have own: "shows_life (card_view (cards w' k)) (life_of (eng_get (mg_engine m') k)) \<and>
      (\<forall>n s t. card_view (cards w' k) = Some (n, s, t) \<longrightarrow> P k n)"
  proof (cases "dc_State d = StResolved")
    case True
    then have "engine_view (mg_engine m') k = None" using view by simp
    then have "life_of (eng_get (mg_engine m') k) = Idle" by (simp add: life_of_def)
    then show ?thesis using card(2) [OF True] by simp
  next
    case False
    have life: "life_of (eng_get (mg_engine m') k) = life_of (eng_get (mg_engine m) k)"
      using view False by (intro engine_view_life) simp
    have "card_view (cards w' k) = Some (case cards w k of None \<Rightarrow> rc_Name rule | Some e \<Rightarrow> ac_RuleName (fst e),
        dc_State d, if dc_State d = StPending then Some now else if dc_State d = StFiring then None
          else (case cards w k of None \<Rightarrow> None | Some e \<Rightarrow> ac_PendingSince (fst e)))"
      using card(1) [of k] False
      by (auto simp: card_view_def next_card_def fresh_card_def moved_card_def applyCardStateTransition_def empty_card_def
          split: alert_state.splits option.splits)
    moreover have "\<forall>n s t. card_view (cards w k) = Some (n, s, t) \<longrightarrow> P k n" using filed(1) by (simp add: filed_def)
    ultimately show ?thesis using l(2) known(2) False loud unfolding life d(1) k [symmetric]
      by (auto elim!: life_stepE split: option.splits)
  qed
  have "shows_life (card_view (cards w' j)) l' \<and> life_step rule now j l' (about j ds) (life_of (eng_get (mg_engine m') j))"
    if "j \<noteq> k" "shows_life (card_view (cards w j)) l'"
      "life_step rule now j l' (about j (d # ds)) (life_of (eng_get (mg_engine m) j))" for j l'
    using that other [OF that(1)] engine_view_life [of "mg_engine m'" j "mg_engine m"] k by (simp add: about_def)
  note moved = this
  have "\<exists>l. shows_life (card_view (cards w' j)) l \<and> life_step rule now j l (about j ds) (life_of (eng_get (mg_engine m') j))" for j
  proof (cases "j = k")
    case True
    then show ?thesis using own d(1) k
      by (intro exI [of _ "life_of (eng_get (mg_engine m') k)"]) (simp add: life_step.stay)
  next
    case False
    then show ?thesis using moved owed [unfolded owed_def, rule_format, of j] by blast
  qed
  then have "owed rule now ds (cards w') (mg_engine m')" by (simp add: owed_def)
  moreover have "sound_decisions P rule ds (mg_engine m')"
    using sound rest other engine_view_None unfolding sound_decisions_def by (metis list.set_intros(2))
  moreover have "filed Q (engine_view (mg_engine m'))"
    using view by (intro engine_view_subset [OF filed(2)]) (auto split: if_splits)
  moreover have "filed P (\<lambda>k. card_view (cards w' k))"
    using filed(1) own other unfolding filed_def by metis
  ultimately show ?thesis by simp
qed

end

section \<open>Between decisions\<close>

text \<open>What every call keeps, for alerts of the rules named in \<open>names\<close>.\<close>

definition mirrored :: "string set \<Rightarrow> 'r cards \<Rightarrow> engine \<Rightarrow> bool" where
  "mirrored names cs e \<longleftrightarrow> wf_engine e \<and> in_step cs e \<and> filed under_rule (engine_view e) \<and>
     filed (\<lambda>k n. under_rule k n \<and> n \<in> names) (\<lambda>k. card_view (cs k))"

lemma mirrored_cong:
  assumes "mirrored names cs e" "wf_engine e'" "engine_view e' = engine_view e" "\<And>k. core (cs' k) = core (cs k)"
  shows "mirrored names cs' e'"
proof -
  have "life_of (eng_get e' k) = life_of (eng_get e k)" for k
    using assms(3) by (intro engine_view_life) simp
  then show ?thesis using assms(1-3) by (auto simp: mirrored_def in_step_def card_view_core [OF assms(4)])
qed

lemma mirrored_remove:
  assumes "mirrored names cs e"
  shows "mirrored names (cs(k := None)) (RemoveAlertState e k)"
proof -
  have "shows_life (card_view ((cs(k := None)) j)) (life_of (eng_get (RemoveAlertState e k) j))" for j
  proof (cases "j = k")
    case True
    have "eng_get (RemoveAlertState e k) k = None" by (simp add: RemoveAlertState_def)
    then show ?thesis using True by (simp add: life_of_def)
  next
    case False
    then have "life_of (eng_get (RemoveAlertState e k) j) = life_of (eng_get e j)"
      by (intro engine_view_life) (simp add: engine_view_remove)
    then show ?thesis using False assms by (simp add: mirrored_def in_step_def)
  qed
  moreover have "filed under_rule (engine_view (RemoveAlertState e k))"
    by (rule engine_view_subset [of under_rule e]) (use assms in \<open>auto simp: mirrored_def engine_view_remove split: if_splits\<close>)
  ultimately show ?thesis
    using assms by (auto simp: mirrored_def in_step_def wf_engine_remove filed_def)
qed

lemma mirrored_compact:
  assumes "mirrored names cs e"
  shows "mirrored names cs (snd (CompactStates e now idle cap))"
proof -
  have wf: "wf_engine e" using assms by (simp add: mirrored_def)
  have "filed under_rule (engine_view (snd (CompactStates e now idle cap)))"
    by (rule engine_view_subset [of under_rule e])
      (use assms compact_get_subset [OF wf] in \<open>auto simp: mirrored_def engine_view_def\<close>)
  then show ?thesis using assms by (simp add: mirrored_def in_step_def compact_life [OF wf] wf_engine_compact)
qed

text \<open>A rule whose alerts the listing of the store finds.\<close>

definition listed_rule :: "string set \<Rightarrow> rule_config \<Rightarrow> bool" where
  "listed_rule names rule \<longleftrightarrow> rc_Name rule \<in> names \<and> (\<forall>c \<in> set (TrimSpace (rc_Name rule)). plain_char c)"

lemma listed_rule_key:
  "listed_rule names rule \<Longrightarrow> BuildAlertKey hs rule ev = Inr k \<Longrightarrow> under_rule k (rc_Name rule) \<and> rc_Name rule \<in> names"
  using plain_names_are_listed by (simp add: listed_rule_def under_rule_def)

text \<open>Deliveries leave the views alone, whether they fail or not.\<close>

definition same_views :: "('w \<Rightarrow> 'r cards) \<Rightarrow> 'w manager \<Rightarrow> 'w \<Rightarrow> 'w manager \<Rightarrow> 'w \<Rightarrow> bool" where
  "same_views cards m w m' w' \<longleftrightarrow> (\<forall>k. core (cards w' k) = core (cards w k)) \<and>
     engine_view (mg_engine m') = engine_view (mg_engine m) \<and> (keeps_cards cards m \<longrightarrow> keeps_cards cards m') \<and>
     (wf_engine (mg_engine m) \<longrightarrow> wf_engine (mg_engine m'))"

lemma same_views_refl [simp]: "same_views cards m w m w"
  by (simp add: same_views_def)

lemma same_views_trans: "same_views cards m w m1 w1 \<Longrightarrow> same_views cards m1 w1 m2 w2 \<Longrightarrow> same_views cards m w m2 w2"
  by (simp add: same_views_def)

lemma same_views_mirrored:
  "same_views cards m w m' w' \<Longrightarrow> mirrored names (cards w) (mg_engine m) \<Longrightarrow> mirrored names (cards w') (mg_engine m')"
  by (rule mirrored_cong) (auto simp: same_views_def mirrored_def)

context ticked_env
begin


lemma process_rules_mirrored:
  assumes "process_rules env rules ev now p m w = (None, p', m', w')" "mirrored names (cards w) (mg_engine m)"
    "keeps_cards cards m" "\<forall>rule \<in> set rules. listed_rule names rule"
  shows "mirrored names (cards w') (mg_engine m') \<and> keeps_cards cards m'"
  using assms
proof (induction rules arbitrary: p m w)
  case (Cons rule rules)
  let ?skip = "process_rules env rules ev now p m w = (None, p', m', w')"
  consider (skip) ?skip
    | (event) k where "BuildAlertKey (en_hexsha1 env) rule ev = Inr k"
        "MatchEvent (en_compile env) rule ev = Inr True" "\<not> shouldDropOutOfOrder rule ev now"
    using Cons.prems(1) by (auto split: if_splits sum.splits bool.splits)
  then show ?case
  proof cases
    case skip
    then show ?thesis using Cons by simp
  next
    case (event k)
    let ?P = "\<lambda>k n. under_rule k n \<and> n \<in> names"
    obtain d e1 where step: "engine_ProcessEvent (en_fmt_float env) (mg_engine m) rule ev k now = (d, e1)" by force
    let ?m1 = "m\<lparr>mg_engine := e1\<rparr>"
    have k: "?P k (rc_Name rule)" using listed_rule_key [of names rule, OF _ event(1)] Cons.prems(4) by simp
    have old: "wf_engine (mg_engine m)" "in_step (cards w) (mg_engine m)" "filed under_rule (engine_view (mg_engine m))"
      "filed ?P (\<lambda>k. card_view (cards w k))" using Cons.prems(2) by (simp_all add: mirrored_def)
    note due = event_owed [OF old(1,2), of ?P, OF k step]
    have e1: "wf_engine e1" "filed under_rule (engine_view e1)"
      using wf_engine_event [OF old(1), of "en_fmt_float env" rule ev k now] step
        event_filed [OF old(3) _ old(1), of k rule "en_fmt_float env" ev now] k by simp_all
    show ?thesis
    proof (cases "dc_Matched d")
      case False
      then have quiet: "quiet d" using due by simp
      have "in_step (cards w) e1"
        unfolding in_step_def
      proof
        fix j
        obtain l where "shows_life (card_view (cards w j)) l" "life_step rule now j l (about j [d]) (life_of (eng_get e1 j))"
          using due unfolding owed_def by blast
        moreover from this(2) have "life_of (eng_get e1 j) = l"
          using quiet life_step_quiet by (cases "dc_AlertID d = j") (auto simp: about_def elim: life_stepE)
        ultimately show "shows_life (card_view (cards w j)) (life_of (eng_get e1 j))" by simp
      qed
      then have "mirrored names (cards w) (mg_engine ?m1)" using old e1 by (simp add: mirrored_def)
      then show ?thesis using Cons.IH [of p ?m1 w] Cons.prems event step False by simp
    next
      case True
      obtain p2 m2 w2 where ad: "applyDecision env rule k d now p ?m1 w = (None, p2, m2, w2)"
        and rest: "process_rules env rules ev now p2 m2 w2 = (None, p', m', w')"
        using Cons.prems(1) event step True by (auto split: prod.splits option.splits)
      have "owed rule now [] (cards w2) (mg_engine m2) \<and> filed ?P (\<lambda>k. card_view (cards w2 k)) \<and>
          filed under_rule (engine_view (mg_engine m2))"
        using decision_owed [OF ad _ _ _ _ old(4), of "[]" under_rule] due e1 Cons.prems(3) by simp
      moreover have "wf_engine (mg_engine m2)" using wf.decision_inv [OF ad] e1 by simp
      moreover have "keeps_cards cards m2" using applyDecision_keeps [OF ad] Cons.prems(3) by simp
      ultimately show ?thesis using Cons.IH [OF rest] Cons.prems(4) by (simp add: mirrored_def owed_Nil)
    qed
  qed
qed simp

lemma processEvent_mirrored:
  assumes "processEvent env ev p m w = (None, p', m', w')" "mirrored names (cards w) (mg_engine m)"
    "keeps_cards cards m" "\<forall>rule \<in> set (mg_sorted m). listed_rule names rule"
  shows "mirrored names (cards w') (mg_engine m') \<and> keeps_cards cards m' \<and> mg_sorted m' = mg_sorted m"
proof -
  obtain now w1 where now: "en_Now env w = (now, w1)" by force
  have "cards w1 = cards w" using clock_cards [of w] now by simp
  moreover have "manager_settings m' = manager_settings m" by (rule set.processEvent_inv [OF assms(1)]) simp
  ultimately show ?thesis
    using process_rules_mirrored [of "mg_sorted m" ev now p m w1] assms now by (simp add: processEvent_def manager_settings_def)
qed

lemma push_loop_mirrored:
  assumes "push_loop env evs p m w = (None, p', m', w')" "mirrored names (cards w) (mg_engine m)"
    "keeps_cards cards m" "\<forall>rule \<in> set (mg_sorted m). listed_rule names rule"
  shows "mirrored names (cards w') (mg_engine m') \<and> keeps_cards cards m'"
  using assms
proof (induction evs arbitrary: p m w)
  case (Cons ev evs)
  obtain p1 m1 w1 where "processEvent env ev p m w = (None, p1, m1, w1)" "push_loop env evs p1 m1 w1 = (None, p', m', w')"
    using Cons.prems(1) by (auto split: prod.splits option.splits)
  then show ?case using processEvent_mirrored [OF _ Cons.prems(2-4)] Cons.IH Cons.prems(4) by metis
qed simp

lemma flush_cards: "flushTickRefresh (en_store env) ps w = (err, w') \<Longrightarrow> cards w' = cards w"
proof (induction ps arbitrary: w)
  case (Cons entry ps)
  obtain k t where entry: "entry = (k, t)" by (cases entry)
  obtain e1 w1 where run: "so_RefreshTick (en_store env) k (fst t) (snd t) w = (e1, w1)" by force
  have "cards w1 = cards w" using refresh_cards [of k "fst t" "snd t" w] run by simp
  then show ?case using Cons.prems Cons.IH [of w1] run by (auto simp: entry split: option.splits)
qed simp

section \<open>Ticks\<close>

lemma apply_decisions_mirrored:
  assumes "apply_decisions env rule now ds m w = (None, m', w')" "keeps_cards cards m" "wf_engine (mg_engine m)"
    "owed rule now ds (cards w) (mg_engine m)" "sound_decisions (\<lambda>k n. under_rule k n \<and> n \<in> names) rule ds (mg_engine m)"
    "filed (\<lambda>k n. under_rule k n \<and> n \<in> names) (\<lambda>k. card_view (cards w k))" "filed under_rule (engine_view (mg_engine m))"
  shows "mirrored names (cards w') (mg_engine m') \<and> keeps_cards cards m'"
  using assms
proof (induction ds arbitrary: m w)
  case Nil
  then show ?case by (simp add: mirrored_def owed_Nil)
next
  case (Cons d ds)
  obtain p1 m1 w1 where ad: "applyDecision env rule (dc_AlertID d) d now None m w = (None, p1, m1, w1)"
    and rest: "apply_decisions env rule now ds m1 w1 = (None, m', w')"
    using Cons.prems(1) by (auto split: prod.splits option.splits)
  show ?case
    by (rule Cons.IH [OF rest]) (use decision_owed [OF ad Cons.prems(2,4,5) _ Cons.prems(6,7)] wf.decision_inv [OF ad Cons.prems(3)]
        applyDecision_keeps [OF ad Cons.prems(2)] in simp_all)
qed

lemma dispatch_same:
  assumes "dispatchNotification env rule n ro m w = (err, m', w')" "keeps_cards cards m"
  shows "same_views cards m w m' w'"
  using dispatch_core(1) [OF assms] view.dispatch_inv [OF assms(1)] wf.dispatch_inv [OF assms(1)] dispatch_manager [OF assms(1)]
  by (simp add: same_views_def keeps_cards_def)

lemma repeat_routes_same:
  "repeat_routes env rule n now every routes m w = (m', w') \<Longrightarrow> keeps_cards cards m \<Longrightarrow> same_views cards m w m' w'"
proof (induction routes arbitrary: m w)
  case (Cons route routes)
  obtain e1 m1 w1 where step: "dispatchNotification env rule n [route] m w = (e1, m1, w1)" by (metis prod_cases3)
  note same = dispatch_same [OF step Cons.prems(2)]
  then have "keeps_cards cards m1" using Cons.prems(2) by (simp add: same_views_def)
  then show ?case
    using Cons.prems Cons.IH [of m1 w1] Cons.IH [of m w] step same_views_trans [OF same]
    by (auto split: option.splits if_splits)
qed simp

lemma repeat_alert_same:
  "repeat_alert env rule pc now k m w = (m', w') \<Longrightarrow> keeps_cards cards m \<Longrightarrow> same_views cards m w m' w'"
  by (auto simp: repeat_alert_def Let_def repeat_routes_same split: option.splits if_splits prod.splits dest: dispatch_same)

lemma repeat_loop_same:
  "repeat_loop env rule pc now ids m w = (m', w') \<Longrightarrow> keeps_cards cards m \<Longrightarrow> same_views cards m w m' w'"
proof (induction ids arbitrary: m w)
  case (Cons k ids)
  obtain m1 w1 where step: "repeat_alert env rule pc now k m w = (m1, w1)" by force
  note same = repeat_alert_same [OF step Cons.prems(2)]
  then have "keeps_cards cards m1" using Cons.prems(2) by (simp add: same_views_def)
  then show ?case using Cons.prems(1) Cons.IH [of m1 w1] step same_views_trans [OF same] by simp
qed simp

lemma tick_rules_mirrored:
  assumes "tick_rules env rules pc now m w = (None, m', w')" "mirrored names (cards w) (mg_engine m)"
    "keeps_cards cards m" "\<forall>rule \<in> set rules. listed_rule names rule"
  shows "mirrored names (cards w') (mg_engine m') \<and> keeps_cards cards m'"
  using assms
proof (induction rules arbitrary: m w)
  case (Cons rule rules)
  let ?P = "\<lambda>k n. under_rule k n \<and> n \<in> names"
  obtain ds firing e1 where ticked: "TickRuleWithFiring (mg_engine m) rule now = ((ds, firing), e1)"
    by (metis prod.collapse)
  obtain m1 w1 m2 w2 where ap: "apply_decisions env rule now ds (m\<lparr>mg_engine := e1\<rparr>) w = (None, m1, w1)"
    and rp: "repeat_loop env rule pc now firing m1 w1 = (m2, w2)" and rest: "tick_rules env rules pc now m2 w2 = (None, m', w')"
    using Cons.prems(1) ticked by (auto split: prod.splits option.splits)
  have old: "wf_engine (mg_engine m)" "in_step (cards w) (mg_engine m)" "filed under_rule (engine_view (mg_engine m))"
    "filed ?P (\<lambda>k. card_view (cards w k))" using Cons.prems(2) by (simp_all add: mirrored_def)
  have due: "owed rule now ds (cards w) e1 \<and> sound_decisions ?P rule ds e1"
    by (rule tick_owed [OF old(1,2) ticked]) (use old(3) Cons.prems(4) in \<open>auto simp: filed_def listed_rule_def\<close>)
  have e1: "wf_engine e1" "filed under_rule (engine_view e1)"
    using wf_engine_tick [OF old(1), of rule now] tick_filed [OF old(3), of rule now] ticked by simp_all
  have "mirrored names (cards w1) (mg_engine m1)" "keeps_cards cards m1"
    using apply_decisions_mirrored [OF ap, of names] due e1 old(4) Cons.prems(3) by simp_all
  moreover note same = repeat_loop_same [OF rp this(2)]
  ultimately have "mirrored names (cards w2) (mg_engine m2)" "keeps_cards cards m2"
    using same_views_mirrored [OF same] by (simp_all add: same_views_def)
  then show ?case using Cons.IH [OF rest] Cons.prems(4) by simp
qed simp

lemma Tick_mirrored:
  assumes "manager_Tick env m w = (None, m', w')" "mirrored names (cards w) (mg_engine m)"
    "keeps_cards cards m" "\<forall>rule \<in> set (mg_sorted m). listed_rule names rule"
  shows "mirrored names (cards w') (mg_engine m') \<and> keeps_cards cards m'"
proof -
  obtain now w1 where now: "en_Now env w = (now, w1)" by force
  have "cards w1 = cards w" using clock_cards [of w] now by simp
  then show ?thesis
    using assms tick_rules_mirrored [of "mg_sorted m" "repeatPerChannel (mg_cfg m)" now m w1] now
    by (auto simp: manager_Tick_def Let_def mirrored_compact split: prod.splits option.splits if_splits)
qed

section \<open>Expiry and the queue\<close>

lemma dispatch_resolved_mirrored:
  assumes "dispatchNotification env rule n ro (seedExternalRefs k refs m) w = (err, m', w')" "nt_State n = StResolved"
    "keeps_cards cards m" "cards w = cs"
  shows "cards w' = cs \<and> engine_view (mg_engine m') = engine_view (mg_engine m) \<and> keeps_cards cards m' \<and>
    (wf_engine (mg_engine m) \<longrightarrow> wf_engine (mg_engine m'))"
  using dispatch_core(2) [OF assms(1) _ assms(2)] view.dispatch_inv [OF assms(1)] view.seed_inv [of m "engine_view (mg_engine m)" k refs]
    wf.dispatch_inv [OF assms(1)] wf.seed_inv [of m k refs] dispatch_manager [OF assms(1)] assms(3,4)
  by (simp add: keeps_cards_def seedExternalRefs_def)

text \<open>What ends an alert outside the engine: the card deleted, the state removed.\<close>

lemma mirrored_dropped:
  assumes "mirrored names cs e" "engine_view e' = engine_view e" "wf_engine e'"
  shows "mirrored names (cs(k := None)) (RemoveAlertState e' k)"
  by (rule mirrored_remove, rule mirrored_cong [OF assms(1,3,2)]) simp

lemma ResolveByTTL_mirrored:
  assumes "ResolveByTTL env k reason m w = (None, m', w')" "mirrored names (cards w) (mg_engine m)"
    "keeps_cards cards m" "\<forall>n \<in> names. ruleByName m n \<noteq> None"
  shows "mirrored names (cards w') (mg_engine m') \<and> keeps_cards cards m'"
proof -
  obtain r w1 where has: "so_HasTick (en_store env) k w = (r, w1)" by force
  have w1: "cards w1 = cards w" using hastick_cards [of k w] has by simp
  have kept: ?thesis if "m' = m" "cards w' = cards w" using that assms(2,3) by simp
  show ?thesis
  proof (cases "r = Inr False")
    case False
    then show ?thesis using assms(1) has w1 by (intro kept) (auto simp: ResolveByTTL_def split: sum.splits bool.splits)
  next
    case expired: True
    show ?thesis
    proof (cases "cards w k")
      case None
      then have "m' = m \<and> w' = w1" using assms(1) ttl_missing_card [of k w w1 reason m] has expired by simp
      then show ?thesis using kept w1 by simp
    next
      case (Some entry)
      then obtain c0 r0 where c0: "cards w k = Some (c0, r0)" by (cases entry) simp
      show ?thesis
      proof (cases "ac_State c0 = StPending \<or> ac_State c0 = StFiring")
        case False
        then show ?thesis using assms(1) has w1 expired c0 by (intro kept) (auto simp: ResolveByTTL_def get_result)
      next
        case open_card: True
        have "card_view (cards w k) = Some (ac_RuleName c0, ac_State c0, ac_PendingSince c0)" using c0 by simp
        then have "ac_RuleName c0 \<in> names" using assms(2) unfolding mirrored_def filed_def by blast
        then obtain rule where rule: "ruleByName m (ac_RuleName c0) = Some rule" using assms(4) by auto
        let ?cause = "if reason = [] then ''ttl_expired'' else reason"
        obtain t w2 where now: "en_Now env w1 = (t, w2)" by force
        have w2: "cards w2 = cards w" using clock_cards [of w1] now w1 by simp
        let ?c = "(resolveCardRaisedAt (c0\<lparr>ac_State := StResolved\<rparr>) t)\<lparr>ac_ClosedAt := Some t, ac_ResolveCause := ?cause\<rparr>"
        let ?n = "buildResolvedCardNotification ?c (notificationMessage StResolved ?cause) t"
        obtain r3 w3 where up: "so_UpdateCard (en_store env) k r0 ?c w2 = (Inr r3, w3)" "cards w3 = (cards w)(k \<mapsto> (?c, r3))"
          using update_current [of w2 k c0 r0] c0 w2 by metis
        have name: "ac_RuleName ?c = ac_RuleName c0" by (simp add: resolveCardRaisedAt_def)
        obtain x m4 w4 where sent: "dispatchNotification env rule ?n [] (seedExternalRefs k (ac_ExternalRefs ?c) m) w3 = (x, m4, w4)"
          by (metis prod_cases3)
        obtain y w5 where gone: "so_DeleteCard (en_store env) k w4 = (y, w5)" "cards w5 = (cards w4)(k := None)"
          using delete_cards by (metis prod.collapse)
        have "m' = m4\<lparr>mg_engine := RemoveAlertState (mg_engine m4) k\<rparr> \<and> w' = w5"
          using assms(1) has expired c0 w1 open_card now up(1) name rule sent gone(1)
          by (auto simp: ResolveByTTL_def get_result Let_def)
        moreover have "nt_State ?n = StResolved" by (simp add: buildResolvedCardNotification_def buildNotification_def)
        note after = dispatch_resolved_mirrored [OF sent this assms(3) up(2)]
        then have "cards w5 = (cards w)(k := None)" using gone(2) by simp
        ultimately show ?thesis
          using mirrored_dropped [OF assms(2), of "mg_engine m4" k] after assms(2) by (simp add: mirrored_def)
      qed
    qed
  qed
qed

lemma queued_same:
  assumes "ProcessQueuedNotification env j m w = (err, m', w')" "keeps_cards cards m"
  shows "same_views cards m w m' w'"
proof -
  have clock: "cards w1 = cards w" if "en_Now env w = (t, w1)" for t w1 using clock_cards [of w] that by simp
  have sent: "cards w2 = cards w1" if "notifyRoutes env m n routes b w1 = (r, w2)" for n routes b w1 r w2
    using notifyRoutes_cards [OF assms(2), of n routes b w1] that by simp
  have "core (cards w' k) = core (cards w k)" for k
    using assms(1) clock sent applyDelivery_core(1)
    by (auto simp: ProcessQueuedNotification_def Let_def split: option.splits prod.splits if_splits sum.splits)
  moreover have "keeps_cards cards m'"
    using set.queued_inv [OF assms(1), of "manager_settings m"] assms(2) by (simp add: manager_settings_def keeps_cards_def)
  ultimately show ?thesis
    using view.queued_inv [OF assms(1)] wf.queued_inv [OF assms(1)] by (simp add: same_views_def)
qed

end

section \<open>Configuration changes\<close>

definition rule_names :: "'w manager \<Rightarrow> string set" where
  "rule_names m = fst ` set (mg_rules m)"

definition plain_rule :: "rule_config \<Rightarrow> bool" where
  "plain_rule rule \<longleftrightarrow> (\<forall>c \<in> set (TrimSpace (rc_Name rule)). plain_char c)"

definition indexed :: "'w manager \<Rightarrow> bool" where
  "indexed m \<longleftrightarrow> (\<forall>rule \<in> set (mg_sorted m). listed_rule (rule_names m) rule) \<and> (\<forall>(name, rule) \<in> set (mg_rules m). rc_Name rule = name)"

lemma rule_index_keys: "(name, rule) \<in> set (fst (buildRuleIndex rules)) \<Longrightarrow> rc_Name rule = name"
proof -
  have "(\<forall>(n, r) \<in> set ix. rc_Name r = n) \<Longrightarrow>
      \<forall>(n, r) \<in> set (fold (\<lambda>rule ix. map_put (rc_Name (normalizeRule rule)) (normalizeRule rule) ix) rules ix). rc_Name r = n" for ix
  proof (induction rules arbitrary: ix)
    case (Cons r rules)
    have "\<forall>(n, r) \<in> set (map_put (rc_Name (normalizeRule r)) (normalizeRule r) ix). rc_Name r = n"
      using Cons.prems set_map_put [of "rc_Name (normalizeRule r)" "normalizeRule r" ix] by fastforce
    from Cons.IH [OF this] show ?case by simp
  qed simp
  from this [of "[]"] show "(name, rule) \<in> set (fst (buildRuleIndex rules)) \<Longrightarrow> rc_Name rule = name"
    by (auto simp: buildRuleIndex_def)
qed

lemma built_indexed:
  assumes "mg_rules m = fst (buildRuleIndex rules)" "mg_sorted m = snd (buildRuleIndex rules)" "\<forall>rule \<in> set rules. plain_rule rule"
  shows "indexed m"
proof -
  have "listed_rule (rule_names m) rule" if "rule \<in> set (mg_sorted m)" for rule
  proof -
    have "rule \<in> normalizeRule ` set rules" using that by (simp add: assms(2) buildRuleIndex_def)
    then obtain r where "r \<in> set rules" "rule = normalizeRule r" by blast
    then show ?thesis
      using assms(1,3) buildRuleIndex_names [of rules] by (auto simp: listed_rule_def rule_names_def plain_rule_def)
  qed
  then show ?thesis using rule_index_keys assms(1) by (auto simp: indexed_def)
qed

context ticked_env
begin

lemma cleanup_ids_mirrored:
  assumes "cleanup_ids env rule now ids m w = (m', w')" "mirrored names (cards w) (mg_engine m)" "keeps_cards cards m"
  shows "mirrored names (cards w') (mg_engine m') \<and> keeps_cards cards m'"
  using assms
proof (induction ids arbitrary: m w)
  case (Cons k ids)
  show ?case
  proof (cases "cards w k")
    case None
    then show ?thesis using Cons by (simp add: get_result)
  next
    case (Some entry)
    then obtain c0 r0 where c0: "cards w k = Some (c0, r0)" by (cases entry) simp
    let ?n = "buildResolvedCardNotification (resolveCardRaisedAt c0 now) ''resolved due rule removal'' now"
    let ?sent = "if ac_State c0 = StPending \<or> ac_State c0 = StFiring then
        (let m1 = seedExternalRefs k (ac_ExternalRefs c0) m; c = resolveCardRaisedAt c0 now;
             (_, m', w') = dispatchNotification env rule
               (buildResolvedCardNotification c ''resolved due rule removal'' now) [] m1 w in (m', w'))
      else (m, w)"
    obtain m2 w2 where sent: "?sent = (m2, w2)" by force
    have two: "cards w2 = cards w \<and> engine_view (mg_engine m2) = engine_view (mg_engine m) \<and> keeps_cards cards m2 \<and>
        wf_engine (mg_engine m2)"
    proof (cases "ac_State c0 = StPending \<or> ac_State c0 = StFiring")
      case True
      then obtain e where d: "dispatchNotification env rule ?n [] (seedExternalRefs k (ac_ExternalRefs c0) m) w = (e, m2, w2)"
        using sent by (auto simp: Let_def split: prod.splits)
      have "nt_State ?n = StResolved" by (simp add: buildResolvedCardNotification_def buildNotification_def)
      then show ?thesis
        using dispatch_resolved_mirrored [OF d _ Cons.prems(3)] Cons.prems(2) by (simp add: mirrored_def)
    qed (use sent Cons.prems in \<open>auto simp: mirrored_def\<close>)
    obtain x w3 where gone: "so_DeleteCard (en_store env) k w2 = (x, w3)" "cards w3 = (cards w2)(k := None)"
      using delete_cards by (metis prod.collapse)
    let ?m3 = "m2\<lparr>mg_engine := RemoveAlertState (mg_engine m2) k\<rparr>"
    have "cleanup_ids env rule now ids ?m3 w3 = (m', w')"
      using Cons.prems(1) sent gone(1) by (simp add: get_result c0)
    moreover have "mirrored names (cards w3) (mg_engine ?m3)"
      using mirrored_dropped [OF Cons.prems(2), of "mg_engine m2" k] two gone(2) by simp
    ultimately show ?thesis using Cons.IH two by simp
  qed
qed simp

end

context listing_env
begin

lemma cleanup_rules_mirrored:
  assumes "cleanup_rules env old new m w = (err, m', w')" "mirrored names (cards w) (mg_engine m)" "keeps_cards cards m"
  shows "mirrored names (cards w') (mg_engine m') \<and> keeps_cards cards m'"
  using assms
proof (induction old arbitrary: m w)
  case (Cons entry old)
  obtain name rule where entry: "entry = (name, rule)" by force
  obtain e1 m1 w1 where step: "cleanupRemovedRule env rule m w = (e1, m1, w1)" by (metis prod_cases3)
  have listed: "cards w2 = cards w" if "so_ListAlertIDsByRule (en_store env) n w = (r, w2)" for n r w2
    using that list_result [of n w] by auto
  have clock: "cards w3 = cards w2" if "en_Now env w2 = (t, w3)" for t w2 w3 using that clock_cards [of w2] by simp
  have "mirrored names (cards w1) (mg_engine m1) \<and> keeps_cards cards m1"
    using step Cons.prems(2,3) listed clock
    by (auto simp: cleanupRemovedRule_def Let_def split: prod.splits sum.splits dest!: cleanup_ids_mirrored)
  then show ?case
    using Cons.prems Cons.IH [of m1 w1] Cons.IH [of m w] step by (cases e1) (auto simp: entry split: if_splits)
qed simp

lemma ApplyConfig_mirrored:
  assumes "ApplyConfig env cfg m w = (None, m', w')" "mirrored (rule_names m) (cards w) (mg_engine m)" "keeps_cards cards m"
    "indexed m" "\<forall>rule \<in> set (cf_Rule cfg). plain_rule rule"
  shows "mirrored (rule_names m') (cards w') (mg_engine m') \<and> keeps_cards cards m' \<and> indexed m'"
proof -
  let ?index = "buildRuleIndex (cf_Rule cfg)"
  let ?m1 = "m\<lparr>mg_cfg := cfg, mg_rules := fst ?index, mg_sorted := snd ?index\<rparr>"
  have run: "cleanup_rules env (mg_rules m) (fst ?index) ?m1 w = (None, m', w')"
    using assms(1) by (simp add: ApplyConfig_def Let_def)
  have m1: "mirrored (rule_names m) (cards w) (mg_engine ?m1)" "keeps_cards cards ?m1"
    using assms(2,3) by (simp_all add: keeps_cards_def)
  note kept = cleanup_rules_mirrored [OF run m1]
  have rules: "mg_rules m' = fst ?index" "mg_sorted m' = snd ?index"
    using ApplyConfig_settings [OF assms(1)] by (simp_all add: manager_settings_def)
  have "n \<in> rule_names m'" if view: "card_view (cards w' k) = Some (n, s, t)" for k n s t
  proof (rule ccontr)
    assume fresh: "n \<notin> rule_names m'"
    have n: "under_rule k n" "n \<in> rule_names m"
      using kept view unfolding mirrored_def filed_def by blast+
    then obtain rule where "(n, rule) \<in> set (mg_rules m)" "rc_Name rule = n"
      using assms(4) by (force simp: rule_names_def indexed_def)
    moreover have "map_get (fst ?index) n = None" using fresh by (simp add: rule_names_def rules map_of_eq_None_iff)
    ultimately have "cards w' k = None"
      using cleanup_rules_cards [OF run m1(2)] n(1) by (auto simp: under_rule_def)
    then show False using view by simp
  qed
  then have "mirrored (rule_names m') (cards w') (mg_engine m')"
    using kept unfolding mirrored_def filed_def by blast
  then show ?thesis using kept built_indexed [OF rules assms(5)] by simp
qed

end

text \<open>
  All calls together. \<open>calm\<close> says what the environment may do: configurations have rules with
  plain names, and neither a dispatcher, nor a queue, nor the world between calls touches a card.
\<close>

definition calm :: "('w \<Rightarrow> 'r cards) \<Rightarrow> 'w \<Rightarrow> 'w manager_op \<Rightarrow> bool" where
  "calm cards w op \<longleftrightarrow> (case op of
     MApplyConfig cfg \<Rightarrow> \<forall>rule \<in> set (cf_Rule cfg). plain_rule rule
   | MSetDispatcher d \<Rightarrow> \<forall>send. d = Some send \<longrightarrow> (\<forall>c t n w. cards (snd (send c t n w)) = cards w)
   | MSetProducer p \<Rightarrow> \<forall>enqueue. p = Some enqueue \<longrightarrow> (\<forall>j w. cards (snd (enqueue j w)) = cards w)
   | MWorld w' \<Rightarrow> cards w' = cards w
   | _ \<Rightarrow> True)"

definition mirror :: "('w \<Rightarrow> 'r cards) \<Rightarrow> 'w manager \<Rightarrow> 'w \<Rightarrow> bool" where
  "mirror cards m w \<longleftrightarrow> mirrored (rule_names m) (cards w) (mg_engine m) \<and> keeps_cards cards m \<and> indexed m"

context listing_env
begin

lemma steady_mirror:
  assumes "manager_settings m' = manager_settings m" "mirrored (rule_names m) (cards w') (mg_engine m')" "indexed m" "keeps_cards cards m"
  shows "mirror cards m' w'"
  using assms by (simp add: mirror_def manager_settings_def rule_names_def indexed_def keeps_cards_def)

lemma manager_call_mirror:
  assumes "manager_call env op m w = (None, m', w')" "mirror cards m w" "calm cards w op"
  shows "mirror cards m' w'"
proof -
  have m: "mirrored (rule_names m) (cards w) (mg_engine m)" "keeps_cards cards m" "indexed m"
    using assms(2) by (simp_all add: mirror_def)
  have rules: "\<forall>rule \<in> set (mg_sorted m). listed_rule (rule_names m) rule" "\<forall>n \<in> rule_names m. ruleByName m n \<noteq> None"
    using m(3) by (auto simp: indexed_def rule_names_def ruleByName_def map_of_eq_None_iff)
  note steady = steady_mirror [OF _ _ m(3,2)]
  show ?thesis
  proof (cases op)
    case (MPush ev)
    then have run: "Push env ev m w = (None, m', w')" using assms(1) by simp
    then obtain p where "processEvent env ev None m w = (None, p, m', w')" by (auto simp: Push_def split: prod.splits)
    from processEvent_mirrored [OF this m(1,2) rules(1)] show ?thesis
      using set.Push_inv [OF run] by (intro steady) simp_all
  next
    case (MPushBatch evs)
    then have run: "PushBatch env evs m w = (None, m', w')" using assms(1) by simp
    then obtain p w1 where "push_loop env evs (Some []) m w = (None, p, m', w1)" "cards w' = cards w1"
      using flush_cards by (auto simp: PushBatch_def Let_def split: prod.splits option.splits)
    with push_loop_mirrored [OF _ m(1,2) rules(1)] show ?thesis
      using set.PushBatch_inv [OF run] by (intro steady) simp_all
  next
    case MTick
    then have run: "manager_Tick env m w = (None, m', w')" using assms(1) by simp
    from Tick_mirrored [OF this m(1,2) rules(1)] show ?thesis
      using set.Tick_inv [OF run] by (intro steady) simp_all
  next
    case (MResolve k reason)
    then have run: "ResolveByTTL env k reason m w = (None, m', w')" using assms(1) by simp
    from ResolveByTTL_mirrored [OF this m(1,2) rules(2)] show ?thesis
      using set.ResolveByTTL_inv [OF run] by (intro steady) simp_all
  next
    case (MApplyConfig cfg)
    then show ?thesis using ApplyConfig_mirrored [of cfg m w m' w'] assms(1,3) m by (simp add: mirror_def calm_def)
  next
    case (MQueued j)
    then have run: "ProcessQueuedNotification env j m w = (None, m', w')" using assms(1) by simp
    from same_views_mirrored [OF queued_same [OF this m(2)] m(1)] show ?thesis
      using set.queued_inv [OF run] by (intro steady) simp_all
  next
    case (MWorld u)
    then show ?thesis using assms m by (auto simp: mirror_def calm_def)
  qed (use assms m in \<open>auto simp: mirror_def calm_def SetDispatcher_def SetQueueProducer_def rule_names_def indexed_def keeps_cards_def\<close>)
qed

end

section \<open>Histories\<close>

text \<open>A manager that starts with no cards and whose calls all succeed.\<close>

inductive undisturbed :: "'w env \<Rightarrow> ('w \<Rightarrow> 'r cards) \<Rightarrow> 'w manager \<Rightarrow> 'w \<Rightarrow> bool" for env cards where
  start: "cards w = (\<lambda>_. None) \<Longrightarrow> calm cards w (MApplyConfig cfg) \<Longrightarrow> calm cards w (MSetDispatcher d) \<Longrightarrow>
    undisturbed env cards (NewManager cfg d) w"
| call: "undisturbed env cards m w \<Longrightarrow> calm cards w op \<Longrightarrow> manager_call env op m w = (None, m', w') \<Longrightarrow>
    undisturbed env cards m' w'"

context listing_env
begin

lemma undisturbed_mirror: "undisturbed env cards m w \<Longrightarrow> mirror cards m w"
proof (induction rule: undisturbed.induct)
  case (start w cfg d)
  have "indexed (NewManager cfg d)"
    by (rule built_indexed [of _ "cf_Rule cfg"]) (use start(2) in \<open>auto simp: calm_def NewManager_def Let_def\<close>)
  then show ?case
    using start(1,3) by (auto simp: mirror_def mirrored_def in_step_def filed_def calm_def keeps_cards_def NewManager_def Let_def
        engine_view_def New_engine_def wf_engine_New [unfolded New_engine_def] life_of_def)
next
  case (call m w op m' w')
  then show ?case using manager_call_mirror by blast
qed

end

end
