(* ===== verification/Card_Properties.thy ===== *)
theory Card_Properties
  imports Card_Mirror Manager_Properties
begin

text \<open>The cards of an instance alone on its store and the states of its engine say the same.\<close>

text \<open>
  C3. The store mirrors the engine. On an instance alone on its store, after any calls of the
  manager that succeed (events, batches, ticks, expiry callbacks, queued jobs, reloads of
  configurations whose rules have plain names, swaps of dispatcher and queue, with the clock and
  the transports moving in between), an alert has a card exactly while it is pending or firing
  in the engine, the card has its state and the start of its pending stage, and belongs to a
  rule of the present configuration.
\<close>

theorem cards_mirror_engine:
  assumes "undisturbed (single_env loc ff hs cp) single_cards m w"
  shows "(case eng_get (mg_engine m) k of
      Some st \<Rightarrow>
        if is_active st
        then \<exists>c r. single_cards w k = Some (c, r) \<and> ac_State c = rs_CurrentState st \<and>
          (ac_State c = StPending \<longrightarrow> ac_PendingSince c = rs_PendingSince st)
        else single_cards w k = None
    | None \<Rightarrow> single_cards w k = None) \<and>
    (\<forall>c r. single_cards w k = Some (c, r) \<longrightarrow>
      ruleByName m (ac_RuleName c) \<noteq> None \<and> HasPrefix k (RuleAlertPrefix (ac_RuleName c)))"
proof -
  have mirror: "mirror single_cards m w" by (rule single.undisturbed_mirror [OF assms])
  then have shown: "shows_life (card_view (single_cards w k)) (life_of (eng_get (mg_engine m) k))" and wf: "wf_engine (mg_engine m)"
    by (simp_all add: mirror_def mirrored_def in_step_def)
  have "under_rule k (ac_RuleName c) \<and> ac_RuleName c \<in> rule_names m" if "single_cards w k = Some (c, r)" for c r
  proof -
    have "card_view (single_cards w k) = Some (ac_RuleName c, ac_State c, ac_PendingSince c)" using that by simp
    then show ?thesis using mirror unfolding mirror_def mirrored_def filed_def by blast
  qed
  then have filed: "\<forall>c r. single_cards w k = Some (c, r) \<longrightarrow>
      ruleByName m (ac_RuleName c) \<noteq> None \<and> HasPrefix k (RuleAlertPrefix (ac_RuleName c))"
    by (auto simp: under_rule_def rule_names_def ruleByName_def map_of_eq_None_iff)
  show ?thesis
  proof (cases "eng_get (mg_engine m) k")
    case None
    then show ?thesis using shown filed by (simp add: life_of_def)
  next
    case (Some st)
    have "wf_state st" using wf_engine_get(2) [OF wf Some] .
    then consider "life_of (Some st) = Idle" "\<not> is_active st"
      | t where "life_of (Some st) = PendingFrom t" "rs_CurrentState st = StPending" "rs_PendingSince st = Some t"
      | "life_of (Some st) = Firing" "rs_CurrentState st = StFiring"
      using life_of_Some [of st] by (cases "life_of (Some st)") (auto simp: is_active_def)
    then show ?thesis
    proof cases
      case 1
      then show ?thesis using shown Some filed by simp
    next
      case 2
      then show ?thesis using shown Some filed by (cases "single_cards w k") (auto simp: is_active_def)
    next
      case 3
      then show ?thesis using shown Some filed by (cases "single_cards w k") (auto simp: is_active_def)
    qed
  qed
qed

definition mirrored_push where
  "mirrored_push = manager_call sample_env (MPush sample_event) sample_manager (fresh_world base_time)"

lemma mirrored_push_run: "undisturbed sample_env single_cards (fst (snd mirrored_push)) (snd (snd mirrored_push))"
proof -
  have "single_cards (fresh_world base_time) = (\<lambda>_. None)"
    by (simp add: fun_eq_iff fresh_world_def single_cards_def mem_cards_def NewMemoryStore_def)
  moreover have "plain_rule eager_rule" by code_simp
  ultimately have start: "undisturbed sample_env single_cards sample_manager (fresh_world base_time)"
    unfolding sample_manager_def
    by (intro undisturbed.start) (auto simp: calm_def sample_config_def recording_send_def single_cards_def)
  have calm: "calm single_cards (fresh_world base_time) (MPush sample_event)" by (simp add: calm_def)
  have "fst mirrored_push = None" by code_simp
  then have run: "manager_call sample_env (MPush sample_event) sample_manager (fresh_world base_time) =
      (None, fst (snd mirrored_push), snd (snd mirrored_push))" unfolding mirrored_push_def by (metis prod.collapse)
  show ?thesis by (rule undisturbed.call [OF start calm run])
qed

theorem cards_mirror_engine_witness:
  "map_option (\<lambda>e. ac_State (fst e)) (single_cards (snd (snd mirrored_push)) key_a) = Some StFiring \<and>
   single_cards (snd (snd mirrored_push)) key_b = None"
proof -
  note run = mirrored_push_run [unfolded sample_env_def]
  have "map_option rs_CurrentState (eng_get (mg_engine (fst (snd mirrored_push))) key_a) = Some StFiring" by code_simp
  moreover have "map_option rs_CurrentState (eng_get (mg_engine (fst (snd mirrored_push))) key_b) = None" by code_simp
  ultimately show ?thesis
    using cards_mirror_engine [OF run, of key_a] cards_mirror_engine [OF run, of key_b] by (auto simp: is_active_def)
qed

end
