(* ===== verification/Config_Defaults.thy ===== *)
theory Config_Defaults
  imports Config_Norm
begin

text \<open>
  \<open>applyDefaults\<close> of \<open>internal/config/config.go\<close> and its helpers. The Go function
  assigns section by section; each section is a definition here and \<open>applyDefaults\<close>
  composes them in the order of the code, because later sections read fields that earlier
  ones have filled (the service mode, the NATS addresses, the global repeat period).
\<close>

section \<open>Filling one field\<close>

text \<open>The shapes of the guarded assignments \<open>if ... { x = fallback }\<close>.\<close>

definition or_blank :: "string \<Rightarrow> string \<Rightarrow> string" where
  "or_blank x fallback = (if TrimSpace x = [] then fallback else x)"

definition or_empty :: "string \<Rightarrow> string \<Rightarrow> string" where
  "or_empty x fallback = (if x = [] then fallback else x)"

definition or_positive :: "int64 \<Rightarrow> int64 \<Rightarrow> int64" where
  "or_positive n fallback = (if n \<le> 0 then fallback else n)"

definition or_nonzero :: "int64 \<Rightarrow> int64 \<Rightarrow> int64" where
  "or_nonzero n fallback = (if n = 0 then fallback else n)"

definition or_list :: "'a list \<Rightarrow> 'a list \<Rightarrow> 'a list" where
  "or_list xs fallback = (if length xs = 0 then fallback else xs)"

section \<open>Channel helpers\<close>

definition fillNotifyRetryDefaults :: "notify_retry \<Rightarrow> notify_retry" where
  "fillNotifyRetryDefaults r = r
     \<lparr>nr_Backoff := or_empty (nr_Backoff r) ''exponential'',
      nr_InitialMS := or_positive (nr_InitialMS r) 500,
      nr_MaxMS := or_positive (nr_MaxMS r) 60000\<rparr>"

definition fillTrackerActionDefaults :: "tracker_action \<Rightarrow> bool \<Rightarrow> tracker_action" where
  "fillTrackerActionDefaults action isCreate = action
     \<lparr>tc_Method := or_blank (tc_Method action) ''POST'',
      tc_SuccessStatus := or_list (tc_SuccessStatus action) (if isCreate then [200, 201] else [200, 204])\<rparr>"

definition fillTrackerNotifierDefaults :: "tracker_notifier \<Rightarrow> tracker_notifier" where
  "fillTrackerNotifierDefaults t = t
     \<lparr>tk_TimeoutSec := or_positive (tk_TimeoutSec t) 10,
      tk_Retry := fillNotifyRetryDefaults (tk_Retry t),
      tk_Create := fillTrackerActionDefaults (tk_Create t) True,
      tk_Resolve := fillTrackerActionDefaults (tk_Resolve t) False\<rparr>"

section \<open>Sections\<close>

definition defaults_service :: "service_config \<Rightarrow> service_config" where
  "defaults_service s = s
     \<lparr>sc_Name := or_blank (sc_Name s) ''alerting'',
      sc_Mode := NormalizeServiceMode (sc_Mode s),
      sc_ReloadIntervalSec := or_positive (sc_ReloadIntervalSec s) 5,
      sc_ResolveScanInterval := or_positive (sc_ResolveScanInterval s) 1\<rparr>"

definition defaults_log :: "log_config \<Rightarrow> log_config" where
  "defaults_log l =
     (let console = (lc_Console l)\<lparr>ls_Level := or_empty (ls_Level (lc_Console l)) ''info'',
            ls_Format := or_empty (ls_Format (lc_Console l)) ''line''\<rparr>;
          file = (lc_File l)\<lparr>ls_Level := or_empty (ls_Level (lc_File l)) ''info'',
            ls_Format := or_empty (ls_Format (lc_File l)) ''json''\<rparr>
      in \<lparr>lc_Console = (if \<not> ls_Enabled console \<and> \<not> ls_Enabled file then console\<lparr>ls_Enabled := True\<rparr>
                         else console),
          lc_File = file\<rparr>)"

definition defaults_http_ingest :: "http_ingest \<Rightarrow> http_ingest" where
  "defaults_http_ingest h = h
     \<lparr>hi_Listen := or_blank (hi_Listen h) '':8080'',
      hi_HealthPath := or_blank (hi_HealthPath h) ''/healthz'',
      hi_ReadyPath := or_blank (hi_ReadyPath h) ''/readyz'',
      hi_IngestPath := or_blank (hi_IngestPath h) ''/ingest'',
      hi_MaxBodyBytes := or_positive (hi_MaxBodyBytes h) (push_bit 20 2)\<rparr>"

text \<open>A negative delay becomes zero, and zero the default.\<close>

definition nack_delay :: "int64 \<Rightarrow> int64" where
  "nack_delay d = (let d1 = (if d < 0 then 0 else d) in or_nonzero d1 1000)"

definition defaults_nats_ingest :: "nats_ingest \<Rightarrow> nats_ingest" where
  "defaults_nats_ingest n = n
     \<lparr>ni_URL := or_list (normalizeNATSURLs (ni_URL n)) [''nats://127.0.0.1:4222''],
      ni_Subject := ''alerting.events'', ni_Stream := ''ALERTING_EVENTS'',
      ni_ConsumerName := ''alerting-ingest'', ni_DeliverGroup := ''alerting-workers'',
      ni_Workers := or_nonzero (ni_Workers n) 1,
      ni_AckWaitSec := or_positive (ni_AckWaitSec n) 30,
      ni_NackDelayMS := nack_delay (ni_NackDelayMS n),
      ni_MaxDeliver := or_nonzero (ni_MaxDeliver n) (-1),
      ni_MaxAckPending := or_positive (ni_MaxAckPending n) 2048\<rparr>"

definition defaults_ingest :: "string \<Rightarrow> ingest_config \<Rightarrow> ingest_config" where
  "defaults_ingest mode g =
     (let http = defaults_http_ingest (ig_HTTP g) in
      if mode = ServiceModeSingle
      then \<lparr>ig_HTTP = http, ig_NATS = (ig_NATS g)\<lparr>ni_Enabled := False\<rparr>\<rparr>
      else let nats = defaults_nats_ingest (ig_NATS g) in
        \<lparr>ig_HTTP = (if \<not> hi_Enabled http \<and> \<not> ni_Enabled nats then http\<lparr>hi_Enabled := True\<rparr> else http),
         ig_NATS = nats\<rparr>)"

definition defaults_queue :: "string \<Rightarrow> string list \<Rightarrow> notify_queue \<Rightarrow> notify_queue" where
  "defaults_queue mode ingestURL q0 =
     (let q = (if mode = ServiceModeSingle then q0\<lparr>nq_Enabled := False, nq_DLQ := False\<rparr> else q0) in
      if mode = ServiceModeNATS
      then q\<lparr>nq_URL := ingestURL,
             nq_AckWaitSec := or_positive (nq_AckWaitSec q) 30,
             nq_NackDelayMS := nack_delay (nq_NackDelayMS q),
             nq_MaxDeliver := or_nonzero (nq_MaxDeliver q) (-1),
             nq_MaxAckPending := or_positive (nq_MaxAckPending q) 2048\<rparr>
      else q\<lparr>nq_URL := []\<rparr>)"

definition defaults_telegram :: "telegram_notifier \<Rightarrow> telegram_notifier" where
  "defaults_telegram t = t
     \<lparr>tg_APIBase := or_empty (tg_APIBase t) ''https://api.telegram.org'',
      tg_Retry := fillNotifyRetryDefaults (tg_Retry t)\<rparr>"

definition defaults_http :: "http_notifier \<Rightarrow> http_notifier" where
  "defaults_http h = h
     \<lparr>hn_Method := or_empty (hn_Method h) ''POST'',
      hn_TimeoutSec := or_positive (hn_TimeoutSec h) 10,
      hn_Retry := fillNotifyRetryDefaults (hn_Retry h)\<rparr>"

definition defaults_mattermost :: "mattermost_config \<Rightarrow> mattermost_config" where
  "defaults_mattermost m = m
     \<lparr>mm_TimeoutSec := or_positive (mm_TimeoutSec m) 10,
      mm_Retry := fillNotifyRetryDefaults (mm_Retry m)\<rparr>"

definition defaults_notify :: "string \<Rightarrow> string list \<Rightarrow> notify_config \<Rightarrow> notify_config" where
  "defaults_notify mode ingestURL n = n
     \<lparr>nc_RepeatEverySec := or_positive (nc_RepeatEverySec n) 300,
      nc_RepeatOn := or_list (nc_RepeatOn n) [''firing''],
      nc_Queue := defaults_queue mode ingestURL (nc_Queue n),
      nc_Telegram := defaults_telegram (nc_Telegram n),
      nc_HTTP := defaults_http (nc_HTTP n),
      nc_Mattermost := defaults_mattermost (nc_Mattermost n),
      nc_Jira := fillTrackerNotifierDefaults (nc_Jira n),
      nc_YouTrack := fillTrackerNotifierDefaults (nc_YouTrack n)\<rparr>"

definition defaults_ui_nats :: "string list \<Rightarrow> ui_nats \<Rightarrow> ui_nats" where
  "defaults_ui_nats ingestURL n =
     (let url = normalizeNATSURLs (un_URL n) in n
      \<lparr>un_URL := (if length url = 0 then if length ingestURL > 0 then ingestURL else [''nats://127.0.0.1:4222'']
                  else url),
       un_RegistryBucket := or_blank (un_RegistryBucket n) ''ui_registry'',
       un_RegistryTTLSec := or_positive (un_RegistryTTLSec n) 30,
       un_StaleAfterSec := or_positive (un_StaleAfterSec n) 10,
       un_OfflineAfterSec := or_positive (un_OfflineAfterSec n) 20\<rparr>)"

definition defaults_ui :: "string list \<Rightarrow> ui_config \<Rightarrow> ui_config" where
  "defaults_ui ingestURL u = u
     \<lparr>ui_Listen := or_blank (ui_Listen u) '':8090'',
      ui_BasePath := normalizeUIBasePath (ui_BasePath u),
      ui_RefreshSec := or_positive (ui_RefreshSec u) 2,
      ui_NATS := defaults_ui_nats ingestURL (ui_NATS u),
      ui_Health_TimeoutSec := or_positive (ui_Health_TimeoutSec u) 2\<rparr>"

definition defaults_rule :: "int64 \<Rightarrow> rule_config \<Rightarrow> rule_config" where
  "defaults_rule repeatEvery r = r
     \<lparr>rc_Pending := (rc_Pending r)\<lparr>rp_DelaySec := or_positive (rp_DelaySec (rc_Pending r)) 300\<rparr>,
      rc_Notify := (rc_Notify r)\<lparr>rn_RepeatEverySec := or_positive (rn_RepeatEverySec (rc_Notify r)) repeatEvery\<rparr>\<rparr>"

definition applyDefaults :: "config \<Rightarrow> config" where
  "applyDefaults cfg =
     (let service = defaults_service (cf_Service cfg);
          ingest = defaults_ingest (sc_Mode service) (cf_Ingest cfg);
          urls = ni_URL (ig_NATS ingest);
          notify = defaults_notify (sc_Mode service) urls (cf_Notify cfg)
      in \<lparr>cf_Service = service, cf_Log = defaults_log (cf_Log cfg), cf_Ingest = ingest,
          cf_Notify = notify, cf_UI = defaults_ui urls (cf_UI cfg),
          cf_Rule = map (defaults_rule (nc_RepeatEverySec notify)) (cf_Rule cfg)\<rparr>)"

section \<open>Facts\<close>

lemmas or_defs = or_blank_def or_empty_def or_positive_def or_nonzero_def or_list_def nack_delay_def

text \<open>A filled field stays: each filler is idempotent when its fallback passes its own test.\<close>

lemma or_blank_idem [simp]: "or_blank (or_blank x d) d = or_blank x d"
  by (simp add: or_blank_def)

lemma or_empty_idem [simp]: "or_empty (or_empty x d) d = or_empty x d"
  by (simp add: or_empty_def)

lemma or_positive_idem [simp]: "or_positive (or_positive n d) d = or_positive n d"
  by (simp add: or_positive_def)

lemma or_nonzero_idem [simp]: "or_nonzero (or_nonzero n d) d = or_nonzero n d"
  by (simp add: or_nonzero_def)

lemma or_list_idem [simp]: "or_list (or_list xs d) d = or_list xs d"
  by (simp add: or_list_def)

lemma nack_delay_idem [simp]: "nack_delay (nack_delay d) = nack_delay d"
  by (simp add: nack_delay_def or_nonzero_def)

lemma normalizeNATSURLs_idem [simp]: "normalizeNATSURLs (normalizeNATSURLs us) = normalizeNATSURLs us"
  by (simp add: normalizeNATSURLs_def)

lemma normalizeNATSURLs_Nil [simp]: "normalizeNATSURLs us = [] \<longleftrightarrow> us = []"
  by (simp add: normalizeNATSURLs_def)

lemma defaults_retry_idem [simp]:
  "fillNotifyRetryDefaults (fillNotifyRetryDefaults r) = fillNotifyRetryDefaults r"
  by (simp add: fillNotifyRetryDefaults_def)

lemma defaults_tracker_action_idem [simp]:
  "fillTrackerActionDefaults (fillTrackerActionDefaults a c) c = fillTrackerActionDefaults a c"
  by (simp add: fillTrackerActionDefaults_def)

lemma defaults_tracker_idem [simp]:
  "fillTrackerNotifierDefaults (fillTrackerNotifierDefaults t) = fillTrackerNotifierDefaults t"
  by (simp add: fillTrackerNotifierDefaults_def)

lemma defaults_service_idem [simp]: "defaults_service (defaults_service s) = defaults_service s"
  by (simp add: defaults_service_def)

lemma defaults_log_idem [simp]: "defaults_log (defaults_log l) = defaults_log l"
  by (simp add: defaults_log_def Let_def)

lemma defaults_http_ingest_idem [simp]:
  "defaults_http_ingest (defaults_http_ingest h) = defaults_http_ingest h"
  by (simp add: defaults_http_ingest_def)

lemma defaults_nats_ingest_idem [simp]:
  "defaults_nats_ingest (defaults_nats_ingest n) = defaults_nats_ingest n"
proof -
  have "TrimSpace ''nats://127.0.0.1:4222'' = ''nats://127.0.0.1:4222''" by code_simp
  then show ?thesis
    by (simp add: defaults_nats_ingest_def) (simp add: or_list_def normalizeNATSURLs_def)
qed

lemma defaults_ingest_idem [simp]: "defaults_ingest m (defaults_ingest m g) = defaults_ingest m g"
proof -
  have http: "defaults_http_ingest (h\<lparr>hi_Enabled := b\<rparr>) = (defaults_http_ingest h)\<lparr>hi_Enabled := b\<rparr>" for h b
    by (simp add: defaults_http_ingest_def)
  show ?thesis by (simp add: defaults_ingest_def Let_def http)
qed

lemma defaults_queue_idem [simp]: "defaults_queue m us (defaults_queue m us q) = defaults_queue m us q"
  by (simp add: defaults_queue_def Let_def)

lemma defaults_notify_idem [simp]: "defaults_notify m us (defaults_notify m us n) = defaults_notify m us n"
  by (simp add: defaults_notify_def defaults_telegram_def defaults_http_def defaults_mattermost_def)

lemma defaults_ingest_urls:
  "un_URL (defaults_ui_nats us n) \<noteq> []"
  by (simp add: defaults_ui_nats_def Let_def)

lemma defaults_rule_idem [simp]: "defaults_rule k (defaults_rule k r) = defaults_rule k r"
  by (simp add: defaults_rule_def)

end
