(* ===== verification/Config_Validate.thy ===== *)
theory Config_Validate
  imports Notify_Off
begin

text \<open>
  \<open>validateConfig\<close> of \<open>internal/config/config.go\<close> with everything it calls. A chain of
  \<open>if ... { return err }\<close> is a list of checks whose first error is returned
  (\<open>first_error\<close>). The regular expression compiler, the template parser and
  \<open>url.Parse\<close> are libraries and come as the record \<open>config_env\<close>.

  \<open>validateValuePredicate\<close> writes the compiled expressions through the predicate's
  pointer, so a successful validation returns the configuration with the predicates compiled.
\<close>

section \<open>Checks\<close>

definition guard :: "bool \<Rightarrow> error \<Rightarrow> error option" where
  "guard c e = (if c then Some e else None)"

fun first_error :: "error option list \<Rightarrow> error option" where
  "first_error [] = None"
| "first_error (None # rest) = first_error rest"
| "first_error (Some e # rest) = Some e"

definition blank :: "string \<Rightarrow> bool" where
  "blank s \<longleftrightarrow> TrimSpace s = []"

text \<open>A loop with its index: the first error of the body.\<close>

fun loop_error :: "(nat \<Rightarrow> 'a \<Rightarrow> error option) \<Rightarrow> nat \<Rightarrow> 'a list \<Rightarrow> error option" where
  "loop_error body i [] = None"
| "loop_error body i (x # xs) =
     (case body i x of Some e \<Rightarrow> Some e | None \<Rightarrow> loop_error body (Suc i) xs)"

record parsed_url =
  pu_Scheme :: string
  pu_Host :: string
  pu_RawQuery :: string
  pu_Fragment :: string

record 't config_env =
  ce_compile :: "string \<Rightarrow> regex result"
  ce_template :: "string \<Rightarrow> string \<Rightarrow> 't result"
  ce_url :: "string \<Rightarrow> parsed_url result"

section \<open>Leaf validators\<close>

definition validateMessageTemplate :: "'t config_env \<Rightarrow> string \<Rightarrow> string \<Rightarrow> error option" where
  "validateMessageTemplate env path body =
     (let trimmed = TrimSpace body in
      if trimmed = [] then Some (ErrFmt ''%s is required'' [path])
      else (case ce_template env path trimmed of
          Inl err \<Rightarrow> Some (ErrWrap ''%s is invalid: %w'' [path] err)
        | Inr _ \<Rightarrow> None))"

definition validateLogSink :: "string \<Rightarrow> log_sink \<Rightarrow> bool \<Rightarrow> error option" where
  "validateLogSink name sink requirePath =
     (if \<not> ls_Enabled sink then None
      else if ToLower (TrimSpace (ls_Level sink)) \<notin> {''debug'', ''info'', ''warn'', ''error'', ''panic''}
      then Some (ErrFmt ''%s.level has unsupported value %q'' [name, ls_Level sink])
      else if ToLower (TrimSpace (ls_Format sink)) \<notin> {''line'', ''json''}
      then Some (ErrFmt ''%s.format has unsupported value %q'' [name, ls_Format sink])
      else if requirePath \<and> blank (ls_Path sink) then Some (ErrFmt ''%s.path is required'' [name])
      else None)"

definition validateAbsoluteHTTPURL :: "'t config_env \<Rightarrow> string \<Rightarrow> string \<Rightarrow> error option" where
  "validateAbsoluteHTTPURL env path raw =
     (case ce_url env (TrimSpace raw) of
        Inl err \<Rightarrow> Some (ErrWrap ''%s is invalid: %w'' [path] err)
      | Inr parsed \<Rightarrow> first_error
         [guard (pu_Scheme parsed \<noteq> ''http'' \<and> pu_Scheme parsed \<noteq> ''https'')
            (ErrFmt ''%s must use http or https scheme'' [path]),
          guard (pu_Host parsed = []) (ErrFmt ''%s must include host'' [path]),
          guard (pu_RawQuery parsed \<noteq> [] \<or> pu_Fragment parsed \<noteq> [])
            (ErrFmt ''%s must not include query or fragment'' [path])])"

section \<open>Trackers\<close>

definition validate_header :: "'t config_env \<Rightarrow> string \<Rightarrow> string \<times> string \<Rightarrow> error option" where
  "validate_header env pathPrefix entry = (case entry of (header, value) \<Rightarrow>
     first_error
       [guard (blank header) (ErrFmt ''%s.headers contains empty key'' [pathPrefix]),
        guard (blank value) (ErrFmt ''%s.headers[%q] is empty'' [pathPrefix, header]),
        validateMessageTemplate env (pathPrefix @ ''.headers.'' @ header) value])"

definition validateTrackerAction :: "'t config_env \<Rightarrow> string \<Rightarrow> tracker_action \<Rightarrow> bool \<Rightarrow> error option" where
  "validateTrackerAction env pathPrefix cfg isCreate =
     first_error
       [guard (blank (tc_Path cfg)) (ErrFmt ''%s.path is required'' [pathPrefix]),
        guard (blank (tc_Method cfg)) (ErrFmt ''%s.method is required'' [pathPrefix]),
        guard (length (tc_SuccessStatus cfg) = 0) (ErrFmt ''%s.success_status is required'' [pathPrefix]),
        loop_error (\<lambda>i statusCode. guard (statusCode < 100 \<or> statusCode > 599)
            (ErrFmt ''%s.success_status[%d] must be valid HTTP status code'' [pathPrefix, FormatInt (int i)]))
          0 (tc_SuccessStatus cfg),
        guard (isCreate \<and> blank (tc_RefJSONPath cfg))
          (ErrFmt ''%s.ref_json_path is required for create action'' [pathPrefix]),
        validateMessageTemplate env (pathPrefix @ ''.path'') (tc_Path cfg),
        (if \<not> blank (tc_BodyTemplate cfg)
         then validateMessageTemplate env (pathPrefix @ ''.body_template'') (tc_BodyTemplate cfg) else None),
        loop_error (\<lambda>i. validate_header env pathPrefix) 0 (tc_Headers cfg)]"

definition validateTrackerAuth :: "string \<Rightarrow> tracker_auth \<Rightarrow> error option" where
  "validateTrackerAuth pathPrefix cfg =
     (let authType = ToLower (TrimSpace (ta_Type cfg)) in
      if authType = [] then None
      else if authType = ''none'' then None
      else if authType = ''bearer'' then
        guard (blank (ta_Token cfg)) (ErrFmt ''%s.token is required when %s.type=bearer'' [pathPrefix, pathPrefix])
      else if authType = ''basic'' then first_error
        [guard (blank (ta_Username cfg)) (ErrFmt ''%s.username is required when %s.type=basic'' [pathPrefix, pathPrefix]),
         guard (blank (ta_Password cfg)) (ErrFmt ''%s.password is required when %s.type=basic'' [pathPrefix, pathPrefix])]
      else if authType = ''header'' then first_error
        [guard (blank (ta_Header cfg)) (ErrFmt ''%s.header is required when %s.type=header'' [pathPrefix, pathPrefix]),
         guard (blank (ta_Token cfg)) (ErrFmt ''%s.token is required when %s.type=header'' [pathPrefix, pathPrefix])]
      else Some (ErrFmt ''%s.type has unsupported value %q'' [pathPrefix, ta_Type cfg]))"

definition validateTrackerNotifier :: "'t config_env \<Rightarrow> string \<Rightarrow> tracker_notifier \<Rightarrow> error option" where
  "validateTrackerNotifier env channel cfg =
     (let prefix = ''notify.'' @ channel in
      if \<not> tk_Enabled cfg then None
      else first_error
        [guard (blank (tk_BaseURL cfg)) (ErrFmt ''%s.base_url is required when %s.enabled=true'' [prefix, prefix]),
         guard (tk_TimeoutSec cfg \<le> 0) (ErrFmt ''%s.timeout_sec must be >0 when %s.enabled=true'' [prefix, prefix]),
         validateTrackerAction env (prefix @ ''.create'') (tk_Create cfg) True,
         validateTrackerAction env (prefix @ ''.resolve'') (tk_Resolve cfg) False,
         validateTrackerAuth (prefix @ ''.auth'') (tk_Auth cfg)])"

section \<open>Templates and routes\<close>

type_synonym template_index = "(string, (string, named_template) gmap) gmap"

fun collect_loop ::
    "'t config_env \<Rightarrow> string \<Rightarrow> nat \<Rightarrow> named_template list \<Rightarrow> (string, named_template) gmap
      \<Rightarrow> (string, named_template) gmap result" where
  "collect_loop env pathPrefix i [] byName = Inr byName"
| "collect_loop env pathPrefix i (t # ts) byName =
     (let name = TrimSpace (tpl_Name t); nameKey = ToLower name in
      if name = [] then Inl (ErrFmt ''%s[%d].name is required'' [pathPrefix, FormatInt (int i)])
      else if map_get byName nameKey \<noteq> None then Inl (ErrFmt ''duplicate %s name %q'' [pathPrefix, name])
      else (case validateMessageTemplate env (pathPrefix @ ''['' @ FormatInt (int i) @ ''].message'') (tpl_Message t) of
          Some err \<Rightarrow> Inl err
        | None \<Rightarrow> collect_loop env pathPrefix (Suc i) ts (map_put nameKey (t\<lparr>tpl_Name := name\<rparr>) byName)))"

definition collectChannelTemplates ::
    "'t config_env \<Rightarrow> template_index \<Rightarrow> string \<Rightarrow> string \<Rightarrow> named_template list \<Rightarrow> template_index result" where
  "collectChannelTemplates env index channel pathPrefix templates =
     (if length templates = 0 then Inr index
      else (case collect_loop env pathPrefix 0 templates [] of
          Inl err \<Rightarrow> Inl err
        | Inr byName \<Rightarrow> Inr (map_put channel byName index)))"

fun templates_loop :: "'t config_env \<Rightarrow> notify_config \<Rightarrow> string list \<Rightarrow> template_index \<Rightarrow> template_index result" where
  "templates_loop env cfg [] byChannel = Inr byChannel"
| "templates_loop env cfg (channel # rest) byChannel =
     (case collectChannelTemplates env byChannel channel (''notify.'' @ channel @ ''.name-template'')
             (NotifyChannelTemplates cfg channel) of
        Inl err \<Rightarrow> Inl err
      | Inr byChannel1 \<Rightarrow> templates_loop env cfg rest byChannel1)"

definition validateNotifyTemplates :: "'t config_env \<Rightarrow> notify_config \<Rightarrow> template_index result" where
  "validateNotifyTemplates env cfg = templates_loop env cfg NotifyChannelNames []"

definition route_key :: "rule_route \<Rightarrow> string" where
  "route_key route =
     (let routeKey = ToLower (TrimSpace (ro_Name route)) in
      if routeKey = [] then NormalizeNotifyChannel (ro_Channel route) else routeKey)"

definition check_active_only :: "notify_config \<Rightarrow> nat \<Rightarrow> string \<Rightarrow> error option" where
  "check_active_only cfg index channel =
     (if channel = NotifyChannelTelegram then
        guard (blank (tg_ActiveChatID (nc_Telegram cfg)))
          (ErrFmt ''notify.route[%d] active_only requires notify.telegram.active_chat_id'' [FormatInt (int index)])
      else if channel = NotifyChannelMattermost then
        guard (blank (mm_ActiveChannelID (nc_Mattermost cfg)))
          (ErrFmt ''notify.route[%d] active_only requires notify.mattermost.active_channel_id'' [FormatInt (int index)])
      else Some (ErrFmt ''notify.route[%d] active_only is supported only for telegram and mattermost''
             [FormatInt (int index)]))"

definition check_route ::
    "notify_config \<Rightarrow> template_index \<Rightarrow> string list \<Rightarrow> nat \<Rightarrow> rule_route \<Rightarrow> error option" where
  "check_route cfg templates used index route =
     (let channel = NormalizeNotifyChannel (ro_Channel route);
          templateName = TrimSpace (ro_Template route);
          missing = ErrFmt (''notify.route[%d].template %q is not defined in ['' @ ''[notify.%s.name-template]'' @ '']'')
                      [FormatInt (int index), ro_Template route, channel];
          mode = NormalizeNotifyRouteMode (ro_Mode route)
      in first_error
        [guard (\<not> IsSupportedNotifyChannel channel)
           (ErrFmt ''notify.route[%d].channel has unsupported value %q'' [FormatInt (int index), ro_Channel route]),
         guard (\<not> NotifyChannelEnabled cfg channel)
           (ErrFmt ''notify.route[%d].channel %q is disabled in [notify.%s]''
             [FormatInt (int index), ro_Channel route, channel]),
         guard (route_key route \<in> set used) (ErrFmt ''notify.route has duplicate key %q'' [route_key route]),
         guard (templateName = []) (ErrFmt ''notify.route[%d].template is required'' [FormatInt (int index)]),
         (case map_get templates channel of None \<Rightarrow> Some missing
          | Some templatesByName \<Rightarrow> guard (map_get templatesByName (ToLower templateName) = None) missing),
         guard (\<not> IsSupportedNotifyRouteMode mode)
           (ErrFmt ''notify.route[%d].mode has unsupported value %q'' [FormatInt (int index), ro_Mode route]),
         (if mode \<noteq> NotifyRouteModeActiveOnly then None else check_active_only cfg index channel)])"

fun routes_loop ::
    "notify_config \<Rightarrow> template_index \<Rightarrow> string list \<Rightarrow> nat \<Rightarrow> rule_route list \<Rightarrow> error option" where
  "routes_loop cfg templates used index [] = None"
| "routes_loop cfg templates used index (route # rest) =
     (case check_route cfg templates used index route of Some e \<Rightarrow> Some e
      | None \<Rightarrow> routes_loop cfg templates (route_key route # used) (Suc index) rest)"

definition validateRuleNotifyRoutes :: "notify_config \<Rightarrow> rule_config \<Rightarrow> template_index \<Rightarrow> error option" where
  "validateRuleNotifyRoutes cfg rule templates = routes_loop cfg templates [] 0 (rn_Route (rc_Notify rule))"

section \<open>Rules\<close>

definition rule_head_checks :: "rule_config \<Rightarrow> error option list" where
  "rule_head_checks rule =
     [guard (blank (rc_Name rule)) (ErrMsg ''name is required''),
      guard (rc_AlertType rule \<notin> {''count_total'', ''count_window'', ''missing_heartbeat''})
        (ErrFmt ''unsupported alert_type %q'' [rc_AlertType rule]),
      guard (length (rm_Type (rc_Match rule)) = 0) (ErrMsg ''match.type is required''),
      loop_error (\<lambda>_ t. guard (t \<noteq> ''event'' \<and> t \<noteq> ''agg'') (ErrFmt ''unsupported match.type value %q'' [t]))
        0 (rm_Type (rc_Match rule)),
      guard (length (rm_Var (rc_Match rule)) = 0) (ErrMsg ''match.var is required''),
      guard (length (rc_Key_FromTags rule) = 0) (ErrMsg ''key.from_tags is required'')]"

text \<open>The thresholds of each alert type, the second \<open>switch\<close> of \<open>validateRule\<close>.\<close>

definition threshold_checks :: "rule_config \<Rightarrow> error option list" where
  "threshold_checks rule =
     (let r = rc_Raise rule; v = rc_Resolve rule in
      if rc_AlertType rule = ''count_total'' then
        [guard (rr_N r < 1) (ErrMsg ''raise.n must be >=1''),
         guard (rv_SilenceSec v < 0) (ErrMsg ''resolve.silence_sec must be >=0''),
         guard (rv_HysteresisSec v < 0) (ErrMsg ''resolve.hysteresis_sec must be >=0''),
         guard (rr_WindowSec r > 0 \<or> rr_MissingSec r > 0)
           (ErrMsg ''count_total forbids raise.window_sec and raise.missing_sec'')]
      else if rc_AlertType rule = ''count_window'' then
        [guard (rr_N r < 1) (ErrMsg ''raise.n must be >=1''),
         guard (rr_WindowSec r \<le> 0) (ErrMsg ''raise.window_sec must be >0''),
         guard (rv_SilenceSec v < 0) (ErrMsg ''resolve.silence_sec must be >=0''),
         guard (rv_HysteresisSec v < 0) (ErrMsg ''resolve.hysteresis_sec must be >=0''),
         guard (rr_MissingSec r > 0) (ErrMsg ''count_window forbids raise.missing_sec'')]
      else if rc_AlertType rule = ''missing_heartbeat'' then
        [guard (rr_MissingSec r \<le> 0) (ErrMsg ''raise.missing_sec must be >0''),
         guard (rv_HysteresisSec v < 0) (ErrMsg ''resolve.hysteresis_sec must be >=0''),
         guard (rr_N r > 0 \<or> rr_WindowSec r > 0 \<or> rv_SilenceSec v \<noteq> 0)
           (ErrMsg ''missing_heartbeat forbids raise.n, raise.window_sec, resolve.silence_sec'')]
      else [])"

definition compile_predicate :: "'t config_env \<Rightarrow> rule_config \<Rightarrow> rule_config result" where
  "compile_predicate env rule =
     (case rm_Value (rc_Match rule) of None \<Rightarrow> Inr rule
      | Some p \<Rightarrow> (case validateValuePredicate (ce_compile env) p of
            Inl err \<Rightarrow> Inl (ErrWrap ''match.value: %w'' [] err)
          | Inr q \<Rightarrow> Inr (rule\<lparr>rc_Match := (rc_Match rule)\<lparr>rm_Value := Some q\<rparr>\<rparr>)))"

definition rule_tail_checks :: "rule_config \<Rightarrow> error option list" where
  "rule_tail_checks rule =
     [guard (rp_Enabled (rc_Pending rule) \<and> rp_DelaySec (rc_Pending rule) \<le> 0)
        (ErrMsg ''pending.delay_sec must be >0 when pending.enabled=true''),
      guard (length (rn_Route (rc_Notify rule)) = 0) (ErrMsg ''notify.route is required''),
      validateNotifyOff (rn_Off (rc_Notify rule))]"

definition validateRule :: "'t config_env \<Rightarrow> rule_config \<Rightarrow> rule_config result" where
  "validateRule env rule =
     (case first_error (rule_head_checks rule) of Some e \<Rightarrow> Inl e
      | None \<Rightarrow> (case compile_predicate env rule of Inl e \<Rightarrow> Inl e
          | Inr rule1 \<Rightarrow> (case first_error (rule_tail_checks rule1 @ threshold_checks rule1) of
                Some e \<Rightarrow> Inl e | None \<Rightarrow> Inr rule1)))"

fun rules_loop ::
    "'t config_env \<Rightarrow> notify_config \<Rightarrow> template_index \<Rightarrow> string list \<Rightarrow> nat \<Rightarrow> rule_config list
      \<Rightarrow> rule_config list result" where
  "rules_loop env notify templates ruleNames i [] = Inr []"
| "rules_loop env notify templates ruleNames i (rule # rest) =
     (let located = ErrWrap ''rule[%d] %q: %w'' [FormatInt (int i), rc_Name rule] in
      case validateRule env rule of Inl err \<Rightarrow> Inl (located err)
      | Inr rule1 \<Rightarrow>
          if rc_Name rule \<in> set ruleNames then Inl (ErrFmt ''duplicate rule name %q'' [rc_Name rule])
          else (case validateRuleNotifyRoutes notify rule templates of Some err \<Rightarrow> Inl (located err)
            | None \<Rightarrow> (case rules_loop env notify templates (rc_Name rule # ruleNames) (Suc i) rest of
                  Inl err \<Rightarrow> Inl err | Inr rules \<Rightarrow> Inr (rule1 # rules))))"

section \<open>Configuration\<close>

definition service_checks :: "service_config \<Rightarrow> error option list" where
  "service_checks s =
     [guard (\<not> IsSupportedServiceMode (NormalizeServiceMode (sc_Mode s)))
        (ErrFmt ''service.mode has unsupported value %q'' [sc_Mode s]),
      guard (sc_RuntimeStateIdleSec s < 0) (ErrMsg ''service.runtime_state_idle_sec must be >=0''),
      guard (sc_RuntimeStateMax s < 0) (ErrMsg ''service.runtime_state_max must be >=0'')]"

definition ingest_checks :: "string \<Rightarrow> ingest_config \<Rightarrow> error option list" where
  "ingest_checks mode g =
     (let h = ig_HTTP g; n = ig_NATS g in
      [guard (blank (hi_Listen h)) (ErrMsg ''ingest.http.listen is required''),
       guard (blank (hi_HealthPath h)) (ErrMsg ''ingest.http.health_path is required''),
       guard (blank (hi_ReadyPath h)) (ErrMsg ''ingest.http.ready_path is required''),
       guard (blank (hi_IngestPath h)) (ErrMsg ''ingest.http.ingest_path is required''),
       guard (mode = ServiceModeSingle \<and> \<not> hi_Enabled h)
         (ErrMsg ''ingest.http.enabled must be true when service.mode=single''),
       (if mode = ServiceModeNATS then first_error
          [guard (length (ni_URL n) = 0) (ErrMsg ''ingest.nats.url is required''),
           loop_error (\<lambda>i url. guard (blank url) (ErrFmt ''ingest.nats.url[%d] is empty'' [FormatInt (int i)])) 0 (ni_URL n),
           (if ni_Enabled n then first_error
              [guard (ni_Workers n \<le> 0) (ErrMsg ''ingest.nats.workers must be >0 when ingest.nats.enabled=true''),
               guard (ni_AckWaitSec n \<le> 0) (ErrMsg ''ingest.nats.ack_wait_sec must be >0 when ingest.nats.enabled=true''),
               guard (ni_NackDelayMS n < 0) (ErrMsg ''ingest.nats.nack_delay_ms must be >=0''),
               guard (ni_MaxDeliver n = 0 \<or> ni_MaxDeliver n < -1) (ErrMsg ''ingest.nats.max_deliver must be -1 or >0''),
               guard (ni_MaxAckPending n \<le> 0)
                 (ErrMsg ''ingest.nats.max_ack_pending must be >0 when ingest.nats.enabled=true'')]
            else None)]
        else None)])"

definition ui_checks :: "ui_config \<Rightarrow> error option list" where
  "ui_checks u =
     [guard (blank (ui_Listen u)) (ErrMsg ''ui.listen is required when ui.enabled=true''),
      guard (blank (ui_BasePath u)) (ErrMsg ''ui.base_path is required when ui.enabled=true''),
      guard (\<not> ub_Enabled (ui_Auth_Basic u)) (ErrMsg ''ui.auth.basic.enabled must be true when ui.enabled=true''),
      guard (blank (ub_Username (ui_Auth_Basic u))) (ErrMsg ''ui.auth.basic.username is required when ui.enabled=true''),
      guard (blank (ub_Password (ui_Auth_Basic u))) (ErrMsg ''ui.auth.basic.password is required when ui.enabled=true''),
      guard (blank (ui_Service_PublicBaseURL u)) (ErrMsg ''ui.service.public_base_url is required when ui.enabled=true''),
      guard (ui_RefreshSec u \<le> 0) (ErrMsg ''ui.refresh_sec must be >0 when ui.enabled=true''),
      guard (ui_Health_TimeoutSec u \<le> 0) (ErrMsg ''ui.health.timeout_sec must be >0 when ui.enabled=true'')]"

definition registry_checks :: "'t config_env \<Rightarrow> ui_config \<Rightarrow> error option list" where
  "registry_checks env u =
     (let n = ui_NATS u in
      [(if \<not> blank (ui_Service_PublicBaseURL u) then first_error
          [validateAbsoluteHTTPURL env ''ui.service.public_base_url'' (ui_Service_PublicBaseURL u),
           guard (length (un_URL n) = 0) (ErrMsg ''ui.nats.url is required when ui.service.public_base_url is set''),
           guard (blank (un_RegistryBucket n))
             (ErrMsg ''ui.nats.registry_bucket is required when ui.service.public_base_url is set'')]
        else None),
       loop_error (\<lambda>i url. guard (blank url) (ErrFmt ''ui.nats.url[%d] is empty'' [FormatInt (int i)])) 0 (un_URL n),
       guard (un_RegistryTTLSec n \<le> 0) (ErrMsg ''ui.nats.registry_ttl_sec must be >0''),
       guard (un_StaleAfterSec n \<le> 0) (ErrMsg ''ui.nats.stale_after_sec must be >0''),
       guard (un_OfflineAfterSec n \<le> 0) (ErrMsg ''ui.nats.offline_after_sec must be >0''),
       guard (un_StaleAfterSec n \<ge> un_OfflineAfterSec n)
         (ErrMsg ''ui.nats.stale_after_sec must be < ui.nats.offline_after_sec''),
       guard (un_OfflineAfterSec n \<ge> un_RegistryTTLSec n)
         (ErrMsg ''ui.nats.offline_after_sec must be < ui.nats.registry_ttl_sec'')])"

definition queue_checks :: "notify_queue \<Rightarrow> error option list" where
  "queue_checks q =
     [(if nq_Enabled q then first_error
         [guard (nq_AckWaitSec q \<le> 0) (ErrMsg ''notify.queue.ack_wait_sec must be >0 when notify.queue.enabled=true''),
          guard (nq_NackDelayMS q < 0) (ErrMsg ''notify.queue.nack_delay_ms must be >=0''),
          guard (nq_MaxDeliver q = 0 \<or> nq_MaxDeliver q < -1) (ErrMsg ''notify.queue.max_deliver must be -1 or >0''),
          guard (nq_MaxAckPending q \<le> 0)
            (ErrMsg ''notify.queue.max_ack_pending must be >0 when notify.queue.enabled=true'')]
       else None),
      guard (nq_DLQ q \<and> \<not> nq_Enabled q) (ErrMsg ''notify.queue.dlq requires notify.queue.enabled=true'')]"

definition transport_checks :: "'t config_env \<Rightarrow> notify_config \<Rightarrow> error option list" where
  "transport_checks env n =
     (let t = nc_Telegram n; m = nc_Mattermost n in
      [guard (tg_Enabled t \<and> blank (tg_BotToken t))
         (ErrMsg ''notify.telegram.bot_token is required when notify.telegram.enabled=true''),
       guard (tg_Enabled t \<and> blank (tg_ChatID t))
         (ErrMsg ''notify.telegram.chat_id is required when notify.telegram.enabled=true''),
       guard (hn_Enabled (nc_HTTP n) \<and> blank (hn_URL (nc_HTTP n)))
         (ErrMsg ''notify.http.url is required when notify.http.enabled=true'')]
      @ queue_checks (nc_Queue n) @
      [guard (mm_Enabled m \<and> blank (mm_BaseURL m))
         (ErrMsg ''notify.mattermost.base_url is required when notify.mattermost.enabled=true''),
       guard (mm_Enabled m \<and> blank (mm_BotToken m))
         (ErrMsg ''notify.mattermost.bot_token is required when notify.mattermost.enabled=true''),
       guard (mm_Enabled m \<and> blank (mm_ChannelID m))
         (ErrMsg ''notify.mattermost.channel_id is required when notify.mattermost.enabled=true''),
       guard (mm_Enabled m \<and> mm_TimeoutSec m \<le> 0)
         (ErrMsg ''notify.mattermost.timeout_sec must be >0 when notify.mattermost.enabled=true''),
       validateTrackerNotifier env ''jira'' (nc_Jira n),
       validateTrackerNotifier env ''youtrack'' (nc_YouTrack n)])"

definition validateConfig :: "'t config_env \<Rightarrow> config \<Rightarrow> config result" where
  "validateConfig env cfg =
     (case first_error
        (guard (length (cf_Rule cfg) = 0) (ErrMsg ''at least one rule is required'')
         # service_checks (cf_Service cfg)
         @ ingest_checks (NormalizeServiceMode (sc_Mode (cf_Service cfg))) (cf_Ingest cfg)
         @ [validateLogSink ''log.console'' (lc_Console (cf_Log cfg)) False,
            validateLogSink ''log.file'' (lc_File (cf_Log cfg)) True]
         @ (if ui_Enabled (cf_UI cfg) then ui_checks (cf_UI cfg) else [])
         @ registry_checks env (cf_UI cfg)
         @ transport_checks env (cf_Notify cfg)) of
        Some err \<Rightarrow> Inl err
      | None \<Rightarrow> (case validateNotifyTemplates env (cf_Notify cfg) of Inl err \<Rightarrow> Inl err
          | Inr templates \<Rightarrow>
              (case rules_loop env (cf_Notify cfg) templates [] 0 (cf_Rule cfg) of Inl err \<Rightarrow> Inl err
               | Inr rules \<Rightarrow> Inr (cfg\<lparr>cf_Rule := rules\<rparr>))))"

section \<open>Facts\<close>

lemma guard_None [simp]: "guard c e = None \<longleftrightarrow> \<not> c"
  by (simp add: guard_def)

lemma first_error_None: "first_error cs = None \<longleftrightarrow> (\<forall>c \<in> set cs. c = None)"
  by (induction cs rule: first_error.induct) auto

lemma first_error_simps [simp]:
  "first_error (c # cs) = None \<longleftrightarrow> c = None \<and> first_error cs = None"
  "first_error (cs @ ds) = None \<longleftrightarrow> first_error cs = None \<and> first_error ds = None"
  by (auto simp: first_error_None)

lemma loop_error_None: "loop_error body i xs = None \<longleftrightarrow> (\<forall>j < length xs. body (i + j) (xs ! j) = None)"
proof (induction xs arbitrary: i)
  case (Cons x xs)
  then show ?case
    by (cases "body i x") (auto simp: less_Suc_eq_0_disj)
qed simp

lemma loop_error_all:
  "(\<And>i x. body i x = None \<longleftrightarrow> P x) \<Longrightarrow> loop_error body i xs = None \<longleftrightarrow> (\<forall>x \<in> set xs. P x)"
  by (auto simp: loop_error_None all_set_conv_all_nth)

end
