(* ===== verification/Config_Merge.thy ===== *)
theory Config_Merge
  imports Config_Norm
begin

text \<open>
  Merging of configuration fragments, \<open>mergeConfig\<close> of \<open>internal/config/config.go\<close>
  with its helpers: a directory holds fragments that are laid over one another in the order
  of the file names. \<open>configMergeHints\<close> tells which booleans a fragment sets explicitly.

  An assignment through a destination pointer is the new value of the field. Structs are
  compared with the zero struct as Go compares them, field by field.
\<close>

section \<open>Merge hints\<close>

text \<open>\<open>boolMergeHint\<close>, and a pointer to a bool for the other hints.\<close>

record bool_merge_hint =
  bh_value :: bool
  bh_present :: bool

record ui_merge_hints =
  uh_Enabled :: bool_merge_hint
  uh_Basic_Enabled :: bool_merge_hint

record queue_merge_hints =
  qh_Enabled :: "bool option"
  qh_DLQ :: "bool option"

text \<open>\<open>channelMergeHints\<close> has the one field \<open>Enabled\<close>, which stands in its place.\<close>

record notify_merge_hints =
  nh_Repeat :: "bool option"
  nh_RepeatPerChannel :: "bool option"
  nh_OnPending :: "bool option"
  nh_Queue :: queue_merge_hints
  nh_Telegram :: "bool option"
  nh_HTTP :: "bool option"
  nh_Mattermost :: "bool option"
  nh_Jira :: "bool option"
  nh_YouTrack :: "bool option"

record config_merge_hints =
  ch_Notify :: notify_merge_hints
  ch_UI :: ui_merge_hints

text \<open>The values a TOML decoder hands to \<open>UnmarshalTOML\<close>; other types by their Go name.\<close>

datatype toml_value = TomlString string | TomlBool bool | TomlArray "toml_value list" | TomlOther string

fun toml_type :: "toml_value \<Rightarrow> string" where
  "toml_type (TomlString _) = ''string''"
| "toml_type (TomlBool _) = ''bool''"
| "toml_type (TomlArray _) = ''[]interface {}''"
| "toml_type (TomlOther t) = t"

fun boolMergeHint_UnmarshalTOML :: "toml_value \<Rightarrow> bool_merge_hint result" where
  "boolMergeHint_UnmarshalTOML (TomlBool value) = Inr \<lparr>bh_value = value, bh_present = True\<rparr>"
| "boolMergeHint_UnmarshalTOML v = Inl (ErrFmt ''unsupported bool hint type %T'' [toml_type v])"

fun string_values :: "toml_value list \<Rightarrow> string list result" where
  "string_values [] = Inr []"
| "string_values (TomlString s # rest) =
     (case string_values rest of Inl e \<Rightarrow> Inl e | Inr out \<Rightarrow> Inr (s # out))"
| "string_values (raw # rest) = Inl (ErrFmt ''string list contains non-string value %T'' [toml_type raw])"

fun StringList_UnmarshalTOML :: "toml_value \<Rightarrow> string list result" where
  "StringList_UnmarshalTOML (TomlString s) = Inr [s]"
| "StringList_UnmarshalTOML (TomlArray vs) = string_values vs"
| "StringList_UnmarshalTOML v = Inl (ErrFmt ''unsupported tag value type %T'' [toml_type v])"

definition notify_hasExplicitBool :: "notify_merge_hints \<Rightarrow> bool" where
  "notify_hasExplicitBool h \<longleftrightarrow>
     nh_Repeat h \<noteq> None \<or> nh_RepeatPerChannel h \<noteq> None \<or> nh_OnPending h \<noteq> None \<or>
     qh_Enabled (nh_Queue h) \<noteq> None \<or> qh_DLQ (nh_Queue h) \<noteq> None \<or>
     nh_Telegram h \<noteq> None \<or> nh_HTTP h \<noteq> None \<or> nh_Mattermost h \<noteq> None \<or>
     nh_Jira h \<noteq> None \<or> nh_YouTrack h \<noteq> None"

definition ui_hasExplicitBool :: "ui_merge_hints \<Rightarrow> bool" where
  "ui_hasExplicitBool h \<longleftrightarrow> bh_present (uh_Enabled h) \<or> bh_present (uh_Basic_Enabled h)"

section \<open>Which fragments have a section\<close>

definition hasAnyString :: "string list \<Rightarrow> bool" where
  "hasAnyString values \<longleftrightarrow> list_ex (\<lambda>v. TrimSpace v \<noteq> []) values"

definition hasAnyNonZero :: "int64 list \<Rightarrow> bool" where
  "hasAnyNonZero values \<longleftrightarrow> list_ex (\<lambda>v. v \<noteq> 0) values"

definition hasHTTPIngestConfig :: "http_ingest \<Rightarrow> bool" where
  "hasHTTPIngestConfig cfg \<longleftrightarrow>
     hi_Enabled cfg \<or> TrimSpace (hi_Listen cfg) \<noteq> [] \<or> TrimSpace (hi_HealthPath cfg) \<noteq> [] \<or>
     TrimSpace (hi_ReadyPath cfg) \<noteq> [] \<or> TrimSpace (hi_IngestPath cfg) \<noteq> [] \<or> hi_MaxBodyBytes cfg \<noteq> 0"

definition hasNATSIngestConfig :: "nats_ingest \<Rightarrow> bool" where
  "hasNATSIngestConfig cfg \<longleftrightarrow>
     ni_Enabled cfg \<or> length (ni_URL cfg) > 0 \<or> ni_Workers cfg \<noteq> 0 \<or> ni_AckWaitSec cfg \<noteq> 0 \<or>
     ni_NackDelayMS cfg \<noteq> 0 \<or> ni_MaxDeliver cfg \<noteq> 0 \<or> ni_MaxAckPending cfg \<noteq> 0"

definition hasIngestConfig :: "ingest_config \<Rightarrow> bool" where
  "hasIngestConfig cfg \<longleftrightarrow> hasHTTPIngestConfig (ig_HTTP cfg) \<or> hasNATSIngestConfig (ig_NATS cfg)"

definition hasTrackerActionConfig :: "tracker_action \<Rightarrow> bool" where
  "hasTrackerActionConfig cfg \<longleftrightarrow>
     hasAnyString [tc_Method cfg, tc_Path cfg, tc_BodyTemplate cfg, tc_RefJSONPath cfg] \<or>
     length (tc_Headers cfg) > 0 \<or> length (tc_SuccessStatus cfg) > 0"

definition hasTrackerNotifierConfig :: "tracker_notifier \<Rightarrow> bool" where
  "hasTrackerNotifierConfig cfg \<longleftrightarrow>
     tk_Enabled cfg \<or> hasAnyString [tk_BaseURL cfg] \<or> tk_TimeoutSec cfg \<noteq> 0 \<or>
     tk_Auth cfg \<noteq> zero_auth \<or> tk_Retry cfg \<noteq> zero_retry \<or> length (tk_NameTemplate cfg) > 0 \<or>
     hasTrackerActionConfig (tk_Create cfg) \<or> hasTrackerActionConfig (tk_Resolve cfg)"

definition hasNotifyConfig :: "notify_config \<Rightarrow> bool" where
  "hasNotifyConfig cfg \<longleftrightarrow>
     (let q = nc_Queue cfg; t = nc_Telegram cfg; h = nc_HTTP cfg; m = nc_Mattermost cfg in
      nc_Repeat cfg \<or> nc_RepeatEverySec cfg \<noteq> 0 \<or> length (nc_RepeatOn cfg) > 0 \<or>
      nc_RepeatPerChannel cfg \<or> nc_OnPending cfg \<or> nq_Enabled q \<or> nq_DLQ q \<or>
      hasAnyNonZero [nq_AckWaitSec q, nq_NackDelayMS q, nq_MaxDeliver q, nq_MaxAckPending q] \<or>
      tg_Enabled t \<or> hasAnyString [tg_BotToken t, tg_ChatID t, tg_ActiveChatID t, tg_APIBase t] \<or>
      tg_Retry t \<noteq> zero_retry \<or> length (tg_NameTemplate t) > 0 \<or>
      hn_Enabled h \<or> hasAnyString [hn_URL h, hn_Method h] \<or> hn_TimeoutSec h \<noteq> 0 \<or>
      length (hn_Headers h) > 0 \<or> hn_Retry h \<noteq> zero_retry \<or> length (hn_NameTemplate h) > 0 \<or>
      mm_Enabled m \<or> hasAnyString [mm_BaseURL m, mm_BotToken m, mm_ChannelID m, mm_ActiveChannelID m] \<or>
      mm_TimeoutSec m \<noteq> 0 \<or> mm_Retry m \<noteq> zero_retry \<or> length (mm_NameTemplate m) > 0 \<or>
      hasTrackerNotifierConfig (nc_Jira cfg) \<or> hasTrackerNotifierConfig (nc_YouTrack cfg))"

definition hasUIConfig :: "ui_config \<Rightarrow> bool" where
  "hasUIConfig cfg \<longleftrightarrow>
     (let n = ui_NATS cfg; b = ui_Auth_Basic cfg in
      ui_Enabled cfg \<or>
      hasAnyString [ui_Listen cfg, ui_BasePath cfg, ub_Username b, ub_Password b, un_RegistryBucket n,
        ui_Service_PublicBaseURL cfg] \<or>
      ui_RefreshSec cfg \<noteq> 0 \<or> ub_Enabled b \<or> length (un_URL n) > 0 \<or>
      hasAnyNonZero [un_RegistryTTLSec n, un_StaleAfterSec n, un_OfflineAfterSec n, ui_Health_TimeoutSec cfg])"

section \<open>Merging one field\<close>

definition applyBoolMerge :: "bool \<Rightarrow> bool \<Rightarrow> bool option \<Rightarrow> bool" where
  "applyBoolMerge dst value explicit =
     (case explicit of Some b \<Rightarrow> b | None \<Rightarrow> if value then True else dst)"

definition applyBoolHintMerge :: "bool \<Rightarrow> bool_merge_hint \<Rightarrow> bool" where
  "applyBoolHintMerge dst hint = (if bh_present hint then bh_value hint else dst)"

definition mergeString :: "string \<Rightarrow> string \<Rightarrow> string" where
  "mergeString dst src = (if TrimSpace src \<noteq> [] then src else dst)"

definition mergeNonZeroInt :: "int64 \<Rightarrow> int64 \<Rightarrow> int64" where
  "mergeNonZeroInt dst src = (if src \<noteq> 0 then src else dst)"

definition mergeRetry :: "notify_retry \<Rightarrow> notify_retry \<Rightarrow> notify_retry" where
  "mergeRetry dst src = (if src \<noteq> zero_retry then src else dst)"

definition mergeStringMap :: "(string, string) gmap \<Rightarrow> (string, string) gmap \<Rightarrow> (string, string) gmap" where
  "mergeStringMap dst src = (if length src = 0 then dst else fold (\<lambda>(key, value). map_put key value) src dst)"

definition replaceSlice :: "'a list \<Rightarrow> 'a list \<Rightarrow> 'a list" where
  "replaceSlice dst src = (if length src > 0 then src else dst)"

definition appendSlice :: "'a list \<Rightarrow> 'a list \<Rightarrow> 'a list" where
  "appendSlice dst src = (if length src > 0 then dst @ src else dst)"

section \<open>Merging sections\<close>

definition mergeTrackerActionConfig :: "tracker_action \<Rightarrow> tracker_action \<Rightarrow> tracker_action" where
  "mergeTrackerActionConfig dst src =
     \<lparr>tc_Method = mergeString (tc_Method dst) (tc_Method src),
      tc_Path = mergeString (tc_Path dst) (tc_Path src),
      tc_Headers = mergeStringMap (tc_Headers dst) (tc_Headers src),
      tc_BodyTemplate = mergeString (tc_BodyTemplate dst) (tc_BodyTemplate src),
      tc_SuccessStatus = replaceSlice (tc_SuccessStatus dst) (tc_SuccessStatus src),
      tc_RefJSONPath = mergeString (tc_RefJSONPath dst) (tc_RefJSONPath src)\<rparr>"

definition mergeTrackerNotifier :: "tracker_notifier \<Rightarrow> tracker_notifier \<Rightarrow> bool option \<Rightarrow> tracker_notifier" where
  "mergeTrackerNotifier dst src enabled =
     \<lparr>tk_Enabled = applyBoolMerge (tk_Enabled dst) (tk_Enabled src) enabled,
      tk_BaseURL = mergeString (tk_BaseURL dst) (tk_BaseURL src),
      tk_TimeoutSec = mergeNonZeroInt (tk_TimeoutSec dst) (tk_TimeoutSec src),
      tk_Auth = (if tk_Auth src \<noteq> zero_auth then tk_Auth src else tk_Auth dst),
      tk_Create = mergeTrackerActionConfig (tk_Create dst) (tk_Create src),
      tk_Resolve = mergeTrackerActionConfig (tk_Resolve dst) (tk_Resolve src),
      tk_Retry = mergeRetry (tk_Retry dst) (tk_Retry src),
      tk_NameTemplate = appendSlice (tk_NameTemplate dst) (tk_NameTemplate src)\<rparr>"

definition mergeMattermostNotifier :: "mattermost_config \<Rightarrow> mattermost_config \<Rightarrow> bool option \<Rightarrow> mattermost_config" where
  "mergeMattermostNotifier dst src enabled =
     \<lparr>mm_Enabled = applyBoolMerge (mm_Enabled dst) (mm_Enabled src) enabled,
      mm_BaseURL = mergeString (mm_BaseURL dst) (mm_BaseURL src),
      mm_BotToken = mergeString (mm_BotToken dst) (mm_BotToken src),
      mm_ChannelID = mergeString (mm_ChannelID dst) (mm_ChannelID src),
      mm_ActiveChannelID = mergeString (mm_ActiveChannelID dst) (mm_ActiveChannelID src),
      mm_TimeoutSec = mergeNonZeroInt (mm_TimeoutSec dst) (mm_TimeoutSec src),
      mm_Retry = mergeRetry (mm_Retry dst) (mm_Retry src),
      mm_NameTemplate = appendSlice (mm_NameTemplate dst) (mm_NameTemplate src)\<rparr>"

definition mergeHTTPNotifier :: "http_notifier \<Rightarrow> http_notifier \<Rightarrow> bool option \<Rightarrow> http_notifier" where
  "mergeHTTPNotifier dst src enabled =
     \<lparr>hn_Enabled = applyBoolMerge (hn_Enabled dst) (hn_Enabled src) enabled,
      hn_URL = mergeString (hn_URL dst) (hn_URL src),
      hn_Method = mergeString (hn_Method dst) (hn_Method src),
      hn_TimeoutSec = mergeNonZeroInt (hn_TimeoutSec dst) (hn_TimeoutSec src),
      hn_Headers = mergeStringMap (hn_Headers dst) (hn_Headers src),
      hn_Retry = mergeRetry (hn_Retry dst) (hn_Retry src),
      hn_NameTemplate = appendSlice (hn_NameTemplate dst) (hn_NameTemplate src)\<rparr>"

definition mergeTelegramNotifier :: "telegram_notifier \<Rightarrow> telegram_notifier \<Rightarrow> bool option \<Rightarrow> telegram_notifier" where
  "mergeTelegramNotifier dst src enabled =
     \<lparr>tg_Enabled = applyBoolMerge (tg_Enabled dst) (tg_Enabled src) enabled,
      tg_BotToken = mergeString (tg_BotToken dst) (tg_BotToken src),
      tg_ChatID = mergeString (tg_ChatID dst) (tg_ChatID src),
      tg_ActiveChatID = mergeString (tg_ActiveChatID dst) (tg_ActiveChatID src),
      tg_APIBase = mergeString (tg_APIBase dst) (tg_APIBase src),
      tg_Retry = mergeRetry (tg_Retry dst) (tg_Retry src),
      tg_NameTemplate = appendSlice (tg_NameTemplate dst) (tg_NameTemplate src)\<rparr>"

text \<open>The queue's addresses are no field of a file (\<open>toml:"-"\<close>) and are not merged.\<close>

definition mergeNotifyQueue :: "notify_queue \<Rightarrow> notify_queue \<Rightarrow> queue_merge_hints \<Rightarrow> notify_queue" where
  "mergeNotifyQueue dst src hints = dst
     \<lparr>nq_Enabled := applyBoolMerge (nq_Enabled dst) (nq_Enabled src) (qh_Enabled hints),
      nq_AckWaitSec := mergeNonZeroInt (nq_AckWaitSec dst) (nq_AckWaitSec src),
      nq_NackDelayMS := mergeNonZeroInt (nq_NackDelayMS dst) (nq_NackDelayMS src),
      nq_MaxDeliver := mergeNonZeroInt (nq_MaxDeliver dst) (nq_MaxDeliver src),
      nq_MaxAckPending := mergeNonZeroInt (nq_MaxAckPending dst) (nq_MaxAckPending src),
      nq_DLQ := applyBoolMerge (nq_DLQ dst) (nq_DLQ src) (qh_DLQ hints)\<rparr>"

definition mergeUIConfig :: "ui_config \<Rightarrow> ui_config \<Rightarrow> ui_merge_hints \<Rightarrow> ui_config" where
  "mergeUIConfig dst src hints =
     (let b = ui_Auth_Basic dst; c = ui_Auth_Basic src; n = ui_NATS dst; m = ui_NATS src in
      \<lparr>ui_Enabled = applyBoolHintMerge (ui_Enabled dst) (uh_Enabled hints),
       ui_Listen = mergeString (ui_Listen dst) (ui_Listen src),
       ui_BasePath = mergeString (ui_BasePath dst) (ui_BasePath src),
       ui_RefreshSec = mergeNonZeroInt (ui_RefreshSec dst) (ui_RefreshSec src),
       ui_Auth_Basic =
         \<lparr>ub_Enabled = applyBoolHintMerge (ub_Enabled b) (uh_Basic_Enabled hints),
          ub_Username = mergeString (ub_Username b) (ub_Username c),
          ub_Password = mergeString (ub_Password b) (ub_Password c)\<rparr>,
       ui_NATS =
         \<lparr>un_URL = replaceSlice (un_URL n) (un_URL m),
          un_RegistryBucket = mergeString (un_RegistryBucket n) (un_RegistryBucket m),
          un_RegistryTTLSec = mergeNonZeroInt (un_RegistryTTLSec n) (un_RegistryTTLSec m),
          un_StaleAfterSec = mergeNonZeroInt (un_StaleAfterSec n) (un_StaleAfterSec m),
          un_OfflineAfterSec = mergeNonZeroInt (un_OfflineAfterSec n) (un_OfflineAfterSec m)\<rparr>,
       ui_Health_TimeoutSec = mergeNonZeroInt (ui_Health_TimeoutSec dst) (ui_Health_TimeoutSec src),
       ui_Service_PublicBaseURL = mergeString (ui_Service_PublicBaseURL dst) (ui_Service_PublicBaseURL src)\<rparr>)"

definition mergeNotifyConfig :: "notify_config \<Rightarrow> notify_config \<Rightarrow> notify_merge_hints \<Rightarrow> notify_config" where
  "mergeNotifyConfig dst src hints =
     \<lparr>nc_Repeat = applyBoolMerge (nc_Repeat dst) (nc_Repeat src) (nh_Repeat hints),
      nc_RepeatEverySec = mergeNonZeroInt (nc_RepeatEverySec dst) (nc_RepeatEverySec src),
      nc_RepeatOn = replaceSlice (nc_RepeatOn dst) (nc_RepeatOn src),
      nc_RepeatPerChannel =
        applyBoolMerge (nc_RepeatPerChannel dst) (nc_RepeatPerChannel src) (nh_RepeatPerChannel hints),
      nc_OnPending = applyBoolMerge (nc_OnPending dst) (nc_OnPending src) (nh_OnPending hints),
      nc_Queue = mergeNotifyQueue (nc_Queue dst) (nc_Queue src) (nh_Queue hints),
      nc_Telegram = mergeTelegramNotifier (nc_Telegram dst) (nc_Telegram src) (nh_Telegram hints),
      nc_HTTP = mergeHTTPNotifier (nc_HTTP dst) (nc_HTTP src) (nh_HTTP hints),
      nc_Mattermost = mergeMattermostNotifier (nc_Mattermost dst) (nc_Mattermost src) (nh_Mattermost hints),
      nc_Jira = mergeTrackerNotifier (nc_Jira dst) (nc_Jira src) (nh_Jira hints),
      nc_YouTrack = mergeTrackerNotifier (nc_YouTrack dst) (nc_YouTrack src) (nh_YouTrack hints)\<rparr>"

definition mergeConfig :: "config \<Rightarrow> config \<Rightarrow> config_merge_hints \<Rightarrow> config" where
  "mergeConfig dst src hints =
     \<lparr>cf_Service = (if cf_Service src \<noteq> zero_service then cf_Service src else cf_Service dst),
      cf_Log = (if cf_Log src \<noteq> zero_log then cf_Log src else cf_Log dst),
      cf_Ingest = (if hasIngestConfig (cf_Ingest src) then cf_Ingest src else cf_Ingest dst),
      cf_Notify = (if hasNotifyConfig (cf_Notify src) \<or> notify_hasExplicitBool (ch_Notify hints)
        then mergeNotifyConfig (cf_Notify dst) (cf_Notify src) (ch_Notify hints) else cf_Notify dst),
      cf_UI = (if hasUIConfig (cf_UI src) \<or> ui_hasExplicitBool (ch_UI hints)
        then mergeUIConfig (cf_UI dst) (cf_UI src) (ch_UI hints) else cf_UI dst),
      cf_Rule = (if length (cf_Rule src) > 0 then cf_Rule dst @ cf_Rule src else cf_Rule dst)\<rparr>"

end
