(* ===== verification/Config_Load.thy ===== *)
theory Config_Load
  imports Config_Defaults Config_Validate Config_Merge
begin

text \<open>
  Loading of the configuration in \<open>internal/config/config.go\<close>: the textual rejection of
  unsupported syntax, the raw model with its rules keyed by name, files and directories,
  and \<open>LoadSnapshot\<close>, which applies the defaults and validates.

  The file system and the TOML decoder are arguments (\<open>load_env\<close>). The five regular
  expressions are written out: each is a sequence of literals and optional white space behind
  the start of a line, so matching from one position is deterministic.
\<close>

section \<open>Unsupported syntax\<close>

text \<open>The class \<open>\s\<close>: tab, line feed, form feed, carriage return, space.\<close>

definition re_space :: "char \<Rightarrow> bool" where
  "re_space c \<longleftrightarrow> (of_char c :: nat) \<in> {9, 10, 12, 13, 32}"

definition skip_space :: "string \<Rightarrow> string" where
  "skip_space s = dropWhile re_space s"

text \<open>The rest behind a literal, in the case-sensitive and the case-insensitive reading.\<close>

definition eat :: "string \<Rightarrow> string \<Rightarrow> string option" where
  "eat p s = (if HasPrefix s p then Some (drop (length p) s) else None)"

definition eat_fold :: "string \<Rightarrow> string \<Rightarrow> string option" where
  "eat_fold p s = (if ToLower (take (length p) s) = ToLower p then Some (drop (length p) s) else None)"

text \<open>All suffixes, and those at which a line starts (\<open>(?m)^\<close>).\<close>

fun line_starts_from :: "bool \<Rightarrow> string \<Rightarrow> string list" where
  "line_starts_from at [] = (if at then [[]] else [])"
| "line_starts_from at (c # s) = (if at then [c # s] else []) @ line_starts_from (c = CHR 0x0A) s"

definition line_starts :: "string \<Rightarrow> string list" where
  "line_starts s = line_starts_from True s"

definition starts :: "(string \<Rightarrow> 'a option) \<Rightarrow> string \<Rightarrow> bool" where
  "starts p s \<longleftrightarrow> p s \<noteq> None"

definition bind_eat :: "string option \<Rightarrow> (string \<Rightarrow> string option) \<Rightarrow> string option" where
  "bind_eat r f = (case r of None \<Rightarrow> None | Some s \<Rightarrow> f s)"

definition legacyRuleArrayPattern :: "string \<Rightarrow> bool" where
  "legacyRuleArrayPattern body \<longleftrightarrow> list_ex (\<lambda>s.
     starts (\<lambda>s. bind_eat (bind_eat (eat (''['' @ ''['') (skip_space s)) (\<lambda>s. eat ''rule'' (skip_space s)))
       (\<lambda>s. eat ('']'' @ '']'') (skip_space s))) s) (line_starts body)"

text \<open>
  \<open>(?:\.[^\]\s]+)*\s*\]\]?\<close> behind \<open>state\<close>: the characters up to white space or a
  closing bracket are none, or a dot and at least one more.
\<close>

definition state_path :: "string \<Rightarrow> bool" where
  "state_path s =
     (let word = takeWhile (\<lambda>c. c \<noteq> CHR '']'' \<and> \<not> re_space c) s in
      (word = [] \<or> (hd word = CHR ''.'' \<and> length word > 1)) \<and>
      starts (eat '']'') (skip_space (drop (length word) s)))"

definition unsupportedStatePattern :: "string \<Rightarrow> bool" where
  "unsupportedStatePattern body \<longleftrightarrow> list_ex (\<lambda>s.
     case eat ''['' (skip_space s) of None \<Rightarrow> False
     | Some s1 \<Rightarrow>
         let s2 = (case eat ''['' s1 of None \<Rightarrow> s1 | Some r \<Rightarrow> r) in
         (case eat ''state'' (skip_space s2) of None \<Rightarrow> False | Some s3 \<Rightarrow> state_path s3))
     (line_starts body)"

definition unsupportedIngestNATSFixedKeysPattern :: "string \<Rightarrow> bool" where
  "unsupportedIngestNATSFixedKeysPattern body \<longleftrightarrow> list_ex (\<lambda>s.
     list_ex (\<lambda>key. starts (\<lambda>s. bind_eat (eat_fold key (skip_space s)) (\<lambda>s. eat ''='' (skip_space s))) s)
       [''subject'', ''stream'', ''consumer_name'', ''deliver_group''])
     (line_starts body)"

text \<open>
  \<open>[^\[]*\burl\s*=\<close>: before the next opening bracket the key \<open>url\<close> with a character before
  it that is no part of a word. \<open>prev\<close> is that character.
\<close>

definition word_char :: "char \<Rightarrow> bool" where
  "word_char c = (let n = (of_char c :: nat) in
     (48 \<le> n \<and> n \<le> 57) \<or> (65 \<le> n \<and> n \<le> 90) \<or> n = 95 \<or> (97 \<le> n \<and> n \<le> 122))"

fun url_key_ahead :: "char \<Rightarrow> string \<Rightarrow> bool" where
  "url_key_ahead prev [] = False"
| "url_key_ahead prev (c # s) =
     ((\<not> word_char prev \<and> starts (\<lambda>s. bind_eat (eat_fold ''url'' s) (\<lambda>s. eat ''='' (skip_space s))) (c # s))
      \<or> (c \<noteq> CHR ''['' \<and> url_key_ahead c s))"

fun all_suffixes :: "string \<Rightarrow> string list" where
  "all_suffixes [] = [[]]"
| "all_suffixes (c # s) = (c # s) # all_suffixes s"

definition queue_header :: "string \<Rightarrow> string \<Rightarrow> string option" where
  "queue_header name s = bind_eat (bind_eat (eat ''['' s) (\<lambda>s. eat_fold name (skip_space s)))
     (\<lambda>s. eat '']'' (skip_space s))"

definition unsupportedNotifyQueueURLPattern :: "string \<Rightarrow> bool" where
  "unsupportedNotifyQueueURLPattern body \<longleftrightarrow> list_ex (\<lambda>s.
     case queue_header ''notify.queue'' s of None \<Rightarrow> False | Some rest \<Rightarrow> url_key_ahead (CHR '']'') rest)
     (all_suffixes body)"

definition unsupportedNotifyQueueDLQTablePattern :: "string \<Rightarrow> bool" where
  "unsupportedNotifyQueueDLQTablePattern body \<longleftrightarrow>
     list_ex (\<lambda>s. starts (queue_header ''notify.queue.dlq'') (skip_space s)) (line_starts body)"

definition rejectUnsupportedSyntax :: "string \<Rightarrow> error option" where
  "rejectUnsupportedSyntax body = first_error
     [guard (legacyRuleArrayPattern body)
        (ErrMsg (''legacy ['' @ ''[rule]] format is not supported; use [rule.<rule_name>] tables'')),
      guard (unsupportedStatePattern body)
        (ErrMsg ''state configuration is not supported; state backend settings are fixed and derived from ingest.nats.url''),
      guard (unsupportedIngestNATSFixedKeysPattern body)
        (ErrMsg ''ingest.nats.subject/stream/consumer_name/deliver_group are fixed in runtime and must not be configured''),
      guard (unsupportedNotifyQueueURLPattern body)
        (ErrMsg ''notify.queue.url is not supported; notify queue NATS URL is derived from ingest.nats.url''),
      guard (unsupportedNotifyQueueDLQTablePattern body)
        (ErrMsg ''[notify.queue.dlq] section is not supported; use notify.queue.dlq = true|false in [notify.queue]'')]"

section \<open>The raw model\<close>

record raw_rule_config =
  rw_Name :: string
  rw_AlertType :: string
  rw_Match :: rule_match
  rw_Key_FromTags :: "string list"
  rw_Raise :: rule_raise
  rw_Resolve :: rule_resolve
  rw_Pending :: rule_pending
  rw_Notify :: rule_notify
  rw_OutOfOrder :: rule_out_of_order

record raw_config =
  rw_Service :: service_config
  rw_Log :: log_config
  rw_Ingest :: ingest_config
  rw_NotifyConfig :: notify_config
  rw_UI :: ui_config
  rw_Rule :: "(string, raw_rule_config) gmap"

definition rule_of_raw :: "string \<Rightarrow> raw_rule_config \<Rightarrow> rule_config" where
  "rule_of_raw name body =
     \<lparr>rc_Name = name, rc_AlertType = rw_AlertType body, rc_Match = rw_Match body,
      rc_Key_FromTags = rw_Key_FromTags body, rc_Raise = rw_Raise body, rc_Resolve = rw_Resolve body,
      rc_Pending = rw_Pending body, rc_Notify = rw_Notify body, rc_OutOfOrder = rw_OutOfOrder body\<rparr>"

text \<open>Every name of the loop is a key of the map.\<close>

fun normalize_rules :: "(string, raw_rule_config) gmap \<Rightarrow> string list \<Rightarrow> rule_config list result" where
  "normalize_rules rules [] = Inr []"
| "normalize_rules rules (name # names) =
     (let body = the (map_get rules name) in
      if TrimSpace (rw_Name body) \<noteq> []
      then Inl (ErrFmt ''rule.%s.name is not supported; use [rule.%s] key as rule name'' [name, name])
      else (case normalize_rules rules names of Inl e \<Rightarrow> Inl e | Inr rs \<Rightarrow> Inr (rule_of_raw name body # rs)))"

definition normalizeRawConfig :: "raw_config \<Rightarrow> config result" where
  "normalizeRawConfig raw =
     (let cfg = \<lparr>cf_Service = rw_Service raw, cf_Log = rw_Log raw, cf_Ingest = rw_Ingest raw,
            cf_Notify = rw_NotifyConfig raw, cf_UI = rw_UI raw, cf_Rule = []\<rparr> in
      if length (rw_Rule raw) = 0 then Inr cfg
      else (case normalize_rules (rw_Rule raw) (sort (map fst (rw_Rule raw))) of
          Inl e \<Rightarrow> Inl e | Inr rules \<Rightarrow> Inr (cfg\<lparr>cf_Rule := rules\<rparr>)))"

section \<open>Paths\<close>

text \<open>\<open>filepath.Ext\<close>: from the last dot of the last element.\<close>

definition filepath_Ext :: "string \<Rightarrow> string" where
  "filepath_Ext path =
     (let tail = takeWhile (\<lambda>c. c \<noteq> CHR ''.'' \<and> c \<noteq> CHR ''/'') (rev path);
          rest = drop (length tail) (rev path)
      in if rest \<noteq> [] \<and> hd rest = CHR ''.'' then CHR ''.'' # rev tail else [])"

text \<open>
  \<open>filepath.Clean\<close> over the elements of a path: \<open>acc\<close> holds the elements kept so far, the
  last one first.
\<close>

fun clean_elements :: "bool \<Rightarrow> string list \<Rightarrow> string list \<Rightarrow> string list" where
  "clean_elements rooted acc [] = rev acc"
| "clean_elements rooted acc (e # es) =
     (if e = [] \<or> e = ''.'' then clean_elements rooted acc es
      else if e = ''..'' then
        (if acc \<noteq> [] \<and> hd acc \<noteq> ''..'' then clean_elements rooted (tl acc) es
         else if rooted then clean_elements rooted acc es
         else clean_elements rooted (e # acc) es)
      else clean_elements rooted (e # acc) es)"

fun slash_join :: "string list \<Rightarrow> string" where
  "slash_join [] = []"
| "slash_join [e] = e"
| "slash_join (e # f # es) = e @ ''/'' @ slash_join (f # es)"

definition filepath_Clean :: "string \<Rightarrow> string" where
  "filepath_Clean path =
     (if path = [] then ''.''
      else let rooted = (hd path = CHR ''/'');
               body = slash_join (clean_elements rooted [] (Split path (CHR ''/'')))
           in if rooted then ''/'' @ body else if body = [] then ''.'' else body)"

text \<open>\<open>filepath.Join(dir, name)\<close> of two elements.\<close>

definition filepath_Join :: "string \<Rightarrow> string \<Rightarrow> string" where
  "filepath_Join dir name =
     (if dir = [] \<and> name = [] then []
      else if dir = [] then filepath_Clean name
      else if name = [] then filepath_Clean dir
      else filepath_Clean (dir @ ''/'' @ name))"

section \<open>Files and directories\<close>

text \<open>A directory entry is its name and whether it is a directory.\<close>

record load_env =
  le_ReadFile :: "string \<Rightarrow> string result"
  le_ReadDir :: "string \<Rightarrow> (string \<times> bool) list result"
  le_decode :: "string \<Rightarrow> raw_config result"
  le_hints :: "string \<Rightarrow> config_merge_hints result"

definition loadFile :: "load_env \<Rightarrow> string \<Rightarrow> config result" where
  "loadFile env path =
     (let decode_err = ErrWrap ''decode config file %q: %w'' [path] in
      case le_ReadFile env path of Inl err \<Rightarrow> Inl (ErrWrap ''read config file %q: %w'' [path] err)
      | Inr body \<Rightarrow>
          (case rejectUnsupportedSyntax body of Some err \<Rightarrow> Inl (decode_err err)
           | None \<Rightarrow>
               (case le_decode env body of Inl err \<Rightarrow> Inl (decode_err err)
                | Inr raw \<Rightarrow>
                    (case normalizeRawConfig raw of Inl err \<Rightarrow> Inl (decode_err err) | Inr cfg \<Rightarrow> Inr cfg))))"

definition loadFileForMerge :: "load_env \<Rightarrow> string \<Rightarrow> (config \<times> config_merge_hints) result" where
  "loadFileForMerge env path =
     (let decode_err = ErrWrap ''decode config file %q: %w'' [path] in
      case le_ReadFile env path of Inl err \<Rightarrow> Inl (ErrWrap ''read config file %q: %w'' [path] err)
      | Inr body \<Rightarrow>
          (case rejectUnsupportedSyntax body of Some err \<Rightarrow> Inl (decode_err err)
           | None \<Rightarrow>
               (case le_decode env body of Inl err \<Rightarrow> Inl (decode_err err)
                | Inr raw \<Rightarrow>
                    (case normalizeRawConfig raw of Inl err \<Rightarrow> Inl (decode_err err)
                     | Inr cfg \<Rightarrow>
                         (case le_hints env body of
                            Inl err \<Rightarrow> Inl (ErrWrap ''decode merge hints %q: %w'' [path] err)
                          | Inr hints \<Rightarrow> Inr (cfg, hints))))))"

definition toml_files :: "string \<Rightarrow> (string \<times> bool) list \<Rightarrow> string list" where
  "toml_files dir entries =
     List.map_filter (\<lambda>(name, isDir).
       if isDir then None
       else if ToLower (filepath_Ext name) \<noteq> ''.toml'' then None
       else Some (filepath_Join dir name)) entries"

fun merge_files :: "load_env \<Rightarrow> string list \<Rightarrow> config \<Rightarrow> config result" where
  "merge_files env [] merged = Inr merged"
| "merge_files env (file # files) merged =
     (case loadFileForMerge env file of Inl err \<Rightarrow> Inl err
      | Inr (fragment, hints) \<Rightarrow> merge_files env files (mergeConfig merged fragment hints))"

definition loadDir :: "load_env \<Rightarrow> string \<Rightarrow> config result" where
  "loadDir env dir =
     (case le_ReadDir env dir of Inl err \<Rightarrow> Inl (ErrWrap ''read config dir %q: %w'' [dir] err)
      | Inr entries \<Rightarrow>
          (let files = toml_files dir entries in
           if length files = 0 then Inl (ErrFmt ''no .toml files found in %q'' [dir])
           else merge_files env (sort files) zero_config))"

definition LoadSnapshot :: "load_env \<Rightarrow> 't config_env \<Rightarrow> config_source \<Rightarrow> config result" where
  "LoadSnapshot lenv env src =
     (case (if cs_File src \<noteq> [] then loadFile lenv (cs_File src) else loadDir lenv (cs_Dir src)) of
        Inl err \<Rightarrow> Inl err
      | Inr cfg \<Rightarrow>
          (case validateConfig env (applyDefaults cfg) of Inl err \<Rightarrow> Inl err | Inr cfg1 \<Rightarrow> Inr cfg1))"

end
