(* ===== verification/Config_Facts.thy ===== *)
theory Config_Facts
  imports Config_Load Dispatch Matcher
begin

text \<open>
  What a successful load guarantees. \<open>rule_wf\<close> is the contract of an accepted rule; the
  lemmas lead from the checks of \<open>validateConfig\<close> to it, to the templates of the dispatcher
  and to the filled fields of the configuration.
\<close>

section \<open>Accepted rules\<close>

text \<open>The thresholds an alert type needs and the ones it may not set.\<close>

definition thresholds_wf :: "rule_config \<Rightarrow> bool" where
  "thresholds_wf rule \<longleftrightarrow>
     (let r = rc_Raise rule; v = rc_Resolve rule in
      0 \<le> rv_HysteresisSec v \<and> 0 \<le> rv_SilenceSec v \<and>
      (rc_AlertType rule = ''count_total'' \<and> 1 \<le> rr_N r \<and> rr_WindowSec r \<le> 0 \<and> rr_MissingSec r \<le> 0 \<or>
       rc_AlertType rule = ''count_window'' \<and> 1 \<le> rr_N r \<and> 0 < rr_WindowSec r \<and> rr_MissingSec r \<le> 0 \<or>
       rc_AlertType rule = ''missing_heartbeat'' \<and> 0 < rr_MissingSec r \<and> rr_N r \<le> 0 \<and>
         rr_WindowSec r \<le> 0 \<and> rv_SilenceSec v = 0))"

definition rule_wf :: "(string \<Rightarrow> regex result) \<Rightarrow> rule_config \<Rightarrow> bool" where
  "rule_wf compile rule \<longleftrightarrow>
     \<not> blank (rc_Name rule) \<and>
     rm_Type (rc_Match rule) \<noteq> [] \<and> set (rm_Type (rc_Match rule)) \<subseteq> {''event'', ''agg''} \<and>
     rm_Var (rc_Match rule) \<noteq> [] \<and> rc_Key_FromTags rule \<noteq> [] \<and>
     validated_match compile rule \<and> thresholds_wf rule \<and>
     0 < rp_DelaySec (rc_Pending rule) \<and> 0 < rn_RepeatEverySec (rc_Notify rule) \<and>
     rn_Route (rc_Notify rule) \<noteq> [] \<and> distinct (map route_key (rn_Route (rc_Notify rule))) \<and>
     (\<forall>w \<in> set (rn_Off (rc_Notify rule)). \<exists>c. compileNotifyOffWindow w = Inr c \<and> wf_off c)"

lemma threshold_checks_wf:
  assumes "first_error (rule_head_checks rule) = None" "first_error (threshold_checks rule) = None"
  shows "thresholds_wf rule"
proof -
  from assms(1) consider "rc_AlertType rule = ''count_total''" | "rc_AlertType rule = ''count_window''"
    | "rc_AlertType rule = ''missing_heartbeat''"
    by (auto simp: rule_head_checks_def)
  then show ?thesis
    by cases (use assms(2) in \<open>auto simp: threshold_checks_def thresholds_wf_def Let_def\<close>)
qed

lemma head_checks_wf:
  assumes "first_error (rule_head_checks rule) = None"
  shows "\<not> blank (rc_Name rule)" "rm_Type (rc_Match rule) \<noteq> []"
    "set (rm_Type (rc_Match rule)) \<subseteq> {''event'', ''agg''}" "rm_Var (rc_Match rule) \<noteq> []"
    "rc_Key_FromTags rule \<noteq> []"
proof -
  have "loop_error (\<lambda>_ t. guard (t \<noteq> ''event'' \<and> t \<noteq> ''agg'') (e t)) 0 ts = None \<longleftrightarrow>
      (\<forall>t \<in> set ts. t = ''event'' \<or> t = ''agg'')" for e ts
    by (rule loop_error_all) auto
  then show "\<not> blank (rc_Name rule)" "rm_Type (rc_Match rule) \<noteq> []"
    "set (rm_Type (rc_Match rule)) \<subseteq> {''event'', ''agg''}" "rm_Var (rc_Match rule) \<noteq> []"
    "rc_Key_FromTags rule \<noteq> []"
    using assms by (auto simp: rule_head_checks_def)
qed

lemma compile_predicate_fields:
  assumes "compile_predicate env rule = Inr r"
  shows "rc_Name r = rc_Name rule" "rc_AlertType r = rc_AlertType rule"
    "rm_Type (rc_Match r) = rm_Type (rc_Match rule)" "rm_Var (rc_Match r) = rm_Var (rc_Match rule)"
    "rm_Tags (rc_Match r) = rm_Tags (rc_Match rule)"
    "rc_Key_FromTags r = rc_Key_FromTags rule" "rc_Raise r = rc_Raise rule"
    "rc_Resolve r = rc_Resolve rule" "rc_Pending r = rc_Pending rule" "rc_Notify r = rc_Notify rule"
    "rc_OutOfOrder r = rc_OutOfOrder rule" "validated_match (ce_compile env) r"
  using assms
  by (auto simp: compile_predicate_def validated_match_def split: option.splits sum.splits)

lemma head_checks_cong:
  assumes "compile_predicate env rule = Inr r"
  shows "rule_head_checks r = rule_head_checks rule"
  using compile_predicate_fields [OF assms] by (simp add: rule_head_checks_def)

lemma validateRule_Inr:
  assumes "validateRule env rule = Inr r"
  shows "compile_predicate env rule = Inr r" "first_error (rule_head_checks r) = None"
    "first_error (rule_tail_checks r) = None" "first_error (threshold_checks r) = None"
  using assms head_checks_cong [of env rule]
  by (auto simp: validateRule_def split: option.splits sum.splits)

section \<open>Routes\<close>

lemma routes_loop_keys:
  "routes_loop cfg templates used i routes = None \<Longrightarrow>
    distinct (map route_key routes) \<and> set (map route_key routes) \<inter> set used = {}"
proof (induction routes arbitrary: used i)
  case (Cons r routes)
  have new: "route_key r \<notin> set used"
    using Cons.prems by (auto simp: check_route_def Let_def split: option.splits)
  have "routes_loop cfg templates (route_key r # used) (Suc i) routes = None"
    using Cons.prems by (simp split: option.splits)
  from Cons.IH [OF this] new show ?case by auto
qed simp

lemma routes_loop_route:
  "routes_loop cfg templates used i routes = None \<Longrightarrow> r \<in> set routes \<Longrightarrow>
    NotifyChannelEnabled cfg (NormalizeNotifyChannel (ro_Channel r)) \<and> TrimSpace (ro_Template r) \<noteq> [] \<and>
    (\<exists>byName. map_get templates (NormalizeNotifyChannel (ro_Channel r)) = Some byName \<and>
      map_get byName (ToLower (TrimSpace (ro_Template r))) \<noteq> None) \<and>
    IsSupportedNotifyRouteMode (NormalizeNotifyRouteMode (ro_Mode r))"
proof (induction routes arbitrary: used i)
  case (Cons s routes)
  then have now: "check_route cfg templates used i s = None"
    and rest: "routes_loop cfg templates (route_key s # used) (Suc i) routes = None"
    by (auto split: option.splits)
  show ?case
  proof (cases "r = s")
    case True
    then show ?thesis using now by (auto simp: check_route_def Let_def split: option.splits)
  next
    case False
    then show ?thesis using Cons.IH [OF rest] Cons.prems(2) by simp
  qed
qed simp

section \<open>Rules of a configuration\<close>

lemma rules_loop_names:
  "rules_loop env notify templates names i rules = Inr rs \<Longrightarrow>
    map rc_Name rs = map rc_Name rules \<and> distinct (map rc_Name rs) \<and> set (map rc_Name rs) \<inter> set names = {}"
proof (induction rules arbitrary: names i rs)
  case (Cons rule rules)
  then obtain r rs' where r: "validateRule env rule = Inr r" "rc_Name rule \<notin> set names"
    "rules_loop env notify templates (rc_Name rule # names) (Suc i) rules = Inr rs'" "rs = r # rs'"
    by (auto simp: Let_def split: sum.splits option.splits if_splits)
  have "rc_Name r = rc_Name rule"
    using compile_predicate_fields(1) [OF validateRule_Inr(1) [OF r(1)]] .
  moreover have "rc_Name ` set rs' = rc_Name ` set rules"
    using Cons.IH [OF r(3)] by (metis list.set_map)
  ultimately show ?case using Cons.IH [OF r(3)] r(2,4) by (simp add: disjoint_iff) metis
qed simp

lemma rules_loop_member:
  "rules_loop env notify templates names i rules = Inr rs \<Longrightarrow> r \<in> set rs \<Longrightarrow>
    \<exists>rule \<in> set rules. validateRule env rule = Inr r \<and> validateRuleNotifyRoutes notify rule templates = None"
proof (induction rules arbitrary: names i rs)
  case (Cons rule rules)
  then obtain r' rs' where r: "validateRule env rule = Inr r'" "rs = r' # rs'"
    "validateRuleNotifyRoutes notify rule templates = None"
    "rules_loop env notify templates (rc_Name rule # names) (Suc i) rules = Inr rs'"
    by (auto simp: Let_def split: sum.splits option.splits if_splits)
  then show ?case using Cons.IH [OF r(4)] Cons.prems(2) by auto
qed simp

section \<open>Templates\<close>

text \<open>Every template of an accepted list parses; the index holds exactly the listed names.\<close>

lemma collect_loop_parses:
  "collect_loop env path0 i ts byName = Inr out \<Longrightarrow> t \<in> set ts \<Longrightarrow>
    TrimSpace (tpl_Name t) \<noteq> [] \<and> (\<exists>path x. ce_template env path (TrimSpace (tpl_Message t)) = Inr x)"
proof (induction ts arbitrary: i byName)
  case (Cons s ts)
  then have now: "TrimSpace (tpl_Name s) \<noteq> []" "\<exists>path x. ce_template env path (TrimSpace (tpl_Message s)) = Inr x"
    and rest: "\<exists>i byName. collect_loop env path0 i ts byName = Inr out"
    by (auto simp: Let_def validateMessageTemplate_def split: if_splits option.splits sum.splits)
  from rest obtain j b where "collect_loop env path0 j ts b = Inr out" by blast
  then show ?case using Cons.IH Cons.prems(2) now by auto
qed simp

lemma collect_loop_keys:
  "collect_loop env path0 i ts byName = Inr out \<Longrightarrow>
    map_get out key \<noteq> None \<longleftrightarrow> map_get byName key \<noteq> None \<or> (\<exists>t \<in> set ts. ToLower (TrimSpace (tpl_Name t)) = key)"
proof (induction ts arbitrary: i byName)
  case (Cons s ts)
  then have rest: "collect_loop env path0 (Suc i) ts
      (map_put (ToLower (TrimSpace (tpl_Name s))) (s\<lparr>tpl_Name := TrimSpace (tpl_Name s)\<rparr>) byName) = Inr out"
    by (auto simp: Let_def split: if_splits option.splits)
  show ?case unfolding Cons.IH [OF rest] by auto
qed simp

definition templates_accepted :: "'t config_env \<Rightarrow> notify_config \<Rightarrow> bool" where
  "templates_accepted env cfg \<longleftrightarrow> (\<forall>channel \<in> set NotifyChannelNames. \<forall>t \<in> set (NotifyChannelTemplates cfg channel).
     TrimSpace (tpl_Name t) \<noteq> [] \<and> (\<exists>path x. ce_template env path (TrimSpace (tpl_Message t)) = Inr x))"

lemma collectChannelTemplates_ok:
  assumes "collectChannelTemplates env index ch path0 ts = Inr index1"
  shows "\<forall>t \<in> set ts. TrimSpace (tpl_Name t) \<noteq> [] \<and> (\<exists>path x. ce_template env path (TrimSpace (tpl_Message t)) = Inr x)"
    "map_get index1 c = (if c = ch \<and> ts \<noteq> [] then map_get index1 ch else map_get index c)"
    "ts \<noteq> [] \<Longrightarrow> \<exists>byName. map_get index1 ch = Some byName \<and>
      (\<forall>key v. map_get byName key = Some v \<longrightarrow> (\<exists>t \<in> set ts. ToLower (TrimSpace (tpl_Name t)) = key))"
proof -
  have "ts = [] \<and> index1 = index \<or> (\<exists>byName. ts \<noteq> [] \<and> collect_loop env path0 0 ts [] = Inr byName \<and>
      index1 = map_put ch byName index)"
    using assms by (auto simp: collectChannelTemplates_def split: if_splits sum.splits)
  then show "\<forall>t \<in> set ts. TrimSpace (tpl_Name t) \<noteq> [] \<and> (\<exists>path x. ce_template env path (TrimSpace (tpl_Message t)) = Inr x)"
    "map_get index1 c = (if c = ch \<and> ts \<noteq> [] then map_get index1 ch else map_get index c)"
    "ts \<noteq> [] \<Longrightarrow> \<exists>byName. map_get index1 ch = Some byName \<and>
      (\<forall>key v. map_get byName key = Some v \<longrightarrow> (\<exists>t \<in> set ts. ToLower (TrimSpace (tpl_Name t)) = key))"
    using collect_loop_parses [of env path0 0 ts "[]"] collect_loop_keys [of env path0 0 ts "[]"]
    by (auto simp: not_None_eq)
qed

lemma templates_loop_parses:
  "templates_loop env cfg channels index = Inr out \<Longrightarrow> ch \<in> set channels \<Longrightarrow> t \<in> set (NotifyChannelTemplates cfg ch) \<Longrightarrow>
    TrimSpace (tpl_Name t) \<noteq> [] \<and> (\<exists>path x. ce_template env path (TrimSpace (tpl_Message t)) = Inr x)"
  by (induction channels arbitrary: index) (auto split: sum.splits dest: collectChannelTemplates_ok(1))

lemma templates_loop_keys:
  "templates_loop env cfg channels index = Inr out \<Longrightarrow> map_get out ch = Some byName \<Longrightarrow>
    map_get byName key = Some v \<Longrightarrow>
    map_get index ch = Some byName \<or> (\<exists>t \<in> set (NotifyChannelTemplates cfg ch). ToLower (TrimSpace (tpl_Name t)) = key)"
proof (induction channels arbitrary: index)
  case (Cons c cs)
  let ?ts = "NotifyChannelTemplates cfg c"
  obtain index1 where index1: "collectChannelTemplates env index c (''notify.'' @ c @ ''.name-template'') ?ts = Inr index1"
    and rest: "templates_loop env cfg cs index1 = Inr out"
    using Cons.prems(1) by (auto split: sum.splits)
  from Cons.IH [OF rest Cons.prems(2,3)] show ?case
  proof
    assume "map_get index1 ch = Some byName"
    then show ?thesis
      using collectChannelTemplates_ok(2) [OF index1, of ch] collectChannelTemplates_ok(3) [OF index1] Cons.prems(3)
      by (cases "ch = c \<and> ?ts \<noteq> []") auto
  qed simp
qed simp

lemma validateNotifyTemplates_ok:
  assumes "validateNotifyTemplates env cfg = Inr out"
  shows "templates_accepted env cfg"
    "map_get out ch = Some byName \<Longrightarrow> map_get byName key = Some v \<Longrightarrow>
      \<exists>t \<in> set (NotifyChannelTemplates cfg ch). ToLower (TrimSpace (tpl_Name t)) = key"
  using templates_loop_parses [OF assms [unfolded validateNotifyTemplates_def]]
    templates_loop_keys [OF assms [unfolded validateNotifyTemplates_def], of ch byName key v]
  by (auto simp: templates_accepted_def)

section \<open>The dispatcher of an accepted configuration\<close>

text \<open>
  \<open>parse\<close> is the parser of both sides, \<open>defines body\<close> the names of the templates that a body
  defines itself, with \<open>define\<close> or \<open>block\<close>. Validation parses the trimmed body, the dispatcher the
  body as written, under another name. In \<open>text/template\<close> surrounding space is literal text and the
  name of the template matters to parsing only when the body defines a template of the same name,
  which is an error (\<open>multiple definition of template\<close>).
\<close>

definition template_laws :: "(string \<Rightarrow> string \<Rightarrow> 't result) \<Rightarrow> (string \<Rightarrow> string set) \<Rightarrow> bool" where
  "template_laws parse defines \<longleftrightarrow>
     (\<forall>name name' body x. parse name (TrimSpace body) = Inr x \<longrightarrow> name' \<notin> defines body \<longrightarrow> (\<exists>y. parse name' body = Inr y))"

text \<open>The name under which the dispatcher parses a message, and that no message defines its own.\<close>

definition message_template_name :: "string \<Rightarrow> named_template \<Rightarrow> string" where
  "message_template_name channel t =
     ''notify.'' @ channel @ ''.name-template.'' @ ToLower (TrimSpace (tpl_Name t)) @ ''.message''"

definition message_names_free :: "(string \<Rightarrow> string set) \<Rightarrow> notify_config \<Rightarrow> bool" where
  "message_names_free defines cfg \<longleftrightarrow> (\<forall>channel \<in> set NotifyChannelNames. \<forall>t \<in> set (NotifyChannelTemplates cfg channel).
     message_template_name channel t \<notin> defines (tpl_Message t))"

lemma takeWhile_until: "c \<notin> set xs \<Longrightarrow> takeWhile (\<lambda>d. d \<noteq> c) (xs @ c # ys) = xs"
  by (induction xs) auto

lemma templateKey_inj:
  assumes "templateKey ch n = templateKey ch' n'" "ch \<in> set NotifyChannelNames" "ch' \<in> set NotifyChannelNames"
  shows "ch = ch'"
proof -
  have plain: "ToLower (TrimSpace c) = c \<and> CHR ''/'' \<notin> set c" if "c \<in> set NotifyChannelNames" for c
  proof -
    have "list_all (\<lambda>c. ToLower (TrimSpace c) = c \<and> CHR ''/'' \<notin> set c) NotifyChannelNames" by code_simp
    then show ?thesis using that by (simp add: list_all_iff)
  qed
  have "ch = takeWhile (\<lambda>c. c \<noteq> CHR ''/'') (templateKey ch n)"
    using plain [OF assms(2)] by (simp add: templateKey_def takeWhile_until)
  also have "\<dots> = ch'"
    using plain [OF assms(3)] unfolding assms(1) by (simp add: templateKey_def takeWhile_until)
  finally show ?thesis .
qed

text \<open>What the compiled set holds while only parsable templates of listed channels are added.\<close>

definition compiled_ok :: "template_set \<Rightarrow> bool" where
  "compiled_ok acc \<longleftrightarrow> snd acc = [] \<and>
     (\<forall>key c. map_get (fst acc) key = Some c \<longrightarrow> ct_body c \<noteq> None \<and> ct_channel c \<in> set NotifyChannelNames \<and>
        (\<exists>name. key = templateKey (ct_channel c) name))"

lemma collectCompiled_ok:
  assumes "template_laws parse defines" "channel \<in> set NotifyChannelNames" "compiled_ok acc"
    and "\<forall>t \<in> set ts. TrimSpace (tpl_Name t) \<noteq> [] \<and> (\<exists>path x. parse path (TrimSpace (tpl_Message t)) = Inr x) \<and>
      message_template_name channel t \<notin> defines (tpl_Message t)"
  shows "compiled_ok (collectCompiledTemplates parse channel ts acc) \<and>
    (\<forall>key. (\<exists>c. map_get (fst acc) key = Some c) \<or>
        (\<exists>t \<in> set ts. key = templateKey channel (ToLower (TrimSpace (tpl_Name t)))) \<longrightarrow>
      (\<exists>c. map_get (fst (collectCompiledTemplates parse channel ts acc)) key = Some c))"
  using assms(3,4)
proof (induction ts arbitrary: acc)
  case (Cons t ts)
  obtain compiled errs where acc: "acc = (compiled, errs)" by force
  let ?name = "ToLower (TrimSpace (tpl_Name t))"
  obtain body where body: "parse (''notify.'' @ channel @ ''.name-template.'' @ ?name @ ''.message'') (tpl_Message t) = Inr body"
    using Cons.prems(2) assms(1) unfolding template_laws_def message_template_name_def by (meson list.set_intros(1))
  let ?acc = "(map_put (templateKey channel ?name) \<lparr>ct_channel = channel, ct_body = Some body\<rparr> compiled, errs)"
  have ok: "compiled_ok ?acc"
    using Cons.prems(1) assms(2) by (auto simp: acc compiled_ok_def split: if_splits)
  have step: "collectCompiledTemplates parse channel (t # ts) acc = collectCompiledTemplates parse channel ts ?acc"
    using Cons.prems(2) body by (simp add: acc Let_def)
  have rest: "\<forall>t \<in> set ts. TrimSpace (tpl_Name t) \<noteq> [] \<and> (\<exists>path x. parse path (TrimSpace (tpl_Message t)) = Inr x) \<and>
      message_template_name channel t \<notin> defines (tpl_Message t)"
    using Cons.prems(2) by simp
  show ?case
    unfolding step using Cons.IH [OF ok rest] by (auto simp: acc)
qed simp

lemma buildTemplateSet_ok:
  assumes "template_laws (ce_template env) defines" "templates_accepted env cfg" "message_names_free defines cfg"
  shows "compiled_ok (buildTemplateSet (ce_template env) cfg)"
    "ch \<in> set NotifyChannelNames \<Longrightarrow> t \<in> set (NotifyChannelTemplates cfg ch) \<Longrightarrow>
      \<exists>c. map_get (fst (buildTemplateSet (ce_template env) cfg)) (templateKey ch (ToLower (TrimSpace (tpl_Name t)))) = Some c"
proof -
  let ?collect = "\<lambda>channel. collectCompiledTemplates (ce_template env) channel (NotifyChannelTemplates cfg channel)"
  have all: "compiled_ok (fold ?collect chs acc) \<and>
      (\<forall>key. (\<exists>c. map_get (fst acc) key = Some c) \<or>
        (\<exists>ch \<in> set chs. \<exists>t \<in> set (NotifyChannelTemplates cfg ch). key = templateKey ch (ToLower (TrimSpace (tpl_Name t)))) \<longrightarrow>
        (\<exists>c. map_get (fst (fold ?collect chs acc)) key = Some c))"
    if "compiled_ok acc" "set chs \<subseteq> set NotifyChannelNames" for chs acc
    using that
  proof (induction chs arbitrary: acc)
    case (Cons ch chs)
    have "\<forall>t \<in> set (NotifyChannelTemplates cfg ch).
        TrimSpace (tpl_Name t) \<noteq> [] \<and> (\<exists>path x. ce_template env path (TrimSpace (tpl_Message t)) = Inr x) \<and>
        message_template_name ch t \<notin> defines (tpl_Message t)"
      using assms(2,3) Cons.prems(2) unfolding templates_accepted_def message_names_free_def by auto
    from collectCompiled_ok [OF assms(1) _ Cons.prems(1) this] Cons.prems(2)
    have now: "compiled_ok (?collect ch acc)" "\<forall>key. (\<exists>c. map_get (fst acc) key = Some c) \<or>
        (\<exists>t \<in> set (NotifyChannelTemplates cfg ch). key = templateKey ch (ToLower (TrimSpace (tpl_Name t)))) \<longrightarrow>
      (\<exists>c. map_get (fst (?collect ch acc)) key = Some c)"
      by simp_all
    show ?case using Cons.IH [OF now(1)] Cons.prems(2) now(2) by simp
  qed simp
  have "compiled_ok ([], [])" by (simp add: compiled_ok_def)
  from all [OF this subset_refl]
  show "compiled_ok (buildTemplateSet (ce_template env) cfg)"
    "ch \<in> set NotifyChannelNames \<Longrightarrow> t \<in> set (NotifyChannelTemplates cfg ch) \<Longrightarrow>
      \<exists>c. map_get (fst (buildTemplateSet (ce_template env) cfg)) (templateKey ch (ToLower (TrimSpace (tpl_Name t)))) = Some c"
    unfolding buildTemplateSet_def by blast+
qed

lemma resolveTemplate_accepted:
  assumes "template_laws (ce_template env) defines" "templates_accepted env cfg" "message_names_free defines cfg"
    and "ch \<in> set NotifyChannelNames" "t \<in> set (NotifyChannelTemplates cfg ch)"
    and "ToLower (TrimSpace (tpl_Name t)) = ToLower (TrimSpace name)" "TrimSpace name \<noteq> []"
  shows "\<exists>c. resolveTemplate (NewDispatcher (ce_template env) factory cfg) name ch = Inr c"
proof -
  let ?key = "templateKey ch (ToLower (TrimSpace name))"
  obtain c where c: "map_get (fst (buildTemplateSet (ce_template env) cfg)) ?key = Some c"
    using buildTemplateSet_ok(2) [OF assms(1-5)] assms(6) by auto
  note ok = buildTemplateSet_ok(1) [OF assms(1-3), unfolded compiled_ok_def]
  then have "ct_body c \<noteq> None" "ct_channel c \<in> set NotifyChannelNames" "\<exists>n. ?key = templateKey (ct_channel c) n"
    using c by blast+
  moreover from this have "ct_channel c = ch" using templateKey_inj assms(4) by blast
  ultimately show ?thesis
    using c ok assms(7) by (auto simp: resolveTemplate_def NewDispatcher_def Let_def)
qed

lemma enabled_sender_found:
  assumes "ch \<in> set NotifyChannelNames" "NotifyChannelEnabled cfg ch" "factory ch cfg \<noteq> None"
  shows "\<exists>send. map_get (enabled_senders factory cfg) ch = Some send"
proof -
  let ?f = "\<lambda>channel. if \<not> NotifyChannelEnabled cfg channel then None
       else (case factory channel cfg of None \<Rightarrow> None | Some sender \<Rightarrow> Some (channel, sender))"
  have "map_get (List.map_filter ?f chs) ch \<noteq> None" if "ch \<in> set chs" for chs
    using that assms(2,3)
    by (induction chs) (auto simp: List.map_filter_simps split: option.splits)
  then show ?thesis using assms(1) by (auto simp: enabled_senders_def)
qed

section \<open>Accepted configurations\<close>

lemma validateConfig_Inr:
  assumes "validateConfig env cfg = Inr out"
  shows "cf_Rule cfg \<noteq> []" "first_error (service_checks (cf_Service cfg)) = None"
    "first_error (ingest_checks (NormalizeServiceMode (sc_Mode (cf_Service cfg))) (cf_Ingest cfg)) = None"
    "validateLogSink ''log.console'' (lc_Console (cf_Log cfg)) False = None"
    "validateLogSink ''log.file'' (lc_File (cf_Log cfg)) True = None"
    "ui_Enabled (cf_UI cfg) \<Longrightarrow> first_error (ui_checks (cf_UI cfg)) = None"
    "first_error (registry_checks env (cf_UI cfg)) = None"
    "first_error (transport_checks env (cf_Notify cfg)) = None"
    "\<exists>templates rules. validateNotifyTemplates env (cf_Notify cfg) = Inr templates \<and>
      rules_loop env (cf_Notify cfg) templates [] 0 (cf_Rule cfg) = Inr rules \<and> out = cfg\<lparr>cf_Rule := rules\<rparr>"
  using assms by (auto simp: validateConfig_def split: option.splits sum.splits if_splits)

lemma LoadSnapshot_Inr:
  assumes "LoadSnapshot lenv env src = Inr out"
  obtains cfg where "validateConfig env (applyDefaults cfg) = Inr out"
    "(if cs_File src \<noteq> [] then loadFile lenv (cs_File src) else loadDir lenv (cs_Dir src)) = Inr cfg"
  using assms by (auto simp: LoadSnapshot_def split: sum.splits)

section \<open>Fields filled by the defaults\<close>

lemma defaults_service_positive:
  "0 < sc_ReloadIntervalSec (defaults_service s)" "0 < sc_ResolveScanInterval (defaults_service s)"
  by (simp_all add: defaults_service_def or_positive_def)

lemma defaults_service_mode [simp]: "NormalizeServiceMode (sc_Mode (defaults_service s)) = sc_Mode (defaults_service s)"
  by (simp add: defaults_service_def)

lemma defaults_log_enabled: "ls_Enabled (lc_Console (defaults_log l)) \<or> ls_Enabled (lc_File (defaults_log l))"
  by (simp add: defaults_log_def Let_def)

lemma defaults_ingest_enabled:
  "mode \<noteq> ServiceModeSingle \<Longrightarrow>
    hi_Enabled (ig_HTTP (defaults_ingest mode g)) \<or> ni_Enabled (ig_NATS (defaults_ingest mode g))"
  by (simp add: defaults_ingest_def Let_def)

lemma defaults_ingest_single: "\<not> ni_Enabled (ig_NATS (defaults_ingest ServiceModeSingle g))"
  by (simp add: defaults_ingest_def Let_def)

lemma accepted_ingest:
  assumes "first_error (ingest_checks mode g) = None"
  shows "mode = ServiceModeSingle \<Longrightarrow> hi_Enabled (ig_HTTP g)"
    "mode = ServiceModeNATS \<Longrightarrow> ni_URL (ig_NATS g) \<noteq> [] \<and> (\<forall>u \<in> set (ni_URL (ig_NATS g)). \<not> blank u)"
proof -
  have "loop_error (\<lambda>i url. guard (blank url) (e i)) 0 us = None \<longleftrightarrow> (\<forall>u \<in> set us. \<not> blank u)" for e us
    by (rule loop_error_all) simp
  then show "mode = ServiceModeSingle \<Longrightarrow> hi_Enabled (ig_HTTP g)"
    "mode = ServiceModeNATS \<Longrightarrow> ni_URL (ig_NATS g) \<noteq> [] \<and> (\<forall>u \<in> set (ni_URL (ig_NATS g)). \<not> blank u)"
    using assms by (auto simp: ingest_checks_def Let_def)
qed

lemma accepted_registry:
  assumes "first_error (registry_checks env u) = None"
  shows "0 < un_StaleAfterSec (ui_NATS u)" "un_StaleAfterSec (ui_NATS u) < un_OfflineAfterSec (ui_NATS u)"
    "un_OfflineAfterSec (ui_NATS u) < un_RegistryTTLSec (ui_NATS u)"
  using assms by (auto simp: registry_checks_def Let_def)

end
