(* ===== verification/Config_Merge_Facts.thy ===== *)
theory Config_Merge_Facts
  imports Config_Load
begin

text \<open>
  The merge of fragments as a specification per field: the last value that a fragment sets
  wins, lists of rules and templates are concatenated. The fields are given by their
  selectors, so that one lemma per kind of field covers all of them.
\<close>

section \<open>Specification\<close>

definition last_with :: "('a \<Rightarrow> bool) \<Rightarrow> 'a \<Rightarrow> 'a list \<Rightarrow> 'a" where
  "last_with P d xs = (case rev (filter P xs) of [] \<Rightarrow> d | x # _ \<Rightarrow> x)"

definition last_explicit :: "bool option list \<Rightarrow> bool" where
  "last_explicit hs = (case last_with (\<lambda>h. h \<noteq> None) None hs of None \<Rightarrow> False | Some b \<Rightarrow> b)"

type_synonym fragment = "config \<times> config_merge_hints"

definition notify_strings :: "(notify_config \<Rightarrow> string) list" where
  "notify_strings =
     [\<lambda>n. tg_BotToken (nc_Telegram n), \<lambda>n. tg_ChatID (nc_Telegram n), \<lambda>n. tg_ActiveChatID (nc_Telegram n),
      \<lambda>n. tg_APIBase (nc_Telegram n), \<lambda>n. hn_URL (nc_HTTP n), \<lambda>n. hn_Method (nc_HTTP n),
      \<lambda>n. mm_BaseURL (nc_Mattermost n), \<lambda>n. mm_BotToken (nc_Mattermost n), \<lambda>n. mm_ChannelID (nc_Mattermost n),
      \<lambda>n. mm_ActiveChannelID (nc_Mattermost n), \<lambda>n. tk_BaseURL (nc_Jira n), \<lambda>n. tk_BaseURL (nc_YouTrack n)]"

definition notify_numbers :: "(notify_config \<Rightarrow> int64) list" where
  "notify_numbers =
     [nc_RepeatEverySec, \<lambda>n. nq_AckWaitSec (nc_Queue n), \<lambda>n. nq_NackDelayMS (nc_Queue n),
      \<lambda>n. nq_MaxDeliver (nc_Queue n), \<lambda>n. nq_MaxAckPending (nc_Queue n), \<lambda>n. hn_TimeoutSec (nc_HTTP n),
      \<lambda>n. mm_TimeoutSec (nc_Mattermost n), \<lambda>n. tk_TimeoutSec (nc_Jira n), \<lambda>n. tk_TimeoutSec (nc_YouTrack n)]"

definition notify_bools :: "((notify_config \<Rightarrow> bool) \<times> (notify_merge_hints \<Rightarrow> bool option)) list" where
  "notify_bools =
     [(nc_Repeat, nh_Repeat), (nc_RepeatPerChannel, nh_RepeatPerChannel), (nc_OnPending, nh_OnPending),
      (\<lambda>n. nq_Enabled (nc_Queue n), \<lambda>h. qh_Enabled (nh_Queue h)), (\<lambda>n. nq_DLQ (nc_Queue n), \<lambda>h. qh_DLQ (nh_Queue h)),
      (\<lambda>n. tg_Enabled (nc_Telegram n), nh_Telegram), (\<lambda>n. hn_Enabled (nc_HTTP n), nh_HTTP),
      (\<lambda>n. mm_Enabled (nc_Mattermost n), nh_Mattermost), (\<lambda>n. tk_Enabled (nc_Jira n), nh_Jira),
      (\<lambda>n. tk_Enabled (nc_YouTrack n), nh_YouTrack)]"

text \<open>The decoder reads settings and hints from the same bytes: a hint is the value set, if any.\<close>

definition hints_of :: "fragment \<Rightarrow> bool" where
  "hints_of fragment \<longleftrightarrow> (\<forall>(f, h) \<in> set notify_bools.
     (case h (ch_Notify (snd fragment)) of None \<Rightarrow> \<not> f (cf_Notify (fst fragment))
      | Some b \<Rightarrow> f (cf_Notify (fst fragment)) = b))"

definition merge_all :: "fragment list \<Rightarrow> config" where
  "merge_all fragments = fold (\<lambda>(src, hints) dst. mergeConfig dst src hints) fragments zero_config"

section \<open>Empty fields\<close>

lemma merge_empty [simp]:
  "TrimSpace s = [] \<Longrightarrow> mergeString d s = d" "mergeNonZeroInt n 0 = n" "mergeRetry r zero_retry = r"
  "mergeStringMap m [] = m" "replaceSlice xs [] = xs" "appendSlice xs [] = xs"
  "applyBoolMerge b False None = b" "\<not> bh_present h \<Longrightarrow> applyBoolHintMerge b h = b"
  by (simp_all add: mergeString_def mergeNonZeroInt_def mergeRetry_def mergeStringMap_def
      replaceSlice_def appendSlice_def applyBoolMerge_def applyBoolHintMerge_def)

lemma hasAny_Cons [simp]:
  "hasAnyString (v # vs) \<longleftrightarrow> TrimSpace v \<noteq> [] \<or> hasAnyString vs" "\<not> hasAnyString []"
  "hasAnyNonZero (n # ns) \<longleftrightarrow> n \<noteq> 0 \<or> hasAnyNonZero ns" "\<not> hasAnyNonZero []"
  by (simp_all add: hasAnyString_def hasAnyNonZero_def)

lemma merge_action_empty [simp]: "\<not> hasTrackerActionConfig src \<Longrightarrow> mergeTrackerActionConfig dst src = dst"
  by (simp add: hasTrackerActionConfig_def mergeTrackerActionConfig_def)

lemma merge_tracker_empty [simp]:
  "\<not> hasTrackerNotifierConfig src \<Longrightarrow> mergeTrackerNotifier dst src None = dst"
  by (simp add: hasTrackerNotifierConfig_def mergeTrackerNotifier_def)

text \<open>The guard in front of the notify section saves work and changes nothing.\<close>

lemma merge_notify_empty:
  assumes "\<not> hasNotifyConfig src" "\<not> notify_hasExplicitBool hints"
  shows "mergeNotifyConfig dst src hints = dst"
  using assms
  by (simp add: hasNotifyConfig_def notify_hasExplicitBool_def mergeNotifyConfig_def mergeNotifyQueue_def
      mergeTelegramNotifier_def mergeHTTPNotifier_def mergeMattermostNotifier_def Let_def)

lemma merge_ui_empty:
  assumes "\<not> hasUIConfig src" "\<not> ui_hasExplicitBool hints"
  shows "mergeUIConfig dst src hints = dst"
  using assms by (simp add: hasUIConfig_def ui_hasExplicitBool_def mergeUIConfig_def Let_def)

lemma mergeConfig_sections:
  "cf_Notify (mergeConfig dst src hints) = mergeNotifyConfig (cf_Notify dst) (cf_Notify src) (ch_Notify hints)"
  "cf_UI (mergeConfig dst src hints) = mergeUIConfig (cf_UI dst) (cf_UI src) (ch_UI hints)"
  "cf_Rule (mergeConfig dst src hints) = cf_Rule dst @ cf_Rule src"
  using merge_notify_empty [of "cf_Notify src" "ch_Notify hints" "cf_Notify dst"]
    merge_ui_empty [of "cf_UI src" "ch_UI hints" "cf_UI dst"]
  by (auto simp: mergeConfig_def)

section \<open>Many fragments\<close>

lemma last_with_snoc: "last_with P d (xs @ [x]) = (if P x then x else last_with P d xs)"
  by (simp add: last_with_def)

lemma last_with_Nil [simp]: "last_with P d [] = d"
  by (simp add: last_with_def)

lemma merge_all_snoc: "merge_all (fs @ [(src, hints)]) = mergeConfig (merge_all fs) src hints"
  by (simp add: merge_all_def)

lemma merge_all_Nil: "merge_all [] = zero_config"
  by (simp add: merge_all_def)

text \<open>One lemma for all fields whose merge keeps the last value that satisfies a test.\<close>

lemma merge_all_last:
  assumes step: "\<And>dst src hints. field (mergeConfig dst src hints) = (if P (field src) then field src else field dst)"
  shows "field (merge_all fs) = last_with P (field zero_config) (map (\<lambda>f. field (fst f)) fs)"
  by (induction fs rule: rev_induct) (auto simp: merge_all_Nil merge_all_snoc last_with_snoc step)

lemma merge_all_concat:
  assumes "\<And>dst src hints. field (mergeConfig dst src hints) = field dst @ field src" "field zero_config = []"
  shows "field (merge_all fs) = concat (map (\<lambda>f. field (fst f)) fs)"
  by (induction fs rule: rev_induct) (auto simp: merge_all_Nil merge_all_snoc assms)

lemma merge_all_bool:
  assumes "\<And>dst src hints. field (mergeConfig dst src hints) =
      applyBoolMerge (field dst) (field src) (hint hints)" "\<not> field zero_config"
    and "\<forall>f \<in> set fs. case hint (snd f) of None \<Rightarrow> \<not> field (fst f) | Some b \<Rightarrow> field (fst f) = b"
  shows "field (merge_all fs) = last_explicit (map (\<lambda>f. hint (snd f)) fs)"
  using assms(3)
proof (induction fs rule: rev_induct)
  case (snoc f fs)
  then show ?case
    by (cases f) (auto simp: merge_all_snoc assms(1) applyBoolMerge_def last_explicit_def last_with_snoc split: option.splits)
qed (simp add: merge_all_Nil assms(2) last_explicit_def)

lemmas merge_sections = mergeNotifyConfig_def mergeTelegramNotifier_def mergeHTTPNotifier_def
  mergeMattermostNotifier_def mergeTrackerNotifier_def mergeNotifyQueue_def

lemma notify_strings_step:
  "\<forall>f \<in> set notify_strings. f (mergeNotifyConfig dst src hints) = mergeString (f dst) (f src)"
  by (simp add: notify_strings_def merge_sections)

lemma notify_numbers_step:
  "\<forall>f \<in> set notify_numbers. f (mergeNotifyConfig dst src hints) = mergeNonZeroInt (f dst) (f src)"
  by (simp add: notify_numbers_def merge_sections)

lemma notify_bools_step:
  "\<forall>(f, h) \<in> set notify_bools. f (mergeNotifyConfig dst src hints) = applyBoolMerge (f dst) (f src) (h hints)"
  by (simp add: notify_bools_def merge_sections)

lemma notify_zero:
  "\<forall>f \<in> set notify_strings. f zero_notify = []" "\<forall>g \<in> set notify_numbers. g zero_notify = 0"
  "\<forall>(b, h) \<in> set notify_bools. \<not> b zero_notify"
  by (simp_all add: notify_strings_def notify_numbers_def notify_bools_def zero_notify_def zero_tracker_def zero_queue_def)

definition channel_templates :: "(notify_config \<Rightarrow> named_template list) list" where
  "channel_templates = [\<lambda>n. tg_NameTemplate (nc_Telegram n), \<lambda>n. hn_NameTemplate (nc_HTTP n),
     \<lambda>n. mm_NameTemplate (nc_Mattermost n), \<lambda>n. tk_NameTemplate (nc_Jira n), \<lambda>n. tk_NameTemplate (nc_YouTrack n)]"

lemma channel_templates_step:
  "\<forall>f \<in> set channel_templates. f (mergeNotifyConfig dst src hints) = f dst @ f src \<and> f zero_notify = []"
  by (simp add: channel_templates_def merge_sections appendSlice_def zero_notify_def zero_tracker_def)

section \<open>Directories\<close>

lemma merge_files_fold:
  "merge_files env files dst = Inr cfg \<Longrightarrow>
    \<exists>fs. list_all2 (\<lambda>p f. loadFileForMerge env p = Inr f) files fs \<and>
      cfg = fold (\<lambda>(src, hints) dst. mergeConfig dst src hints) fs dst"
proof (induction files arbitrary: dst)
  case (Cons p ps)
  then obtain src hints where f: "loadFileForMerge env p = Inr (src, hints)"
    "merge_files env ps (mergeConfig dst src hints) = Inr cfg"
    by (auto split: sum.splits)
  from Cons.IH [OF f(2)] obtain fs where "list_all2 (\<lambda>p f. loadFileForMerge env p = Inr f) ps fs"
    "cfg = fold (\<lambda>(src, hints) dst. mergeConfig dst src hints) fs (mergeConfig dst src hints)" by blast
  then show ?case using f(1) by (intro exI [of _ "(src, hints) # fs"]) simp
qed simp

text \<open>The same successes and the same result in any order of the directory listing.\<close>

lemma toml_files_perm:
  assumes "mset entries = mset entries'"
  shows "sort (toml_files dir entries) = sort (toml_files dir entries')"
proof -
  have "mset (toml_files dir es) = image_mset (\<lambda>e. filepath_Join dir (fst e))
      (filter_mset (\<lambda>e. \<not> snd e \<and> ToLower (filepath_Ext (fst e)) = ''.toml'') (mset es))" for es
    by (induction es) (auto simp: toml_files_def List.map_filter_simps)
  then show ?thesis using assms by (intro properties_for_sort) simp_all
qed

lemma normalize_rules_cong:
  "(\<And>n. n \<in> set names \<Longrightarrow> map_get rules n = map_get rules' n) \<Longrightarrow> normalize_rules rules names = normalize_rules rules' names"
  by (induction names) (auto simp: Let_def split: sum.splits)

lemma normalizeRawConfig_perm:
  assumes "wf_map (rw_Rule raw)" "mset rules = mset (rw_Rule raw)"
  shows "normalizeRawConfig (raw\<lparr>rw_Rule := rules\<rparr>) = normalizeRawConfig raw"
proof -
  have d: "distinct (map fst rules)"
    using assms by (metis (mono_tags) mset_map mset_eq_imp_distinct_iff wf_map_def)
  then have "map_get rules = map_get (rw_Rule raw)"
    using assms map_of_inject_set [of rules "rw_Rule raw"] mset_eq_setD [OF assms(2)] by (simp add: wf_map_def)
  moreover have "sort (map fst rules) = sort (map fst (rw_Rule raw))"
    using assms(2) by (intro properties_for_sort) (simp_all add: mset_map)
  moreover have "length rules = length (rw_Rule raw)" using assms(2) by (rule mset_eq_length)
  moreover from calculation(1) have "normalize_rules rules names = normalize_rules (rw_Rule raw) names" for names
    by (intro normalize_rules_cong) simp
  ultimately show ?thesis by (simp add: normalizeRawConfig_def Let_def)
qed

section \<open>The fields of a merged directory\<close>

lemma merged_fields:
  "cf_Rule (merge_all fs) = concat (map (\<lambda>f. cf_Rule (fst f)) fs)"
  "cf_Service (merge_all fs) = last_with (\<lambda>s. s \<noteq> zero_service) zero_service (map (\<lambda>f. cf_Service (fst f)) fs)"
  "cf_Log (merge_all fs) = last_with (\<lambda>l. l \<noteq> zero_log) zero_log (map (\<lambda>f. cf_Log (fst f)) fs)"
  "cf_Ingest (merge_all fs) = last_with hasIngestConfig zero_ingest (map (\<lambda>f. cf_Ingest (fst f)) fs)"
  "list_all (\<lambda>get. get (cf_Notify (merge_all fs)) =
     last_with (\<lambda>s. TrimSpace s \<noteq> []) [] (map (\<lambda>f. get (cf_Notify (fst f))) fs)) notify_strings"
  "list_all (\<lambda>get. get (cf_Notify (merge_all fs)) =
     last_with (\<lambda>n. n \<noteq> 0) 0 (map (\<lambda>f. get (cf_Notify (fst f))) fs)) notify_numbers"
  "list_all (\<lambda>get. get (cf_Notify (merge_all fs)) = concat (map (\<lambda>f. get (cf_Notify (fst f))) fs)) channel_templates"
  "if list_all hints_of fs then list_all (\<lambda>(get, hint). get (cf_Notify (merge_all fs)) =
     last_explicit (map (\<lambda>f. hint (ch_Notify (snd f))) fs)) notify_bools else True"
proof -
  show "cf_Rule (merge_all fs) = concat (map (\<lambda>f. cf_Rule (fst f)) fs)"
    by (rule merge_all_concat) (simp_all add: mergeConfig_sections zero_config_def)
  show "cf_Service (merge_all fs) = last_with (\<lambda>s. s \<noteq> zero_service) zero_service (map (\<lambda>f. cf_Service (fst f)) fs)"
    using merge_all_last [of cf_Service "\<lambda>s. s \<noteq> zero_service" fs]
    by (simp add: zero_config_def mergeConfig_def)
  show "cf_Log (merge_all fs) = last_with (\<lambda>l. l \<noteq> zero_log) zero_log (map (\<lambda>f. cf_Log (fst f)) fs)"
    using merge_all_last [of cf_Log "\<lambda>l. l \<noteq> zero_log" fs]
    by (simp add: zero_config_def mergeConfig_def)
  show "cf_Ingest (merge_all fs) = last_with hasIngestConfig zero_ingest (map (\<lambda>f. cf_Ingest (fst f)) fs)"
    using merge_all_last [of cf_Ingest hasIngestConfig fs]
    by (simp add: zero_config_def mergeConfig_def)
  have zero: "cf_Notify zero_config = zero_notify" by (simp add: zero_config_def)
  have "get (cf_Notify (merge_all fs)) = last_with (\<lambda>s. TrimSpace s \<noteq> []) [] (map (\<lambda>f. get (cf_Notify (fst f))) fs)"
    if "get \<in> set notify_strings" for get
    using merge_all_last [of "\<lambda>c. get (cf_Notify c)" "\<lambda>s. TrimSpace s \<noteq> []" fs] bspec [OF notify_strings_step that]
      bspec [OF notify_zero(1) that]
    by (simp add: mergeConfig_sections mergeString_def zero)
  then show "list_all (\<lambda>get. get (cf_Notify (merge_all fs)) =
     last_with (\<lambda>s. TrimSpace s \<noteq> []) [] (map (\<lambda>f. get (cf_Notify (fst f))) fs)) notify_strings"
    by (simp add: list_all_iff)
  have "get (cf_Notify (merge_all fs)) = last_with (\<lambda>n. n \<noteq> 0) 0 (map (\<lambda>f. get (cf_Notify (fst f))) fs)"
    if "get \<in> set notify_numbers" for get
    using merge_all_last [of "\<lambda>c. get (cf_Notify c)" "\<lambda>n. n \<noteq> 0" fs] bspec [OF notify_numbers_step that]
      bspec [OF notify_zero(2) that]
    by (simp add: mergeConfig_sections mergeNonZeroInt_def zero)
  then show "list_all (\<lambda>get. get (cf_Notify (merge_all fs)) =
     last_with (\<lambda>n. n \<noteq> 0) 0 (map (\<lambda>f. get (cf_Notify (fst f))) fs)) notify_numbers"
    by (simp add: list_all_iff)
  have "get (cf_Notify (merge_all fs)) = concat (map (\<lambda>f. get (cf_Notify (fst f))) fs)"
    if "get \<in> set channel_templates" for get
    using merge_all_concat [of "\<lambda>c. get (cf_Notify c)" fs] bspec [OF channel_templates_step that]
    by (simp add: mergeConfig_sections zero)
  then show "list_all (\<lambda>get. get (cf_Notify (merge_all fs)) = concat (map (\<lambda>f. get (cf_Notify (fst f))) fs)) channel_templates"
    by (simp add: list_all_iff)
  have "get (cf_Notify (merge_all fs)) = last_explicit (map (\<lambda>f. hint (ch_Notify (snd f))) fs)"
    if "(get, hint) \<in> set notify_bools" "list_all hints_of fs" for get hint
  proof (rule merge_all_bool)
    show "get (cf_Notify (mergeConfig dst src hints)) =
        applyBoolMerge (get (cf_Notify dst)) (get (cf_Notify src)) (hint (ch_Notify hints))" for dst src hints
      using that(1) notify_bools_step by (fastforce simp: mergeConfig_sections)
    show "\<not> get (cf_Notify zero_config)" using that(1) notify_zero(3) by (fastforce simp: zero)
    show "\<forall>f \<in> set fs. case hint (ch_Notify (snd f)) of None \<Rightarrow> \<not> get (cf_Notify (fst f))
        | Some b \<Rightarrow> get (cf_Notify (fst f)) = b"
      using that by (fastforce simp: list_all_iff hints_of_def)
  qed
  then show "if list_all hints_of fs then list_all (\<lambda>(get, hint). get (cf_Notify (merge_all fs)) =
     last_explicit (map (\<lambda>f. hint (ch_Notify (snd f))) fs)) notify_bools else True"
    by (auto simp: list_all_iff)
qed

end
