(* ===== verification/Http_Client.thy ===== *)
theory Http_Client
  imports Dispatch
begin

text \<open>
  HTTP requests of \<open>internal/notify/notify.go\<close> and what they need of Go's library: header
  keys, path escaping, base64. The client itself is an argument (\<open>http_api\<close>): building a
  request may fail, \<open>Do\<close> acts on the world and returns a status with a body whose reading may
  fail. JSON encoding is an argument as well; decoded values are \<open>json\<close>.
\<close>

section \<open>Library\<close>

definition is_upper :: "char \<Rightarrow> bool" where
  "is_upper c \<longleftrightarrow> 65 \<le> (of_char c :: nat) \<and> (of_char c :: nat) \<le> 90"

definition is_lower :: "char \<Rightarrow> bool" where
  "is_lower c \<longleftrightarrow> 97 \<le> (of_char c :: nat) \<and> (of_char c :: nat) \<le> 122"

text \<open>The token characters of header fields.\<close>

definition token_char :: "char \<Rightarrow> bool" where
  "token_char c \<longleftrightarrow> is_upper c \<or> is_lower c \<or> is_digit c \<or>
     (of_char c :: nat) \<in> {33, 35, 36, 37, 38, 39, 42, 43, 45, 46, 94, 95, 96, 124, 126}"

text \<open>\<open>http.CanonicalHeaderKey\<close>: upper case at the start and after dashes, else lower case.\<close>

fun canonical_from :: "bool \<Rightarrow> string \<Rightarrow> string" where
  "canonical_from upper [] = []"
| "canonical_from upper (c # cs) =
     (if upper then upper_char c else lower_char c) # canonical_from (c = CHR ''-'') cs"

definition CanonicalHeaderKey :: "string \<Rightarrow> string" where
  "CanonicalHeaderKey key = (if list_all token_char key then canonical_from True key else key)"

definition hex_digit :: "nat \<Rightarrow> char" where
  "hex_digit n = (if n < 10 then char_of (48 + n) else char_of (55 + n))"

text \<open>\<open>url.PathEscape\<close>.\<close>

definition path_safe :: "char \<Rightarrow> bool" where
  "path_safe c \<longleftrightarrow> is_upper c \<or> is_lower c \<or> is_digit c \<or> c \<in> set ''-_.~$&+=:@''"

definition PathEscape :: "string \<Rightarrow> string" where
  "PathEscape s = concat (map (\<lambda>c. if path_safe c then [c]
     else [CHR ''%'', hex_digit (of_char c div 16), hex_digit (of_char c mod 16)]) s)"

text \<open>\<open>base64.StdEncoding.EncodeToString\<close>.\<close>

definition base64_digit :: "nat \<Rightarrow> char" where
  "base64_digit n =
     (if n < 26 then char_of (65 + n) else if n < 52 then char_of (71 + n)
      else if n < 62 then char_of (n - 4) else if n = 62 then CHR ''+'' else CHR ''/'')"

fun base64_bytes :: "nat list \<Rightarrow> string" where
  "base64_bytes [] = []"
| "base64_bytes [a] = [base64_digit (a div 4), base64_digit (a mod 4 * 16), CHR ''='', CHR ''='']"
| "base64_bytes [a, b] =
     [base64_digit (a div 4), base64_digit (a mod 4 * 16 + b div 16), base64_digit (b mod 16 * 4), CHR ''='']"
| "base64_bytes (a # b # c # rest) =
     base64_digit (a div 4) # base64_digit (a mod 4 * 16 + b div 16) #
     base64_digit (b mod 16 * 4 + c div 64) # base64_digit (c mod 64) # base64_bytes rest"

definition base64_EncodeToString :: "string \<Rightarrow> string" where
  "base64_EncodeToString s = base64_bytes (map of_char s)"

section \<open>Requests\<close>

datatype json = JNull | JBool bool | JNumber float64 | JString string | JArray "json list" | JObject "(string, json) gmap"

text \<open>What is sent as JSON: a notification, or one of the Mattermost structs.\<close>

datatype payload =
    PayloadNotification notification
  | PayloadPost string string string
  | PayloadActivePost string string
  | PayloadUpdate string string

record http_request_out =
  rq_Method :: string
  rq_URL :: string
  rq_Header :: "(string, string) gmap"
  rq_Body :: "string option"

record http_response =
  rp_StatusCode :: int64
  rp_Body :: "string result"

record 'w http_api =
  ha_NewRequest :: "string \<Rightarrow> string \<Rightarrow> error option"
  ha_Do :: "duration \<Rightarrow> http_request_out \<Rightarrow> 'w \<Rightarrow> http_response result \<times> 'w"
  ha_Marshal :: "payload \<Rightarrow> string result"
  ha_PostID :: "string \<Rightarrow> string result"
  ha_Unmarshal :: "string \<Rightarrow> json result"
  ha_FormatFloat :: "float64 \<Rightarrow> string"
  ha_ParseURL :: "string \<Rightarrow> error option"

definition Header_Set :: "string \<Rightarrow> string \<Rightarrow> http_request_out \<Rightarrow> http_request_out" where
  "Header_Set key value r = r\<lparr>rq_Header := map_put (CanonicalHeaderKey key) value (rq_Header r)\<rparr>"

definition NewRequest :: "'w http_api \<Rightarrow> string \<Rightarrow> string \<Rightarrow> string option \<Rightarrow> http_request_out result" where
  "NewRequest api method url body =
     (case ha_NewRequest api method url of
        Some err \<Rightarrow> Inl err
      | None \<Rightarrow> Inr \<lparr>rq_Method = method, rq_URL = url, rq_Header = [], rq_Body = body\<rparr>)"

text \<open>Every caller of \<open>buildJSONRequest\<close> passes a payload.\<close>

definition buildJSONRequest :: "'w http_api \<Rightarrow> string \<Rightarrow> string \<Rightarrow> payload \<Rightarrow> string \<Rightarrow> http_request_out result" where
  "buildJSONRequest api method endpoint payload label =
     (case ha_Marshal api payload of
        Inl err \<Rightarrow> Inl (ErrWrap ''encode %s payload: %w'' [label] err)
      | Inr body \<Rightarrow>
          (case NewRequest api method endpoint (Some body) of
             Inl err \<Rightarrow> Inl (ErrWrap ''build %s request: %w'' [label] err)
           | Inr request \<Rightarrow> Inr (Header_Set ''Content-Type'' ''application/json'' request)))"

definition isHTTPStatusAccepted :: "int64 \<Rightarrow> int64 list \<Rightarrow> bool" where
  "isHTTPStatusAccepted statusCode successStatus =
     (if length successStatus = 0 then 200 \<le> statusCode \<and> statusCode < 300
      else statusCode \<in> set successStatus)"

definition formatHTTPStatusError :: "string \<Rightarrow> int64 \<Rightarrow> string \<Rightarrow> error" where
  "formatHTTPStatusError label statusCode body =
     (let trimmedBody = TrimSpace body in
      if trimmedBody = [] then ErrFmt ''%s status=%d'' [label, FormatInt statusCode]
      else ErrFmt ''%s status=%d body=%s'' [label, FormatInt statusCode, trimmedBody])"

text \<open>The client is never nil: every sender builds its own. A body that is not read is discarded.\<close>

definition executeRequest ::
    "'w http_api \<Rightarrow> duration \<Rightarrow> http_request_out \<Rightarrow> string \<Rightarrow> int64 list \<Rightarrow> bool \<Rightarrow> 'w \<Rightarrow> string result \<times> 'w" where
  "executeRequest api timeout request label successStatus readSuccessBody w =
     (case ha_Do api timeout request w of
        (Inl err, w1) \<Rightarrow> (Inl (ErrWrap ''%s send: %w'' [label] err), w1)
      | (Inr response, w1) \<Rightarrow>
          (if isHTTPStatusAccepted (rp_StatusCode response) successStatus then
             (if \<not> readSuccessBody then
                (case rp_Body response of
                   Inl err \<Rightarrow> (Inl (ErrWrap ''%s discard response: %w'' [label] err), w1)
                 | Inr _ \<Rightarrow> (Inr [], w1))
              else
                (case rp_Body response of
                   Inl err \<Rightarrow> (Inl (ErrWrap ''%s read response: %w'' [label] err), w1)
                 | Inr body \<Rightarrow> (Inr body, w1)))
           else
             (case rp_Body response of
                Inl err \<Rightarrow> (Inl (ErrWrap ''%s read response: %w'' [label] err), w1)
              | Inr body \<Rightarrow> (Inl (formatHTTPStatusError label (rp_StatusCode response) body), w1))))"

section \<open>JSON paths\<close>

text \<open>The Go types that \<open>%T\<close> prints for decoded values.\<close>

fun json_type :: "json \<Rightarrow> string" where
  "json_type JNull = ''<nil>''"
| "json_type (JBool _) = ''bool''"
| "json_type (JNumber _) = ''float64''"
| "json_type (JString _) = ''string''"
| "json_type (JArray _) = ''[]interface {}''"
| "json_type (JObject _) = ''map[string]interface {}''"

definition json_step :: "string \<Rightarrow> json \<Rightarrow> json result" where
  "json_step part current =
     (let token = TrimSpace part in
      if token = [] then Inl (ErrMsg ''json path contains empty segment'')
      else (case current of
          JObject entries \<Rightarrow>
            (case map_get entries token of
               None \<Rightarrow> Inl (ErrFmt ''path segment %q not found'' [token])
             | Some next_value \<Rightarrow> Inr next_value)
        | JArray elements \<Rightarrow>
            (case Atoi token of
               None \<Rightarrow> Inl (ErrFmt ''path segment %q is not array index'' [token])
             | Some index \<Rightarrow>
                 if index < 0 \<or> index \<ge> int (length elements)
                 then Inl (ErrFmt ''array index %d out of bounds'' [FormatInt index])
                 else Inr (elements ! nat index))
        | other \<Rightarrow> Inl (ErrFmt ''path segment %q not reachable from %T'' [token, json_type other])))"

fun json_walk :: "string list \<Rightarrow> json \<Rightarrow> json result" where
  "json_walk [] current = Inr current"
| "json_walk (part # parts) current =
     (case json_step part current of Inl err \<Rightarrow> Inl err | Inr v \<Rightarrow> json_walk parts v)"

definition json_text :: "'w http_api \<Rightarrow> json \<Rightarrow> string result" where
  "json_text api v =
     (case v of
        JString s \<Rightarrow>
          (let value = TrimSpace s in
           if value = [] then Inl (ErrMsg ''json path resolved to empty string'') else Inr value)
      | JNumber x \<Rightarrow> Inr (ha_FormatFloat api x)
      | JBool b \<Rightarrow> Inr (FormatBool b)
      | other \<Rightarrow> Inl (ErrFmt ''json path resolved to unsupported type %T'' [json_type other]))"

definition extractJSONPathString :: "'w http_api \<Rightarrow> string \<Rightarrow> string \<Rightarrow> string result" where
  "extractJSONPathString api body path =
     (let trimmedPath = TrimSpace path in
      if trimmedPath = [] then Inl (ErrMsg ''empty json path'')
      else (case ha_Unmarshal api body of
          Inl err \<Rightarrow> Inl err
        | Inr root \<Rightarrow>
            (case json_walk (Split trimmedPath (CHR ''.'')) root of
               Inl err \<Rightarrow> Inl err
             | Inr v \<Rightarrow> json_text api v)))"

section \<open>Facts\<close>

lemma hex_digit_safe: "n < 16 \<Longrightarrow> path_safe (hex_digit n)"
  by (auto simp: hex_digit_def path_safe_def is_upper_def is_digit_def)

lemma PathEscape_chars:
  assumes "c \<in> set (PathEscape s)"
  shows "path_safe c \<or> c = CHR ''%''"
proof -
  have "(of_char x :: nat) div 16 < 16" for x :: char
  proof -
    have "(of_char x :: nat) < 16 * 16" by simp
    then show ?thesis by (rule less_mult_imp_div_less)
  qed
  then have "path_safe (hex_digit (of_char x div 16))" "path_safe (hex_digit (of_char x mod 16))" for x :: char
    by (simp_all add: hex_digit_safe)
  then show ?thesis using assms by (auto simp: PathEscape_def split: if_splits)
qed

lemma path_safe_no_separator:
  "path_safe c \<or> c = CHR ''%'' \<Longrightarrow> c \<noteq> CHR ''/'' \<and> c \<noteq> CHR ''?'' \<and> c \<noteq> CHR ''#''"
  by (auto simp: path_safe_def is_upper_def is_lower_def is_digit_def)

lemma executeRequest_ok:
  assumes "executeRequest api timeout request label successStatus readBody w = (Inr body, w1)"
  obtains response where "ha_Do api timeout request w = (Inr response, w1)"
    "isHTTPStatusAccepted (rp_StatusCode response) successStatus"
  using assms
  by (auto simp: executeRequest_def split: prod.splits sum.splits if_splits)

end
