(* ===== verification/Transports.thy ===== *)
theory Transports
  imports Http_Client
begin

text \<open>
  The senders of \<open>internal/notify/notify.go\<close>: Telegram, generic HTTP, Mattermost and the
  trackers (Jira, YouTrack). Each sender is a record as its Go struct; \<open>Send\<close> acts on the
  world through the HTTP client or through the Telegram bot library, which is an argument
  (\<open>bot_api\<close>). Parsed templates are the functions the dispatcher uses as well.
\<close>

section \<open>Telegram\<close>

text \<open>The chat id is a number or a text (\<open>any\<close>); a sent or edited message may be nil.\<close>

datatype chat_id = ChatNumber int64 | ChatName string

record 'w bot_api =
  tb_New :: "string \<Rightarrow> string \<Rightarrow> error option"
  tb_SendMessage :: "chat_id \<Rightarrow> string \<Rightarrow> int64 option \<Rightarrow> 'w \<Rightarrow> int64 option result \<times> 'w"
  tb_EditMessageText :: "chat_id \<Rightarrow> int64 \<Rightarrow> string \<Rightarrow> 'w \<Rightarrow> int64 option result \<times> 'w"
  tb_DeleteMessage :: "chat_id \<Rightarrow> int64 \<Rightarrow> 'w \<Rightarrow> bool result \<times> 'w"

record telegram_sender =
  ts_client :: bool
  ts_chatID :: chat_id
  ts_activeChatID :: "chat_id option"
  ts_initErr :: "error option"

definition normalizeChatID :: "string \<Rightarrow> chat_id" where
  "normalizeChatID raw =
     (let trimmed = TrimSpace raw in
      case Atoi trimmed of Some numeric \<Rightarrow> ChatNumber numeric | None \<Rightarrow> ChatName trimmed)"

definition NewTelegramSender :: "'w bot_api \<Rightarrow> telegram_notifier \<Rightarrow> telegram_sender" where
  "NewTelegramSender tgbot cfg =
     (let sender = \<lparr>ts_client = False, ts_chatID = normalizeChatID (tg_ChatID cfg),
            ts_activeChatID = (if TrimSpace (tg_ActiveChatID cfg) \<noteq> [] then Some (normalizeChatID (tg_ActiveChatID cfg)) else None),
            ts_initErr = None\<rparr> in
      if TrimSpace (tg_BotToken cfg) = [] then sender\<lparr>ts_initErr := Some (ErrMsg ''telegram bot token is required'')\<rparr>
      else if TrimSpace (tg_ChatID cfg) = [] then sender\<lparr>ts_initErr := Some (ErrMsg ''telegram chat_id is required'')\<rparr>
      else (case tb_New tgbot (tg_BotToken cfg) (TrimRight (tg_APIBase cfg) (CHR ''/'')) of
          Some err \<Rightarrow> sender\<lparr>ts_initErr := Some (ErrWrap ''init telegram bot: %w'' [] err)\<rparr>
        | None \<Rightarrow> sender\<lparr>ts_client := True\<rparr>))"

definition parseTelegramMessageID :: "string \<Rightarrow> int64 result" where
  "parseTelegramMessageID v =
     (case Atoi (TrimSpace v) of
        None \<Rightarrow> Inl (ErrFmt ''invalid telegram message id %q'' [v])
      | Some messageID \<Rightarrow>
          if messageID \<le> 0 then Inl (ErrFmt ''invalid telegram message id %q'' [v]) else Inr messageID)"

text \<open>The answer to a send: an error, nothing usable, or a message id.\<close>

definition sent_id :: "int64 option result \<Rightarrow> int64 result" where
  "sent_id answer =
     (case answer of
        Inl err \<Rightarrow> Inl (ErrWrap ''telegram send: %w'' [] err)
      | Inr None \<Rightarrow> Inl (ErrMsg ''telegram send returned empty message id'')
      | Inr (Some n) \<Rightarrow> if n \<le> 0 then Inl (ErrMsg ''telegram send returned empty message id'') else Inr n)"

definition telegram_sendHistory ::
    "'w bot_api \<Rightarrow> chat_id \<Rightarrow> notification \<Rightarrow> 'w \<Rightarrow> send_result result \<times> 'w" where
  "telegram_sendHistory tgbot chatID n w =
     (let reply = (case nt_ReplyToMessageID n of None \<Rightarrow> None | Some r \<Rightarrow> if r > 0 then Some r else None) in
      case tb_SendMessage tgbot chatID (nt_Message n) reply w of (answer, w1) \<Rightarrow>
        (case sent_id answer of
           Inl err \<Rightarrow> (Inl err, w1)
         | Inr messageID \<Rightarrow> (Inr \<lparr>sr_MessageID = messageID, sr_ExternalRef = []\<rparr>, w1)))"

definition telegram_delete ::
    "'w bot_api \<Rightarrow> chat_id \<Rightarrow> notification \<Rightarrow> 'w \<Rightarrow> send_result result \<times> 'w" where
  "telegram_delete tgbot chatID n w =
     (case parseTelegramMessageID (nt_ExternalRef n) of
        Inl err \<Rightarrow> (Inl (ErrWrap ''telegram active delete: %w'' [] err), w)
      | Inr messageID \<Rightarrow>
          (case tb_DeleteMessage tgbot chatID messageID w of
             (Inl err, w1) \<Rightarrow> (Inl (ErrWrap ''telegram delete: %w'' [] err), w1)
           | (Inr ok, w1) \<Rightarrow>
               if \<not> ok then (Inl (ErrMsg ''telegram delete returned false''), w1)
               else (Inr no_send_result, w1)))"

definition telegram_edit ::
    "'w bot_api \<Rightarrow> chat_id \<Rightarrow> notification \<Rightarrow> 'w \<Rightarrow> send_result result \<times> 'w" where
  "telegram_edit tgbot chatID n w =
     (case parseTelegramMessageID (nt_ExternalRef n) of
        Inl err \<Rightarrow> (Inl (ErrWrap ''telegram active edit: %w'' [] err), w)
      | Inr messageID \<Rightarrow>
          (case tb_EditMessageText tgbot chatID messageID (nt_Message n) w of
             (Inl err, w1) \<Rightarrow> (Inl (ErrWrap ''telegram edit: %w'' [] err), w1)
           | (Inr edited, w1) \<Rightarrow>
               (case edited of
                  None \<Rightarrow> (Inl (ErrMsg ''telegram edit returned empty message''), w1)
                | Some k \<Rightarrow>
                    if k \<le> 0 then (Inl (ErrMsg ''telegram edit returned empty message''), w1)
                    else (Inr \<lparr>sr_MessageID = messageID, sr_ExternalRef = FormatInt messageID\<rparr>, w1))))"

definition telegram_sendActiveOnly ::
    "'w bot_api \<Rightarrow> chat_id \<Rightarrow> notification \<Rightarrow> 'w \<Rightarrow> send_result result \<times> 'w" where
  "telegram_sendActiveOnly tgbot chatID n w =
     (if nt_State n = StResolved then telegram_delete tgbot chatID n w
      else if TrimSpace (nt_ExternalRef n) \<noteq> [] then telegram_edit tgbot chatID n w
      else (case tb_SendMessage tgbot chatID (nt_Message n) None w of (answer, w1) \<Rightarrow>
          (case sent_id answer of
             Inl err \<Rightarrow> (Inl err, w1)
           | Inr messageID \<Rightarrow> (Inr \<lparr>sr_MessageID = messageID, sr_ExternalRef = FormatInt messageID\<rparr>, w1))))"

definition telegram_Send ::
    "'w bot_api \<Rightarrow> telegram_sender \<Rightarrow> notification \<Rightarrow> 'w \<Rightarrow> send_result result \<times> 'w" where
  "telegram_Send tgbot s n w =
     (case ts_initErr s of
        Some err \<Rightarrow> (Inl err, w)
      | None \<Rightarrow>
          if \<not> ts_client s then (Inl (ErrMsg ''telegram client is not initialized''), w)
          else
            (let routeMode = NormalizeNotifyRouteMode (nt_RouteMode n);
                 chatID = (if routeMode = NotifyRouteModeActiveOnly
                           then (case ts_activeChatID s of Some c \<Rightarrow> c | None \<Rightarrow> ts_chatID s) else ts_chatID s)
             in if routeMode = NotifyRouteModeActiveOnly then telegram_sendActiveOnly tgbot chatID n w
                else telegram_sendHistory tgbot chatID n w))"

section \<open>Generic HTTP\<close>

record http_sender =
  hs_cfg :: http_notifier
  hs_timeout :: duration

definition NewHTTPScenarioSender :: "http_notifier \<Rightarrow> http_sender" where
  "NewHTTPScenarioSender cfg = \<lparr>hs_cfg = cfg, hs_timeout = seconds (hn_TimeoutSec cfg)\<rparr>"

definition http_Send :: "'w http_api \<Rightarrow> http_sender \<Rightarrow> notification \<Rightarrow> 'w \<Rightarrow> send_result result \<times> 'w" where
  "http_Send api s n w =
     (let upper = ToUpper (TrimSpace (hn_Method (hs_cfg s)));
          method = (if upper = [] then ''POST'' else upper) in
      case buildJSONRequest api method (hn_URL (hs_cfg s)) (PayloadNotification n) ''http notify'' of
        Inl err \<Rightarrow> (Inl err, w)
      | Inr request0 \<Rightarrow>
          (let request = fold (\<lambda>(key, value). Header_Set key value) (hn_Headers (hs_cfg s)) request0 in
           case executeRequest api (hs_timeout s) request ''http notify'' [] False w of
             (Inl err, w1) \<Rightarrow> (Inl err, w1)
           | (Inr _, w1) \<Rightarrow> (Inr no_send_result, w1)))"

section \<open>Mattermost\<close>

record mattermost_sender =
  ms_cfg :: mattermost_config
  ms_timeout :: duration

definition NewMattermostSender :: "mattermost_config \<Rightarrow> mattermost_sender" where
  "NewMattermostSender cfg =
     (let timeoutSec = (if mm_TimeoutSec cfg \<le> 0 then 10 else mm_TimeoutSec cfg) in
      \<lparr>ms_cfg = cfg, ms_timeout = seconds timeoutSec\<rparr>)"

definition postsEndpoint :: "mattermost_sender \<Rightarrow> string \<Rightarrow> string" where
  "postsEndpoint s postID =
     (let base = TrimRight (TrimSpace (mm_BaseURL (ms_cfg s))) (CHR ''/'') @ ''/api/v4/posts'' in
      if TrimSpace postID = [] then base else base @ ''/'' @ PathEscape postID)"

definition mattermost_applyAuth :: "mattermost_sender \<Rightarrow> http_request_out \<Rightarrow> http_request_out" where
  "mattermost_applyAuth s request =
     Header_Set ''Authorization'' (''Bearer '' @ TrimSpace (mm_BotToken (ms_cfg s))) request"

definition createPost :: "'w http_api \<Rightarrow> mattermost_sender \<Rightarrow> payload \<Rightarrow> 'w \<Rightarrow> string result \<times> 'w" where
  "createPost api s payload w =
     (case buildJSONRequest api ''POST'' (postsEndpoint s []) payload ''mattermost'' of
        Inl err \<Rightarrow> (Inl err, w)
      | Inr request \<Rightarrow>
          (case executeRequest api (ms_timeout s) (mattermost_applyAuth s request) ''mattermost'' [] True w of
             (Inl err, w1) \<Rightarrow> (Inl err, w1)
           | (Inr responseBody, w1) \<Rightarrow>
               (case ha_PostID api responseBody of
                  Inl err \<Rightarrow> (Inl (ErrWrap ''decode mattermost response: %w'' [] err), w1)
                | Inr postID \<Rightarrow>
                    if TrimSpace postID = [] then (Inl (ErrMsg ''mattermost response missing id''), w1)
                    else (Inr postID, w1))))"

definition updatePost :: "'w http_api \<Rightarrow> mattermost_sender \<Rightarrow> string \<Rightarrow> string \<Rightarrow> 'w \<Rightarrow> error option \<times> 'w" where
  "updatePost api s postID message w =
     (case buildJSONRequest api ''PUT'' (postsEndpoint s postID) (PayloadUpdate postID message) ''mattermost update'' of
        Inl err \<Rightarrow> (Some err, w)
      | Inr request \<Rightarrow>
          (case executeRequest api (ms_timeout s) (mattermost_applyAuth s request) ''mattermost'' [] False w of
             (Inl err, w1) \<Rightarrow> (Some err, w1)
           | (Inr _, w1) \<Rightarrow> (None, w1)))"

definition deletePost :: "'w http_api \<Rightarrow> mattermost_sender \<Rightarrow> string \<Rightarrow> 'w \<Rightarrow> error option \<times> 'w" where
  "deletePost api s postID w =
     (case NewRequest api ''DELETE'' (postsEndpoint s postID) None of
        Inl err \<Rightarrow> (Some (ErrWrap ''build mattermost delete request: %w'' [] err), w)
      | Inr request \<Rightarrow>
          (case executeRequest api (ms_timeout s) (mattermost_applyAuth s request) ''mattermost'' [] False w of
             (Inl err, w1) \<Rightarrow> (Some err, w1)
           | (Inr _, w1) \<Rightarrow> (None, w1)))"

definition mattermost_sendHistory ::
    "'w http_api \<Rightarrow> mattermost_sender \<Rightarrow> notification \<Rightarrow> 'w \<Rightarrow> send_result result \<times> 'w" where
  "mattermost_sendHistory api s n w =
     (let rootID = TrimSpace (nt_ExternalRef n) in
      if nt_State n = StResolved \<and> rootID = []
      then (Inl (ErrMsg ''mattermost resolved requires external_ref''), w)
      else (case createPost api s (PayloadPost (TrimSpace (mm_ChannelID (ms_cfg s))) (nt_Message n) rootID) w of
          (Inl err, w1) \<Rightarrow> (Inl err, w1)
        | (Inr postID, w1) \<Rightarrow>
            if nt_State n = StFiring then (Inr (no_send_result\<lparr>sr_ExternalRef := postID\<rparr>), w1)
            else (Inr no_send_result, w1)))"

definition mattermost_sendActiveOnly ::
    "'w http_api \<Rightarrow> mattermost_sender \<Rightarrow> notification \<Rightarrow> 'w \<Rightarrow> send_result result \<times> 'w" where
  "mattermost_sendActiveOnly api s n w =
     (let activePostID = TrimSpace (nt_ExternalRef n) in
      if nt_State n = StResolved then
        (if activePostID = [] then (Inl (ErrMsg ''mattermost active resolved requires external_ref''), w)
         else (case deletePost api s activePostID w of
             (Some err, w1) \<Rightarrow> (Inl err, w1)
           | (None, w1) \<Rightarrow> (Inr no_send_result, w1)))
      else if activePostID = [] then
        (let active = TrimSpace (mm_ActiveChannelID (ms_cfg s));
             channelID = (if active = [] then TrimSpace (mm_ChannelID (ms_cfg s)) else active) in
         case createPost api s (PayloadActivePost channelID (nt_Message n)) w of
           (Inl err, w1) \<Rightarrow> (Inl err, w1)
         | (Inr postID, w1) \<Rightarrow> (Inr (no_send_result\<lparr>sr_ExternalRef := postID\<rparr>), w1))
      else (case updatePost api s activePostID (nt_Message n) w of
          (Some err, w1) \<Rightarrow> (Inl err, w1)
        | (None, w1) \<Rightarrow> (Inr (no_send_result\<lparr>sr_ExternalRef := activePostID\<rparr>), w1)))"

definition mattermost_Send ::
    "'w http_api \<Rightarrow> mattermost_sender \<Rightarrow> notification \<Rightarrow> 'w \<Rightarrow> send_result result \<times> 'w" where
  "mattermost_Send api s n w =
     (if NormalizeNotifyRouteMode (nt_RouteMode n) = NotifyRouteModeActiveOnly
      then mattermost_sendActiveOnly api s n w else mattermost_sendHistory api s n w)"

section \<open>Trackers\<close>

record tracker_runtime =
  tr_method :: string
  tr_pathTemplate :: "template option"
  tr_bodyTemplate :: "template option"
  tr_headers :: "(string, template) gmap"
  tr_successStatus :: "int64 list"
  tr_responseRefKey :: string

definition zero_runtime :: tracker_runtime where
  "zero_runtime = \<lparr>tr_method = [], tr_pathTemplate = None, tr_bodyTemplate = None, tr_headers = [],
     tr_successStatus = [], tr_responseRefKey = []\<rparr>"

record tracker_sender =
  tks_channel :: string
  tks_cfg :: tracker_notifier
  tks_timeout :: duration
  tks_create :: tracker_runtime
  tks_resolve :: tracker_runtime
  tks_initErr :: "error option"

fun header_templates ::
    "(string \<Rightarrow> string \<Rightarrow> template result) \<Rightarrow> string \<Rightarrow> (string \<times> string) list \<Rightarrow> (string, template) gmap result" where
  "header_templates parse label [] = Inr []"
| "header_templates parse label ((key, rawValue) # rest) =
     (case parse (label @ ''.headers.'' @ key) rawValue of
        Inl err \<Rightarrow> Inl err
      | Inr t \<Rightarrow> (case header_templates parse label rest of Inl err \<Rightarrow> Inl err | Inr ts \<Rightarrow> Inr ((key, t) # ts)))"

definition buildTrackerActionRuntime ::
    "(string \<Rightarrow> string \<Rightarrow> template result) \<Rightarrow> string \<Rightarrow> string \<Rightarrow> tracker_action \<Rightarrow> tracker_runtime result" where
  "buildTrackerActionRuntime parse channel actionName cfg =
     (let label = ''notify.'' @ channel @ ''.'' @ actionName in
      case parse (label @ ''.path'') (tc_Path cfg) of
        Inl err \<Rightarrow> Inl err
      | Inr pathTemplate \<Rightarrow>
          (case (if TrimSpace (tc_BodyTemplate cfg) \<noteq> []
                 then (case parse (label @ ''.body_template'') (tc_BodyTemplate cfg) of
                         Inl err \<Rightarrow> Inl err | Inr t \<Rightarrow> Inr (Some t))
                 else Inr None) of
             Inl err \<Rightarrow> Inl err
           | Inr bodyTemplate \<Rightarrow>
               (case header_templates parse label (tc_Headers cfg) of
                  Inl err \<Rightarrow> Inl err
                | Inr headers \<Rightarrow> Inr
                    \<lparr>tr_method = ToUpper (TrimSpace (tc_Method cfg)), tr_pathTemplate = Some pathTemplate,
                     tr_bodyTemplate = bodyTemplate, tr_headers = headers,
                     tr_successStatus = tc_SuccessStatus cfg, tr_responseRefKey = TrimSpace (tc_RefJSONPath cfg)\<rparr>)))"

definition NewTrackerSender ::
    "(string \<Rightarrow> string \<Rightarrow> template result) \<Rightarrow> string \<Rightarrow> tracker_notifier \<Rightarrow> tracker_sender" where
  "NewTrackerSender parse channel cfg =
     (let sender = \<lparr>tks_channel = ToLower (TrimSpace channel), tks_cfg = cfg, tks_timeout = seconds (tk_TimeoutSec cfg),
            tks_create = zero_runtime, tks_resolve = zero_runtime, tks_initErr = None\<rparr> in
      case buildTrackerActionRuntime parse channel ''create'' (tk_Create cfg) of
        Inl err \<Rightarrow> sender\<lparr>tks_initErr := Some err\<rparr>
      | Inr createAction \<Rightarrow>
          (case buildTrackerActionRuntime parse channel ''resolve'' (tk_Resolve cfg) of
             Inl err \<Rightarrow> sender\<lparr>tks_initErr := Some err\<rparr>
           | Inr resolveAction \<Rightarrow> sender\<lparr>tks_create := createAction, tks_resolve := resolveAction\<rparr>))"

definition executeStringTemplate :: "template option \<Rightarrow> notification \<Rightarrow> string result" where
  "executeStringTemplate tmpl n = (case tmpl of None \<Rightarrow> Inr [] | Some execute \<Rightarrow> execute n)"

definition resolveTrackerURL :: "'w http_api \<Rightarrow> string \<Rightarrow> string \<Rightarrow> string result" where
  "resolveTrackerURL api baseURL pathOrURL =
     (let trimmedPath = TrimSpace pathOrURL in
      if trimmedPath = [] then Inl (ErrMsg ''empty request path'')
      else if HasPrefix trimmedPath ''http://'' \<or> HasPrefix trimmedPath ''https://'' then
        (case ha_ParseURL api trimmedPath of Some err \<Rightarrow> Inl err | None \<Rightarrow> Inr trimmedPath)
      else
        (let base = TrimRight (TrimSpace baseURL) (CHR ''/'') in
         if base = [] then Inl (ErrMsg ''empty base_url'')
         else if HasPrefix trimmedPath ''/'' then Inr (base @ trimmedPath)
         else Inr (base @ ''/'' @ trimmedPath)))"

definition applyTrackerAuth :: "tracker_auth \<Rightarrow> http_request_out \<Rightarrow> http_request_out" where
  "applyTrackerAuth cfg request =
     (let authType = ToLower (TrimSpace (ta_Type cfg)) in
      if authType = [] \<or> authType = ''none'' then request
      else if authType = ''bearer'' then
        (let p = TrimSpace (ta_Prefix cfg); authPrefix = (if p = [] then ''Bearer'' else p) in
         Header_Set ''Authorization'' (authPrefix @ '' '' @ TrimSpace (ta_Token cfg)) request)
      else if authType = ''basic'' then
        (let credentials = TrimSpace (ta_Username cfg) @ '':'' @ TrimSpace (ta_Password cfg) in
         Header_Set ''Authorization'' (''Basic '' @ base64_EncodeToString credentials) request)
      else if authType = ''header'' then
        (let header = TrimSpace (ta_Header cfg); authPrefix = TrimSpace (ta_Prefix cfg); token = TrimSpace (ta_Token cfg) in
         if header = [] then request
         else if authPrefix \<noteq> [] then Header_Set header (authPrefix @ '' '' @ token) request
         else Header_Set header token request)
      else request)"

text \<open>The loop over the header templates: the request so far and whether a content type is set.\<close>

fun render_headers ::
    "string \<Rightarrow> notification \<Rightarrow> (string \<times> template) list \<Rightarrow> http_request_out \<Rightarrow> bool \<Rightarrow> (http_request_out \<times> bool) result" where
  "render_headers channel n [] request contentTypeSet = Inr (request, contentTypeSet)"
| "render_headers channel n ((key, tmpl) # rest) request contentTypeSet =
     (case executeStringTemplate (Some tmpl) n of
        Inl err \<Rightarrow> Inl (ErrWrap ''tracker %s render header %q: %w'' [channel, key] err)
      | Inr value \<Rightarrow>
          render_headers channel n rest (Header_Set key value request)
            (contentTypeSet \<or> EqualFold key ''content-type''))"

text \<open>The part of \<open>executeAction\<close> that builds the request; it does not touch the network.\<close>

definition tracker_request ::
    "'w http_api \<Rightarrow> tracker_sender \<Rightarrow> tracker_runtime \<Rightarrow> notification \<Rightarrow> http_request_out result" where
  "tracker_request api s action n =
     (case executeStringTemplate (tr_pathTemplate action) n of
        Inl err \<Rightarrow> Inl (ErrWrap ''tracker %s render path: %w'' [tks_channel s] err)
      | Inr pathValue \<Rightarrow>
     (case resolveTrackerURL api (tk_BaseURL (tks_cfg s)) pathValue of
        Inl err \<Rightarrow> Inl (ErrWrap ''tracker %s resolve url: %w'' [tks_channel s] err)
      | Inr targetURL \<Rightarrow>
     (case (case tr_bodyTemplate action of None \<Rightarrow> Inr None
            | Some t \<Rightarrow> (case executeStringTemplate (Some t) n of
                 Inl err \<Rightarrow> Inl (ErrWrap ''tracker %s render body: %w'' [tks_channel s] err)
               | Inr bodyValue \<Rightarrow> Inr (if TrimSpace bodyValue \<noteq> [] then Some bodyValue else None))) of
        Inl err \<Rightarrow> Inl err
      | Inr body \<Rightarrow>
     (case NewRequest api (tr_method action) targetURL body of
        Inl err \<Rightarrow> Inl (ErrWrap ''tracker %s build request: %w'' [tks_channel s] err)
      | Inr request0 \<Rightarrow>
     (case render_headers (tks_channel s) n (tr_headers action) request0 False of
        Inl err \<Rightarrow> Inl err
      | Inr (request1, contentTypeSet) \<Rightarrow>
          (let request2 = (if body \<noteq> None \<and> \<not> contentTypeSet
                           then Header_Set ''Content-Type'' ''application/json'' request1 else request1)
           in Inr (applyTrackerAuth (tk_Auth (tks_cfg s)) request2)))))))"

definition executeAction ::
    "'w http_api \<Rightarrow> tracker_sender \<Rightarrow> tracker_runtime \<Rightarrow> notification \<Rightarrow> 'w \<Rightarrow> send_result result \<times> 'w" where
  "executeAction api s action n w =
     (case tracker_request api s action n of
        Inl err \<Rightarrow> (Inl err, w)
      | Inr request \<Rightarrow>
          (case executeRequest api (tks_timeout s) request (''tracker '' @ tks_channel s) (tr_successStatus action)
                  (TrimSpace (tr_responseRefKey action) \<noteq> []) w of
             (Inl err, w1) \<Rightarrow> (Inl err, w1)
           | (Inr responseBody, w1) \<Rightarrow>
               if TrimSpace (tr_responseRefKey action) = [] then (Inr no_send_result, w1)
               else (case extractJSONPathString api responseBody (tr_responseRefKey action) of
                   Inl err \<Rightarrow> (Inl (ErrWrap ''tracker %s parse response ref %q: %w''
                                 [tks_channel s, tr_responseRefKey action] err), w1)
                 | Inr ref \<Rightarrow> (Inr (no_send_result\<lparr>sr_ExternalRef := ref\<rparr>), w1))))"

definition tracker_Send ::
    "'w http_api \<Rightarrow> tracker_sender \<Rightarrow> notification \<Rightarrow> 'w \<Rightarrow> send_result result \<times> 'w" where
  "tracker_Send api s n w =
     (case tks_initErr s of
        Some err \<Rightarrow> (Inl err, w)
      | None \<Rightarrow>
          if nt_State n = StFiring then
            (if TrimSpace (nt_ExternalRef n) \<noteq> []
             then (Inr (no_send_result\<lparr>sr_ExternalRef := nt_ExternalRef n\<rparr>), w)
             else (case executeAction api s (tks_create s) n w of
                 (Inl err, w1) \<Rightarrow> (Inl err, w1)
               | (Inr result, w1) \<Rightarrow>
                   if TrimSpace (sr_ExternalRef result) = []
                   then (Inl (ErrMsg ''tracker create response does not contain external reference''), w1)
                   else (Inr result, w1)))
          else if nt_State n = StResolved then
            (if TrimSpace (nt_ExternalRef n) = []
             then (Inl (ErrMsg ''tracker resolve requires external reference''), w)
             else (case executeAction api s (tks_resolve s) n w of
                 (Inl err, w1) \<Rightarrow> (Inl err, w1)
               | (Inr _, w1) \<Rightarrow> (Inr (no_send_result\<lparr>sr_ExternalRef := nt_ExternalRef n\<rparr>), w1)))
          else (Inr no_send_result, w))"

section \<open>The registry of senders\<close>

definition newSenderForChannel ::
    "(string \<Rightarrow> string \<Rightarrow> template result) \<Rightarrow> 'w bot_api \<Rightarrow> 'w http_api \<Rightarrow> string \<Rightarrow> notify_config \<Rightarrow> 'w sender option" where
  "newSenderForChannel parse tgbot api channel cfg =
     (if channel = NotifyChannelTelegram then Some (telegram_Send tgbot (NewTelegramSender tgbot (nc_Telegram cfg)))
      else if channel = NotifyChannelHTTP then Some (http_Send api (NewHTTPScenarioSender (nc_HTTP cfg)))
      else if channel = NotifyChannelMattermost then Some (mattermost_Send api (NewMattermostSender (nc_Mattermost cfg)))
      else if channel = NotifyChannelJira then Some (tracker_Send api (NewTrackerSender parse NotifyChannelJira (nc_Jira cfg)))
      else if channel = NotifyChannelYouTrack then Some (tracker_Send api (NewTrackerSender parse NotifyChannelYouTrack (nc_YouTrack cfg)))
      else None)"

end
