(* ===== verification/Config_Samples.thy ===== *)
theory Config_Samples
  imports Config_Load Dispatch
begin

text \<open>
  A small configuration file for the closed examples: one rule with one route over HTTP, the
  decoder's answer given in place of the file, and libraries that accept everything.
\<close>

definition sample_raw_rule :: raw_rule_config where
  "sample_raw_rule = \<lparr>rw_Name = [], rw_AlertType = ''count_total'',
     rw_Match = \<lparr>rm_Type = [''event''], rm_Var = [''errors''], rm_Tags = [], rm_Value = None\<rparr>,
     rw_Key_FromTags = [''host''],
     rw_Raise = \<lparr>rr_N = 2, rr_WindowSec = 0, rr_MissingSec = 0\<rparr>,
     rw_Resolve = \<lparr>rv_SilenceSec = 60, rv_HysteresisSec = 0\<rparr>,
     rw_Pending = \<lparr>rp_Enabled = False, rp_DelaySec = 0\<rparr>,
     rw_Notify = \<lparr>rn_Repeat = None, rn_RepeatEverySec = 0, rn_OnPending = None,
       rn_Route = [\<lparr>ro_Name = [], ro_Channel = '' HTTP'', ro_Template = ''Base'', ro_Mode = []\<rparr>], rn_Off = []\<rparr>,
     rw_OutOfOrder = \<lparr>oo_MaxLateMS = 0, oo_MaxFutureSkewMS = 0\<rparr>\<rparr>"

definition sample_raw_notify :: notify_config where
  "sample_raw_notify = zero_notify\<lparr>nc_HTTP := (nc_HTTP zero_notify)\<lparr>hn_Enabled := True, hn_URL := ''http://x'',
     hn_NameTemplate := [\<lparr>tpl_Name = ''base '', tpl_Message = ''alert''\<rparr>]\<rparr>\<rparr>"

definition sample_raw :: "(string, raw_rule_config) gmap \<Rightarrow> raw_config" where
  "sample_raw rules = \<lparr>rw_Service = zero_service, rw_Log = zero_log, rw_Ingest = zero_ingest,
     rw_NotifyConfig = sample_raw_notify, rw_UI = zero_ui, rw_Rule = rules\<rparr>"

definition no_hints :: config_merge_hints where
  "no_hints = \<lparr>ch_Notify = \<lparr>nh_Repeat = None, nh_RepeatPerChannel = None, nh_OnPending = None,
       nh_Queue = \<lparr>qh_Enabled = None, qh_DLQ = None\<rparr>, nh_Telegram = None, nh_HTTP = None,
       nh_Mattermost = None, nh_Jira = None, nh_YouTrack = None\<rparr>,
     ch_UI = \<lparr>uh_Enabled = \<lparr>bh_value = False, bh_present = False\<rparr>,
       uh_Basic_Enabled = \<lparr>bh_value = False, bh_present = False\<rparr>\<rparr>\<rparr>"

definition sample_lenv :: "(string, raw_rule_config) gmap \<Rightarrow> load_env" where
  "sample_lenv rules = \<lparr>le_ReadFile = (\<lambda>_. Inr ''x''), le_ReadDir = (\<lambda>_. Inr [(''a.toml'', False)]),
     le_decode = (\<lambda>_. Inr (sample_raw rules)), le_hints = (\<lambda>_. Inr no_hints)\<rparr>"

definition sample_cfg_env :: "(notification \<Rightarrow> string result) config_env" where
  "sample_cfg_env = \<lparr>ce_compile = (\<lambda>_. Inl (ErrMsg ''regexp'')), ce_template = (\<lambda>_ body. Inr (\<lambda>_. Inr body)),
     ce_url = (\<lambda>_. Inl (ErrMsg ''url''))\<rparr>"

definition sample_source :: config_source where
  "sample_source = \<lparr>cs_File = ''alerting.toml'', cs_Dir = []\<rparr>"

abbreviation sample_load :: "config result" where
  "sample_load \<equiv> LoadSnapshot (sample_lenv [(''cpu'', sample_raw_rule)]) sample_cfg_env sample_source"

lemma sample_load_ok:
  "case sample_load of Inl _ \<Rightarrow> False
   | Inr cfg \<Rightarrow> map (\<lambda>r. (rc_Name r, rn_Route (rc_Notify r))) (cf_Rule cfg) = [(''cpu'', rn_Route (rw_Notify sample_raw_rule))]"
  by code_simp

lemma sample_loaded:
  obtains cfg rule where "sample_load = Inr cfg" "rule \<in> set (cf_Rule cfg)"
    "rn_Route (rc_Notify rule) = rn_Route (rw_Notify sample_raw_rule)"
proof (cases sample_load)
  case (Inr cfg)
  then have *: "map (\<lambda>r. (rc_Name r, rn_Route (rc_Notify r))) (cf_Rule cfg) = [(''cpu'', rn_Route (rw_Notify sample_raw_rule))]"
    using sample_load_ok by simp
  then obtain rule where "cf_Rule cfg = [rule]" by (auto simp: map_eq_Cons_conv)
  then show ?thesis using that [OF Inr, of rule] * by simp
qed (use sample_load_ok in simp)

text \<open>The same with an enabled tracker.\<close>

definition sample_tracker :: tracker_notifier where
  "sample_tracker = zero_tracker\<lparr>tk_Enabled := True, tk_BaseURL := ''http://jira/'', tk_TimeoutSec := 5,
     tk_Create := zero_action\<lparr>tc_Method := ''post'', tc_Path := ''rest/issue'', tc_Headers := [(''X-Env'', ''prod'')],
       tc_BodyTemplate := ''{}'', tc_SuccessStatus := [201], tc_RefJSONPath := ''fields.key''\<rparr>,
     tk_Resolve := zero_action\<lparr>tc_Method := ''post'', tc_Path := ''rest/issue/done'', tc_SuccessStatus := [204]\<rparr>,
     tk_NameTemplate := [\<lparr>tpl_Name = ''issue'', tpl_Message = ''alert''\<rparr>]\<rparr>"

definition tracker_lenv :: load_env where
  "tracker_lenv = (sample_lenv [])\<lparr>le_decode := (\<lambda>_. Inr ((sample_raw [(''cpu'', sample_raw_rule)])
     \<lparr>rw_NotifyConfig := sample_raw_notify\<lparr>nc_Jira := sample_tracker\<rparr>\<rparr>))\<rparr>"

lemma tracker_load_ok:
  "case LoadSnapshot tracker_lenv sample_cfg_env sample_source of Inl _ \<Rightarrow> False
   | Inr cfg \<Rightarrow> tk_Enabled (nc_Jira (cf_Notify cfg))"
  by code_simp

text \<open>A directory of two files; the body of a file is its path.\<close>

definition two_files :: load_env where
  "two_files = \<lparr>le_ReadFile = (\<lambda>path. Inr path),
     le_ReadDir = (\<lambda>_. Inr [(''a.toml'', False), (''b.TOML'', False)]),
     le_decode = (\<lambda>body. Inr (sample_raw [(body, sample_raw_rule)])), le_hints = (\<lambda>_. Inr no_hints)\<rparr>"

end
