(* ===== verification/Transport_Samples.thy ===== *)
theory Transport_Samples
  imports Transports Config_Samples Samples
begin

text \<open>
  Small services for the closed examples: a chat, a tracker, and a network that refuses every
  connection.
\<close>

text \<open>
  A chat service for the examples: a chat holds up to a hundred messages, each with the first
  free number; the world is what every chat shows.
\<close>

definition small_bot :: "(chat_id \<Rightarrow> int64 set) bot_api" where
  "small_bot = \<lparr>tb_New = (\<lambda>_ _. None),
     tb_SendMessage = (\<lambda>chat _ _ w. case find (\<lambda>k. k \<notin> w chat) [1..100] of
         None \<Rightarrow> (Inl (ErrMsg ''full''), w) | Some k \<Rightarrow> (Inr (Some k), w(chat := insert k (w chat)))),
     tb_EditMessageText = (\<lambda>chat k _ w. (Inr (if k \<in> w chat then Some k else None), w)),
     tb_DeleteMessage = (\<lambda>chat k w. (Inr True, w(chat := w chat - {k})))\<rparr>"

definition small_telegram :: telegram_sender where
  "small_telegram = NewTelegramSender small_bot \<lparr>tg_Enabled = True, tg_BotToken = ''t'', tg_ChatID = ''1'',
     tg_ActiveChatID = ''ops'', tg_APIBase = ''http://x/'', tg_Retry = zero_retry, tg_NameTemplate = []\<rparr>"

text \<open>
  A tracker for the example: the world is the list of requests it has seen, each creation is
  answered with the same key.
\<close>

definition small_server :: "string list http_api" where
  "small_server = \<lparr>ha_NewRequest = (\<lambda>_ _. None),
     ha_Do = (\<lambda>_ request w. (Inr \<lparr>rp_StatusCode = 201, rp_Body = Inr ''OPS-1''\<rparr>,
        w @ [rq_Method request @ '' '' @ rq_URL request])),
     ha_Marshal = (\<lambda>_. Inr ''{}''), ha_PostID = (\<lambda>_. Inr ''p1''),
     ha_Unmarshal = (\<lambda>body. Inr (JObject [(''fields'', JObject [(''key'', JString body)])])),
     ha_FormatFloat = (\<lambda>_. []), ha_ParseURL = (\<lambda>_. None)\<rparr>"

abbreviation small_tracker :: tracker_sender where
  "small_tracker \<equiv> NewTrackerSender (ce_template sample_cfg_env) NotifyChannelJira sample_tracker"

text \<open>No connection is accepted, whatever the world.\<close>

definition refusing_server :: "'w http_api" where
  "refusing_server = \<lparr>ha_NewRequest = (\<lambda>_ _. None), ha_Do = (\<lambda>_ _ w. (Inl (ErrMsg ''connection refused''), w)),
     ha_Marshal = (\<lambda>_. Inr ''{}''), ha_PostID = (\<lambda>_. Inr []), ha_Unmarshal = (\<lambda>_. Inr JNull),
     ha_FormatFloat = (\<lambda>_. []), ha_ParseURL = (\<lambda>_. None)\<rparr>"

end
