(* ===== verification/Config_Properties.thy ===== *)
theory Config_Properties
  imports Config_Facts Config_Merge_Facts Transport_Samples Key_Builder
begin

text \<open>
  What the rest of the program may rely on once \<open>LoadSnapshot\<close> has returned a configuration,
  and what loading itself promises: defaults, the order of fragments, the guards of the merge.
\<close>

section \<open>Rules\<close>

text \<open>The loaded rules with the rules they come from.\<close>

lemma loaded_rule_origin:
  assumes "LoadSnapshot lenv env src = Inr cfg" "rule \<in> set (cf_Rule cfg)"
  obtains rule0 templates where "validateRule env rule0 = Inr rule"
    "validateNotifyTemplates env (cf_Notify cfg) = Inr templates"
    "validateRuleNotifyRoutes (cf_Notify cfg) rule0 templates = None"
    "0 < rp_DelaySec (rc_Pending rule0)" "0 < rn_RepeatEverySec (rc_Notify rule0)"
proof -
  from LoadSnapshot_Inr [OF assms(1)] obtain raw where "validateConfig env (applyDefaults raw) = Inr cfg" by metis
  from validateConfig_Inr(9) [OF this] obtain templates rules
    where ts: "validateNotifyTemplates env (cf_Notify (applyDefaults raw)) = Inr templates"
      "rules_loop env (cf_Notify (applyDefaults raw)) templates [] 0 (cf_Rule (applyDefaults raw)) = Inr rules"
      "cfg = (applyDefaults raw)\<lparr>cf_Rule := rules\<rparr>" by blast
  then obtain rule0 where r0: "rule0 \<in> set (cf_Rule (applyDefaults raw))" "validateRule env rule0 = Inr rule"
    "validateRuleNotifyRoutes (cf_Notify (applyDefaults raw)) rule0 templates = None"
    using rules_loop_member [OF ts(2)] assms(2) by auto
  then have "0 < rp_DelaySec (rc_Pending rule0)" "0 < rn_RepeatEverySec (rc_Notify rule0)"
    by (auto simp: applyDefaults_def Let_def defaults_rule_def defaults_notify_def or_positive_def)
  then show ?thesis using that [OF r0(2)] ts r0(3) by simp
qed

text \<open>
  C22. A configuration that loads has rules, their names differ, and every rule is complete:
  named, with event types among \<open>event\<close> and \<open>agg\<close>, variables and key tags, a checked and
  compiled value predicate, thresholds that fit its alert type, positive pending and repeat
  periods, routes with distinct keys and off windows that compile.
\<close>

theorem loaded_rules_wf:
  assumes "LoadSnapshot lenv env src = Inr cfg"
  shows "cf_Rule cfg \<noteq> [] \<and> distinct (map rc_Name (cf_Rule cfg)) \<and>
    (\<forall>rule \<in> set (cf_Rule cfg). rule_wf (ce_compile env) rule)"
proof (intro conjI ballI)
  from LoadSnapshot_Inr [OF assms] obtain raw where load: "validateConfig env (applyDefaults raw) = Inr cfg" by metis
  from validateConfig_Inr(9) [OF load] obtain templates where
    "rules_loop env (cf_Notify (applyDefaults raw)) templates [] 0 (cf_Rule (applyDefaults raw)) = Inr (cf_Rule cfg)"
    by auto
  from rules_loop_names [OF this] validateConfig_Inr(1) [OF load]
  show "cf_Rule cfg \<noteq> []" "distinct (map rc_Name (cf_Rule cfg))" by auto
next
  fix rule assume "rule \<in> set (cf_Rule cfg)"
  from loaded_rule_origin [OF assms this] obtain rule0 templates
    where r: "validateRule env rule0 = Inr rule"
      "validateRuleNotifyRoutes (cf_Notify cfg) rule0 templates = None"
      "0 < rp_DelaySec (rc_Pending rule0)" "0 < rn_RepeatEverySec (rc_Notify rule0)" by metis
  note checks = validateRule_Inr [OF r(1)]
  note fields = compile_predicate_fields [OF checks(1)]
  have "distinct (map route_key (rn_Route (rc_Notify rule)))"
    using routes_loop_keys [OF r(2) [unfolded validateRuleNotifyRoutes_def]] fields by simp
  moreover have "validateNotifyOff_from 0 (rn_Off (rc_Notify rule)) = None"
    using checks(3) by (simp add: rule_tail_checks_def validateNotifyOff_def)
  then have "\<exists>c. compileNotifyOffWindow w = Inr c \<and> wf_off c" if "w \<in> set (rn_Off (rc_Notify rule))" for w
    using that validateNotifyOff_from_ok compileNotifyOffWindow_wf by metis
  moreover have "rn_Route (rc_Notify rule) \<noteq> []" using checks(3) by (simp add: rule_tail_checks_def)
  ultimately show "rule_wf (ce_compile env) rule"
    using head_checks_wf [OF checks(2)] threshold_checks_wf [OF checks(2,4)] fields r(3,4)
    by (simp add: rule_wf_def)
qed

theorem loaded_rules_wf_witness:
  "\<exists>cfg. sample_load = Inr cfg \<and> cf_Rule cfg \<noteq> [] \<and> distinct (map rc_Name (cf_Rule cfg)) \<and>
    (\<forall>rule \<in> set (cf_Rule cfg). rule_wf (ce_compile sample_cfg_env) rule)"
proof -
  obtain cfg where "sample_load = Inr cfg" by (rule sample_loaded)
  from this loaded_rules_wf [OF this] show ?thesis by blast
qed

text \<open>
  C24. Matching against a loaded rule is total and means what the rule says: for an event that
  passed the event check no nil operand is ever dereferenced and no evaluation error occurs, and
  the event matches exactly when its type, variable and tags are selected and the predicate
  holds of its value.
\<close>

theorem loaded_rules_match:
  assumes "LoadSnapshot lenv env src = Inr cfg" "rule \<in> set (cf_Rule cfg)" "Event_Validate ev = None"
  shows "MatchEvent (ce_compile env) rule ev = Inr (selector_holds rule ev \<and>
    (case rm_Value (rc_Match rule) of None \<Rightarrow> True | Some p \<Rightarrow> predicate_holds (ce_compile env) p (ev_Value ev)))"
proof -
  obtain rule0 where "validateRule env rule0 = Inr rule" using loaded_rule_origin [OF assms(1,2)] by metis
  then have "validated_match (ce_compile env) rule"
    by (rule compile_predicate_fields(12) [OF validateRule_Inr(1)])
  then show ?thesis
    using assms(3) MatchEvent_no_value MatchEvent_validated
    by (auto simp: validated_match_def split: option.splits)
qed

theorem loaded_rules_match_witness:
  "\<exists>cfg. sample_load = Inr cfg \<and> (\<exists>rule \<in> set (cf_Rule cfg). \<exists>b.
    MatchEvent (ce_compile sample_cfg_env) rule sample_event = Inr b)"
proof -
  obtain cfg rule where load: "sample_load = Inr cfg" "rule \<in> set (cf_Rule cfg)" by (rule sample_loaded) blast
  have "Event_Validate sample_event = None" by code_simp
  from loaded_rules_match [OF load this] load show ?thesis by blast
qed

section \<open>Routes\<close>

text \<open>
  C23. No notification of a loaded rule fails for want of configuration: for every route of every
  rule the dispatcher built from the same configuration has a sender for the channel and a
  parsed template of that channel under the name the route gives, as long as no message defines
  a template of the very name under which the dispatcher parses it.
\<close>

theorem loaded_routes_resolve:
  assumes "LoadSnapshot lenv env src = Inr cfg" "rule \<in> set (cf_Rule cfg)"
    "route \<in> set (rn_Route (rc_Notify rule))"
    "template_laws (ce_template env) defines" "message_names_free defines (cf_Notify cfg)"
  shows "\<exists>send compiled.
    map_get (ds_senders (NewDispatcher (ce_template env) (newSenderForChannel (ce_template env) tgbot api) (cf_Notify cfg)))
      (NormalizeNotifyChannel (ro_Channel route)) = Some send \<and>
    resolveTemplate (NewDispatcher (ce_template env) (newSenderForChannel (ce_template env) tgbot api) (cf_Notify cfg)) (ro_Template route)
      (NormalizeNotifyChannel (ro_Channel route)) = Inr compiled"
proof -
  let ?factory = "newSenderForChannel (ce_template env) tgbot api"
  let ?ch = "NormalizeNotifyChannel (ro_Channel route)"
  obtain rule0 templates where r: "validateRule env rule0 = Inr rule"
    "validateNotifyTemplates env (cf_Notify cfg) = Inr templates"
    "validateRuleNotifyRoutes (cf_Notify cfg) rule0 templates = None"
    using loaded_rule_origin [OF assms(1,2)] by metis
  have "route \<in> set (rn_Route (rc_Notify rule0))"
    using assms(3) compile_predicate_fields(10) [OF validateRule_Inr(1) [OF r(1)]] by simp
  from routes_loop_route [OF r(3) [unfolded validateRuleNotifyRoutes_def] this]
  obtain byName v where route: "NotifyChannelEnabled (cf_Notify cfg) ?ch" "TrimSpace (ro_Template route) \<noteq> []"
    "map_get templates ?ch = Some byName" "map_get byName (ToLower (TrimSpace (ro_Template route))) = Some v"
    by auto
  have ch: "?ch \<in> set NotifyChannelNames"
    using NotifyChannelEnabled_supported [OF route(1)] by (simp add: IsSupportedNotifyChannel_def)
  obtain t where "t \<in> set (NotifyChannelTemplates (cf_Notify cfg) ?ch)"
    "ToLower (TrimSpace (tpl_Name t)) = ToLower (TrimSpace (ro_Template route))"
    using validateNotifyTemplates_ok(2) [OF r(2) route(3,4)] by auto
  then have "\<exists>c. resolveTemplate (NewDispatcher (ce_template env) (newSenderForChannel (ce_template env) tgbot api) (cf_Notify cfg)) (ro_Template route) ?ch = Inr c"
    using resolveTemplate_accepted [OF assms(4) validateNotifyTemplates_ok(1) [OF r(2)] assms(5) ch] route(2) by metis
  moreover have "\<exists>send. map_get (enabled_senders ?factory (cf_Notify cfg)) ?ch = Some send"
    using enabled_sender_found [OF ch route(1), of ?factory] ch
    by (auto simp: NotifyChannelNames_def newSenderForChannel_def)
  ultimately show ?thesis by (auto simp: NewDispatcher_def Let_def)
qed

theorem loaded_routes_resolve_witness:
  "\<exists>cfg. sample_load = Inr cfg \<and> (\<exists>send compiled.
    map_get (ds_senders (NewDispatcher (ce_template sample_cfg_env) (newSenderForChannel (ce_template sample_cfg_env) small_bot refusing_server) (cf_Notify cfg))) ''http'' = Some send \<and>
    resolveTemplate (NewDispatcher (ce_template sample_cfg_env) (newSenderForChannel (ce_template sample_cfg_env) small_bot refusing_server) (cf_Notify cfg)) ''Base'' ''http'' = Inr compiled)"
proof -
  obtain cfg rule where load: "sample_load = Inr cfg" "rule \<in> set (cf_Rule cfg)"
    "rn_Route (rc_Notify rule) = rn_Route (rw_Notify sample_raw_rule)" by (rule sample_loaded) blast
  let ?route = "\<lparr>ro_Name = [], ro_Channel = '' HTTP'', ro_Template = ''Base'', ro_Mode = []\<rparr>"
  have "?route \<in> set (rn_Route (rc_Notify rule))" by (simp add: load(3) sample_raw_rule_def)
  moreover have "template_laws (ce_template sample_cfg_env) (\<lambda>_. {})" "message_names_free (\<lambda>_. {}) (cf_Notify cfg)"
    by (simp_all add: template_laws_def message_names_free_def sample_cfg_env_def)
  ultimately have "\<exists>send compiled.
    map_get (ds_senders (NewDispatcher (ce_template sample_cfg_env) (newSenderForChannel (ce_template sample_cfg_env) small_bot refusing_server) (cf_Notify cfg)))
      (NormalizeNotifyChannel (ro_Channel ?route)) = Some send \<and>
    resolveTemplate (NewDispatcher (ce_template sample_cfg_env) (newSenderForChannel (ce_template sample_cfg_env) small_bot refusing_server) (cf_Notify cfg)) (ro_Template ?route)
      (NormalizeNotifyChannel (ro_Channel ?route)) = Inr compiled"
    by (rule loaded_routes_resolve [OF load(1,2)])
  moreover have "NormalizeNotifyChannel '' HTTP'' = ''http''" by code_simp
  ultimately show ?thesis using load(1) by auto
qed

text \<open>
  A message that does define that name passes the validation, which parses it under another one,
  and fails at every notification. The parser of the example knows \<open>define\<close> and nothing else of
  the template language.
\<close>

definition define_tag :: "string \<Rightarrow> string" where
  "define_tag name = ''{{define '' @ [CHR 0x22] @ name @ [CHR 0x22] @ ''}}''"

definition naming_parser :: "string \<Rightarrow> string \<Rightarrow> (notification \<Rightarrow> string result) result" where
  "naming_parser name body =
     (if list_ex (\<lambda>i. HasPrefix (drop i body) (define_tag name)) [0..<length body]
      then Inl (ErrMsg ''multiple definition of template'') else Inr (\<lambda>_. Inr body))"

lemma naming_parser_laws:
  "template_laws naming_parser (\<lambda>body. {name. list_ex (\<lambda>i. HasPrefix (drop i body) (define_tag name)) [0..<length body]})"
  by (simp add: template_laws_def naming_parser_def)

definition self_named_lenv :: load_env where
  "self_named_lenv = (sample_lenv [])\<lparr>le_decode := (\<lambda>_. Inr ((sample_raw [(''cpu'', sample_raw_rule)])
     \<lparr>rw_NotifyConfig := sample_raw_notify\<lparr>nc_HTTP := (nc_HTTP sample_raw_notify)\<lparr>hn_NameTemplate :=
       [\<lparr>tpl_Name = ''base'', tpl_Message = define_tag ''notify.http.name-template.base.message'' @ ''a{{end}}b''\<rparr>]\<rparr>\<rparr>\<rparr>))\<rparr>"

lemma self_named_template_fails:
  "case LoadSnapshot self_named_lenv (sample_cfg_env\<lparr>ce_template := naming_parser\<rparr>) sample_source of
     Inl _ \<Rightarrow> False
   | Inr cfg \<Rightarrow>
       (case resolveTemplate (NewDispatcher naming_parser (newSenderForChannel naming_parser small_bot refusing_server) (cf_Notify cfg)) ''Base'' ''http'' of
          Inr _ \<Rightarrow> False
        | Inl e \<Rightarrow> e = ErrWrap ''notify template %q is invalid: %w'' [''Base''] (ErrMsg ''multiple definition of template''))"
  by code_simp

section \<open>Service\<close>

text \<open>
  C25. A configuration that loads can be run: the mode is known, some entry point takes events and
  some sink takes log lines, the periods are positive and the registry ages are ordered. In
  single mode every path that needs NATS is off and events arrive over HTTP; in NATS mode there
  is an address, none is blank, and the queue uses the same list.
\<close>

theorem loaded_service_usable:
  assumes "LoadSnapshot lenv env src = Inr cfg"
  shows "(hi_Enabled (ig_HTTP (cf_Ingest cfg)) \<or> ni_Enabled (ig_NATS (cf_Ingest cfg))) \<and>
    (ls_Enabled (lc_Console (cf_Log cfg)) \<or> ls_Enabled (lc_File (cf_Log cfg))) \<and>
    0 < sc_ReloadIntervalSec (cf_Service cfg) \<and> 0 < sc_ResolveScanInterval (cf_Service cfg) \<and>
    0 < un_StaleAfterSec (ui_NATS (cf_UI cfg)) \<and>
    un_StaleAfterSec (ui_NATS (cf_UI cfg)) < un_OfflineAfterSec (ui_NATS (cf_UI cfg)) \<and>
    un_OfflineAfterSec (ui_NATS (cf_UI cfg)) < un_RegistryTTLSec (ui_NATS (cf_UI cfg)) \<and>
    (sc_Mode (cf_Service cfg) = ServiceModeSingle \<and> hi_Enabled (ig_HTTP (cf_Ingest cfg)) \<and>
       \<not> ni_Enabled (ig_NATS (cf_Ingest cfg)) \<and> \<not> nq_Enabled (nc_Queue (cf_Notify cfg)) \<and>
       \<not> nq_DLQ (nc_Queue (cf_Notify cfg)) \<and> nq_URL (nc_Queue (cf_Notify cfg)) = []
     \<or> sc_Mode (cf_Service cfg) = ServiceModeNATS \<and> ni_URL (ig_NATS (cf_Ingest cfg)) \<noteq> [] \<and>
       (\<forall>u \<in> set (ni_URL (ig_NATS (cf_Ingest cfg))). \<not> blank u) \<and>
       nq_URL (nc_Queue (cf_Notify cfg)) = ni_URL (ig_NATS (cf_Ingest cfg)))"
proof -
  from LoadSnapshot_Inr [OF assms] obtain raw where load: "validateConfig env (applyDefaults raw) = Inr cfg" by metis
  from validateConfig_Inr(9) [OF load] obtain rules where cfg: "cfg = (applyDefaults raw)\<lparr>cf_Rule := rules\<rparr>" by blast
  note checks = validateConfig_Inr(2,3,7) [OF load]
  have mode: "sc_Mode (cf_Service cfg) \<in> {ServiceModeNATS, ServiceModeSingle}"
    using checks(1) by (simp add: cfg service_checks_def IsSupportedServiceMode_def)
      (simp add: applyDefaults_def Let_def defaults_service_def)
  let ?mode = "sc_Mode (defaults_service (cf_Service raw))"
  have fields: "cf_Service cfg = defaults_service (cf_Service raw)" "cf_Log cfg = defaults_log (cf_Log raw)"
    "cf_Ingest cfg = defaults_ingest ?mode (cf_Ingest raw)" "cf_UI cfg = cf_UI (applyDefaults raw)"
    "nc_Queue (cf_Notify cfg) = defaults_queue ?mode (ni_URL (ig_NATS (cf_Ingest cfg))) (nc_Queue (cf_Notify raw))"
    by (simp_all add: cfg applyDefaults_def Let_def defaults_notify_def)
  have "first_error (ingest_checks ?mode (cf_Ingest cfg)) = None"
    using checks(2) by (simp add: cfg applyDefaults_def Let_def)
  note ingest_parts = accepted_ingest [OF this]
  have ingest: "?mode = ServiceModeSingle \<Longrightarrow> hi_Enabled (ig_HTTP (cf_Ingest cfg))"
    "?mode = ServiceModeNATS \<Longrightarrow> ni_URL (ig_NATS (cf_Ingest cfg)) \<noteq> [] \<and>
      (\<forall>u \<in> set (ni_URL (ig_NATS (cf_Ingest cfg))). \<not> blank u)"
    by (rule ingest_parts, assumption)+
  have enabled: "hi_Enabled (ig_HTTP (cf_Ingest cfg)) \<or> ni_Enabled (ig_NATS (cf_Ingest cfg))"
    using ingest(1) defaults_ingest_enabled by (cases "?mode = ServiceModeSingle") (auto simp: fields)
  have single: "?mode = ServiceModeSingle \<Longrightarrow> \<not> ni_Enabled (ig_NATS (cf_Ingest cfg))"
    using defaults_ingest_single by (simp add: fields)
  have queue: "?mode = ServiceModeSingle \<Longrightarrow> \<not> nq_Enabled (nc_Queue (cf_Notify cfg)) \<and>
      \<not> nq_DLQ (nc_Queue (cf_Notify cfg)) \<and> nq_URL (nc_Queue (cf_Notify cfg)) = []"
    "?mode = ServiceModeNATS \<Longrightarrow> nq_URL (nc_Queue (cf_Notify cfg)) = ni_URL (ig_NATS (cf_Ingest cfg))"
    by (simp_all add: fields(5) defaults_queue_def Let_def)
  show ?thesis
    using mode accepted_registry [OF checks(3)] enabled single queue ingest defaults_service_positive defaults_log_enabled
    by (simp add: fields(1,2)) (simp add: cfg; blast)
qed

theorem loaded_service_usable_witness:
  "\<exists>cfg. sample_load = Inr cfg \<and>
    (hi_Enabled (ig_HTTP (cf_Ingest cfg)) \<or> ni_Enabled (ig_NATS (cf_Ingest cfg)))"
proof -
  obtain cfg where "sample_load = Inr cfg" by (rule sample_loaded)
  from this loaded_service_usable [OF this] show ?thesis by blast
qed

section \<open>Defaults\<close>

text \<open>
  The defaults settle in one step: filling a filled configuration again changes nothing,
  unless the base path of the user interface loses more characters each time (it ends in spaces
  before slashes, or consists of slashes) or, in single mode, the interface takes over NATS
  addresses with surrounding space.
\<close>

lemma defaults_idempotent:
  assumes "normalizeUIBasePath (ui_BasePath (cf_UI (applyDefaults cfg))) = ui_BasePath (cf_UI (applyDefaults cfg))"
    and "normalizeNATSURLs (un_URL (ui_NATS (cf_UI (applyDefaults cfg)))) = un_URL (ui_NATS (cf_UI (applyDefaults cfg)))"
  shows "applyDefaults (applyDefaults cfg) = applyDefaults cfg"
proof -
  let ?s = "defaults_service (cf_Service cfg)"
  let ?g = "defaults_ingest (sc_Mode ?s) (cf_Ingest cfg)"
  let ?us = "ni_URL (ig_NATS ?g)"
  have ui: "defaults_ui ?us (defaults_ui ?us (cf_UI cfg)) = defaults_ui ?us (cf_UI cfg)"
    using assms
    by (simp add: applyDefaults_def Let_def defaults_ui_def) (simp add: defaults_ui_nats_def Let_def)
  show ?thesis
    by (simp add: applyDefaults_def Let_def ui)
qed

lemma defaults_idempotent_witness:
  "applyDefaults (applyDefaults zero_config) = applyDefaults zero_config"
proof (rule defaults_idempotent)
  have "TrimSpace ''/ui'' = ''/ui''" "TrimSpace ''nats://127.0.0.1:4222'' = ''nats://127.0.0.1:4222''"
    "HasPrefix ''/ui'' ''/''" "TrimRight ''/ui'' (CHR ''/'') = ''/ui''"
    by code_simp+
  moreover have "ui_BasePath (cf_UI (applyDefaults zero_config)) = ''/ui''"
    "un_URL (ui_NATS (cf_UI (applyDefaults zero_config))) = [''nats://127.0.0.1:4222'']"
    by code_simp+
  ultimately show "normalizeUIBasePath (ui_BasePath (cf_UI (applyDefaults zero_config))) = ui_BasePath (cf_UI (applyDefaults zero_config))"
    "normalizeNATSURLs (un_URL (ui_NATS (cf_UI (applyDefaults zero_config)))) = un_URL (ui_NATS (cf_UI (applyDefaults zero_config)))"
    by (simp_all add: normalizeUIBasePath_def normalizeNATSURLs_def Let_def)
qed

lemma slashes_do_not_settle:
  "normalizeUIBasePath ''//'' = [] \<and> normalizeUIBasePath (normalizeUIBasePath ''//'') = ''/ui''"
  by code_simp

section \<open>Directories\<close>

text \<open>
  C26. Fragments of a directory are laid over one another in the order of their paths: the
  service, log and ingest sections are those of the last fragment that has any, of the other
  texts, numbers and switches of the notification section the last one that was set wins, and
  rules and templates are collected in order.
\<close>

theorem directory_merge:
  assumes "loadDir env dir = Inr cfg"
  shows "\<exists>entries fs. le_ReadDir env dir = Inr entries \<and> fs \<noteq> [] \<and>
    list_all2 (\<lambda>p f. loadFileForMerge env p = Inr f) (sort (toml_files dir entries)) fs \<and>
    cf_Rule cfg = concat (map (\<lambda>f. cf_Rule (fst f)) fs) \<and>
    cf_Service cfg = last_with (\<lambda>s. s \<noteq> zero_service) zero_service (map (\<lambda>f. cf_Service (fst f)) fs) \<and>
    cf_Log cfg = last_with (\<lambda>l. l \<noteq> zero_log) zero_log (map (\<lambda>f. cf_Log (fst f)) fs) \<and>
    cf_Ingest cfg = last_with hasIngestConfig zero_ingest (map (\<lambda>f. cf_Ingest (fst f)) fs) \<and>
    list_all (\<lambda>get. get (cf_Notify cfg) = last_with (\<lambda>s. TrimSpace s \<noteq> []) [] (map (\<lambda>f. get (cf_Notify (fst f))) fs)) notify_strings \<and>
    list_all (\<lambda>get. get (cf_Notify cfg) = last_with (\<lambda>n. n \<noteq> 0) 0 (map (\<lambda>f. get (cf_Notify (fst f))) fs)) notify_numbers \<and>
    list_all (\<lambda>get. get (cf_Notify cfg) = concat (map (\<lambda>f. get (cf_Notify (fst f))) fs)) channel_templates \<and>
    (if list_all hints_of fs then list_all (\<lambda>(get, hint). get (cf_Notify cfg) =
        last_explicit (map (\<lambda>f. hint (ch_Notify (snd f))) fs)) notify_bools else True)"
proof -
  from assms obtain entries where entries: "le_ReadDir env dir = Inr entries" "toml_files dir entries \<noteq> []"
    "merge_files env (sort (toml_files dir entries)) zero_config = Inr cfg"
    by (auto simp: loadDir_def Let_def split: sum.splits if_splits)
  from merge_files_fold [OF entries(3)] obtain fs where
    fs: "list_all2 (\<lambda>p f. loadFileForMerge env p = Inr f) (sort (toml_files dir entries)) fs" "cfg = merge_all fs"
    unfolding merge_all_def by blast
  have "length (sort (toml_files dir entries)) = length fs" using fs(1) by (rule list_all2_lengthD)
  then have "fs \<noteq> []" using entries(2) by auto
  then show ?thesis
    using entries(1) fs(1) merged_fields [of fs] unfolding fs(2) by blast
qed

theorem directory_merge_witness:
  "\<exists>cfg fs. loadDir two_files ''conf'' = Inr cfg \<and>
    list_all2 (\<lambda>p f. loadFileForMerge two_files p = Inr f) [''conf/a.toml'', ''conf/b.TOML''] fs \<and>
    cf_Rule cfg = concat (map (\<lambda>f. cf_Rule (fst f)) fs)"
proof -
  have "case loadDir two_files ''conf'' of Inl _ \<Rightarrow> False | Inr _ \<Rightarrow> True" by code_simp
  then obtain cfg where cfg: "loadDir two_files ''conf'' = Inr cfg" by (auto split: sum.splits)
  have "case le_ReadDir two_files ''conf'' of Inl _ \<Rightarrow> False
      | Inr es \<Rightarrow> sort (toml_files ''conf'' es) = [''conf/a.toml'', ''conf/b.TOML'']" by code_simp
  with directory_merge [OF cfg] cfg show ?thesis by force
qed

text \<open>
  Neither the order in which a directory lists its files nor the iteration order of the
  decoded rule map changes the configuration.
\<close>

lemma load_order_irrelevant:
  assumes "le_ReadDir env dir = Inr entries" "mset entries' = mset entries"
    and "wf_map (rw_Rule raw)" "mset rules = mset (rw_Rule raw)"
  shows "loadDir (env\<lparr>le_ReadDir := \<lambda>_. Inr entries'\<rparr>) dir = loadDir env dir \<and>
    normalizeRawConfig (raw\<lparr>rw_Rule := rules\<rparr>) = normalizeRawConfig raw"
proof -
  have "loadFileForMerge (env\<lparr>le_ReadDir := r\<rparr>) path = loadFileForMerge env path" for r path
    by (simp add: loadFileForMerge_def Let_def cong: sum.case_cong option.case_cong)
  then have "merge_files (env\<lparr>le_ReadDir := r\<rparr>) ps dst = merge_files env ps dst" for r ps dst
    by (induction ps arbitrary: dst) (auto split: sum.splits)
  moreover have "sort (toml_files dir entries') = sort (toml_files dir entries)"
    by (rule toml_files_perm [OF assms(2)])
  moreover from this have "toml_files dir entries' = [] \<longleftrightarrow> toml_files dir entries = []"
    by (metis length_0_conv length_sort)
  ultimately show ?thesis
    using assms(1) normalizeRawConfig_perm [OF assms(3,4)] by (simp add: loadDir_def Let_def)
qed

lemma load_order_irrelevant_witness:
  "loadDir (two_files\<lparr>le_ReadDir := \<lambda>_. Inr [(''b.TOML'', False), (''a.toml'', False)]\<rparr>) ''conf'' = loadDir two_files ''conf'' \<and>
    normalizeRawConfig ((sample_raw [(''a'', sample_raw_rule), (''b'', sample_raw_rule)])
      \<lparr>rw_Rule := [(''b'', sample_raw_rule), (''a'', sample_raw_rule)]\<rparr>)
    = normalizeRawConfig (sample_raw [(''a'', sample_raw_rule), (''b'', sample_raw_rule)])"
  by (rule load_order_irrelevant [of _ _ "[(''a.toml'', False), (''b.TOML'', False)]"])
    (simp_all add: two_files_def sample_raw_def wf_map_def)

section \<open>Names\<close>

text \<open>
  Uniqueness of names does not separate rules: a configuration with two rules whose names
  differ only in a character that alert ids replace is accepted, and every event gives both the
  same alert id, so the rules share their card, tick and runtime state.
\<close>

lemma accepted_rules_can_share_alerts:
  "\<exists>cfg r s. LoadSnapshot (sample_lenv [(''disk usage'', sample_raw_rule), (''disk_usage'', sample_raw_rule)])
      sample_cfg_env sample_source = Inr cfg \<and> cf_Rule cfg = [r, s] \<and> rc_Name r \<noteq> rc_Name s \<and>
    (\<forall>hexsha1 ev. BuildAlertKey hexsha1 r ev = BuildAlertKey hexsha1 s ev)"
proof -
  let ?load = "LoadSnapshot (sample_lenv [(''disk usage'', sample_raw_rule), (''disk_usage'', sample_raw_rule)])
      sample_cfg_env sample_source"
  have "case ?load of Inl _ \<Rightarrow> False | Inr cfg \<Rightarrow>
      map (\<lambda>r. (rc_Name r, rc_Key_FromTags r)) (cf_Rule cfg) = [(''disk usage'', [''host'']), (''disk_usage'', [''host''])]"
    by code_simp
  then obtain cfg where cfg: "?load = Inr cfg"
    "map (\<lambda>r. (rc_Name r, rc_Key_FromTags r)) (cf_Rule cfg) = [(''disk usage'', [''host'']), (''disk_usage'', [''host''])]"
    by (auto split: sum.splits)
  then obtain r s where rs: "cf_Rule cfg = [r, s]" "rc_Name r = ''disk usage''" "rc_Name s = ''disk_usage''"
    "rc_Key_FromTags r = [''host'']" "rc_Key_FromTags s = [''host'']"
    by (auto simp: map_eq_Cons_conv)
  have "sanitize ''disk usage'' = sanitize ''disk_usage''" "TrimSpace ''disk usage'' \<noteq> []" "TrimSpace ''disk_usage'' \<noteq> []"
    by code_simp+
  then have "BuildAlertKey hexsha1 r ev = BuildAlertKey hexsha1 s ev" for hexsha1 ev
    using rs by (simp add: BuildAlertKey_def cong: sum.case_cong option.case_cong)
  then show ?thesis using cfg(1) rs by auto
qed

text \<open>
  The textual check for fixed NATS settings looks at every line of a file: a tag of a rule named
  \<open>stream\<close> or a header named \<open>subject\<close> makes the file unacceptable.
\<close>

lemma tag_named_stream_rejected:
  "rejectUnsupportedSyntax (''[rule.r.match.tags]'' @ [CHR 0x0A] @ '' Stream = [1]'') =
    Some (ErrMsg ''ingest.nats.subject/stream/consumer_name/deliver_group are fixed in runtime and must not be configured'')"
  by code_simp

text \<open>
  A later fragment that only switches HTTP ingestion off has no ingest section in the eyes of
  the merge: the earlier section stays.
\<close>

lemma ingest_disable_ignored:
  assumes "cf_Ingest src = zero_ingest"
  shows "cf_Ingest (mergeConfig dst src hints) = cf_Ingest dst"
  using assms
  by (simp add: mergeConfig_def hasIngestConfig_def hasHTTPIngestConfig_def hasNATSIngestConfig_def zero_ingest_def)

end
