(* ===== verification/Ingest.thy ===== *)
theory Ingest
  imports Manager Notify_Queue
begin

text \<open>
  The entry points of \<open>internal/ingest\<close>: the HTTP handler (\<open>http.go\<close>), the JetStream
  callback (\<open>nats.go\<close>) and the decoding they share (\<open>codec.go\<close>) with its pooled buffers.

  \<open>encoding/json\<close> is the argument \<open>json_api\<close>. A stream is the bytes left and the way it
  ends (\<open>None\<close> is end of file). \<open>Decode\<close> into a slice writes into the array behind the
  slice while it fits, so its model takes that array and gives it back.
\<close>

section \<open>The JSON library\<close>

type_synonym stream = "string \<times> error option"

datatype extra = ExtraEOF | ExtraError error | ExtraToken

record json_api =
  js_Event :: "stream \<Rightarrow> event result \<times> stream"
  js_Events :: "event list \<Rightarrow> stream \<Rightarrow> event list result \<times> event list \<times> event list option \<times> stream"
  js_Extra :: "stream \<Rightarrow> extra"

text \<open>\<open>DecodeEventReader\<close> of \<open>internal/domain/event.go\<close>.\<close>

definition DecodeEventReader :: "json_api \<Rightarrow> stream \<Rightarrow> event result \<times> stream" where
  "DecodeEventReader api s =
     (case js_Event api s of
        (Inl err, s1) \<Rightarrow> (Inl (ErrWrap ''decode event: %w'' [] err), s1)
      | (Inr e, s1) \<Rightarrow> (case Event_Validate e of Some err \<Rightarrow> (Inl err, s1) | None \<Rightarrow> (Inr e, s1)))"

definition ensureJSONEOF :: "json_api \<Rightarrow> stream \<Rightarrow> error option" where
  "ensureJSONEOF api s =
     (case js_Extra api s of
        ExtraEOF \<Rightarrow> None
      | ExtraError err \<Rightarrow> Some (ErrWrap ''decode trailing json: %w'' [] err)
      | ExtraToken \<Rightarrow> Some (ErrMsg ''unexpected trailing json tokens''))"

definition decodeSingleEvent :: "json_api \<Rightarrow> stream \<Rightarrow> event result" where
  "decodeSingleEvent api s =
     (case DecodeEventReader api s of
        (Inl err, _) \<Rightarrow> Inl err
      | (Inr e, s1) \<Rightarrow> (case ensureJSONEOF api s1 of Some err \<Rightarrow> Inl err | None \<Rightarrow> Inr e))"

text \<open>The decoder of a batch starts from a nil slice, which has no array behind it.\<close>

definition decodeBatchEvents :: "json_api \<Rightarrow> stream \<Rightarrow> event list result" where
  "decodeBatchEvents api s =
     (case js_Events api [] s of (parsed, _, _, s1) \<Rightarrow>
        (case DecodeEventsReader parsed of
           Inl err \<Rightarrow> Inl err
         | Inr es \<Rightarrow> (case ensureJSONEOF api s1 of Some err \<Rightarrow> Inl err | None \<Rightarrow> Inr es)))"

section \<open>Pooled buffers\<close>

text \<open>The zero event, and a slice of \<open>sc_len\<close> elements at the start of an array.\<close>

definition zero_event :: event where
  "zero_event = \<lparr>ev_DT = 0, ev_Type = [], ev_Tags = [], ev_Var = [],
     ev_Value = \<lparr>tv_Type = [], tv_N = None, tv_S = None, tv_B = None\<rparr>, ev_AggCnt = 0, ev_Win = 0\<rparr>"

record scratch =
  sc_array :: "event list"
  sc_len :: nat

definition new_scratch :: scratch where
  "new_scratch = \<lparr>sc_array = replicate 16 zero_event, sc_len = 0\<rparr>"

definition maxPooledBatchCapacity :: nat where
  "maxPooledBatchCapacity = 4096"

definition releaseDecodeScratch :: "scratch \<Rightarrow> scratch" where
  "releaseDecodeScratch scratch =
     (let cleared = replicate (sc_len scratch) zero_event @ drop (sc_len scratch) (sc_array scratch) in
      if length cleared > maxPooledBatchCapacity then new_scratch
      else \<lparr>sc_array = cleared, sc_len = 0\<rparr>)"

definition decodeBatchEventsInto :: "json_api \<Rightarrow> stream \<Rightarrow> scratch \<Rightarrow> event list result \<times> scratch" where
  "decodeBatchEventsInto api s scratch =
     (case js_Events api (sc_array scratch) s of (parsed, array1, grown, s1) \<Rightarrow>
        (let failed = scratch\<lparr>sc_array := array1\<rparr> in
         case parsed of
           Inl err \<Rightarrow> (Inl (ErrWrap ''decode event batch: %w'' [] err), failed)
         | Inr es \<Rightarrow>
             if length es = 0 then (Inl (ErrMsg ''event batch must contain at least one event''), failed)
             else (case validate_from 0 es of
                 Some err \<Rightarrow> (Inl err, failed)
               | None \<Rightarrow>
                   (case ensureJSONEOF api s1 of
                      Some err \<Rightarrow> (Inl err, failed)
                    | None \<Rightarrow> (Inr es, \<lparr>sc_array = (case grown of None \<Rightarrow> array1 | Some a \<Rightarrow> a),
                                        sc_len = length es\<rparr>)))))"

definition decodeEventPayloadInto :: "json_api \<Rightarrow> string \<Rightarrow> scratch \<Rightarrow> event list result \<times> scratch" where
  "decodeEventPayloadInto api raw scratch =
     (let payload = TrimSpace raw in
      if length payload = 0 then (Inl (ErrMsg ''empty payload''), scratch)
      else if hd payload = CHR ''['' then decodeBatchEventsInto api (payload, None) scratch
      else (case decodeSingleEvent api (payload, None) of
          Inl err \<Rightarrow> (Inl err, scratch)
        | Inr e \<Rightarrow> (Inr [e], \<lparr>sc_array = e # drop 1 (sc_array scratch), sc_len = 1\<rparr>)))"

definition decodeEventPayload :: "json_api \<Rightarrow> string \<Rightarrow> scratch \<Rightarrow> event list result \<times> scratch" where
  "decodeEventPayload api raw scratch =
     (case decodeEventPayloadInto api raw scratch of (r, scratch1) \<Rightarrow> (r, releaseDecodeScratch scratch1))"

section \<open>Sinks\<close>

text \<open>\<open>EventSink\<close>, with \<open>batchEventSink\<close> when the sink has that method too.\<close>

record 's sink =
  sk_Push :: "event \<Rightarrow> 's \<Rightarrow> error option \<times> 's"
  sk_PushBatch :: "(event list \<Rightarrow> 's \<Rightarrow> error option \<times> 's) option"

fun push_each :: "(event \<Rightarrow> 's \<Rightarrow> error option \<times> 's) \<Rightarrow> event list \<Rightarrow> 's \<Rightarrow> error option \<times> 's" where
  "push_each push [] st = (None, st)"
| "push_each push (e # es) st =
     (case push e st of (Some err, st1) \<Rightarrow> (Some err, st1) | (None, st1) \<Rightarrow> push_each push es st1)"

definition pushEvents :: "'s sink \<Rightarrow> event list \<Rightarrow> 's \<Rightarrow> error option \<times> 's" where
  "pushEvents sink events st =
     (if length events = 0 then (None, st)
      else (case sk_PushBatch sink of Some batch \<Rightarrow> batch events st
            | None \<Rightarrow> push_each (sk_Push sink) events st))"

text \<open>The manager as the sink of the service; the state is the manager with the world.\<close>

definition manager_sink :: "'w env \<Rightarrow> ('w manager \<times> 'w) sink" where
  "manager_sink env = \<lparr>
     sk_Push = (\<lambda>e (m, w). case Push env e m w of (err, m1, w1) \<Rightarrow> (err, (m1, w1))),
     sk_PushBatch = Some (\<lambda>es (m, w). case PushBatch env es m w of (err, m1, w1) \<Rightarrow> (err, (m1, w1)))\<rparr>"

section \<open>HTTP\<close>

record http_request =
  hr_Method :: string
  hr_Path :: string
  hr_Body :: stream

record 's http_handler =
  hh_sink :: "'s sink"
  hh_maxBodySize :: int64

definition NewHTTPHandler :: "'s sink \<Rightarrow> int64 \<Rightarrow> 's http_handler" where
  "NewHTTPHandler sink maxBodySize = \<lparr>hh_sink = sink, hh_maxBodySize = maxBodySize\<rparr>"

definition isBatchPath :: "string \<Rightarrow> bool" where
  "isBatchPath path = (let trimmed = TrimSpace path in trimmed = ''/batch'' \<or> HasSuffix trimmed ''/batch'')"

text \<open>\<open>http.MaxBytesReader\<close>: at most that many bytes, then an error if there are more.\<close>

definition MaxBytesReader :: "stream \<Rightarrow> int64 \<Rightarrow> stream" where
  "MaxBytesReader body n =
     (case body of (bytes, final) \<Rightarrow>
        if length bytes \<le> nat n then body
        else (take (nat n) bytes, Some (ErrMsg ''http: request body too large'')))"

abbreviation StatusAccepted :: nat where "StatusAccepted \<equiv> 202"
abbreviation StatusBadRequest :: nat where "StatusBadRequest \<equiv> 400"
abbreviation StatusMethodNotAllowed :: nat where "StatusMethodNotAllowed \<equiv> 405"
abbreviation StatusServiceUnavailable :: nat where "StatusServiceUnavailable \<equiv> 503"

definition ServeHTTP :: "json_api \<Rightarrow> 's http_handler \<Rightarrow> http_request \<Rightarrow> 's \<Rightarrow> nat \<times> 's" where
  "ServeHTTP api h request st =
     (if hr_Method request \<noteq> ''POST'' then (StatusMethodNotAllowed, st)
      else
        (let body = MaxBytesReader (hr_Body request) (hh_maxBodySize h) in
         if isBatchPath (hr_Path request) then
           (case decodeBatchEvents api body of
              Inl _ \<Rightarrow> (StatusBadRequest, st)
            | Inr events \<Rightarrow>
                (case pushEvents (hh_sink h) events st of
                   (Some _, st1) \<Rightarrow> (StatusServiceUnavailable, st1)
                 | (None, st1) \<Rightarrow> (StatusAccepted, st1)))
         else
           (case decodeSingleEvent api body of
              Inl _ \<Rightarrow> (StatusBadRequest, st)
            | Inr e \<Rightarrow>
                (case sk_Push (hh_sink h) e st of
                   (Some _, st1) \<Rightarrow> (StatusServiceUnavailable, st1)
                 | (None, st1) \<Rightarrow> (StatusAccepted, st1)))))"

section \<open>JetStream\<close>

text \<open>
  The callback of \<open>NewNATSSubscriber\<close> on the bytes of one message, with the buffer it takes
  from the pool: the answer to the server, the buffer that goes back and the new state. A
  refused message is asked for again, at once or after a delay.
\<close>

definition nackMessage :: "duration \<Rightarrow> ack" where
  "nackMessage nackDelay = (if nackDelay > 0 then NakWithDelay nackDelay else Nak)"

definition nats_ingest_handle ::
    "json_api \<Rightarrow> nats_ingest \<Rightarrow> 's sink \<Rightarrow> string \<Rightarrow> scratch \<Rightarrow> 's \<Rightarrow> ack \<times> scratch \<times> 's" where
  "nats_ingest_handle api cfg sink data scratch st =
     (let nackDelay = milliseconds (ni_NackDelayMS cfg) in
      case decodeEventPayloadInto api data scratch of
        (Inl _, scratch1) \<Rightarrow> (Ack, releaseDecodeScratch scratch1, st)
      | (Inr events, scratch1) \<Rightarrow>
          (case pushEvents sink events st of
             (Some _, st1) \<Rightarrow> (nackMessage nackDelay, releaseDecodeScratch scratch1, st1)
           | (None, st1) \<Rightarrow> (Ack, releaseDecodeScratch scratch1, st1)))"

section \<open>Facts\<close>

lemma validate_from_ok: "validate_from i es = None \<longleftrightarrow> (\<forall>e \<in> set es. Event_Validate e = None)"
  by (induction es arbitrary: i) (auto split: option.splits)

lemma decodeSingleEvent_valid: "decodeSingleEvent api s = Inr e \<Longrightarrow> Event_Validate e = None"
  by (auto simp: decodeSingleEvent_def DecodeEventReader_def split: prod.splits sum.splits option.splits)

lemma decodeBatchEvents_valid:
  "decodeBatchEvents api s = Inr es \<Longrightarrow> es \<noteq> [] \<and> (\<forall>e \<in> set es. Event_Validate e = None)"
  by (auto simp: decodeBatchEvents_def DecodeEventsReader_def validate_from_ok
      split: prod.splits sum.splits option.splits if_splits)

lemma decodePayload_valid:
  "decodeEventPayloadInto api raw scratch = (Inr es, scratch1) \<Longrightarrow>
    es \<noteq> [] \<and> (\<forall>e \<in> set es. Event_Validate e = None) \<and> sc_len scratch1 = length es"
  by (auto simp: decodeEventPayloadInto_def decodeBatchEventsInto_def Let_def validate_from_ok
      dest: decodeSingleEvent_valid split: prod.splits sum.splits option.splits if_splits)

text \<open>
  Handlers look at a sink only through the events they push: two sinks that agree on valid
  events make them do the same.
\<close>

definition sinks_agree :: "'s sink \<Rightarrow> 's sink \<Rightarrow> bool" where
  "sinks_agree a b \<longleftrightarrow>
     (\<forall>e st. Event_Validate e = None \<longrightarrow> sk_Push a e st = sk_Push b e st) \<and>
     (\<forall>es st. es \<noteq> [] \<and> (\<forall>e \<in> set es. Event_Validate e = None) \<longrightarrow> pushEvents a es st = pushEvents b es st)"

text \<open>A sink behind a check that panics on an invalid event or an empty batch.\<close>

definition checked_sink :: "'s sink \<Rightarrow> 's sink" where
  "checked_sink sink = \<lparr>
     sk_Push = (\<lambda>e st. if Event_Validate e = None then sk_Push sink e st
                       else (Some (ErrPanic ''invalid event''), st)),
     sk_PushBatch = map_option (\<lambda>batch es st.
       if es \<noteq> [] \<and> list_all (\<lambda>e. Event_Validate e = None) es then batch es st
       else (Some (ErrPanic ''invalid batch''), st)) (sk_PushBatch sink)\<rparr>"

lemma push_each_checked:
  "\<forall>e \<in> set es. Event_Validate e = None \<Longrightarrow>
    push_each (\<lambda>e st. if Event_Validate e = None then push e st else bad st) es st = push_each push es st"
  by (induction es arbitrary: st) (auto split: prod.splits option.splits)

lemma checked_sink_agrees: "sinks_agree (checked_sink sink) sink"
  by (auto simp: sinks_agree_def checked_sink_def pushEvents_def push_each_checked list_all_iff split: option.splits)

section \<open>Invariants of a sink\<close>

text \<open>
  What a sink keeps under the push of a valid event and of a valid batch, both handlers keep,
  whatever the client sends.
\<close>

locale kept_by_sink =
  fixes sink :: "'s sink" and inv :: "'s \<Rightarrow> bool"
  assumes push: "inv st \<Longrightarrow> Event_Validate e = None \<Longrightarrow> inv (snd (sk_Push sink e st))"
    and batch: "sk_PushBatch sink = Some push_batch \<Longrightarrow> inv st \<Longrightarrow>
      \<forall>e \<in> set es. Event_Validate e = None \<Longrightarrow> inv (snd (push_batch es st))"
begin

lemma each: "inv st \<Longrightarrow> \<forall>e \<in> set es. Event_Validate e = None \<Longrightarrow> inv (snd (push_each (sk_Push sink) es st))"
proof (induction es arbitrary: st)
  case (Cons e es)
  then show ?case using push [of st e] by (auto split: prod.splits option.splits)
qed simp

lemma events: "inv st \<Longrightarrow> \<forall>e \<in> set es. Event_Validate e = None \<Longrightarrow> inv (snd (pushEvents sink es st))"
  using each batch by (auto simp: pushEvents_def split: option.splits)

lemma answered:
  "inv (snd r) \<Longrightarrow> inv (snd (case r of (Some _, st1) \<Rightarrow> (a, st1) | (None, st1) \<Rightarrow> (b, st1)))"
  by (auto split: prod.splits option.splits)

lemma http: "inv st \<Longrightarrow> inv (snd (ServeHTTP api (NewHTTPHandler sink n) request st))"
  unfolding ServeHTTP_def NewHTTPHandler_def Let_def
  by (auto split: sum.split intro!: answered events push dest: decodeSingleEvent_valid decodeBatchEvents_valid)

lemma jetstream:
  assumes "inv st"
  shows "inv (snd (snd (nats_ingest_handle api cfg sink data scratch st)))"
proof (cases "decodeEventPayloadInto api data scratch")
  case (Pair r scratch1)
  show ?thesis
  proof (cases r)
    case (Inr es)
    then have "inv (snd (pushEvents sink es st))"
      using events [OF assms] decodePayload_valid Pair by blast
    then show ?thesis using Pair Inr by (auto simp: nats_ingest_handle_def Let_def split: prod.splits option.splits)
  qed (simp add: nats_ingest_handle_def Let_def Pair assms)
qed

end

end
