(* ===== verification/Ingest_Properties.thy ===== *)
theory Ingest_Properties
  imports Ingest Manager_Invariants Samples
begin

text \<open>
  The promises of the entry points: what reaches the sink, what the client is told, how much
  of a body is read, and when a pooled buffer may be used again.
\<close>

section \<open>The manager behind the entry points\<close>

text \<open>What every call of the manager keeps, the entry points keep.\<close>

sublocale manager_inv \<subseteq> ingest: kept_by_sink "manager_sink env" "\<lambda>(m, w). inv m" for env
proof
  fix st :: "'w manager \<times> 'w" and e es push_batch
  obtain m w where st: "st = (m, w)" by force
  assume "case st of (m, w) \<Rightarrow> inv m"
  then have m: "inv m" by (simp add: st)
  obtain err m1 w1 where p: "Push env e m w = (err, m1, w1)" by (metis prod_cases3)
  show "case snd (sk_Push (manager_sink env) e st) of (m, w) \<Rightarrow> inv m"
    using Push_inv [OF p m] by (simp add: manager_sink_def st p)
  obtain err2 m2 w2 where b: "PushBatch env es m w = (err2, m2, w2)" by (metis prod_cases3)
  assume "sk_PushBatch (manager_sink env) = Some push_batch"
  then show "case snd (push_batch es st) of (m, w) \<Rightarrow> inv m"
    using PushBatch_inv [OF b m] by (auto simp: manager_sink_def st b)
qed

section \<open>Only valid events\<close>

lemma agreeing_http:
  assumes "sinks_agree a b"
  shows "ServeHTTP api (NewHTTPHandler a n) request st = ServeHTTP api (NewHTTPHandler b n) request st"
  using assms decodeSingleEvent_valid [of api] decodeBatchEvents_valid [of api]
  unfolding ServeHTTP_def NewHTTPHandler_def Let_def sinks_agree_def
  by (auto split: sum.split)

lemma agreeing_jetstream:
  assumes "sinks_agree a b"
  shows "nats_ingest_handle api cfg a data scratch st = nats_ingest_handle api cfg b data scratch st"
proof (cases "decodeEventPayloadInto api data scratch")
  case (Pair r scratch1)
  then show ?thesis
    using assms decodePayload_valid [of api data scratch]
    by (cases r) (auto simp: nats_ingest_handle_def sinks_agree_def)
qed

text \<open>
  C34. Whatever a client sends, over HTTP or over JetStream, only events that satisfy the event
  contract reach the sink and no empty batch does: a sink behind a check that panics otherwise
  behaves like the sink itself. The engine of the manager behind it stays well formed.
\<close>

theorem only_valid_events_reach_the_sink:
  fixes sink :: "'s sink"
  shows "ServeHTTP api (NewHTTPHandler (checked_sink sink) n) request st = ServeHTTP api (NewHTTPHandler sink n) request st \<and>
    nats_ingest_handle api cfg (checked_sink sink) data scratch st = nats_ingest_handle api cfg sink data scratch st"
  by (intro conjI agreeing_http agreeing_jetstream checked_sink_agrees)

section \<open>Answers\<close>

text \<open>
  A JetStream message leaves the stream exactly when it cannot be decoded or the sink has
  taken all of it; a failed push is redelivered after the configured delay, and a message that
  does not decode changes nothing.
\<close>

lemma jetstream_redelivers_failed_pushes:
  "nats_ingest_handle api cfg sink data scratch st =
    (case fst (decodeEventPayload api data scratch) of
       Inl _ \<Rightarrow> (Ack, snd (decodeEventPayload api data scratch), st)
     | Inr events \<Rightarrow>
         (if fst (pushEvents sink events st) = None then Ack
          else if milliseconds (ni_NackDelayMS cfg) > 0 then NakWithDelay (milliseconds (ni_NackDelayMS cfg)) else Nak,
          snd (decodeEventPayload api data scratch), snd (pushEvents sink events st)))"
  by (auto simp: nats_ingest_handle_def decodeEventPayload_def nackMessage_def Let_def
      split: prod.splits sum.splits option.splits)

text \<open>
  How a JSON decoder treats the end of its stream: what it leaves has the same ending, and only a
  stream that ends in end of file is reported as such.
\<close>

definition reads_to_the_end :: "json_api \<Rightarrow> bool" where
  "reads_to_the_end api \<longleftrightarrow>
     (\<forall>s. snd (snd (js_Event api s)) = snd s) \<and>
     (\<forall>a s. snd (snd (snd (snd (js_Events api a s)))) = snd s) \<and>
     (\<forall>bytes err. js_Extra api (bytes, Some err) \<noteq> ExtraEOF)"

lemma truncated_single:
  assumes "reads_to_the_end api"
  shows "\<exists>e. decodeSingleEvent api (bytes, Some err) = Inl e"
proof -
  have "snd (snd (js_Event api (bytes, Some err))) = Some err" using assms by (simp add: reads_to_the_end_def)
  then obtain r rest where r: "js_Event api (bytes, Some err) = (r, rest, Some err)"
    by (metis prod.collapse)
  have "js_Extra api (rest, Some err) \<noteq> ExtraEOF" using assms by (simp add: reads_to_the_end_def)
  then show ?thesis
    by (auto simp: decodeSingleEvent_def DecodeEventReader_def r ensureJSONEOF_def split: sum.splits option.splits extra.splits)
qed

lemma truncated_batch:
  assumes "reads_to_the_end api"
  shows "\<exists>e. decodeBatchEvents api (bytes, Some err) = Inl e"
proof -
  have "snd (snd (snd (snd (js_Events api [] (bytes, Some err))))) = Some err"
    using assms by (simp add: reads_to_the_end_def)
  then obtain r a g rest where r: "js_Events api [] (bytes, Some err) = (r, a, g, rest, Some err)"
    by (metis prod.collapse)
  have "js_Extra api (rest, Some err) \<noteq> ExtraEOF" using assms by (simp add: reads_to_the_end_def)
  then show ?thesis
    by (auto simp: decodeBatchEvents_def r ensureJSONEOF_def split: sum.splits option.splits extra.splits)
qed

text \<open>
  C35. The body limit holds: a POST with more bytes than the limit is answered with 400 and
  changes nothing, even when its first bytes are a complete valid document.
\<close>

theorem oversized_body_rejected:
  assumes "reads_to_the_end api" "nat n < length (fst (hr_Body request))" "hr_Method request = ''POST''"
  shows "ServeHTTP api (NewHTTPHandler sink n) request st = (StatusBadRequest, st)"
proof -
  obtain bytes final where body: "hr_Body request = (bytes, final)" by force
  then have "MaxBytesReader (hr_Body request) n = (take (nat n) bytes, Some (ErrMsg ''http: request body too large''))"
    using assms(2) by (simp add: MaxBytesReader_def)
  then show ?thesis
    using truncated_single [OF assms(1), of "take (nat n) bytes" "ErrMsg ''http: request body too large''"]
      truncated_batch [OF assms(1), of "take (nat n) bytes" "ErrMsg ''http: request body too large''"] assms(3)
    by (auto simp: ServeHTTP_def NewHTTPHandler_def Let_def)
qed

text \<open>A library for the closed examples: it sees one valid event and reads everything.\<close>

definition one_event_api :: json_api where
  "one_event_api = \<lparr>js_Event = (\<lambda>s. (Inr sample_event, [], snd s)),
     js_Events = (\<lambda>a s. (Inr [sample_event], sample_event # drop 1 a,
       if a = [] then Some [sample_event] else None, [], snd s)),
     js_Extra = (\<lambda>s. case snd s of None \<Rightarrow> ExtraEOF | Some err \<Rightarrow> ExtraError err)\<rparr>"

definition log_sink_of :: "event list sink" where
  "log_sink_of = \<lparr>sk_Push = (\<lambda>e st. (None, st @ [e])), sk_PushBatch = None\<rparr>"

theorem oversized_body_rejected_witness:
  "ServeHTTP one_event_api (NewHTTPHandler log_sink_of 3)
     \<lparr>hr_Method = ''POST'', hr_Path = ''/ingest'', hr_Body = (''{...}'', None)\<rparr> [] = (StatusBadRequest, [])"
proof (rule oversized_body_rejected)
  show "reads_to_the_end one_event_api" by (simp add: reads_to_the_end_def one_event_api_def)
qed simp_all

section \<open>Pooled buffers\<close>

definition clean :: "scratch \<Rightarrow> bool" where
  "clean scratch \<longleftrightarrow> sc_len scratch = 0 \<and> sc_array scratch \<noteq> [] \<and> (\<forall>e \<in> set (sc_array scratch). e = zero_event)"

text \<open>
  \<open>Decode\<close> into a slice appends: the first elements of the array are the decoded ones, the
  others stay, and an array that it allocates is zero behind them.
\<close>

definition appends_in_place :: "json_api \<Rightarrow> bool" where
  "appends_in_place api \<longleftrightarrow> (\<forall>a s es a1 g s1. js_Events api a s = (Inr es, a1, g, s1) \<longrightarrow>
     (case g of
        None \<Rightarrow> length es \<le> length a \<and> a1 = es @ drop (length es) a
      | Some b \<Rightarrow> length es \<le> length b \<and> take (length es) b = es \<and> (\<forall>e \<in> set (drop (length es) b). e = zero_event)))"

text \<open>
  A buffer goes back to the pool as it came, with nothing of the payload in it: when a clean
  buffer decodes a payload successfully, releasing it clears every element that was written.
\<close>

lemma buffer_clean_after_success:
  assumes "appends_in_place api" "clean scratch" "fst (decodeEventPayload api raw scratch) = Inr es"
  shows "clean (snd (decodeEventPayload api raw scratch))"
proof -
  obtain scratch1 where d: "decodeEventPayloadInto api raw scratch = (Inr es, scratch1)"
    using assms(3) by (auto simp: decodeEventPayload_def split: prod.splits)
  have big: "clean new_scratch" by (simp add: clean_def new_scratch_def)
  have written: "sc_len scratch1 \<le> length (sc_array scratch1) \<and> sc_array scratch1 \<noteq> [] \<and>
      (\<forall>e \<in> set (drop (sc_len scratch1) (sc_array scratch1)). e = zero_event)"
  proof (cases "hd (TrimSpace raw) = CHR ''[''")
    case True
    then have "decodeBatchEventsInto api (TrimSpace raw, None) scratch = (Inr es, scratch1)"
      using d by (auto simp: decodeEventPayloadInto_def Let_def split: if_splits)
    then obtain a1 g s1 where js: "js_Events api (sc_array scratch) (TrimSpace raw, None) = (Inr es, a1, g, s1)"
      "es \<noteq> []" "scratch1 = \<lparr>sc_array = (case g of None \<Rightarrow> a1 | Some a \<Rightarrow> a), sc_len = length es\<rparr>"
      by (auto simp: decodeBatchEventsInto_def Let_def split: prod.splits sum.splits option.splits if_splits)
    note app = assms(1) [unfolded appends_in_place_def, rule_format, OF js(1)]
    show ?thesis
    proof (cases g)
      case None
      then have "length es \<le> length (sc_array scratch)" "a1 = es @ drop (length es) (sc_array scratch)"
        using app by simp_all
      then show ?thesis using assms(2) js(2,3) None by (auto simp: clean_def dest: in_set_dropD)
    next
      case (Some b)
      then have "length es \<le> length b" "\<forall>e \<in> set (drop (length es) b). e = zero_event" using app by simp_all
      then show ?thesis using js(2,3) Some by auto
    qed
  next
    case False
    then obtain e where "es = [e]" "scratch1 = \<lparr>sc_array = e # drop 1 (sc_array scratch), sc_len = 1\<rparr>"
      using d by (auto simp: decodeEventPayloadInto_def Let_def split: if_splits sum.splits)
    then show ?thesis using assms(2) by (auto simp: clean_def Suc_le_eq dest: in_set_dropD)
  qed
  have "clean (releaseDecodeScratch scratch1)"
    using written big by (auto simp: releaseDecodeScratch_def Let_def clean_def)
  then show ?thesis by (simp add: decodeEventPayload_def d)
qed

lemma buffer_clean_after_success_witness:
  "clean (snd (decodeEventPayload one_event_api ''[{}]'' new_scratch))"
proof (rule buffer_clean_after_success)
  show "fst (decodeEventPayload one_event_api ''[{}]'' new_scratch) = Inr [sample_event]"
  proof -
    have "TrimSpace ''[{}]'' = ''[{}]''" "Event_Validate sample_event = None" by code_simp+
    then show ?thesis
      by (simp add: decodeEventPayload_def decodeEventPayloadInto_def decodeBatchEventsInto_def one_event_api_def
          ensureJSONEOF_def)
  qed
  show "clean new_scratch" by (simp add: clean_def new_scratch_def)
qed (simp add: appends_in_place_def one_event_api_def Suc_le_eq)

text \<open>
  After a failure nothing is cleared: the buffer still holds the events of the refused batch.
  \<open>encoding/json\<close> sets only the fields a document has, so the empty object that follows is
  decoded on top of them. \<open>stale_api\<close> is that library on two payloads: a batch whose second
  event is invalid, and a batch of one empty object.
\<close>

definition stale_api :: json_api where
  "stale_api = one_event_api\<lparr>js_Events := (\<lambda>a s.
     if fst s = ''[1,2]'' then (Inr [sample_event, zero_event], sample_event # zero_event # drop 2 a, None, [], snd s)
     else (Inr [hd a], a, None, [], snd s))\<rparr>"

lemma refused_batch_comes_back:
  "let (refused, buffer) = decodeEventPayload stale_api ''[1,2]'' new_scratch in
   \<not> isl (fst (decodeEventPayload stale_api ''[{}]'' buffer)) \<and> isl refused \<and>
   isl (fst (decodeEventPayload stale_api ''[{}]'' new_scratch)) \<and>
   projr (fst (decodeEventPayload stale_api ''[{}]'' buffer)) = [sample_event]"
  by code_simp

end
