(* ===== verification/Transport_Properties.thy ===== *)
theory Transport_Properties
  imports Transport_Samples Config_Facts
begin

text \<open>
  The promises of the senders: a loaded configuration yields senders that start, a tracker
  alert has one issue, a chat in active-only mode shows one message, and which failures are
  retried without end.
\<close>

section \<open>Numbers in references\<close>

lemma digit_val_of_digit: "m < 10 \<Longrightarrow> is_digit (char_of (48 + m)) \<and> digit_val (char_of (48 + m)) = int m"
  by (simp add: is_digit_def digit_val_def)

lemma digits_val_snoc:
  "is_digit c \<Longrightarrow> digits_val acc (ds @ [c]) = map_option (\<lambda>v. v * 10 + digit_val c) (digits_val acc ds)"
  by (induction ds arbitrary: acc) auto

lemma digits_val_nat_digits: "digits_val 0 (nat_digits n) = Some (int n)"
proof (induction n rule: nat_digits.induct)
  case (1 n)
  show ?case
  proof (cases "n < 10")
    case True
    then show ?thesis using digit_val_of_digit by (subst nat_digits.simps) simp
  next
    case False
    have "n mod 10 < 10" by simp
    moreover have "int (n div 10) * 10 + int (n mod 10) = int n"
      by (metis div_mult_mod_eq of_nat_add of_nat_mult of_nat_numeral)
    ultimately show ?thesis
      using False 1 digit_val_of_digit [of "n mod 10"]
      by (subst nat_digits.simps) (simp add: digits_val_snoc)
  qed
qed

lemma digit_no_sign: "is_digit c \<Longrightarrow> c \<noteq> CHR ''-'' \<and> c \<noteq> CHR ''+'' \<and> \<not> is_space c"
  by (auto simp: is_digit_def is_space_def)

lemma nat_digits_nonempty: "nat_digits n \<noteq> []"
  by (subst nat_digits.simps) simp

text \<open>A positive id written by \<open>strconv.Itoa\<close> is read back by the parser of references.\<close>

lemma message_id_roundtrip:
  assumes "0 < k" "k \<le> max_int64"
  shows "parseTelegramMessageID (FormatInt k) = Inr k" "TrimSpace (FormatInt k) \<noteq> []"
proof -
  let ?ds = "nat_digits (nat k)"
  have digits: "\<forall>c \<in> set ?ds. is_digit c" using nat_digits_digits by blast
  obtain c cs where ds: "?ds = c # cs" using nat_digits_nonempty by (cases ?ds) auto
  have c: "c \<noteq> CHR ''-''" "c \<noteq> CHR ''+''" using digits ds digit_no_sign by auto
  have trim: "TrimSpace (FormatInt k) = ?ds"
    using digits digit_no_sign assms(1) by (simp add: FormatInt_def TrimSpace_no_space)
  have "Atoi ?ds = Some k"
    using assms c digits_val_nat_digits [of "nat k"] unfolding Atoi_def ds by (simp add: int64_defs)
  then show "parseTelegramMessageID (FormatInt k) = Inr k" using assms(1) by (simp add: parseTelegramMessageID_def trim)
  show "TrimSpace (FormatInt k) \<noteq> []" by (simp add: trim ds)
qed

section \<open>Senders of a loaded configuration\<close>

lemma loop_error_member: "loop_error body i xs = None \<Longrightarrow> x \<in> set xs \<Longrightarrow> \<exists>j. body j x = None"
  by (auto simp: loop_error_None in_set_conv_nth)

lemma message_template_parses:
  assumes "validateMessageTemplate env path body = None" "template_laws (ce_template env) defines" "path' \<notin> defines body"
  shows "\<exists>t. ce_template env path' body = Inr t"
proof -
  obtain x where "ce_template env path (TrimSpace body) = Inr x"
    using assms(1) by (auto simp: validateMessageTemplate_def Let_def split: if_splits sum.splits)
  then show ?thesis using assms(2,3) unfolding template_laws_def by blast
qed

lemma header_templates_parse:
  assumes "\<forall>(key, value) \<in> set hs. \<exists>t. parse (label @ ''.headers.'' @ key) value = Inr t"
  shows "\<exists>ts. header_templates parse label hs = Inr ts"
  using assms
proof (induction hs)
  case (Cons h hs)
  obtain key v where h: "h = (key, v)" by force
  obtain t where "parse (label @ ''.headers.'' @ key) v = Inr t" using Cons.prems h by fastforce
  moreover obtain ts where "header_templates parse label hs = Inr ts" using Cons by auto
  ultimately show ?case by (simp add: h)
qed simp

text \<open>No template of an action defines the name under which the sender parses it.\<close>

definition action_names_free :: "(string \<Rightarrow> string set) \<Rightarrow> string \<Rightarrow> string \<Rightarrow> tracker_action \<Rightarrow> bool" where
  "action_names_free defines channel name cfg \<longleftrightarrow>
     (let label = ''notify.'' @ channel @ ''.'' @ name in
      label @ ''.path'' \<notin> defines (tc_Path cfg) \<and> label @ ''.body_template'' \<notin> defines (tc_BodyTemplate cfg) \<and>
      (\<forall>(key, value) \<in> set (tc_Headers cfg). label @ ''.headers.'' @ key \<notin> defines value))"

definition tracker_names_free :: "(string \<Rightarrow> string set) \<Rightarrow> string \<Rightarrow> tracker_notifier \<Rightarrow> bool" where
  "tracker_names_free defines channel cfg \<longleftrightarrow>
     action_names_free defines channel ''create'' (tk_Create cfg) \<and> action_names_free defines channel ''resolve'' (tk_Resolve cfg)"

lemma tracker_action_builds:
  assumes "validateTrackerAction env prefix0 cfg isCreate = None" "template_laws (ce_template env) defines"
    and "action_names_free defines channel name cfg"
  shows "\<exists>r. buildTrackerActionRuntime (ce_template env) channel name cfg = Inr r"
proof -
  let ?label = "''notify.'' @ channel @ ''.'' @ name"
  have free: "?label @ ''.path'' \<notin> defines (tc_Path cfg)" "?label @ ''.body_template'' \<notin> defines (tc_BodyTemplate cfg)"
    "\<And>key v. (key, v) \<in> set (tc_Headers cfg) \<Longrightarrow> ?label @ ''.headers.'' @ key \<notin> defines v"
    using assms(3) by (auto simp: action_names_free_def Let_def)
  have valid: "validateMessageTemplate env (prefix0 @ ''.path'') (tc_Path cfg) = None"
    "TrimSpace (tc_BodyTemplate cfg) \<noteq> [] \<Longrightarrow>
      validateMessageTemplate env (prefix0 @ ''.body_template'') (tc_BodyTemplate cfg) = None"
    "loop_error (\<lambda>i. validate_header env prefix0) 0 (tc_Headers cfg) = None"
    using assms(1) by (auto simp: validateTrackerAction_def blank_def)
  obtain t where t: "ce_template env (?label @ ''.path'') (tc_Path cfg) = Inr t"
    using message_template_parses [OF valid(1) assms(2) free(1)] by blast
  have body: "TrimSpace (tc_BodyTemplate cfg) \<noteq> [] \<Longrightarrow>
      \<exists>t. ce_template env (?label @ ''.body_template'') (tc_BodyTemplate cfg) = Inr t"
    using message_template_parses [OF valid(2) assms(2) free(2)] by blast
  have "\<exists>t. ce_template env (?label @ ''.headers.'' @ key) v = Inr t" if "(key, v) \<in> set (tc_Headers cfg)" for key v
    using loop_error_member [OF valid(3) that] message_template_parses [OF _ assms(2) free(3) [OF that]]
    by (auto simp: validate_header_def)
  then obtain ts where "header_templates (ce_template env) ?label (tc_Headers cfg) = Inr ts"
    using header_templates_parse [of "tc_Headers cfg" "ce_template env" ?label] by fast
  then show ?thesis
    using t body by (cases "TrimSpace (tc_BodyTemplate cfg) = []") (auto simp: buildTrackerActionRuntime_def Let_def)
qed

lemma tracker_sender_starts:
  assumes "validateTrackerNotifier env channel cfg = None" "tk_Enabled cfg" "template_laws (ce_template env) defines"
    and "tracker_names_free defines channel cfg"
  shows "tks_initErr (NewTrackerSender (ce_template env) channel cfg) = None"
proof -
  have "validateTrackerAction env (''notify.'' @ channel @ ''.create'') (tk_Create cfg) True = None"
    "validateTrackerAction env (''notify.'' @ channel @ ''.resolve'') (tk_Resolve cfg) False = None"
    using assms(1,2) by (auto simp: validateTrackerNotifier_def Let_def)
  then obtain a b where "buildTrackerActionRuntime (ce_template env) channel ''create'' (tk_Create cfg) = Inr a"
    "buildTrackerActionRuntime (ce_template env) channel ''resolve'' (tk_Resolve cfg) = Inr b"
    using tracker_action_builds [OF _ assms(3)] assms(4) unfolding tracker_names_free_def by meson
  then show ?thesis by (simp add: NewTrackerSender_def Let_def)
qed

text \<open>
  C33. The senders of a loaded configuration start: no enabled channel is without a sender, an
  enabled tracker has compiled all its request templates (as long as none of them defines the name
  under which it is compiled), and the only thing that can keep an enabled Telegram sender from
  starting is the bot library: it has a client when the library takes token and address, and holds
  the library's error otherwise.
\<close>

theorem loaded_senders_start:
  assumes "LoadSnapshot lenv env src = Inr cfg" "template_laws (ce_template env) defines"
    and "tracker_names_free defines NotifyChannelJira (nc_Jira (cf_Notify cfg))"
    and "tracker_names_free defines NotifyChannelYouTrack (nc_YouTrack (cf_Notify cfg))"
  shows "(tk_Enabled (nc_Jira (cf_Notify cfg)) \<longrightarrow>
      tks_initErr (NewTrackerSender (ce_template env) NotifyChannelJira (nc_Jira (cf_Notify cfg))) = None) \<and>
    (tk_Enabled (nc_YouTrack (cf_Notify cfg)) \<longrightarrow>
      tks_initErr (NewTrackerSender (ce_template env) NotifyChannelYouTrack (nc_YouTrack (cf_Notify cfg))) = None) \<and>
    (tg_Enabled (nc_Telegram (cf_Notify cfg)) \<longrightarrow>
      (case tb_New tgbot (tg_BotToken (nc_Telegram (cf_Notify cfg))) (TrimRight (tg_APIBase (nc_Telegram (cf_Notify cfg))) (CHR ''/'')) of
         None \<Rightarrow> ts_initErr (NewTelegramSender tgbot (nc_Telegram (cf_Notify cfg))) = None \<and>
           ts_client (NewTelegramSender tgbot (nc_Telegram (cf_Notify cfg)))
       | Some err \<Rightarrow> ts_initErr (NewTelegramSender tgbot (nc_Telegram (cf_Notify cfg))) =
           Some (ErrWrap ''init telegram bot: %w'' [] err))) \<and>
    (\<forall>ch. NotifyChannelEnabled (cf_Notify cfg) ch \<longrightarrow>
      newSenderForChannel (ce_template env) tgbot api (NormalizeNotifyChannel ch) (cf_Notify cfg) \<noteq> None)"
proof (intro conjI allI impI)
  from LoadSnapshot_Inr [OF assms(1)] obtain raw where load: "validateConfig env (applyDefaults raw) = Inr cfg" by metis
  from validateConfig_Inr(9) [OF load] obtain rules where cfg: "cfg = (applyDefaults raw)\<lparr>cf_Rule := rules\<rparr>" by blast
  have checks: "first_error (transport_checks env (cf_Notify cfg)) = None"
    using validateConfig_Inr(8) [OF load] by (simp add: cfg)
  then have trackers: "validateTrackerNotifier env NotifyChannelJira (nc_Jira (cf_Notify cfg)) = None"
    "validateTrackerNotifier env NotifyChannelYouTrack (nc_YouTrack (cf_Notify cfg)) = None"
    by (simp_all add: transport_checks_def Let_def)
  show "tks_initErr (NewTrackerSender (ce_template env) NotifyChannelJira (nc_Jira (cf_Notify cfg))) = None"
    if "tk_Enabled (nc_Jira (cf_Notify cfg))"
    by (rule tracker_sender_starts [OF trackers(1) that assms(2,3)])
  show "tks_initErr (NewTrackerSender (ce_template env) NotifyChannelYouTrack (nc_YouTrack (cf_Notify cfg))) = None"
    if "tk_Enabled (nc_YouTrack (cf_Notify cfg))"
    by (rule tracker_sender_starts [OF trackers(2) that assms(2,4)])
  assume "tg_Enabled (nc_Telegram (cf_Notify cfg))"
  then have "TrimSpace (tg_BotToken (nc_Telegram (cf_Notify cfg))) \<noteq> []" "TrimSpace (tg_ChatID (nc_Telegram (cf_Notify cfg))) \<noteq> []"
    using checks by (auto simp: transport_checks_def Let_def blank_def)
  then show "case tb_New tgbot (tg_BotToken (nc_Telegram (cf_Notify cfg))) (TrimRight (tg_APIBase (nc_Telegram (cf_Notify cfg))) (CHR ''/'')) of
         None \<Rightarrow> ts_initErr (NewTelegramSender tgbot (nc_Telegram (cf_Notify cfg))) = None \<and>
           ts_client (NewTelegramSender tgbot (nc_Telegram (cf_Notify cfg)))
       | Some err \<Rightarrow> ts_initErr (NewTelegramSender tgbot (nc_Telegram (cf_Notify cfg))) =
           Some (ErrWrap ''init telegram bot: %w'' [] err)"
    by (simp add: NewTelegramSender_def Let_def split: option.split)
next
  fix ch assume "NotifyChannelEnabled (cf_Notify cfg) ch"
  then show "newSenderForChannel (ce_template env) tgbot api (NormalizeNotifyChannel ch) (cf_Notify cfg) \<noteq> None"
    using NotifyChannelEnabled_supported [of "cf_Notify cfg" ch]
    by (auto simp: IsSupportedNotifyChannel_def NotifyChannelNames_def newSenderForChannel_def)
qed

theorem loaded_senders_start_witness:
  "\<exists>cfg. LoadSnapshot tracker_lenv sample_cfg_env sample_source = Inr cfg \<and>
    tks_initErr (NewTrackerSender (ce_template sample_cfg_env) NotifyChannelJira (nc_Jira (cf_Notify cfg))) = None"
proof -
  obtain cfg where load: "LoadSnapshot tracker_lenv sample_cfg_env sample_source = Inr cfg" "tk_Enabled (nc_Jira (cf_Notify cfg))"
    using tracker_load_ok by (auto split: sum.splits)
  have "template_laws (ce_template sample_cfg_env) (\<lambda>_. {})" "tracker_names_free (\<lambda>_. {}) ch t" for ch t
    by (simp_all add: template_laws_def sample_cfg_env_def tracker_names_free_def action_names_free_def)
  from loaded_senders_start [OF load(1) this(1) this(2) this(2), of small_bot] load show ?thesis by simp
qed

section \<open>Trackers\<close>

text \<open>
  C21. A tracker alert keeps its issue: a firing notification that already has a reference makes
  no request and keeps it, one without a reference succeeds only with a new non-blank reference,
  a resolution needs a reference and keeps it, and other states do nothing.
\<close>

theorem tracker_keeps_its_issue:
  assumes "tks_initErr s = None"
  shows "(nt_State n = StFiring \<and> TrimSpace (nt_ExternalRef n) \<noteq> [] \<longrightarrow>
      tracker_Send api s n w = (Inr (no_send_result\<lparr>sr_ExternalRef := nt_ExternalRef n\<rparr>), w)) \<and>
    (nt_State n = StFiring \<and> TrimSpace (nt_ExternalRef n) = [] \<longrightarrow>
      (\<forall>r w'. tracker_Send api s n w = (Inr r, w') \<longrightarrow>
        TrimSpace (sr_ExternalRef r) \<noteq> [] \<and> executeAction api s (tks_create s) n w = (Inr r, w'))) \<and>
    (nt_State n = StResolved \<longrightarrow>
      (if TrimSpace (nt_ExternalRef n) = [] then (\<exists>e. tracker_Send api s n w = (Inl e, w))
       else \<forall>r w'. tracker_Send api s n w = (Inr r, w') \<longrightarrow> sr_ExternalRef r = nt_ExternalRef n \<and>
         (\<exists>r'. executeAction api s (tks_resolve s) n w = (Inr r', w')))) \<and>
    (nt_State n \<noteq> StFiring \<and> nt_State n \<noteq> StResolved \<longrightarrow> tracker_Send api s n w = (Inr no_send_result, w))"
  using assms by (auto simp: tracker_Send_def split: prod.splits sum.splits if_splits)

lemma small_tracker_creates:
  "tks_initErr small_tracker = None \<and>
   (case tracker_Send small_server small_tracker sample_notification [] of
      (Inl _, _) \<Rightarrow> False
    | (Inr r, w) \<Rightarrow> sr_ExternalRef r = ''OPS-1'' \<and> w = [''POST http://jira/rest/issue''])"
  by code_simp

theorem tracker_keeps_its_issue_witness:
  "\<exists>r w. tracker_Send small_server small_tracker sample_notification [] = (Inr r, w) \<and>
    w = [''POST http://jira/rest/issue''] \<and> TrimSpace (sr_ExternalRef r) \<noteq> [] \<and>
    executeAction small_server small_tracker (tks_create small_tracker) sample_notification [] = (Inr r, w)"
proof -
  obtain r where r: "tracker_Send small_server small_tracker sample_notification [] = (Inr r, [''POST http://jira/rest/issue''])"
    using small_tracker_creates by (auto split: prod.splits sum.splits)
  have "nt_State sample_notification = StFiring" "TrimSpace (nt_ExternalRef sample_notification) = []"
    by (simp_all add: sample_notification_def TrimSpace_no_space)
  then show ?thesis
    using tracker_keeps_its_issue [of small_tracker sample_notification small_server "[]"] small_tracker_creates r by auto
qed

section \<open>One message per chat\<close>

text \<open>
  What a chat shows: a sent message gets an id that is not shown yet, an edit keeps the messages,
  a confirmed deletion removes one, and a call that fails changes nothing.
\<close>

definition chat_laws :: "'w bot_api \<Rightarrow> ('w \<Rightarrow> chat_id \<Rightarrow> int64 set) \<Rightarrow> bool" where
  "chat_laws tgbot shown \<longleftrightarrow>
     (\<forall>chat text reply w. case tb_SendMessage tgbot chat text reply w of
        (Inr (Some k), w') \<Rightarrow> 0 < k \<and> k \<le> max_int64 \<and> k \<notin> shown w chat \<and>
           shown w' = (shown w)(chat := insert k (shown w chat))
      | (_, w') \<Rightarrow> shown w' = shown w) \<and>
     (\<forall>chat k text w. shown (snd (tb_EditMessageText tgbot chat k text w)) = shown w) \<and>
     (\<forall>chat k w. case tb_DeleteMessage tgbot chat k w of
        (Inr True, w') \<Rightarrow> shown w' = (shown w)(chat := shown w chat - {k})
      | (_, w') \<Rightarrow> shown w' = shown w)"

text \<open>
  The notifications of one alert on one route, one after the other: the reference of a
  successful delivery goes into the next notification; a delivered resolution ends it.
\<close>

definition next_ref :: "alert_state \<Rightarrow> string \<Rightarrow> send_result result \<Rightarrow> string" where
  "next_ref state ref r =
     (case r of Inl _ \<Rightarrow> ref
      | Inr result \<Rightarrow> if state = StResolved then [] else if TrimSpace (sr_ExternalRef result) = [] then ref
          else sr_ExternalRef result)"

fun deliveries :: "'w sender \<Rightarrow> notification list \<Rightarrow> string \<Rightarrow> 'w \<Rightarrow> string \<times> 'w" where
  "deliveries send [] ref w = (ref, w)"
| "deliveries send (n # ns) ref w =
     (case send (n\<lparr>nt_ExternalRef := ref\<rparr>) w of (r, w1) \<Rightarrow> deliveries send ns (next_ref (nt_State n) ref r) w1)"

definition one_message :: "('w \<Rightarrow> chat_id \<Rightarrow> int64 set) \<Rightarrow> (chat_id \<Rightarrow> int64 set) \<Rightarrow> chat_id \<Rightarrow> string \<Rightarrow> 'w \<Rightarrow> bool" where
  "one_message shown before chat ref w \<longleftrightarrow>
     (if ref = [] then shown w = before
      else (\<exists>k. ref = FormatInt k \<and> 0 < k \<and> k \<le> max_int64 \<and> k \<notin> before chat \<and>
        shown w = before(chat := insert k (before chat))))"

text \<open>The chat of active-only deliveries.\<close>

definition active_chat :: "telegram_sender \<Rightarrow> chat_id" where
  "active_chat s = (case ts_activeChatID s of Some c \<Rightarrow> c | None \<Rightarrow> ts_chatID s)"

lemma chat_laws_send:
  "chat_laws tgbot shown \<Longrightarrow> case tb_SendMessage tgbot chat text reply w of
        (Inr (Some k), w') \<Rightarrow> 0 < k \<and> k \<le> max_int64 \<and> k \<notin> shown w chat \<and>
           shown w' = (shown w)(chat := insert k (shown w chat))
      | (_, w') \<Rightarrow> shown w' = shown w"
  unfolding chat_laws_def by (elim conjE allE)

lemma chat_laws_delete:
  "chat_laws tgbot shown \<Longrightarrow> case tb_DeleteMessage tgbot chat k w of
        (Inr True, w') \<Rightarrow> shown w' = (shown w)(chat := shown w chat - {k})
      | (_, w') \<Rightarrow> shown w' = shown w"
  unfolding chat_laws_def by (elim conjE allE)

lemma active_only_step:
  assumes "chat_laws tgbot shown" "one_message shown before chat ref w"
    and "telegram_sendActiveOnly tgbot chat (n\<lparr>nt_ExternalRef := ref\<rparr>) w = (r, w1)"
  shows "one_message shown before chat (next_ref (nt_State n) ref r) w1"
proof (cases "ref = []")
  case True
  then have before: "shown w = before" using assms(2) by (simp add: one_message_def)
  show ?thesis
  proof (cases "nt_State n = StResolved")
    case resolved: True
    have "parseTelegramMessageID [] = Inl (ErrFmt ''invalid telegram message id %q'' [[]])"
      by (simp add: parseTelegramMessageID_def Atoi_def)
    then show ?thesis using assms(3) True resolved before
      by (auto simp: telegram_sendActiveOnly_def telegram_delete_def next_ref_def one_message_def)
  next
    case open_state: False
    obtain a w2 where send: "tb_SendMessage tgbot chat (nt_Message n) None w = (a, w2)" by force
    have law: "case (a, w2) of (Inr (Some k), w') \<Rightarrow> 0 < k \<and> k \<le> max_int64 \<and> k \<notin> shown w chat \<and>
           shown w' = (shown w)(chat := insert k (shown w chat))
      | (_, w') \<Rightarrow> shown w' = shown w"
      unfolding send [symmetric] by (rule chat_laws_send [OF assms(1)])
    show ?thesis
    proof (cases "\<exists>k. a = Inr (Some k)")
      case True
      then obtain k where k: "a = Inr (Some k)" by blast
      then have "r = Inr \<lparr>sr_MessageID = k, sr_ExternalRef = FormatInt k\<rparr>" "w1 = w2"
        using assms(3) open_state \<open>ref = []\<close> send law by (auto simp: telegram_sendActiveOnly_def sent_id_def)
      moreover have "TrimSpace (FormatInt k) \<noteq> []" using message_id_roundtrip(2) law k by simp
      moreover from this have "FormatInt k \<noteq> []" by auto
      ultimately show ?thesis using law k before open_state
        by (auto simp: next_ref_def one_message_def)
    next
      case False
      then have "isl r" "w1 = w2" "shown w2 = shown w"
        using assms(3) open_state \<open>ref = []\<close> send law
        by (auto simp: telegram_sendActiveOnly_def sent_id_def split: sum.splits option.splits)
      then show ?thesis using before \<open>ref = []\<close> by (auto simp: next_ref_def one_message_def isl_def)
    qed
  qed
next
  case False
  then obtain k where k: "ref = FormatInt k" "0 < k" "k \<le> max_int64" "k \<notin> before chat"
    "shown w = before(chat := insert k (before chat))"
    using assms(2) by (auto simp: one_message_def)
  note parse = message_id_roundtrip [OF k(2,3)]
  show ?thesis
  proof (cases "nt_State n = StResolved")
    case resolved: True
    obtain a w2 where del: "tb_DeleteMessage tgbot chat k w = (a, w2)" by force
    have law: "case (a, w2) of (Inr True, w') \<Rightarrow> shown w' = (shown w)(chat := shown w chat - {k})
      | (_, w') \<Rightarrow> shown w' = shown w"
      unfolding del [symmetric] by (rule chat_laws_delete [OF assms(1)])
    have "w1 = w2" "r = (case a of Inl err \<Rightarrow> Inl (ErrWrap ''telegram delete: %w'' [] err)
        | Inr ok \<Rightarrow> if \<not> ok then Inl (ErrMsg ''telegram delete returned false'') else Inr no_send_result)"
      using assms(3) resolved parse k(1) del
      by (auto simp: telegram_sendActiveOnly_def telegram_delete_def split: sum.splits if_splits)
    then show ?thesis
      using law k False resolved by (auto simp: next_ref_def one_message_def split: sum.splits if_splits bool.splits)
  next
    case open_state: False
    obtain a w2 where edit: "tb_EditMessageText tgbot chat k (nt_Message n) w = (a, w2)" by force
    have law: "shown w2 = shown w" using assms(1) unfolding chat_laws_def by (metis edit snd_conv)
    have "w1 = w2" "isl r \<or> r = Inr \<lparr>sr_MessageID = k, sr_ExternalRef = FormatInt k\<rparr>"
      using assms(3) open_state parse k(1) edit
      by (auto simp: telegram_sendActiveOnly_def telegram_edit_def split: sum.splits option.splits if_splits)
    then show ?thesis
      using law k False open_state parse(2) by (auto simp: next_ref_def one_message_def isl_def)
  qed
qed

text \<open>
  C20. In active-only mode an alert owns at most one message of its chat: whatever deliveries
  failed on the way, the chat shows what it showed before plus the one message the stored reference names,
  and after a delivered resolution exactly what it showed before.
\<close>

theorem active_only_one_message:
  assumes "chat_laws tgbot shown" "ts_initErr s = None" "ts_client s"
    and "\<forall>n \<in> set ns. NormalizeNotifyRouteMode (nt_RouteMode n) = NotifyRouteModeActiveOnly"
    and "deliveries (telegram_Send tgbot s) ns [] w = (ref, w1)"
  shows "if ref = [] then shown w1 = shown w
    else (\<exists>k. ref = FormatInt k \<and> k \<notin> shown w (active_chat s) \<and>
      shown w1 = (shown w)(active_chat s := insert k (shown w (active_chat s))))"
proof -
  have "one_message shown (shown w) (active_chat s) ref1 w2"
    if "one_message shown (shown w) (active_chat s) ref0 w0" "deliveries (telegram_Send tgbot s) ns ref0 w0 = (ref1, w2)"
    for ref0 w0 ref1 w2
    using assms(4) that
  proof (induction ns arbitrary: ref0 w0)
    case (Cons n ns)
    obtain r w3 where step: "telegram_Send tgbot s (n\<lparr>nt_ExternalRef := ref0\<rparr>) w0 = (r, w3)" by force
    then have "telegram_sendActiveOnly tgbot (active_chat s) (n\<lparr>nt_ExternalRef := ref0\<rparr>) w0 = (r, w3)"
      using Cons.prems(1) assms(2,3) by (simp add: telegram_Send_def active_chat_def)
    from active_only_step [OF assms(1) Cons.prems(2) this] show ?case
      using Cons.prems(1,3) step by (intro Cons.IH) auto
  qed simp
  from this [of "[]" w ref w1] show ?thesis
    using assms(5) by (auto simp: one_message_def)
qed

lemma small_bot_laws: "chat_laws small_bot (\<lambda>w. w)"
  by (auto simp: chat_laws_def small_bot_def int64_defs find_Some_iff set_conv_nth [symmetric] split: option.splits
      dest!: nth_mem)

lemma small_telegram_run:
  "small_telegram = \<lparr>ts_client = True, ts_chatID = ChatNumber 1, ts_activeChatID = Some (ChatName ''ops''), ts_initErr = None\<rparr>"
  by code_simp

theorem active_only_one_message_witness:
  "\<exists>k. fst (deliveries (telegram_Send small_bot small_telegram)
      [sample_notification\<lparr>nt_RouteMode := ''active_only''\<rparr>, sample_notification\<lparr>nt_RouteMode := ''active_only''\<rparr>] [] (\<lambda>_. {})) = FormatInt k \<and>
    snd (deliveries (telegram_Send small_bot small_telegram)
      [sample_notification\<lparr>nt_RouteMode := ''active_only''\<rparr>, sample_notification\<lparr>nt_RouteMode := ''active_only''\<rparr>] [] (\<lambda>_. {})) =
      (\<lambda>_. {})(ChatName ''ops'' := {k})"
proof -
  let ?ns = "[sample_notification\<lparr>nt_RouteMode := ''active_only''\<rparr>, sample_notification\<lparr>nt_RouteMode := ''active_only''\<rparr>]"
  obtain ref w1 where run: "deliveries (telegram_Send small_bot small_telegram) ?ns [] (\<lambda>_. {}) = (ref, w1)" by force
  have mode: "\<forall>n \<in> set ?ns. NormalizeNotifyRouteMode (nt_RouteMode n) = NotifyRouteModeActiveOnly"
    by (simp add: sample_notification_def) code_simp
  have "ref = fst (deliveries (telegram_Send small_bot small_telegram) ?ns [] (\<lambda>_. {}))" by (simp only: run fst_conv)
  also have "\<dots> \<noteq> []" by code_simp
  finally have "ref \<noteq> []" .
  then show ?thesis
    using active_only_one_message [OF small_bot_laws _ _ mode run]
    unfolding run by (simp add: small_telegram_run active_chat_def)
qed

section \<open>Endpoints\<close>

text \<open>
  A post id from the server cannot leave the posts of the Mattermost API: after the endpoint of
  all posts comes nothing, or one path segment.
\<close>

lemma posts_endpoint_stays:
  obtains "postsEndpoint s postID = postsEndpoint s []"
  | segment where "postsEndpoint s postID = postsEndpoint s [] @ ''/'' @ segment"
      "CHR ''/'' \<notin> set segment" "CHR ''?'' \<notin> set segment" "CHR ''#'' \<notin> set segment"
proof (cases "TrimSpace postID = []")
  case True
  then show ?thesis using that(1) by (simp add: postsEndpoint_def Let_def)
next
  case False
  have "c \<noteq> CHR ''/'' \<and> c \<noteq> CHR ''?'' \<and> c \<noteq> CHR ''#''" if "c \<in> set (PathEscape postID)" for c
    by (rule path_safe_no_separator [OF PathEscape_chars [OF that]])
  then have "CHR ''/'' \<notin> set (PathEscape postID)" "CHR ''?'' \<notin> set (PathEscape postID)" "CHR ''#'' \<notin> set (PathEscape postID)"
    by blast+
  moreover have "postsEndpoint s postID = postsEndpoint s [] @ ''/'' @ PathEscape postID"
    using False by (simp add: postsEndpoint_def Let_def)
  ultimately show ?thesis using that(2) by blast
qed

section \<open>Resolutions that cannot be sent\<close>

text \<open>
  A resolution whose reference was lost cannot be sent, but the error is not marked permanent:
  with the attempt limit of the shipped configurations (none) the delivery is retried without end.
\<close>

lemma lost_reference_errors:
  assumes "nt_State n = StResolved" "TrimSpace (nt_ExternalRef n) = []"
  shows "\<exists>e. mattermost_Send api ms n w = (Inl e, w) \<and> \<not> permanent_Is (Some e)"
    "tks_initErr tks = None \<Longrightarrow> \<exists>e. tracker_Send api tks n w = (Inl e, w) \<and> \<not> permanent_Is (Some e)"
  using assms by (simp_all add: mattermost_Send_def mattermost_sendActiveOnly_def mattermost_sendHistory_def
      tracker_Send_def permanent_Is_def Let_def)

lemma lost_reference_retried_forever:
  assumes "nt_State n = StResolved" "TrimSpace (nt_ExternalRef n) = []"
    and "nr_Enabled retry" "nr_MaxAttempts retry \<le> 0" "\<And>d u. fst (wait d u) = None"
  shows "sendWithRetry wait ch (mattermost_Send api ms) n retry w = None"
    "tks_initErr tks = None \<Longrightarrow> sendWithRetry wait ch (tracker_Send api tks) n retry w = None"
proof -
  have *: "sendWithRetry wait ch send n retry w = None"
    if fails: "\<And>u. \<exists>e. send n u = (Inl e, u) \<and> \<not> permanent_Is (Some e)" for send
  proof -
    have "\<exists>e u'. send n u = (Inl e, u') \<and> \<not> permanent_Is (Some e)" for u
      using fails [of u] by blast
    from retry_loop_diverges [where send = send and n = n and wait = wait, OF this assms(5,4)]
    show ?thesis using assms(3) by (simp add: sendWithRetry_def)
  qed
  note lost = lost_reference_errors [OF assms(1,2)]
  show "sendWithRetry wait ch (mattermost_Send api ms) n retry w = None"
    by (rule *) (rule lost(1))
  show "sendWithRetry wait ch (tracker_Send api tks) n retry w = None" if "tks_initErr tks = None"
    by (rule *) (rule lost(2) [OF that])
qed

end
