(* ===== verification/Connections.thy ===== *)
theory Connections
  imports Config_Norm Nats_Store Notify_Queue
begin

text \<open>
  Opening and closing of everything that holds a NATS connection: the JetStream store and the
  consumer of delete markers (\<open>internal/state\<close>), the subscriber of events
  (\<open>internal/ingest/nats.go\<close>), producer and worker of the notification queue
  (\<open>internal/notifyqueue/nats.go\<close>) and the client of the registry
  (\<open>internal/ui/registry.go\<close>).

  The client library is the record \<open>nats_lib\<close> over a state \<open>'r\<close> of the process and
  its servers. A connection and a subscription are numbers; the JetStream context of a connection
  and its buckets are used through the connection. A callback is not part of a subscription
  request: what it does on a message is modelled with its component.
\<close>

section \<open>What the library provides\<close>

type_synonym conn = nat
type_synonym subscription = nat

datatype retention = WorkQueuePolicy | LimitsPolicy

text \<open>\<open>nats.StreamConfig\<close>; the fields no code reads or sets are together in the last.\<close>

record stream_config =
  st_Name :: string
  st_Subjects :: "string list"
  st_Retention :: retention
  st_MaxAge :: duration
  st_AllowMsgTTL :: bool
  st_SubjectDeleteMarkerTTL :: duration
  st_Rest :: string

text \<open>
  A queue subscription with manual, explicit acknowledgement; the last four options are given by
  some subscribers only.
\<close>

record sub_request =
  sb_Subject :: string
  sb_Group :: string
  sb_Stream :: string
  sb_Durable :: string
  sb_DeliverNew :: bool
  sb_AckWait :: "duration option"
  sb_MaxDeliver :: "int64 option"
  sb_MaxAckPending :: "int64 option"

record 'r nats_lib =
  nl_Connect :: "string \<Rightarrow> 'r \<Rightarrow> conn result \<times> 'r"
  nl_Close :: "conn \<Rightarrow> 'r \<Rightarrow> 'r"
  nl_JetStream :: "conn \<Rightarrow> 'r \<Rightarrow> error option \<times> 'r"
  nl_StreamInfo :: "conn \<Rightarrow> string \<Rightarrow> 'r \<Rightarrow> stream_config result \<times> 'r"
  nl_AddStream :: "conn \<Rightarrow> stream_config \<Rightarrow> 'r \<Rightarrow> error option \<times> 'r"
  nl_UpdateStream :: "conn \<Rightarrow> stream_config \<Rightarrow> 'r \<Rightarrow> error option \<times> 'r"
  nl_KeyValue :: "conn \<Rightarrow> string \<Rightarrow> 'r \<Rightarrow> error option \<times> 'r"
  nl_CreateKeyValue :: "conn \<Rightarrow> string \<Rightarrow> duration \<Rightarrow> 'r \<Rightarrow> error option \<times> 'r"
  nl_QueueSubscribe :: "conn \<Rightarrow> sub_request \<Rightarrow> 'r \<Rightarrow> subscription result \<times> 'r"
  nl_Drain :: "subscription \<Rightarrow> 'r \<Rightarrow> error option \<times> 'r"
  nl_ErrStreamNotFound :: error
  nl_text :: "error \<Rightarrow> string"

text \<open>\<open>strings.Join(urls, ",")\<close>.\<close>

fun join_urls :: "string list \<Rightarrow> string" where
  "join_urls [] = []"
| "join_urls [u] = u"
| "join_urls (u # us) = u @ '','' @ join_urls us"

section \<open>The notification queue\<close>

abbreviation notifyStreamMaxAge :: duration where "notifyStreamMaxAge \<equiv> 86400000000000"
abbreviation notifyDLQStreamMaxAge :: duration where "notifyDLQStreamMaxAge \<equiv> 604800000000000"
abbreviation notifyQueueStream :: string where "notifyQueueStream \<equiv> ''ALERTING_NOTIFY''"
abbreviation notifyQueueDLQStream :: string where "notifyQueueDLQStream \<equiv> ''ALERTING_NOTIFY_DLQ''"

definition ensureStream ::
    "'r nats_lib \<Rightarrow> conn \<Rightarrow> string \<Rightarrow> string \<Rightarrow> retention \<Rightarrow> duration \<Rightarrow> 'r \<Rightarrow> error option \<times> 'r" where
  "ensureStream lib nc streamName subject retention maxAge r =
     (case nl_StreamInfo lib nc streamName r of
        (Inr _, r1) \<Rightarrow> (None, r1)
      | (Inl err, r1) \<Rightarrow>
          if err \<noteq> nl_ErrStreamNotFound lib \<and> \<not> str_Contains (ToLower (nl_text lib err)) ''stream not found''
          then (Some (ErrWrap ''stream info %q: %w'' [streamName] err), r1)
          else (case nl_AddStream lib nc \<lparr>st_Name = streamName, st_Subjects = [subject], st_Retention = retention,
                    st_MaxAge = maxAge, st_AllowMsgTTL = False, st_SubjectDeleteMarkerTTL = 0, st_Rest = []\<rparr> r1 of
              (Some err1, r2) \<Rightarrow> (Some (ErrWrap ''create stream %q: %w'' [streamName] err1), r2)
            | (None, r2) \<Rightarrow> (None, r2)))"

definition openNotifyQueueJetStream :: "'r nats_lib \<Rightarrow> notify_queue \<Rightarrow> 'r \<Rightarrow> conn result \<times> 'r" where
  "openNotifyQueueJetStream lib cfg r =
     (case nl_Connect lib (join_urls (nq_URL cfg)) r of
        (Inl err, r1) \<Rightarrow> (Inl (ErrWrap ''connect notify queue nats: %w'' [] err), r1)
      | (Inr nc, r1) \<Rightarrow>
     (case nl_JetStream lib nc r1 of
        (Some err, r2) \<Rightarrow> (Inl (ErrWrap ''jetstream init for notify queue: %w'' [] err), nl_Close lib nc r2)
      | (None, r2) \<Rightarrow>
     (case ensureStream lib nc notifyQueueStream notifyQueueSubject WorkQueuePolicy notifyStreamMaxAge r2 of
        (Some err, r3) \<Rightarrow> (Inl err, nl_Close lib nc r3)
      | (None, r3) \<Rightarrow>
          if nq_DLQ cfg then
            (case ensureStream lib nc notifyQueueDLQStream notifyQueueDLQSubject LimitsPolicy notifyDLQStreamMaxAge r3 of
               (Some err, r4) \<Rightarrow> (Inl err, nl_Close lib nc r4)
             | (None, r4) \<Rightarrow> (Inr nc, r4))
          else (Inr nc, r3))))"

definition NewNATSProducer :: "'r nats_lib \<Rightarrow> notify_queue \<Rightarrow> 'r \<Rightarrow> conn result \<times> 'r" where
  "NewNATSProducer lib cfg r = openNotifyQueueJetStream lib cfg r"

definition producer_Close :: "'r nats_lib \<Rightarrow> conn \<Rightarrow> 'r \<Rightarrow> error option \<times> 'r" where
  "producer_Close lib nc r = (None, nl_Close lib nc r)"

text \<open>A started consumer: its connection and its subscription.\<close>

type_synonym consumer = "conn \<times> subscription"

definition worker_request :: "notify_queue \<Rightarrow> sub_request" where
  "worker_request cfg = \<lparr>sb_Subject = notifyQueueSubject, sb_Group = ''alerting-notify-workers'',
     sb_Stream = notifyQueueStream, sb_Durable = ''alerting-notify'', sb_DeliverNew = False,
     sb_AckWait = Some (seconds (nq_AckWaitSec cfg)), sb_MaxDeliver = Some (nq_MaxDeliver cfg),
     sb_MaxAckPending = Some (nq_MaxAckPending cfg)\<rparr>"

definition NewNATSWorker :: "'r nats_lib \<Rightarrow> notify_queue \<Rightarrow> 'r \<Rightarrow> consumer result \<times> 'r" where
  "NewNATSWorker lib cfg r =
     (case openNotifyQueueJetStream lib cfg r of
        (Inl err, r1) \<Rightarrow> (Inl err, r1)
      | (Inr nc, r1) \<Rightarrow>
          (case nl_QueueSubscribe lib nc (worker_request cfg) r1 of
             (Inl err, r2) \<Rightarrow> (Inl (ErrWrap ''queue subscribe notify %q/%q: %w''
                 [notifyQueueSubject, ''alerting-notify-workers''] err), nl_Close lib nc r2)
           | (Inr sub, r2) \<Rightarrow> (Inr (nc, sub), r2)))"

text \<open>The worker and the consumer of delete markers are closed alike: drain, then close.\<close>

definition consumer_Close :: "'r nats_lib \<Rightarrow> consumer \<Rightarrow> 'r \<Rightarrow> error option \<times> 'r" where
  "consumer_Close lib = (\<lambda>(nc, sub) r.
     (case nl_Drain lib sub r of (err, r1) \<Rightarrow> (err, nl_Close lib nc r1)))"

section \<open>The state store\<close>

definition enableBucketPerMessageTTL :: "'r nats_lib \<Rightarrow> conn \<Rightarrow> string \<Rightarrow> 'r \<Rightarrow> error option \<times> 'r" where
  "enableBucketPerMessageTTL lib nc bucket r =
     (case nl_StreamInfo lib nc (''KV_'' @ bucket) r of
        (Inl err, r1) \<Rightarrow> (Some err, r1)
      | (Inr info, r1) \<Rightarrow>
          if st_AllowMsgTTL info then (None, r1)
          else (let cfg = info\<lparr>st_AllowMsgTTL := True\<rparr>;
                    cfg' = (if st_SubjectDeleteMarkerTTL cfg = 0
                            then cfg\<lparr>st_SubjectDeleteMarkerTTL := 300000000000\<rparr> else cfg)
                in nl_UpdateStream lib nc cfg' r1))"

definition open_bucket ::
    "'r nats_lib \<Rightarrow> conn \<Rightarrow> bool \<Rightarrow> string \<Rightarrow> string \<Rightarrow> 'r \<Rightarrow> error option \<times> 'r" where
  "open_bucket lib nc allowCreate label bucket r =
     (case nl_KeyValue lib nc bucket r of
        (None, r1) \<Rightarrow> (None, r1)
      | (Some err, r1) \<Rightarrow>
          if \<not> allowCreate then (Some (ErrWrap (''open '' @ label @ '' bucket %q: %w'') [bucket] err), r1)
          else (case nl_CreateKeyValue lib nc bucket 0 r1 of
              (Some err1, r2) \<Rightarrow> (Some (ErrWrap (''create '' @ label @ '' bucket %q: %w'') [bucket] err1), r2)
            | (None, r2) \<Rightarrow> (None, r2)))"

definition NewNATSStore :: "'r nats_lib \<Rightarrow> nats_state_config \<Rightarrow> 'r \<Rightarrow> conn result \<times> 'r" where
  "NewNATSStore lib settings r =
     (case nl_Connect lib (join_urls (ns_URL settings)) r of
        (Inl err, r1) \<Rightarrow> (Inl (ErrWrap ''connect nats: %w'' [] err), r1)
      | (Inr nc, r1) \<Rightarrow>
     (case nl_JetStream lib nc r1 of
        (Some err, r2) \<Rightarrow> (Inl (ErrWrap ''jetstream init: %w'' [] err), nl_Close lib nc r2)
      | (None, r2) \<Rightarrow>
     (case open_bucket lib nc (ns_AllowCreateBuckets settings) ''tick'' (ns_TickBucket settings) r2 of
        (Some err, r3) \<Rightarrow> (Inl err, nl_Close lib nc r3)
      | (None, r3) \<Rightarrow>
     (case enableBucketPerMessageTTL lib nc (ns_TickBucket settings) r3 of
        (Some err, r4) \<Rightarrow> (Inl (ErrWrap ''enable per-message ttl on tick bucket: %w'' [] err), nl_Close lib nc r4)
      | (None, r4) \<Rightarrow>
     (case open_bucket lib nc (ns_AllowCreateBuckets settings) ''data'' (ns_DataBucket settings) r4 of
        (Some err, r5) \<Rightarrow> (Inl err, nl_Close lib nc r5)
      | (None, r5) \<Rightarrow> (Inr nc, r5))))))"

definition delete_request :: "nats_state_config \<Rightarrow> sub_request" where
  "delete_request cfg = \<lparr>sb_Subject = ns_DeleteSubjectWildcard cfg, sb_Group = ns_DeleteDeliverGroup cfg,
     sb_Stream = ''KV_'' @ ns_TickBucket cfg, sb_Durable = ns_DeleteConsumerName cfg, sb_DeliverNew = True,
     sb_AckWait = None, sb_MaxDeliver = None, sb_MaxAckPending = None\<rparr>"

definition NewDeleteMarkerConsumer :: "'r nats_lib \<Rightarrow> nats_state_config \<Rightarrow> 'r \<Rightarrow> consumer result \<times> 'r" where
  "NewDeleteMarkerConsumer lib cfg r =
     (case nl_Connect lib (join_urls (ns_URL cfg)) r of
        (Inl err, r1) \<Rightarrow> (Inl err, r1)
      | (Inr nc, r1) \<Rightarrow>
     (case nl_JetStream lib nc r1 of
        (Some err, r2) \<Rightarrow> (Inl err, nl_Close lib nc r2)
      | (None, r2) \<Rightarrow>
     (case nl_QueueSubscribe lib nc (delete_request cfg) r2 of
        (Inl err, r3) \<Rightarrow> (Inl err, nl_Close lib nc r3)
      | (Inr sub, r3) \<Rightarrow> (Inr (nc, sub), r3))))"

section \<open>The subscriber of events\<close>

record subscriber =
  sr_conns :: "conn list"
  sr_subs :: "subscription list"

fun drain_all :: "'r nats_lib \<Rightarrow> subscription list \<Rightarrow> error option \<Rightarrow> 'r \<Rightarrow> error option \<times> 'r" where
  "drain_all lib [] firstErr r = (firstErr, r)"
| "drain_all lib (sub # subs) firstErr r =
     (case nl_Drain lib sub r of (err, r1) \<Rightarrow>
        drain_all lib subs (if firstErr = None then err else firstErr) r1)"

definition close_all :: "'r nats_lib \<Rightarrow> conn list \<Rightarrow> 'r \<Rightarrow> 'r" where
  "close_all lib conns r = fold (nl_Close lib) conns r"

definition subscriber_Close :: "'r nats_lib \<Rightarrow> subscriber \<Rightarrow> 'r \<Rightarrow> error option \<times> 'r" where
  "subscriber_Close lib s r =
     (case drain_all lib (sr_subs s) None r of (firstErr, r1) \<Rightarrow> (firstErr, close_all lib (sr_conns s) r1))"

definition ingest_request :: "nats_ingest \<Rightarrow> sub_request" where
  "ingest_request cfg = \<lparr>sb_Subject = ni_Subject cfg, sb_Group = ni_DeliverGroup cfg, sb_Stream = ni_Stream cfg,
     sb_Durable = ni_ConsumerName cfg, sb_DeliverNew = False, sb_AckWait = Some (seconds (ni_AckWaitSec cfg)),
     sb_MaxDeliver = Some (ni_MaxDeliver cfg), sb_MaxAckPending = Some (ni_MaxAckPending cfg)\<rparr>"

text \<open>The loop of \<open>NewNATSSubscriber\<close> from the worker of index \<open>i\<close>, with \<open>k\<close> workers to start.\<close>

primrec subscribe_workers ::
    "'r nats_lib \<Rightarrow> nats_ingest \<Rightarrow> nat \<Rightarrow> nat \<Rightarrow> subscriber \<Rightarrow> 'r \<Rightarrow> subscriber result \<times> 'r" where
  "subscribe_workers lib cfg 0 i s r = (Inr s, r)"
| "subscribe_workers lib cfg (Suc k) i s r =
     (case nl_Connect lib (join_urls (ni_URL cfg)) r of
        (Inl err, r1) \<Rightarrow>
          (Inl (ErrWrap ''connect nats ingest worker %d: %w'' [FormatInt (int i)] err), snd (subscriber_Close lib s r1))
      | (Inr nc, r1) \<Rightarrow>
     (case nl_JetStream lib nc r1 of
        (Some err, r2) \<Rightarrow>
          (Inl (ErrWrap ''jetstream init for ingest worker %d: %w'' [FormatInt (int i)] err),
           snd (subscriber_Close lib s (nl_Close lib nc r2)))
      | (None, r2) \<Rightarrow>
     (case nl_QueueSubscribe lib nc (ingest_request cfg) r2 of
        (Inl err, r3) \<Rightarrow>
          (Inl (ErrWrap ''queue subscribe %q/%q worker %d: %w''
             [ni_Subject cfg, ni_DeliverGroup cfg, FormatInt (int i)] err),
           snd (subscriber_Close lib s (nl_Close lib nc r3)))
      | (Inr sub, r3) \<Rightarrow>
          subscribe_workers lib cfg k (Suc i) \<lparr>sr_conns = sr_conns s @ [nc], sr_subs = sr_subs s @ [sub]\<rparr> r3)))"

definition NewNATSSubscriber :: "'r nats_lib \<Rightarrow> nats_ingest \<Rightarrow> 'r \<Rightarrow> subscriber result \<times> 'r" where
  "NewNATSSubscriber lib cfg r =
     (let workers = (if ni_Workers cfg \<le> 0 then 1 else ni_Workers cfg) in
      subscribe_workers lib cfg (nat workers) 0 \<lparr>sr_conns = [], sr_subs = []\<rparr> r)"

section \<open>The connections that are open\<close>

text \<open>
  What the code relies on: a connection that is opened is new, closing closes it, a failed
  connect and every other call leave the open connections as they are.
\<close>

definition nats_laws :: "'r nats_lib \<Rightarrow> ('r \<Rightarrow> conn set) \<Rightarrow> bool" where
  "nats_laws lib live \<longleftrightarrow>
     (\<forall>url r. case nl_Connect lib url r of
        (Inr nc, r') \<Rightarrow> nc \<notin> live r \<and> live r' = insert nc (live r)
      | (Inl _, r') \<Rightarrow> live r' = live r) \<and>
     (\<forall>nc r. live (nl_Close lib nc r) = live r - {nc}) \<and>
     (\<forall>nc r. live (snd (nl_JetStream lib nc r)) = live r) \<and>
     (\<forall>nc name r. live (snd (nl_StreamInfo lib nc name r)) = live r) \<and>
     (\<forall>nc c r. live (snd (nl_AddStream lib nc c r)) = live r) \<and>
     (\<forall>nc c r. live (snd (nl_UpdateStream lib nc c r)) = live r) \<and>
     (\<forall>nc b r. live (snd (nl_KeyValue lib nc b r)) = live r) \<and>
     (\<forall>nc b ttl r. live (snd (nl_CreateKeyValue lib nc b ttl r)) = live r) \<and>
     (\<forall>nc req r. live (snd (nl_QueueSubscribe lib nc req r)) = live r) \<and>
     (\<forall>sub r. live (snd (nl_Drain lib sub r)) = live r)"

text \<open>A constructor keeps what it returns open and nothing else; a failed one keeps nothing.\<close>

definition acquires :: "('r \<Rightarrow> conn set) \<Rightarrow> 'r \<Rightarrow> ('a \<Rightarrow> conn list) \<Rightarrow> 'a result \<times> 'r \<Rightarrow> bool" where
  "acquires live r held outcome \<longleftrightarrow>
     (case outcome of
        (Inl _, r') \<Rightarrow> live r' = live r
      | (Inr x, r') \<Rightarrow> distinct (held x) \<and> live r \<inter> set (held x) = {} \<and> live r' = live r \<union> set (held x))"

lemma acquires_Inl [simp]: "acquires live r held (Inl e, r') \<longleftrightarrow> live r' = live r"
  and acquires_Inr [simp]: "acquires live r held (Inr x, r') \<longleftrightarrow>
    distinct (held x) \<and> live r \<inter> set (held x) = {} \<and> live r' = live r \<union> set (held x)"
  by (simp_all add: acquires_def)

section \<open>Facts\<close>

text \<open>The laws as rules on the outcome of one call.\<close>

lemma nats_laws_Connect:
  assumes "nats_laws lib live"
  shows "nl_Connect lib url r = (Inl e, r') \<Longrightarrow> live r' = live r"
    and "nl_Connect lib url r = (Inr nc, r') \<Longrightarrow> nc \<notin> live r \<and> live r' = insert nc (live r)"
proof -
  have "case nl_Connect lib url r of
        (Inr nc, r') \<Rightarrow> nc \<notin> live r \<and> live r' = insert nc (live r)
      | (Inl _, r') \<Rightarrow> live r' = live r"
    using assms unfolding nats_laws_def by (elim conjE allE)
  then show "nl_Connect lib url r = (Inl e, r') \<Longrightarrow> live r' = live r"
    "nl_Connect lib url r = (Inr nc, r') \<Longrightarrow> nc \<notin> live r \<and> live r' = insert nc (live r)" by simp_all
qed

lemma nats_laws_JetStream:
  assumes "nats_laws lib live" "nl_JetStream lib nc r = (err, r')"
  shows "live r' = live r"
proof -
  have "live (snd (nl_JetStream lib nc r)) = live r" using assms(1) unfolding nats_laws_def by (elim conjE allE)
  then show ?thesis using assms(2) by simp
qed

lemma nats_laws_StreamInfo:
  assumes "nats_laws lib live" "nl_StreamInfo lib nc name r = (info, r')"
  shows "live r' = live r"
proof -
  have "live (snd (nl_StreamInfo lib nc name r)) = live r" using assms(1) unfolding nats_laws_def by (elim conjE allE)
  then show ?thesis using assms(2) by simp
qed

lemma nats_laws_AddStream:
  assumes "nats_laws lib live" "nl_AddStream lib nc c r = (err, r')"
  shows "live r' = live r"
proof -
  have "live (snd (nl_AddStream lib nc c r)) = live r" using assms(1) unfolding nats_laws_def by (elim conjE allE)
  then show ?thesis using assms(2) by simp
qed

lemma nats_laws_UpdateStream:
  assumes "nats_laws lib live" "nl_UpdateStream lib nc c r = (err, r')"
  shows "live r' = live r"
proof -
  have "live (snd (nl_UpdateStream lib nc c r)) = live r" using assms(1) unfolding nats_laws_def by (elim conjE allE)
  then show ?thesis using assms(2) by simp
qed

lemma nats_laws_KeyValue:
  assumes "nats_laws lib live" "nl_KeyValue lib nc b r = (err, r')"
  shows "live r' = live r"
proof -
  have "live (snd (nl_KeyValue lib nc b r)) = live r" using assms(1) unfolding nats_laws_def by (elim conjE allE)
  then show ?thesis using assms(2) by simp
qed

lemma nats_laws_CreateKeyValue:
  assumes "nats_laws lib live" "nl_CreateKeyValue lib nc b ttl r = (err, r')"
  shows "live r' = live r"
proof -
  have "live (snd (nl_CreateKeyValue lib nc b ttl r)) = live r" using assms(1) unfolding nats_laws_def by (elim conjE allE)
  then show ?thesis using assms(2) by simp
qed

lemma nats_laws_QueueSubscribe:
  assumes "nats_laws lib live" "nl_QueueSubscribe lib nc req r = (sub, r')"
  shows "live r' = live r"
proof -
  have "live (snd (nl_QueueSubscribe lib nc req r)) = live r" using assms(1) unfolding nats_laws_def by (elim conjE allE)
  then show ?thesis using assms(2) by simp
qed

lemma nats_laws_Drain:
  assumes "nats_laws lib live" "nl_Drain lib s r = (err, r')"
  shows "live r' = live r"
proof -
  have "live (snd (nl_Drain lib s r)) = live r" using assms(1) unfolding nats_laws_def by (elim conjE allE)
  then show ?thesis using assms(2) by simp
qed

lemmas nats_laws_calls = nats_laws_Connect nats_laws_JetStream nats_laws_StreamInfo nats_laws_AddStream nats_laws_UpdateStream nats_laws_KeyValue nats_laws_CreateKeyValue nats_laws_QueueSubscribe nats_laws_Drain

lemma nats_Close_live: "nats_laws lib live \<Longrightarrow> live (nl_Close lib nc r) = live r - {nc}"
  unfolding nats_laws_def by (elim conjE allE)

lemma ensureStream_live:
  assumes "nats_laws lib live" "ensureStream lib nc name subject ret age r = (err, r')"
  shows "live r' = live r"
  using assms(2) unfolding ensureStream_def
  by (auto dest!: nats_laws_calls [OF assms(1)] split: prod.splits sum.splits option.splits if_splits)

lemma open_bucket_live:
  assumes "nats_laws lib live" "open_bucket lib nc allow label b r = (err, r')"
  shows "live r' = live r"
  using assms(2) unfolding open_bucket_def
  by (auto dest!: nats_laws_calls [OF assms(1)] split: prod.splits option.splits if_splits)

lemma enableBucketPerMessageTTL_live:
  assumes "nats_laws lib live" "enableBucketPerMessageTTL lib nc b r = (err, r')"
  shows "live r' = live r"
  using assms(2) unfolding enableBucketPerMessageTTL_def
  by (auto simp: Let_def dest!: nats_laws_calls [OF assms(1)] split: prod.splits sum.splits if_splits)

lemmas setup_live = nats_laws_calls ensureStream_live open_bucket_live enableBucketPerMessageTTL_live

lemma openNotifyQueueJetStream_acquires:
  assumes "nats_laws lib live"
  shows "acquires live r (\<lambda>nc. [nc]) (openNotifyQueueJetStream lib cfg r)"
  unfolding openNotifyQueueJetStream_def acquires_def
  by (auto dest!: setup_live [OF assms] simp: nats_Close_live [OF assms]
      split: prod.splits sum.splits option.splits if_splits)

lemma NewNATSProducer_acquires:
  "nats_laws lib live \<Longrightarrow> acquires live r (\<lambda>nc. [nc]) (NewNATSProducer lib cfg r)"
  by (simp add: NewNATSProducer_def openNotifyQueueJetStream_acquires)

lemma NewNATSWorker_acquires:
  assumes "nats_laws lib live"
  shows "acquires live r (\<lambda>c. [fst c]) (NewNATSWorker lib cfg r)"
  using openNotifyQueueJetStream_acquires [OF assms, of r cfg] unfolding NewNATSWorker_def acquires_def
  by (auto dest!: setup_live [OF assms] simp: nats_Close_live [OF assms]
      split: prod.splits sum.splits)

lemma NewNATSStore_acquires:
  assumes "nats_laws lib live"
  shows "acquires live r (\<lambda>nc. [nc]) (NewNATSStore lib settings r)"
  unfolding NewNATSStore_def acquires_def
  by (auto dest!: setup_live [OF assms] simp: nats_Close_live [OF assms]
      split: prod.splits sum.splits option.splits if_splits)

lemma NewDeleteMarkerConsumer_acquires:
  assumes "nats_laws lib live"
  shows "acquires live r (\<lambda>c. [fst c]) (NewDeleteMarkerConsumer lib cfg r)"
  unfolding NewDeleteMarkerConsumer_def acquires_def
  by (auto dest!: setup_live [OF assms] simp: nats_Close_live [OF assms]
      split: prod.splits sum.splits option.splits if_splits)

lemma consumer_Close_live:
  "nats_laws lib live \<Longrightarrow> live (snd (consumer_Close lib c r)) = live r - {fst c}"
  by (auto simp: consumer_Close_def nats_Close_live split: prod.splits dest: setup_live)

lemma drain_all_live: "nats_laws lib live \<Longrightarrow> live (snd (drain_all lib subs e r)) = live r"
  by (induction subs arbitrary: e r) (auto split: prod.splits dest: setup_live)

lemma close_all_live: "nats_laws lib live \<Longrightarrow> live (close_all lib conns r) = live r - set conns"
  by (induction conns arbitrary: r) (auto simp: close_all_def nats_Close_live)

lemma subscriber_Close_live:
  "nats_laws lib live \<Longrightarrow> live (snd (subscriber_Close lib s r)) = live r - set (sr_conns s)"
  using drain_all_live [of lib live "sr_subs s" None r]
  by (cases "drain_all lib (sr_subs s) None r") (simp add: subscriber_Close_def close_all_live)

lemma subscribe_workers_acquires:
  assumes "nats_laws lib live" "distinct (sr_conns s)" "live r0 \<inter> set (sr_conns s) = {}" "live r = live r0 \<union> set (sr_conns s)"
  shows "acquires live r0 sr_conns (subscribe_workers lib cfg k i s r)"
  using assms(2-4)
proof (induction k arbitrary: i s r)
  case (Suc k)
  note close = subscriber_Close_live [OF assms(1)] nats_Close_live [OF assms(1)]
  obtain a r1 where connect: "nl_Connect lib (join_urls (ni_URL cfg)) r = (a, r1)" by force
  show ?case
  proof (cases a)
    case (Inl e)
    then show ?thesis using Suc.prems connect nats_laws_calls(1) [OF assms(1)] by (auto simp: close)
  next
    case (Inr nc)
    obtain b r2 where js: "nl_JetStream lib nc r1 = (b, r2)" by force
    obtain c r3 where sub: "nl_QueueSubscribe lib nc (ingest_request cfg) r2 = (c, r3)" by force
    have live: "nc \<notin> live r" "live r1 = insert nc (live r)" "live r2 = live r1" "live r3 = live r2"
      using nats_laws_calls(2) [OF assms(1)] connect Inr nats_laws_calls(3) [OF assms(1) js]
        nats_laws_calls(9) [OF assms(1) sub] by auto
    show ?thesis
    proof (cases "b = None \<and> \<not> isl c")
      case True
      then obtain n where c: "c = Inr n" by (auto simp: isl_def split: sum.splits) (metis sum.exhaust)
      show ?thesis using Suc.prems live True
        by (auto simp: connect Inr js sub c intro!: Suc.IH)
    next
      case False
      then show ?thesis using Suc.prems live
        by (auto simp: connect Inr js sub close split: option.splits sum.splits)
    qed
  qed
qed simp

lemma NewNATSSubscriber_acquires:
  "nats_laws lib live \<Longrightarrow> acquires live r sr_conns (NewNATSSubscriber lib cfg r)"
  unfolding NewNATSSubscriber_def Let_def by (rule subscribe_workers_acquires) simp_all

end
