(* ===== verification/Registry.thy ===== *)
theory Registry
  imports Connections
begin

text \<open>
  The registry of running instances (\<open>internal/ui/registry.go\<close>): each instance writes a
  record under its own key of a JetStream bucket and renews it; the dashboard lists all records.
  The bucket is a \<open>kv_api\<close> as in the state store; the JSON codec of records, the host name
  and the build information are arguments.
\<close>

section \<open>Records and clients\<close>

record registry_record =
  re_InstanceID :: string
  re_Host :: string
  re_Service :: string
  re_Mode :: string
  re_Version :: string
  re_HealthURL :: string
  re_ReadyURL :: string
  re_LastSeen :: gtime

abbreviation registryKeyPrefix :: string where "registryKeyPrefix \<equiv> ''alerting/''"

record registry_client =
  rg_nc :: conn
  rg_cfg :: ui_config
  rg_key :: string
  rg_base :: registry_record

record ('b, 'w) registry_api =
  ra_kv :: "('b, 'w) kv_api"
  ra_Marshal :: "registry_record \<Rightarrow> 'b result"
  ra_Unmarshal :: "'b \<Rightarrow> registry_record result"
  ra_ErrKeyNotFound :: error
  ra_ErrNoKeysFound :: error

text \<open>\<open>debug.ReadBuildInfo\<close>: the version of the main module and the build settings.\<close>

record build_info =
  bi_Version :: string
  bi_Settings :: "(string \<times> string) list"

section \<open>Operations\<close>

text \<open>A symbol is a rune: all but letters, digits and three marks become an underscore.\<close>

definition registry_symbol :: "nat \<Rightarrow> char" where
  "registry_symbol r =
     (if (97 \<le> r \<and> r \<le> 122) \<or> (65 \<le> r \<and> r \<le> 90) \<or> (48 \<le> r \<and> r \<le> 57) \<or> r = 45 \<or> r = 95 \<or> r = 46
      then char_of r else CHR ''_'')"

definition sanitizeRegistryKey :: "string \<Rightarrow> string" where
  "sanitizeRegistryKey value =
     (if TrimSpace value = [] then ''unknown'' else map registry_symbol (runes value))"

fun last_setting :: "string \<Rightarrow> (string \<times> string) list \<Rightarrow> string \<Rightarrow> string" where
  "last_setting key [] acc = acc"
| "last_setting key ((k, v) # rest) acc = last_setting key rest (if k = key then TrimSpace v else acc)"

definition currentBuildVersion :: "build_info option \<Rightarrow> string" where
  "currentBuildVersion info =
     (case info of
        None \<Rightarrow> ''dev''
      | Some b \<Rightarrow>
          (let version = TrimSpace (bi_Version b) in
           if version \<noteq> [] \<and> version \<noteq> ''(devel)'' then version
           else
             (let revision = last_setting ''vcs.revision'' (bi_Settings b) [];
                  dirty = last_setting ''vcs.modified'' (bi_Settings b) [] in
              if revision = [] then ''dev''
              else
                (let short = (if length revision > 12 then take 12 revision else revision) in
                 if dirty = ''true'' then short @ ''-dirty'' else short))))"

definition NewRegistryClient ::
    "'r nats_lib \<Rightarrow> string result \<Rightarrow> build_info option \<Rightarrow> ui_config \<Rightarrow> service_config \<Rightarrow> string \<Rightarrow> 'r
      \<Rightarrow> registry_client result \<times> 'r" where
  "NewRegistryClient lib hostname info uiCfg serviceCfg instanceID r =
     (case nl_Connect lib (join_urls (un_URL (ui_NATS uiCfg))) r of
        (Inl err, r1) \<Rightarrow> (Inl (ErrWrap ''connect ui nats: %w'' [] err), r1)
      | (Inr nc, r1) \<Rightarrow>
     (case nl_JetStream lib nc r1 of
        (Some err, r2) \<Rightarrow> (Inl (ErrWrap ''ui jetstream init: %w'' [] err), nl_Close lib nc r2)
      | (None, r2) \<Rightarrow>
     (case (case nl_KeyValue lib nc (un_RegistryBucket (ui_NATS uiCfg)) r2 of
              (None, r3) \<Rightarrow> (None, r3)
            | (Some _, r3) \<Rightarrow> nl_CreateKeyValue lib nc (un_RegistryBucket (ui_NATS uiCfg))
                (seconds (un_RegistryTTLSec (ui_NATS uiCfg))) r3) of
        (Some err, r4) \<Rightarrow>
          (Inl (ErrWrap ''open ui registry bucket %q: %w'' [un_RegistryBucket (ui_NATS uiCfg)] err), nl_Close lib nc r4)
      | (None, r4) \<Rightarrow>
          (let host = (case hostname of Inl _ \<Rightarrow> ''unknown'' | Inr h \<Rightarrow> h);
               baseURL = TrimRight (ui_Service_PublicBaseURL uiCfg) (CHR ''/'') in
           (Inr \<lparr>rg_nc = nc, rg_cfg = uiCfg, rg_key = registryKeyPrefix @ sanitizeRegistryKey instanceID,
              rg_base = \<lparr>re_InstanceID = instanceID, re_Host = host, re_Service = sc_Name serviceCfg,
                re_Mode = NormalizeServiceMode (sc_Mode serviceCfg), re_Version = currentBuildVersion info,
                re_HealthURL = baseURL, re_ReadyURL = baseURL, re_LastSeen = zero_time\<rparr>\<rparr>, r4)))))"

definition defaultPath :: "string \<Rightarrow> string" where
  "defaultPath path =
     (if TrimSpace path = [] then ''/''
      else if \<not> HasPrefix path ''/'' then ''/'' @ path
      else path)"

definition registry_Publish ::
    "('b, 'w) registry_api \<Rightarrow> registry_client \<Rightarrow> gtime \<Rightarrow> string \<Rightarrow> string \<Rightarrow> 'w \<Rightarrow> error option \<times> 'w" where
  "registry_Publish api c now healthPath readyPath w =
     (let base = TrimRight (ui_Service_PublicBaseURL (rg_cfg c)) (CHR ''/'');
          entry = (rg_base c)\<lparr>re_HealthURL := base @ defaultPath healthPath,
            re_ReadyURL := base @ defaultPath readyPath, re_LastSeen := now\<rparr> in
      case ra_Marshal api entry of
        Inl err \<Rightarrow> (Some (ErrWrap ''encode registry record: %w'' [] err), w)
      | Inr body \<Rightarrow>
          (case kv_Put (ra_kv api) (rg_key c) body w of
             (Inl err, w1) \<Rightarrow> (Some (ErrWrap ''put registry record: %w'' [] err), w1)
           | (Inr _, w1) \<Rightarrow> (None, w1)))"

text \<open>The ticker of the standard library panics on an interval that is not positive.\<close>

definition NewTicker :: "duration \<Rightarrow> error option" where
  "NewTicker d = (if d \<le> 0 then Some (ErrPanic ''non-positive interval for NewTicker'') else None)"

definition registryRefreshInterval :: "ui_config \<Rightarrow> duration" where
  "registryRefreshInterval cfg =
     (let refreshSec = (if ui_RefreshSec cfg \<le> 0 then 1 else ui_RefreshSec cfg);
          interval = seconds refreshSec;
          half = un_RegistryTTLSec (ui_NATS cfg);
          maxInterval = seconds (if half < 0 then - (- half div 2) else half div 2) in
      if maxInterval > 0 \<and> interval > maxInterval then maxInterval else interval)"

text \<open>
  \<open>Run\<close>: one publication at the start, then the ticker and one publication at each tick, until
  the first error. The ticker is made once, after the first publication; the interval does not
  change, so a tick that is served has found it positive.
\<close>

primrec registry_Run ::
    "('b, 'w) registry_api \<Rightarrow> registry_client \<Rightarrow> string \<Rightarrow> string \<Rightarrow> gtime list \<Rightarrow> 'w \<Rightarrow> error option \<times> 'w" where
  "registry_Run api c healthPath readyPath [] w = (None, w)"
| "registry_Run api c healthPath readyPath (now # ticks) w =
     (case registry_Publish api c now healthPath readyPath w of
        (Some err, w1) \<Rightarrow> (Some err, w1)
      | (None, w1) \<Rightarrow>
          (case NewTicker (registryRefreshInterval (rg_cfg c)) of
             Some panic \<Rightarrow> (Some panic, w1)
           | None \<Rightarrow> registry_Run api c healthPath readyPath ticks w1))"

fun list_records ::
    "('b, 'w) registry_api \<Rightarrow> string list \<Rightarrow> 'w \<Rightarrow> registry_record list result \<times> 'w" where
  "list_records api [] w = (Inr [], w)"
| "list_records api (key # keys) w =
     (if \<not> HasPrefix key registryKeyPrefix then list_records api keys w
      else
        (case kv_Get (ra_kv api) key w of
           (Inl err, w1) \<Rightarrow>
             if errors_Is err (ra_ErrKeyNotFound api) then list_records api keys w1
             else (Inl (ErrWrap ''get ui registry key %q: %w'' [key] err), w1)
         | (Inr (body, _), w1) \<Rightarrow>
             (case ra_Unmarshal api body of
                Inl err \<Rightarrow> (Inl (ErrWrap ''decode ui registry key %q: %w'' [key] err), w1)
              | Inr entry \<Rightarrow>
                  (case list_records api keys w1 of
                     (Inl err, w2) \<Rightarrow> (Inl err, w2)
                   | (Inr rest, w2) \<Rightarrow> (Inr (entry # rest), w2)))))"

definition registry_List :: "('b, 'w) registry_api \<Rightarrow> 'w \<Rightarrow> registry_record list result \<times> 'w" where
  "registry_List api w =
     (case kv_Keys (ra_kv api) w of
        (Inl err, w1) \<Rightarrow>
          if errors_Is err (ra_ErrNoKeysFound api) then (Inr [], w1)
          else (Inl (ErrWrap ''list ui registry keys: %w'' [] err), w1)
      | (Inr keys, w1) \<Rightarrow> list_records api keys w1)"

definition registry_Close :: "'r nats_lib \<Rightarrow> registry_client \<Rightarrow> 'r \<Rightarrow> error option \<times> 'r" where
  "registry_Close lib c r = (None, nl_Close lib (rg_nc c) r)"

definition registry_Delete :: "('b, 'w) registry_api \<Rightarrow> registry_client \<Rightarrow> 'w \<Rightarrow> error option \<times> 'w" where
  "registry_Delete api c w =
     (if TrimSpace (rg_key c) = [] then (None, w)
      else (case kv_Delete (ra_kv api) (rg_key c) w of
          (Some err, w1) \<Rightarrow>
            if errors_Is err (ra_ErrKeyNotFound api) then (None, w1)
            else (Some (ErrWrap ''delete ui registry record: %w'' [] err), w1)
        | (None, w1) \<Rightarrow> (None, w1)))"

section \<open>Facts\<close>

lemma NewRegistryClient_acquires:
  assumes "nats_laws lib live"
  shows "acquires live r (\<lambda>c. [rg_nc c]) (NewRegistryClient lib hostname info uiCfg serviceCfg instanceID r)"
  unfolding NewRegistryClient_def acquires_def
  by (auto simp: Let_def nats_Close_live [OF assms] dest!: nats_laws_calls [OF assms]
      split: prod.splits sum.splits option.splits)

text \<open>
  A record is renewed before it expires: in the order of ages that a loaded configuration has,
  the interval is positive and at most half of the life time of the bucket.
\<close>

lemma refresh_within_half_ttl:
  assumes "1 < un_RegistryTTLSec (ui_NATS cfg)" "un_RegistryTTLSec (ui_NATS cfg) \<le> 9223372036" "ui_RefreshSec cfg \<le> 9223372036"
  shows "0 < registryRefreshInterval cfg \<and> 2 * registryRefreshInterval cfg \<le> seconds (un_RegistryTTLSec (ui_NATS cfg))"
proof -
  have s: "seconds k = k * 1000000000" if "0 \<le> k" "k \<le> 9223372036" for k
    using that by (simp add: seconds_def int64_defs)
  show ?thesis
    using assms s [of "un_RegistryTTLSec (ui_NATS cfg)"] s [of "un_RegistryTTLSec (ui_NATS cfg) div 2"] s [of "ui_RefreshSec cfg"] s [of 1]
    by (auto simp: registryRefreshInterval_def Let_def)
qed

section \<open>What the dashboard sees\<close>

text \<open>
  What the registry relies on: the bucket is a map, written and read under single keys, whose
  keys are listed without repetition, and the codec reads back what it wrote.
\<close>

definition registry_laws :: "('b, 'w) registry_api \<Rightarrow> ('w \<Rightarrow> (string, 'b) gmap) \<Rightarrow> bool" where
  "registry_laws api view \<longleftrightarrow>
     (\<forall>w. distinct (map fst (view w))) \<and>
     (\<forall>k w. \<exists>rev. kv_Get (ra_kv api) k w =
        (case map_get (view w) k of None \<Rightarrow> Inl (ra_ErrKeyNotFound api) | Some b \<Rightarrow> Inr (b, rev), w)) \<and>
     (\<forall>k b w. \<exists>rev w'. kv_Put (ra_kv api) k b w = (Inr rev, w') \<and> map_get (view w') = (map_get (view w))(k \<mapsto> b)) \<and>
     (\<forall>k w. fst (kv_Delete (ra_kv api) k w) = None \<and>
        map_get (view (snd (kv_Delete (ra_kv api) k w))) = (map_get (view w))(k := None)) \<and>
     (\<forall>w. kv_Keys (ra_kv api) w =
        (if view w = [] then Inl (ra_ErrNoKeysFound api) else Inr (map fst (view w)), w)) \<and>
     (\<forall>c. \<exists>b. ra_Marshal api c = Inr b \<and> ra_Unmarshal api b = Inr c)"

text \<open>The registry as a map from keys to records, and that every entry can be read.\<close>

definition registered ::
    "('b, 'w) registry_api \<Rightarrow> ('w \<Rightarrow> (string, 'b) gmap) \<Rightarrow> 'w \<Rightarrow> string \<Rightarrow> registry_record option" where
  "registered api view w k =
     (if HasPrefix k registryKeyPrefix
      then (case map_get (view w) k of None \<Rightarrow> None
            | Some b \<Rightarrow> (case ra_Unmarshal api b of Inl _ \<Rightarrow> None | Inr entry \<Rightarrow> Some entry))
      else None)"

definition readable :: "('b, 'w) registry_api \<Rightarrow> ('w \<Rightarrow> (string, 'b) gmap) \<Rightarrow> 'w \<Rightarrow> bool" where
  "readable api view w \<longleftrightarrow>
     (\<forall>k b. map_get (view w) k = Some b \<and> HasPrefix k registryKeyPrefix \<longrightarrow> (\<exists>entry. ra_Unmarshal api b = Inr entry))"

definition published :: "registry_client \<Rightarrow> gtime \<Rightarrow> string \<Rightarrow> string \<Rightarrow> registry_record" where
  "published c now healthPath readyPath =
     (let base = TrimRight (ui_Service_PublicBaseURL (rg_cfg c)) (CHR ''/'') in
      (rg_base c)\<lparr>re_HealthURL := base @ defaultPath healthPath, re_ReadyURL := base @ defaultPath readyPath,
        re_LastSeen := now\<rparr>)"

lemma registry_laws_calls:
  assumes "registry_laws api view"
  shows "distinct (map fst (view w))"
    and "\<exists>rev. kv_Get (ra_kv api) k w =
        (case map_get (view w) k of None \<Rightarrow> Inl (ra_ErrKeyNotFound api) | Some b \<Rightarrow> Inr (b, rev), w)"
    and "\<exists>rev w'. kv_Put (ra_kv api) k b w = (Inr rev, w') \<and> map_get (view w') = (map_get (view w))(k \<mapsto> b)"
    and "fst (kv_Delete (ra_kv api) k w) = None"
    and "map_get (view (snd (kv_Delete (ra_kv api) k w))) = (map_get (view w))(k := None)"
    and "kv_Keys (ra_kv api) w =
        (if view w = [] then Inl (ra_ErrNoKeysFound api) else Inr (map fst (view w)), w)"
    and "\<exists>b. ra_Marshal api c = Inr b \<and> ra_Unmarshal api b = Inr c"
  using assms unfolding registry_laws_def by blast+

lemma list_records_registered:
  assumes "registry_laws api view" "readable api view w"
  shows "\<exists>rs. list_records api ks w = (Inr rs, w) \<and> rs = List.map_filter (registered api view w) ks"
proof (induction ks)
  case (Cons k ks)
  then obtain rs where rs: "list_records api ks w = (Inr rs, w)" "rs = List.map_filter (registered api view w) ks" by blast
  obtain rev where get: "kv_Get (ra_kv api) k w =
      (case map_get (view w) k of None \<Rightarrow> Inl (ra_ErrKeyNotFound api) | Some b \<Rightarrow> Inr (b, rev), w)"
    using registry_laws_calls(2) [OF assms(1)] by blast
  show ?case
  proof (cases "HasPrefix k registryKeyPrefix")
    case True
    show ?thesis
    proof (cases "map_get (view w) k")
      case None
      then have "registered api view w k = None" by (simp add: registered_def)
      then show ?thesis using True None rs get by (simp add: List.map_filter_simps)
    next
      case (Some b)
      obtain entry where entry: "ra_Unmarshal api b = Inr entry" using assms(2) Some True by (auto simp: readable_def)
      then have "registered api view w k = Some entry" using Some True by (simp add: registered_def)
      then show ?thesis using True Some rs get entry by (simp add: List.map_filter_simps)
    qed
  next
    case False
    then have "registered api view w k = None" by (simp add: registered_def)
    then show ?thesis using rs False by (simp add: List.map_filter_simps)
  qed
qed (simp add: List.map_filter_simps)

lemma registry_List_registered:
  assumes "registry_laws api view" "readable api view w"
  shows "registry_List api w = (Inr (List.map_filter (registered api view w) (map fst (view w))), w)"
  using list_records_registered [OF assms, of "map fst (view w)"] registry_laws_calls(6) [OF assms(1), of w]
  by (auto simp: registry_List_def List.map_filter_simps)

lemma registered_key: "registered api view w k = Some x \<Longrightarrow> k \<in> set (map fst (view w))"
proof -
  assume "registered api view w k = Some x"
  then have "map_get (view w) k \<noteq> None" by (intro notI) (simp add: registered_def split: if_splits)
  then show ?thesis by (simp add: map_of_eq_None_iff)
qed

lemma set_map_filter_registered:
  "set (List.map_filter (registered api view w) (map fst (view w))) = {x. \<exists>k. registered api view w k = Some x}"
  using registered_key by (force simp: List.map_filter_def)

lemma length_map_filter: "distinct ks \<Longrightarrow> length (List.map_filter f ks) = card {k \<in> set ks. f k \<noteq> None}"
proof (induction ks)
  case (Cons k ks)
  have "{j \<in> set (k # ks). f j \<noteq> None} = (if f k = None then {} else {k}) \<union> {j \<in> set ks. f j \<noteq> None}" by auto
  moreover have "k \<notin> {j \<in> set ks. f j \<noteq> None}" using Cons.prems by simp
  ultimately show ?case using Cons by (auto simp: List.map_filter_simps split: option.split)
qed (simp add: List.map_filter_simps)

lemma length_registered:
  assumes "registry_laws api view"
  shows "length (List.map_filter (registered api view w) (map fst (view w))) = card (dom (registered api view w))"
proof -
  have "{k \<in> set (map fst (view w)). registered api view w k \<noteq> None} = dom (registered api view w)"
    using registered_key by (force simp: dom_def)
  then show ?thesis
    using length_map_filter [OF registry_laws_calls(1) [OF assms, of w], of "registered api view w"] by metis
qed

lemma registry_key_not_blank: "TrimSpace (registryKeyPrefix @ k) \<noteq> []"
proof
  assume blank: "TrimSpace (registryKeyPrefix @ k) = []"
  have left: "TrimLeftSpace (registryKeyPrefix @ k) = registryKeyPrefix @ k"
    by (simp add: TrimLeftSpace_def is_space_def)
  obtain t where "registryKeyPrefix @ k = TrimRightSpace (registryKeyPrefix @ k) @ t" "\<forall>c \<in> set t. is_space c"
    using TrimRightSpace_split by blast
  then have "is_space (CHR ''a'')" using blank left by (simp add: TrimSpace_def) (metis list.set_intros(1))
  then show False by (simp add: is_space_def)
qed

lemma publish_registers:
  assumes "registry_laws api view" "readable api view w" "HasPrefix (rg_key c) registryKeyPrefix"
  shows "\<exists>w'. registry_Publish api c now healthPath readyPath w = (None, w') \<and> readable api view w' \<and>
      registered api view w' = (registered api view w)(rg_key c \<mapsto> published c now healthPath readyPath)"
proof -
  let ?p = "published c now healthPath readyPath"
  obtain b where b: "ra_Marshal api ?p = Inr b" "ra_Unmarshal api b = Inr ?p"
    using registry_laws_calls(7) [OF assms(1), of ?p] by (elim exE conjE)
  obtain rev w' where put: "kv_Put (ra_kv api) (rg_key c) b w = (Inr rev, w')"
    "map_get (view w') = (map_get (view w))(rg_key c \<mapsto> b)"
    using registry_laws_calls(3) [OF assms(1), of "rg_key c" b w] by (elim exE conjE)
  have "registry_Publish api c now healthPath readyPath w = (None, w')"
    using b(1) put(1) by (simp add: registry_Publish_def published_def Let_def)
  moreover have "readable api view w'" using assms(2) b(2) by (simp add: readable_def put(2))
  moreover have "registered api view w' k = ((registered api view w)(rg_key c \<mapsto> ?p)) k" for k
    using b(2) assms(3) by (simp add: registered_def put(2))
  ultimately show ?thesis by (intro exI conjI ext)
qed

lemma delete_unregisters:
  assumes "registry_laws api view" "readable api view w" "TrimSpace (rg_key c) \<noteq> []"
  shows "\<exists>w'. registry_Delete api c w = (None, w') \<and> readable api view w' \<and>
      registered api view w' = (registered api view w)(rg_key c := None)"
proof -
  obtain w' where del: "kv_Delete (ra_kv api) (rg_key c) w = (None, w')"
    "map_get (view w') = (map_get (view w))(rg_key c := None)"
    using registry_laws_calls(4,5) [OF assms(1), where k = "rg_key c" and w = w]
    by (cases "kv_Delete (ra_kv api) (rg_key c) w") simp
  have "registry_Delete api c w = (None, w')" using del(1) assms(3) by (simp add: registry_Delete_def)
  moreover have "readable api view w'" using assms(2) by (simp add: readable_def del(2))
  moreover have "registered api view w' k = ((registered api view w)(rg_key c := None)) k" for k
    by (simp add: registered_def del(2))
  ultimately show ?thesis by (intro exI conjI ext)
qed

text \<open>
  C39. The registry is a map from instances to their latest records: publishing replaces the
  record of the instance by one with its current time and the probe addresses under its public
  address, deleting removes it, neither touches another instance, and the listing of the dashboard
  succeeds with exactly the records of the map, one for each instance.
\<close>

theorem registry_is_a_map:
  assumes "registry_laws api view" "readable api view w" "rg_key c = registryKeyPrefix @ k"
  shows "(\<exists>w'. registry_Publish api c now healthPath readyPath w = (None, w') \<and> readable api view w' \<and>
      registered api view w' = (registered api view w)(rg_key c \<mapsto> published c now healthPath readyPath)) \<and>
    (\<exists>w'. registry_Delete api c w = (None, w') \<and> readable api view w' \<and>
      registered api view w' = (registered api view w)(rg_key c := None)) \<and>
    (\<exists>rs. registry_List api w = (Inr rs, w) \<and> set rs = {x. \<exists>key. registered api view w key = Some x} \<and>
      length rs = card (dom (registered api view w)))"
proof -
  have "HasPrefix (rg_key c) registryKeyPrefix" "TrimSpace (rg_key c) \<noteq> []"
    unfolding assms(3) by (rule HasPrefix_append, rule registry_key_not_blank)
  from publish_registers [OF assms(1,2) this(1)] delete_unregisters [OF assms(1,2) this(2)]
    registry_List_registered [OF assms(1,2)] set_map_filter_registered [of api view w] length_registered [OF assms(1), of w]
  show ?thesis by (intro conjI) (assumption | intro exI conjI)+
qed

text \<open>A bucket for the example: an association list of records, written as they are.\<close>

definition list_bucket :: "(registry_record, (string, registry_record) gmap) registry_api" where
  "list_bucket = \<lparr>ra_kv = \<lparr>kv_Get = (\<lambda>k w. (case map_get w k of None \<Rightarrow> Inl (ErrMsg ''key not found'') | Some b \<Rightarrow> Inr (b, 1), w)),
       kv_Create = (\<lambda>k b w. (Inr 1, map_put k b w)), kv_Put = (\<lambda>k b w. (Inr 1, map_put k b w)),
       kv_Update = (\<lambda>k b _ w. (Inr 1, map_put k b w)), kv_Delete = (\<lambda>k w. (None, map_del k w)),
       kv_Keys = (\<lambda>w. (if AList.clearjunk w = [] then Inl (ErrMsg ''no keys found'') else Inr (map fst (AList.clearjunk w)), w))\<rparr>,
     ra_Marshal = Inr, ra_Unmarshal = Inr, ra_ErrKeyNotFound = ErrMsg ''key not found'',
     ra_ErrNoKeysFound = ErrMsg ''no keys found''\<rparr>"

definition sample_client :: registry_client where
  "sample_client = \<lparr>rg_nc = 0, rg_cfg = zero_ui\<lparr>ui_Service_PublicBaseURL := ''http://a:80/''\<rparr>,
     rg_key = registryKeyPrefix @ sanitizeRegistryKey ''a:1'',
     rg_base = \<lparr>re_InstanceID = ''a:1'', re_Host = ''a'', re_Service = ''s'', re_Mode = ''nats'', re_Version = ''dev'',
       re_HealthURL = [], re_ReadyURL = [], re_LastSeen = 0\<rparr>\<rparr>"

lemma list_bucket_laws: "registry_laws list_bucket AList.clearjunk"
  by (auto simp: registry_laws_def list_bucket_def map_of_clearjunk update_conv' delete_conv' fun_eq_iff
      split: option.split)

theorem registry_is_a_map_witness:
  "\<exists>w'. registry_Publish list_bucket sample_client 5 ''/healthz'' ''readyz'' [] = (None, w') \<and>
    registered list_bucket AList.clearjunk w' (registryKeyPrefix @ ''a_1'') =
      Some ((rg_base sample_client)\<lparr>re_HealthURL := ''http://a:80/healthz'', re_ReadyURL := ''http://a:80/readyz'', re_LastSeen := 5\<rparr>)"
proof -
  have key: "rg_key sample_client = registryKeyPrefix @ ''a_1''" by code_simp
  have "readable list_bucket AList.clearjunk []" by (simp add: readable_def)
  from registry_is_a_map [OF list_bucket_laws this key, of 5 "''/healthz''" "''readyz''"]
  obtain w' where "registry_Publish list_bucket sample_client 5 ''/healthz'' ''readyz'' [] = (None, w')"
    "registered list_bucket AList.clearjunk w' =
      (registered list_bucket AList.clearjunk [])(rg_key sample_client \<mapsto> published sample_client 5 ''/healthz'' ''readyz'')"
    by (elim conjE exE)
  moreover have "published sample_client 5 ''/healthz'' ''readyz'' =
      (rg_base sample_client)\<lparr>re_HealthURL := ''http://a:80/healthz'', re_ReadyURL := ''http://a:80/readyz'', re_LastSeen := 5\<rparr>"
    by code_simp
  ultimately show ?thesis by (simp add: key)
qed

end
