(* ===== verification/Dashboard.thy ===== *)
theory Dashboard
  imports Registry Http_Client Config_Validate Single_Instance
begin

text \<open>
  The dashboard of \<open>internal/ui\<close>: the rows of open alerts and of running instances
  (\<open>dashboard.go\<close>) and the web server in front of it (\<open>server.go\<close>).

  Store and registry are those of the other components. The probes of the instances run in
  goroutines that share nothing but the array of rows, each its own element; here they run one
  after the other. The requests go through the \<open>http_api\<close> of the senders, \<open>url.Parse\<close> is
  an argument that gives the host name of an address.
\<close>

section \<open>Rows\<close>

record alert_row =
  aw_AlertID :: string
  aw_RuleName :: string
  aw_AlertType :: string
  aw_State :: alert_state
  aw_Host :: string
  aw_Var :: string
  aw_MetricValue :: string
  aw_Threshold :: string
  aw_EventCount :: string
  aw_StartedAt :: gtime
  aw_LastSeenAt :: gtime

record service_row =
  vw_InstanceID :: string
  vw_Host :: string
  vw_HostIP :: string
  vw_Service :: string
  vw_Mode :: string
  vw_Version :: string
  vw_HealthURL :: string
  vw_ReadyURL :: string
  vw_LastSeen :: gtime
  vw_Status :: string

record dashboard_snapshot =
  sp_GeneratedAt :: gtime
  sp_Alerts :: "alert_row list"
  sp_Services :: "service_row list"

definition alertStartedAt :: "alert_card \<Rightarrow> gtime" where
  "alertStartedAt crd =
     (case ac_PendingSince crd of
        Some t \<Rightarrow> if \<not> IsZero t then t else ac_RaisedAt crd
      | None \<Rightarrow> ac_RaisedAt crd)"

definition alertMetricValue :: "alert_card \<Rightarrow> runtime_state option \<Rightarrow> string" where
  "alertMetricValue crd runtimeState =
     (case runtimeState of
        Some st \<Rightarrow> if TrimSpace (rs_MetricValue st) \<noteq> [] then rs_MetricValue st else ac_MetricValue crd
      | None \<Rightarrow> ac_MetricValue crd)"

definition alertThreshold :: "rule_config \<Rightarrow> string" where
  "alertThreshold rule =
     (if rc_AlertType rule = ''count_total'' then FormatInt (rr_N (rc_Raise rule))
      else if rc_AlertType rule = ''count_window''
      then FormatInt (rr_N (rc_Raise rule)) @ '' / '' @ FormatInt (rr_WindowSec (rc_Raise rule)) @ ''s''
      else if rc_AlertType rule = ''missing_heartbeat'' then FormatInt (rr_MissingSec (rc_Raise rule)) @ ''s''
      else [])"

definition alertEventCount :: "rule_config \<Rightarrow> alert_card \<Rightarrow> runtime_state option \<Rightarrow> string" where
  "alertEventCount rule crd runtimeState =
     (case runtimeState of
        None \<Rightarrow>
          if ac_EventCount crd > 0 then FormatInt (ac_EventCount crd)
          else if rc_AlertType rule = ''missing_heartbeat'' then ''0'' else []
      | Some st \<Rightarrow>
          if rc_AlertType rule = ''count_total'' then FormatInt (rs_ActiveCount st)
          else if rc_AlertType rule = ''count_window'' then FormatInt (rs_ActiveCount st)
          else if rc_AlertType rule = ''missing_heartbeat'' then ''0''
          else [])"

definition new_alert_row :: "rule_config \<Rightarrow> alert_card \<Rightarrow> runtime_state option \<Rightarrow> alert_row" where
  "new_alert_row rule crd runtimeState =
     \<lparr>aw_AlertID = ac_AlertID crd, aw_RuleName = ac_RuleName crd, aw_AlertType = rc_AlertType rule,
      aw_State = ac_State crd,
      aw_Host = TrimSpace (case map_get (ac_Tags crd) ''host'' of None \<Rightarrow> [] | Some h \<Rightarrow> h),
      aw_Var = ac_Var crd, aw_MetricValue = alertMetricValue crd runtimeState,
      aw_Threshold = alertThreshold rule, aw_EventCount = alertEventCount rule crd runtimeState,
      aw_StartedAt = alertStartedAt crd, aw_LastSeenAt = ac_LastSeenAt crd\<rparr>"

section \<open>Open alerts\<close>

text \<open>The loop over the ids of one rule: the ids seen so far and the rows.\<close>

fun load_ids ::
    "'w store \<Rightarrow> (string \<Rightarrow> runtime_state option) \<Rightarrow> rule_config \<Rightarrow> string list \<Rightarrow> string list \<Rightarrow> alert_row list \<Rightarrow> 'w
      \<Rightarrow> (string list \<times> alert_row list) result \<times> 'w" where
  "load_ids store runtime rule [] seen rows w = (Inr (seen, rows), w)"
| "load_ids store runtime rule (alertID # ids) seen rows w =
     (if alertID \<in> set seen then load_ids store runtime rule ids seen rows w
      else
        (case so_GetCard store alertID w of
           (Inl err, w1) \<Rightarrow>
             if errors_Is err ErrNotFound then load_ids store runtime rule ids (alertID # seen) rows w1 else (Inl err, w1)
         | (Inr (crd, _), w1) \<Rightarrow>
             if ac_State crd \<noteq> StPending \<and> ac_State crd \<noteq> StFiring
             then load_ids store runtime rule ids (alertID # seen) rows w1
             else load_ids store runtime rule ids (alertID # seen) (rows @ [new_alert_row rule crd (runtime alertID)]) w1))"

fun load_rules ::
    "'w store \<Rightarrow> (string \<Rightarrow> runtime_state option) \<Rightarrow> rule_config list \<Rightarrow> string list \<Rightarrow> alert_row list \<Rightarrow> 'w
      \<Rightarrow> alert_row list result \<times> 'w" where
  "load_rules store runtime [] seen rows w = (Inr rows, w)"
| "load_rules store runtime (rule # rules) seen rows w =
     (case so_ListAlertIDsByRule store (rc_Name rule) w of
        (Inl err, w1) \<Rightarrow> (Inl err, w1)
      | (Inr ids, w1) \<Rightarrow>
          (case load_ids store runtime rule ids seen rows w1 of
             (Inl err, w2) \<Rightarrow> (Inl err, w2)
           | (Inr (seen', rows'), w2) \<Rightarrow> load_rules store runtime rules seen' rows' w2))"

text \<open>The comparison of the sort as a key.\<close>

definition row_key :: "alert_row \<Rightarrow> string list" where
  "row_key row = [state_name (aw_State row), aw_RuleName row, aw_Host row, aw_AlertID row]"

definition rules_by_name :: "rule_config list \<Rightarrow> (string, rule_config) gmap" where
  "rules_by_name rules = fold (\<lambda>rule m. map_put (rc_Name rule) rule m) rules []"

definition adopt_rule :: "(string, rule_config) gmap \<Rightarrow> alert_row \<Rightarrow> alert_row" where
  "adopt_rule rulesByName row =
     (case map_get rulesByName (aw_RuleName row) of
        None \<Rightarrow> row
      | Some rule \<Rightarrow>
          (let row1 = row\<lparr>aw_AlertType := rc_AlertType rule\<rparr> in
           if aw_Threshold row1 = [] then row1\<lparr>aw_Threshold := alertThreshold rule\<rparr> else row1))"

definition loadActiveAlerts ::
    "'w store \<Rightarrow> (string \<Rightarrow> runtime_state option) \<Rightarrow> config \<Rightarrow> 'w \<Rightarrow> alert_row list result \<times> 'w" where
  "loadActiveAlerts store runtime cfg w =
     (case load_rules store runtime (cf_Rule cfg) [] [] w of
        (Inl err, w1) \<Rightarrow> (Inl err, w1)
      | (Inr rows, w1) \<Rightarrow> (Inr (map (adopt_rule (rules_by_name (cf_Rule cfg))) (sort_key row_key rows)), w1))"

section \<open>Running instances\<close>

definition probe_timeout :: "config \<Rightarrow> duration" where
  "probe_timeout cfg =
     (let timeout = seconds (ui_Health_TimeoutSec (cf_UI cfg)) in if timeout \<le> 0 then seconds 2 else timeout)"

definition probeURL :: "'w http_api \<Rightarrow> duration \<Rightarrow> string \<Rightarrow> 'w \<Rightarrow> bool \<times> 'w" where
  "probeURL api timeout rawURL w =
     (case NewRequest api ''GET'' rawURL None of
        Inl _ \<Rightarrow> (False, w)
      | Inr request \<Rightarrow>
          (case ha_Do api timeout request w of
             (Inl _, w1) \<Rightarrow> (False, w1)
           | (Inr response, w1) \<Rightarrow> (rp_StatusCode response = 200, w1)))"

definition probeService ::
    "'w http_api \<Rightarrow> duration \<Rightarrow> registry_record \<Rightarrow> gtime \<Rightarrow> duration \<Rightarrow> duration \<Rightarrow> 'w \<Rightarrow> string \<times> 'w" where
  "probeService api timeout entry now staleAfter offlineAfter w =
     (let age = time_Sub now (re_LastSeen entry) in
      if offlineAfter > 0 \<and> age > offlineAfter then (''offline'', w)
      else (case probeURL api timeout (re_ReadyURL entry) w of
          (True, w1) \<Rightarrow> if staleAfter > 0 \<and> age > staleAfter then (''degraded'', w1) else (''online'', w1)
        | (False, w1) \<Rightarrow>
            (case probeURL api timeout (re_HealthURL entry) w1 of
               (True, w2) \<Rightarrow> (''degraded'', w2)
             | (False, w2) \<Rightarrow> (''offline'', w2))))"

definition hostFromURL :: "(string \<Rightarrow> string result) \<Rightarrow> string \<Rightarrow> string" where
  "hostFromURL hostname rawURL = (case hostname rawURL of Inl _ \<Rightarrow> [] | Inr host \<Rightarrow> TrimSpace host)"

definition serviceHostAddress :: "(string \<Rightarrow> string result) \<Rightarrow> registry_record \<Rightarrow> string" where
  "serviceHostAddress hostname entry =
     (let ready = hostFromURL hostname (re_ReadyURL entry) in
      if ready \<noteq> [] then ready else hostFromURL hostname (re_HealthURL entry))"

fun probe_rows ::
    "'w http_api \<Rightarrow> (string \<Rightarrow> string result) \<Rightarrow> duration \<Rightarrow> gtime \<Rightarrow> duration \<Rightarrow> duration \<Rightarrow> registry_record list \<Rightarrow> 'w
      \<Rightarrow> service_row list \<times> 'w" where
  "probe_rows api hostname timeout now staleAfter offlineAfter [] w = ([], w)"
| "probe_rows api hostname timeout now staleAfter offlineAfter (entry # entries) w =
     (case probeService api timeout entry now staleAfter offlineAfter w of (status, w1) \<Rightarrow>
        (case probe_rows api hostname timeout now staleAfter offlineAfter entries w1 of (rows, w2) \<Rightarrow>
           (\<lparr>vw_InstanceID = re_InstanceID entry, vw_Host = re_Host entry, vw_HostIP = serviceHostAddress hostname entry,
             vw_Service = re_Service entry, vw_Mode = re_Mode entry, vw_Version = re_Version entry,
             vw_HealthURL = re_HealthURL entry, vw_ReadyURL = re_ReadyURL entry, vw_LastSeen = re_LastSeen entry,
             vw_Status = status\<rparr> # rows, w2)))"

text \<open>The registry is an optional lister of records.\<close>

definition loadServices ::
    "'w http_api \<Rightarrow> (string \<Rightarrow> string result) \<Rightarrow> ('w \<Rightarrow> registry_record list result \<times> 'w) option \<Rightarrow> ('w \<Rightarrow> gtime \<times> 'w)
      \<Rightarrow> duration \<Rightarrow> config \<Rightarrow> 'w \<Rightarrow> service_row list result \<times> 'w" where
  "loadServices api hostname registry clock timeout cfg w =
     (case registry of
        None \<Rightarrow> (Inr [], w)
      | Some list_all_records \<Rightarrow>
          (case list_all_records w of
             (Inl err, w1) \<Rightarrow> (Inl err, w1)
           | (Inr entries, w1) \<Rightarrow>
               (case clock w1 of (now, w2) \<Rightarrow>
                 (case probe_rows api hostname timeout now (seconds (un_StaleAfterSec (ui_NATS (cf_UI cfg))))
                     (seconds (un_OfflineAfterSec (ui_NATS (cf_UI cfg)))) entries w2 of
                    (rows, w3) \<Rightarrow> (Inr (sort_key vw_InstanceID rows), w3)))))"

text \<open>
  A dashboard: the store, the configuration that is current when the snapshot is taken, the
  runtime states, the registry and the timeout fixed when the dashboard was built.
\<close>

record 'w dashboard =
  db_store :: "'w store"
  db_runtime :: "(string \<Rightarrow> runtime_state option) option"
  db_registry :: "('w \<Rightarrow> registry_record list result \<times> 'w) option"
  db_timeout :: duration
  db_now :: "'w \<Rightarrow> gtime \<times> 'w"

definition NewDashboard ::
    "'w store \<Rightarrow> config \<Rightarrow> ('w \<Rightarrow> registry_record list result \<times> 'w) option \<Rightarrow> (string \<Rightarrow> runtime_state option) option
      \<Rightarrow> ('w \<Rightarrow> gtime \<times> 'w) \<Rightarrow> 'w dashboard" where
  "NewDashboard store cfg registry runtime now =
     \<lparr>db_store = store, db_runtime = runtime, db_registry = registry, db_timeout = probe_timeout cfg, db_now = now\<rparr>"

definition runtimeSnapshot :: "'w dashboard \<Rightarrow> string \<Rightarrow> runtime_state option" where
  "runtimeSnapshot d alertID = (case db_runtime d of None \<Rightarrow> None | Some get \<Rightarrow> get alertID)"

definition dashboard_Snapshot ::
    "'w http_api \<Rightarrow> (string \<Rightarrow> string result) \<Rightarrow> 'w dashboard \<Rightarrow> config \<Rightarrow> 'w \<Rightarrow> dashboard_snapshot result \<times> 'w" where
  "dashboard_Snapshot api hostname d cfg w =
     (case loadActiveAlerts (db_store d) (runtimeSnapshot d) cfg w of
        (Inl err, w1) \<Rightarrow> (Inl err, w1)
      | (Inr alerts, w1) \<Rightarrow>
          (case loadServices api hostname (db_registry d) (db_now d) (db_timeout d) cfg w1 of
             (Inl err, w2) \<Rightarrow> (Inl err, w2)
           | (Inr services, w2) \<Rightarrow>
               (case db_now d w2 of (now, w3) \<Rightarrow>
                  (Inr \<lparr>sp_GeneratedAt = now, sp_Alerts = alerts, sp_Services = services\<rparr>, w3))))"

end
