(* ===== verification/Dashboard_Properties.thy ===== *)
theory Dashboard_Properties
  imports Dashboard Samples
begin

text \<open>
  What the dashboard shows: exactly the open alerts of the configured rules, and for each instance the
  status its age and its probes give.
\<close>

section \<open>Rows of open alerts\<close>

text \<open>The part of a row that does not depend on a rule, and the row an open card gives.\<close>

definition row_core :: "alert_row \<Rightarrow> alert_row" where
  "row_core row = row\<lparr>aw_AlertType := [], aw_Threshold := [], aw_EventCount := []\<rparr>"

definition is_open :: "('w \<Rightarrow> string \<Rightarrow> (alert_card \<times> uint64) option) \<Rightarrow> 'w \<Rightarrow> string \<Rightarrow> bool" where
  "is_open cards w k = (case cards w k of None \<Rightarrow> False | Some (c, _) \<Rightarrow> ac_State c \<in> {StPending, StFiring})"

definition card_row ::
    "('w \<Rightarrow> string \<Rightarrow> (alert_card \<times> uint64) option) \<Rightarrow> (string \<Rightarrow> runtime_state option) \<Rightarrow> 'w \<Rightarrow> rule_config \<Rightarrow> string
      \<Rightarrow> alert_row" where
  "card_row cards runtime w rule k = new_alert_row rule (fst (the (cards w k))) (runtime k)"

text \<open>The ids a loop visits: those not seen before, each once.\<close>

fun unseen :: "'a list \<Rightarrow> 'a list \<Rightarrow> 'a list" where
  "unseen seen [] = []"
| "unseen seen (x # xs) = (if x \<in> set seen then unseen seen xs else x # unseen (x # seen) xs)"

lemma unseen_set: "distinct (unseen seen xs) \<and> set (unseen seen xs) = set xs - set seen"
  by (induction seen xs rule: unseen.induct) auto

lemma row_core_card_row: "row_core (card_row cards runtime w rule k) = row_core (card_row cards runtime w rule' k)"
  by (simp add: row_core_def card_row_def new_alert_row_def)

context listing_env
begin

lemma load_ids_rows:
  "\<exists>seen'. load_ids (en_store env) runtime rule ids seen rows w =
     (Inr (seen', rows @ map (card_row cards runtime w rule) (filter (is_open cards w) (unseen seen ids))), w) \<and>
   set seen' = set seen \<union> set ids"
proof (induction ids arbitrary: seen rows)
  case (Cons k ids)
  show ?case
  proof (cases "k \<in> set seen")
    case True
    then show ?thesis using Cons [of seen rows] by auto
  next
    case False
    show ?thesis
    proof (cases "cards w k")
      case None
      then show ?thesis using False Cons [of "k # seen" rows] by (auto simp: get_result is_open_def)
    next
      case (Some entry)
      obtain c r where entry: "entry = (c, r)" by force
      show ?thesis
      proof (cases "ac_State c \<in> {StPending, StFiring}")
        case True
        then show ?thesis
          using False Some entry Cons [of "k # seen" "rows @ [new_alert_row rule c (runtime k)]"]
          by (auto simp: get_result is_open_def card_row_def)
      next
        case closed: False
        then show ?thesis using False Some entry Cons [of "k # seen" rows] by (auto simp: get_result is_open_def)
      qed
    qed
  qed
qed simp

lemma load_rules_rows:
  "\<exists>rows' ids. load_rules (en_store env) runtime rules seen rows w = (Inr (rows @ rows'), w) \<and> distinct ids \<and>
     set ids = {k. (\<exists>rule \<in> set rules. HasPrefix k (RuleAlertPrefix (rc_Name rule))) \<and> is_open cards w k \<and> k \<notin> set seen} \<and>
     map row_core rows' = map (\<lambda>k. row_core (card_row cards runtime w any_rule k)) ids"
proof (induction rules arbitrary: seen rows)
  case (Cons rule rules)
  obtain ids where ids: "so_ListAlertIDsByRule (en_store env) (rc_Name rule) w = (Inr ids, w)"
    "set ids = {k. cards w k \<noteq> None \<and> HasPrefix k (RuleAlertPrefix (rc_Name rule))}"
    using list_result by blast
  let ?new = "filter (is_open cards w) (unseen seen ids)"
  obtain seen' where loop: "load_ids (en_store env) runtime rule ids seen rows w =
      (Inr (seen', rows @ map (card_row cards runtime w rule) ?new), w)" "set seen' = set seen \<union> set ids"
    using load_ids_rows by blast
  obtain rows' rest where rest: "load_rules (en_store env) runtime rules seen' (rows @ map (card_row cards runtime w rule) ?new) w =
      (Inr ((rows @ map (card_row cards runtime w rule) ?new) @ rows'), w)" "distinct rest"
    "set rest = {k. (\<exists>rule \<in> set rules. HasPrefix k (RuleAlertPrefix (rc_Name rule))) \<and> is_open cards w k \<and> k \<notin> set seen'}"
    "map row_core rows' = map (\<lambda>k. row_core (card_row cards runtime w any_rule k)) rest"
    using Cons by blast
  have new: "distinct ?new" "set ?new = {k \<in> set ids. is_open cards w k \<and> k \<notin> set seen}"
    using unseen_set [of seen ids] by auto
  have "distinct (?new @ rest)" using new rest(2,3) loop(2) by auto
  moreover have "k \<in> set ids \<longleftrightarrow> HasPrefix k (RuleAlertPrefix (rc_Name rule))" if "is_open cards w k" for k
    using that ids(2) by (auto simp: is_open_def split: option.splits)
  then have "set (?new @ rest) = {k. (\<exists>rule \<in> set (rule # rules). HasPrefix k (RuleAlertPrefix (rc_Name rule))) \<and>
      is_open cards w k \<and> k \<notin> set seen}"
    unfolding set_append new(2) rest(3) loop(2) by auto
  moreover have "map row_core (map (card_row cards runtime w rule) ?new @ rows') =
      map (\<lambda>k. row_core (card_row cards runtime w any_rule k)) (?new @ rest)"
    using rest(4) row_core_card_row [of cards runtime w rule _ any_rule] by (simp add: comp_def)
  moreover have "load_rules (en_store env) runtime (rule # rules) seen rows w =
      (Inr (rows @ (map (card_row cards runtime w rule) ?new @ rows')), w)"
    using ids(1) loop(1) rest(1) by simp
  ultimately show ?case by blast
qed simp

end

lemma adopt_rule_core [simp]: "row_core (adopt_rule m row) = row_core row" "row_key (adopt_rule m row) = row_key row"
  by (auto simp: adopt_rule_def row_core_def row_key_def Let_def split: option.split)

lemma rules_by_name_get:
  assumes "distinct (map rc_Name rules)" "rule \<in> set rules"
  shows "map_get (rules_by_name rules) (rc_Name rule) = Some rule"
proof -
  have keep: "map_get (fold (\<lambda>rule m. map_put (rc_Name rule) rule m) rs m) n = map_get m n" if "n \<notin> rc_Name ` set rs" for rs m n
    using that by (induction rs arbitrary: m) auto
  have "map_get (fold (\<lambda>rule m. map_put (rc_Name rule) rule m) rs m) (rc_Name rule) = Some rule"
    if "distinct (map rc_Name rs)" "rule \<in> set rs" for rs m
    using that
  proof (induction rs arbitrary: m)
    case (Cons r rs)
    then show ?case using keep [of "rc_Name rule" rs] by (cases "r = rule") auto
  qed simp
  then show ?thesis using assms by (simp add: rules_by_name_def)
qed

text \<open>
  C37. The dashboard shows exactly the open alerts: one row for every pending or firing card under
  the prefix of a configured rule, with the state, value, host and times of the card, in
  the order of state, rule, host and id; the type shown is that of the rule the card names.
\<close>

theorem dashboard_shows_open_alerts:
  assumes "distinct (map rc_Name (cf_Rule cfg))"
  shows "\<exists>rows ids. loadActiveAlerts memory_ops_store runtime cfg w = (Inr rows, w) \<and> distinct ids \<and>
    set ids = {k. (\<exists>rule \<in> set (cf_Rule cfg). HasPrefix k (RuleAlertPrefix (rc_Name rule))) \<and> is_open single_cards w k} \<and>
    mset (map row_core rows) = mset (map (\<lambda>k. row_core (card_row single_cards runtime w any_rule k)) ids) \<and>
    sorted (map row_key rows) \<and>
    (\<forall>row \<in> set rows. \<forall>rule \<in> set (cf_Rule cfg). rc_Name rule = aw_RuleName row \<longrightarrow> aw_AlertType row = rc_AlertType rule)"
proof -
  obtain rows ids where load: "load_rules memory_ops_store runtime (cf_Rule cfg) [] [] w = (Inr rows, w)" "distinct ids"
    "set ids = {k. (\<exists>rule \<in> set (cf_Rule cfg). HasPrefix k (RuleAlertPrefix (rc_Name rule))) \<and> is_open single_cards w k}"
    "map row_core rows = map (\<lambda>k. row_core (card_row single_cards runtime w any_rule k)) ids"
    using single.load_rules_rows [where rules = "cf_Rule cfg" and seen = "[]" and rows = "[]" and w = w and runtime = runtime
        and any_rule = any_rule] by auto
  let ?rows = "map (adopt_rule (rules_by_name (cf_Rule cfg))) (sort_key row_key rows)"
  have "loadActiveAlerts memory_ops_store runtime cfg w = (Inr ?rows, w)" by (simp add: loadActiveAlerts_def load(1))
  moreover have "mset (map row_core ?rows) = mset (map (\<lambda>k. row_core (card_row single_cards runtime w any_rule k)) ids)"
  proof -
    have "mset (map row_core ?rows) = image_mset row_core (mset rows)" by (simp add: comp_def image_mset.compositionality)
    also have "\<dots> = mset (map row_core rows)" by simp
    finally show ?thesis by (simp only: load(4))
  qed
  moreover have "sorted (map row_key ?rows)" by (simp add: comp_def)
  moreover have "aw_AlertType row = rc_AlertType rule"
    if "row \<in> set ?rows" "rule \<in> set (cf_Rule cfg)" "rc_Name rule = aw_RuleName row" for row rule
    using that rules_by_name_get [OF assms that(2)] by (auto simp: adopt_rule_def Let_def split: option.splits if_splits)
  ultimately show ?thesis using load(2,3) by blast
qed

text \<open>One firing and one resolved alert of one rule.\<close>

definition board_card :: "string \<Rightarrow> alert_state \<Rightarrow> alert_card" where
  "board_card k st = empty_card\<lparr>ac_AlertID := k, ac_RuleName := ''ct'', ac_State := st,
     ac_Tags := [(''host'', '' a '')], ac_MetricValue := ''5'', ac_RaisedAt := 7\<rparr>"

definition board_world :: single_world where
  "board_world = (fresh_world 9)\<lparr>sw_store := \<lparr>ms_cards =
     [(''rule/ct/errors/1'', (board_card ''rule/ct/errors/1'' StFiring, 1)),
      (''rule/ct/errors/2'', (board_card ''rule/ct/errors/2'' StResolved, 1)),
      (''rule/other/errors/3'', (board_card ''rule/other/errors/3'' StFiring, 1))], ms_ticks = []\<rparr>\<rparr>"

theorem dashboard_shows_open_alerts_witness:
  "\<exists>rows. loadActiveAlerts memory_ops_store (\<lambda>_. None) (zero_config\<lparr>cf_Rule := [count_rule\<lparr>rc_Name := ''ct''\<rparr>]\<rparr>) board_world =
      (Inr rows, board_world) \<and> length rows = 1 \<and> map aw_AlertType rows = [rc_AlertType count_rule] \<and>
    map aw_Host rows = [''a''] \<and> sorted (map row_key rows)"
proof -
  let ?cfg = "zero_config\<lparr>cf_Rule := [count_rule\<lparr>rc_Name := ''ct''\<rparr>]\<rparr>"
  have run: "case loadActiveAlerts memory_ops_store (\<lambda>_. None) ?cfg board_world of (Inl _, _) \<Rightarrow> False
    | (Inr rows, _) \<Rightarrow> map (\<lambda>r. (aw_RuleName r, aw_Host r)) rows = [(''ct'', ''a'')]" by code_simp
  have "distinct (map rc_Name (cf_Rule ?cfg))" by simp
  from dashboard_shows_open_alerts [OF this, of "\<lambda>_. None" board_world count_rule]
  obtain rows where rows: "loadActiveAlerts memory_ops_store (\<lambda>_. None) ?cfg board_world = (Inr rows, board_world)"
    "sorted (map row_key rows)"
    "\<forall>row \<in> set rows. \<forall>rule \<in> set (cf_Rule ?cfg). rc_Name rule = aw_RuleName row \<longrightarrow> aw_AlertType row = rc_AlertType rule"
    by blast
  from run rows(1) obtain row where "rows = [row]" "aw_RuleName row = ''ct''" "aw_Host row = ''a''"
    by (auto simp: map_eq_Cons_conv)
  then show ?thesis using rows by auto
qed

section \<open>Status of an instance\<close>

text \<open>
  The status of an instance: too old is offline whatever the probes say and is not probed; otherwise ready means
  online while fresh and degraded when stale, and healthy without ready means degraded.
\<close>

lemma probe_status:
  assumes "probeURL api timeout (re_ReadyURL entry) w = (ready, w1)"
    and "probeURL api timeout (re_HealthURL entry) w1 = (healthy, w2)"
    and "0 < stale" "stale \<le> offline"
  shows "fst (probeService api timeout entry now stale offline w) =
    (let age = time_Sub now (re_LastSeen entry) in
     if age > offline then ''offline''
     else if ready then (if age > stale then ''degraded'' else ''online'')
     else if healthy then ''degraded'' else ''offline'')"
  using assms by (auto simp: probeService_def Let_def)

lemma stale_instance_not_probed:
  "0 < offline \<Longrightarrow> time_Sub now (re_LastSeen entry) > offline \<Longrightarrow>
    probeService api timeout entry now stale offline w = (''offline'', w)"
  by (simp add: probeService_def Let_def)

end
