(* ===== verification/Queue_Properties.thy ===== *)
theory Queue_Properties
  imports Manager_Properties
begin

text \<open>
  The two ways a notification takes to its channels, at once through the dispatcher or as jobs of
  the queue, follow one plan: the routes that take part, each with the notification prepared
  for it.
\<close>

section \<open>The plan of a notification\<close>

definition delivery_plan ::
    "'w env \<Rightarrow> 'w manager \<Rightarrow> notification \<Rightarrow> 'w \<Rightarrow> rule_route list \<Rightarrow> (norm_route \<times> notification) list" where
  "delivery_plan env m n w routes =
     List.map_filter (\<lambda>route.
       case normalizedNotifyRouteFromConfig route True of
         None \<Rightarrow> None
       | Some r \<Rightarrow> map_option (Pair r) (fst (prepareNotificationForRoute env m n r w))) routes"

fun along_plan ::
    "(norm_route \<Rightarrow> notification \<Rightarrow> 'a \<Rightarrow> 'w \<Rightarrow> error option \<times> 'a \<times> 'w) \<Rightarrow> (norm_route \<times> notification) list
      \<Rightarrow> 'a \<Rightarrow> 'w \<Rightarrow> error option \<times> 'a \<times> 'w" where
  "along_plan f [] acc w = (None, acc, w)"
| "along_plan f ((r, n) # plan) acc w =
     (case f r n acc w of
        (Some err, acc1, w1) \<Rightarrow> (Some err, acc1, w1)
      | (None, acc1, w1) \<Rightarrow> along_plan f plan acc1 w1)"

text \<open>The job of an entry of the plan; its id and time of creation play no part in its processing.\<close>

definition job_for :: "norm_route \<times> notification \<Rightarrow> job \<Rightarrow> bool" where
  "job_for = (\<lambda>(r, n) j. jb_RouteKey j = nro_Key r \<and> jb_RouteMode j = nro_Mode r \<and> jb_Channel j = nro_Channel r \<and>
     jb_Template j = nro_Template r \<and> jb_Notification j = n)"

section \<open>Facts\<close>

lemma prepare_pure:
  "\<not> IsZero (nt_Timestamp n) \<Longrightarrow>
    prepareNotificationForRoute env m n r w = (fst (prepareNotificationForRoute env m n r u), w)"
  by (simp add: prepareNotificationForRoute_def Let_def split: option.split)

lemma plan_drop_none: "shouldDropTrackerNotification False r n = False"
  by (simp add: shouldDropTrackerNotification_def)

lemma forEach_plan:
  assumes "\<not> IsZero (nt_Timestamp n)"
  shows "forEachRouteNotification env m n routes False f acc w = along_plan f (delivery_plan env m n u routes) acc w"
proof (induction routes arbitrary: acc w)
  case (Cons route routes)
  show ?case
  proof (cases "normalizedNotifyRouteFromConfig route True")
    case (Some r)
    obtain x where x: "prepareNotificationForRoute env m n r w = (x, w)" "fst (prepareNotificationForRoute env m n r u) = x"
      using prepare_pure [OF assms, of env m r w u] by simp
    then show ?thesis using Cons.IH
      by (cases x) (auto simp: delivery_plan_def List.map_filter_simps Some plan_drop_none split: prod.split option.split)
  qed (use Cons.IH in \<open>simp add: delivery_plan_def List.map_filter_simps\<close>)
qed (simp add: delivery_plan_def List.map_filter_simps)

text \<open>What has been normalised and prepared once stays as it is.\<close>

lemma normalized_again:
  "normalizedNotifyRouteFromConfig route True = Some r \<Longrightarrow> normalizedNotifyRouteFromConfig (route_of_norm r) True = Some r"
proof -
  have "TrimSpace NotifyRouteModeHistory = NotifyRouteModeHistory" by code_simp
  then show "normalizedNotifyRouteFromConfig route True = Some r \<Longrightarrow> normalizedNotifyRouteFromConfig (route_of_norm r) True = Some r"
    by (auto simp: normalizedNotifyRouteFromConfig_def route_of_norm_def Let_def split: if_splits)
qed

text \<open>The two halves of the preparation: the fields of the route, and what a resolution needs.\<close>

definition routed :: "engine \<Rightarrow> norm_route \<Rightarrow> notification \<Rightarrow> notification" where
  "routed e r n = n\<lparr>nt_Channel := nro_Channel r, nt_RouteKey := nro_Key r, nt_RouteMode := nro_Mode r,
     nt_ExternalRef := (if TrimSpace (nt_ExternalRef n) \<noteq> [] then nt_ExternalRef n
       else case GetChannelExternalRef e (nt_AlertID n) (nro_Key r) of None \<Rightarrow> nt_ExternalRef n | Some ref \<Rightarrow> ref)\<rparr>"

definition admitted :: "engine \<Rightarrow> norm_route \<Rightarrow> notification \<Rightarrow> notification option" where
  "admitted e r n =
     (if nt_State n \<noteq> StResolved then Some n
      else if (nro_Mode r = NotifyRouteModeActiveOnly \<or> nro_Channel r = NotifyChannelMattermost) \<and> TrimSpace (nt_ExternalRef n) = []
      then None
      else if nro_Mode r \<noteq> NotifyRouteModeActiveOnly \<and> nro_Channel r = NotifyChannelTelegram then
        (case GetChannelMessageID e (nt_AlertID n) (nro_Key r) of
           None \<Rightarrow> Some n | Some mid \<Rightarrow> Some (n\<lparr>nt_ReplyToMessageID := Some mid\<rparr>))
      else Some n)"

lemma prepare_halves:
  assumes "\<not> IsZero (nt_Timestamp n)"
  shows "prepareNotificationForRoute env m n r w = (admitted (mg_engine m) r (routed (mg_engine m) r n), w)"
proof -
  have other: "NotifyChannelTelegram \<noteq> NotifyChannelMattermost" by simp
  show ?thesis using assms other
    by (cases "GetChannelExternalRef (mg_engine m) (nt_AlertID n) (nro_Key r)")
      (simp_all add: prepareNotificationForRoute_def admitted_def routed_def Let_def split: option.split)
qed

lemma routed_again: "routed e r (routed e r n) = routed e r n"
  by (cases "GetChannelExternalRef e (nt_AlertID n) (nro_Key r)") (simp_all add: routed_def)

lemma routed_reply: "routed e r (n\<lparr>nt_ReplyToMessageID := mid\<rparr>) = (routed e r n)\<lparr>nt_ReplyToMessageID := mid\<rparr>"
  by (cases "GetChannelExternalRef e (nt_AlertID n) (nro_Key r)") (simp_all add: routed_def)

lemma admitted_cases:
  assumes "admitted e r n = Some n'"
  shows "n' = n \<or> (\<exists>mid. n' = n\<lparr>nt_ReplyToMessageID := Some mid\<rparr>)" "admitted e r n' = Some n'"
  using assms by (auto simp: admitted_def split: option.splits if_splits)

lemma routed_fields [simp]: "nt_Timestamp (routed e r n) = nt_Timestamp n" "nt_State (routed e r n) = nt_State n"
  "nt_AlertID (routed e r n) = nt_AlertID n" "nt_RuleName (routed e r n) = nt_RuleName n"
  by (simp_all add: routed_def)

lemma prepared_fields:
  assumes "\<not> IsZero (nt_Timestamp n)" "fst (prepareNotificationForRoute env m n r w) = Some n'"
  shows "nt_Timestamp n' = nt_Timestamp n" "nt_State n' = nt_State n" "nt_AlertID n' = nt_AlertID n" "nt_RuleName n' = nt_RuleName n"
  using admitted_cases(1) [of "mg_engine m" r "routed (mg_engine m) r n" n'] assms by (auto simp: prepare_halves)

lemma prepared_again:
  assumes "\<not> IsZero (nt_Timestamp n)" "fst (prepareNotificationForRoute env m n r w) = Some n'"
  shows "prepareNotificationForRoute env m n' r v = (Some n', v)"
proof -
  have admitted: "admitted (mg_engine m) r (routed (mg_engine m) r n) = Some n'"
    using assms by (simp add: prepare_halves)
  have "routed (mg_engine m) r n' = n'"
    using admitted_cases(1) [OF admitted] by (auto simp: routed_again routed_reply)
  then show ?thesis
    using admitted_cases(2) [OF admitted] prepare_halves [of n' env m r v] prepared_fields(1) [OF assms] assms(1) by simp
qed

lemma plan_member:
  assumes "(r, n') \<in> set (delivery_plan env m n w routes)"
  obtains route where "normalizedNotifyRouteFromConfig route True = Some r" "fst (prepareNotificationForRoute env m n r w) = Some n'"
  using assms by (auto simp: delivery_plan_def List.map_filter_def split: option.splits)

lemma applyDeliveryResults_cong:
  assumes "nt_Timestamp n' = nt_Timestamp n" "nt_State n' = nt_State n" "nt_AlertID n' = nt_AlertID n"
  shows "applyDeliveryResults env n' rs m w = applyDeliveryResults env n rs m w"
proof -
  have "capture_one n' b entry acc = capture_one n b entry acc" for b entry acc
    using assms by (simp add: capture_one_def Let_def)
  then have "capture_one n' b = capture_one n b" for b by (simp add: fun_eq_iff)
  then show ?thesis using assms by (simp add: applyDeliveryResults_def captureDeliveryEffects_def Let_def)
qed

lemma applyDeliveryResults_none: "applyDeliveryResults env n [] m w = (None, m, w)"
  by (simp add: applyDeliveryResults_def captureDeliveryEffects_def)

lemma notifyRoutes_plan:
  assumes "\<not> IsZero (nt_Timestamp n)"
  shows "notifyRoutes env m n routes False w =
    (case mg_dispatcher m of
       None \<Rightarrow> (Inr [], w)
     | Some send \<Rightarrow>
         (case along_plan (send_route send) (delivery_plan env m n w routes) [] w of
            (Some err, _, w') \<Rightarrow> (Inl err, w')
          | (None, results, w') \<Rightarrow> (Inr results, w')))"
  unfolding notifyRoutes_def forEach_plan [OF assms, where u = w]
  by (auto split: option.split prod.split)

lemma enqueue_plan:
  assumes "\<not> IsZero (nt_Timestamp n)"
  shows "enqueueNotificationJobs env enqueue m n routes w =
    (case along_plan (enqueue_route env enqueue) (delivery_plan env m n w routes) (0, None) w of
       (_, (success, firstErr), w') \<Rightarrow> (if success = 0 \<and> firstErr \<noteq> None then firstErr else None, w'))"
proof (cases "routes = []")
  case False
  then show ?thesis unfolding enqueueNotificationJobs_def forEach_plan [OF assms, where u = w]
    by (simp split: prod.split)
qed (simp add: enqueueNotificationJobs_def delivery_plan_def List.map_filter_simps)

lemma process_planned:
  assumes "\<not> IsZero (nt_Timestamp n)" "(r, n') \<in> set (delivery_plan env m n w routes)" "job_for (r, n') j"
    and "case ruleByName m (nt_RuleName n) of
      None \<Rightarrow> w2 = w1 \<and> \<not> off
    | Some rule \<Rightarrow> en_Now env w1 = (t, w2) \<and> off = shouldSkipNotificationByOff env rule t"
  shows "ProcessQueuedNotification env j m w1 =
    (if off then (None, m, w2)
     else case mg_dispatcher m of
       None \<Rightarrow> (None, m, w2)
     | Some send \<Rightarrow>
         if shouldDropTrackerNotification True r n' then (None, m, w2)
         else (case send (nro_Channel r) (nro_Template r) n' w2 of
             (Inl err, w3) \<Rightarrow> (if permanent_Is (Some err) then permanent_Mark (Some err) else Some err, m, w3)
           | (Inr x, w3) \<Rightarrow> applyDeliveryResults env n [(r, x)] m w3))"
proof -
  obtain route where route: "normalizedNotifyRouteFromConfig route True = Some r"
    "fst (prepareNotificationForRoute env m n r w) = Some n'" using plan_member [OF assms(2)] .
  note fields = prepared_fields [OF assms(1) route(2)]
  have job: "normalizedNotifyRouteFromConfig \<lparr>ro_Name = jb_RouteKey j, ro_Channel = jb_Channel j,
         ro_Template = jb_Template j, ro_Mode = jb_RouteMode j\<rparr> True = Some r" "jb_Notification j = n'"
    using normalized_again [OF route(1)] assms(3) by (simp_all add: job_for_def route_of_norm_def)
  have skip: "(case ruleByName m (nt_RuleName n) of None \<Rightarrow> (False, w1)
      | Some rule \<Rightarrow> (let (t, w') = en_Now env w1 in (shouldSkipNotificationByOff env rule t, w'))) = (off, w2)"
    using assms(4) by (cases "ruleByName m (nt_RuleName n)") auto
  have routes: "notifyRoutes env m n' [route_of_norm r] True w2 =
      (case mg_dispatcher m of
         None \<Rightarrow> (Inr [], w2)
       | Some send \<Rightarrow>
           if shouldDropTrackerNotification True r n' then (Inr [], w2)
           else (case send (nro_Channel r) (nro_Template r) n' w2 of (Inl err, w3) \<Rightarrow> (Inl err, w3) | (Inr x, w3) \<Rightarrow> (Inr [(r, x)], w3)))"
    by (simp add: notifyRoutes_def send_route_def normalized_again [OF route(1)] prepared_again [OF assms(1) route(2)]
        split: option.split prod.split sum.split)
  show ?thesis
    unfolding ProcessQueuedNotification_def job option.case Let_def [where s = n'] fields(4) skip prod.case routes
    by (cases off; cases "mg_dispatcher m"; cases "shouldDropTrackerNotification True r n'")
      (simp_all add: routes applyDeliveryResults_none applyDeliveryResults_cong [OF fields(1-3)] split: prod.split sum.split)
qed

section \<open>Both ways\<close>

text \<open>
  C6. At once or through the queue, a notification goes along the same plan of routes and prepared
  notifications. Processing the job of an entry of the plan hands exactly the channel, template and
  notification of the entry to the dispatcher and records a success like a direct delivery, with
  three differences: a job whose rule is in an off window by then is dropped; so is a resolution for
  a tracker that has no reference, where the direct delivery calls the sender; and a permanent
  error is marked as such.
\<close>

theorem queued_delivery_is_direct:
  assumes "\<not> IsZero (nt_Timestamp n)" "(r, n') \<in> set (delivery_plan env m n w routes)" "job_for (r, n') j"
    and "case ruleByName m (nt_RuleName n) of
      None \<Rightarrow> w2 = w1 \<and> \<not> off
    | Some rule \<Rightarrow> en_Now env w1 = (t, w2) \<and> off = shouldSkipNotificationByOff env rule t"
  shows "notifyRoutes env m n routes False w =
      (case mg_dispatcher m of
         None \<Rightarrow> (Inr [], w)
       | Some send \<Rightarrow>
           (case along_plan (send_route send) (delivery_plan env m n w routes) [] w of
              (Some err, _, w') \<Rightarrow> (Inl err, w')
            | (None, results, w') \<Rightarrow> (Inr results, w'))) \<and>
    enqueueNotificationJobs env enqueue m n routes w =
      (case along_plan (enqueue_route env enqueue) (delivery_plan env m n w routes) (0, None) w of
         (_, (success, firstErr), w') \<Rightarrow> (if success = 0 \<and> firstErr \<noteq> None then firstErr else None, w')) \<and>
    ProcessQueuedNotification env j m w1 =
      (if off then (None, m, w2)
       else case mg_dispatcher m of
         None \<Rightarrow> (None, m, w2)
       | Some send \<Rightarrow>
           if shouldDropTrackerNotification True r n' then (None, m, w2)
           else (case send (nro_Channel r) (nro_Template r) n' w2 of
               (Inl err, w3) \<Rightarrow> (if permanent_Is (Some err) then permanent_Mark (Some err) else Some err, m, w3)
             | (Inr x, w3) \<Rightarrow> applyDeliveryResults env n [(r, x)] m w3))"
  by (intro conjI notifyRoutes_plan [OF assms(1)] enqueue_plan [OF assms(1)] process_planned [OF assms])

definition http_route :: norm_route where
  "http_route = \<lparr>nro_Key = ''http'', nro_Channel = ''http'', nro_Template = ''base'', nro_Mode = ''history''\<rparr>"

definition http_job :: job where
  "http_job = \<lparr>jb_ID = ''1'', jb_RouteKey = ''http'', jb_RouteMode = ''history'', jb_Channel = ''http'', jb_Template = ''base'',
     jb_Notification = sample_notification, jb_CreatedAt = 0\<rparr>"

lemma sample_plan:
  "delivery_plan sample_env sample_manager sample_notification (fresh_world base_time) [sample_route] = [(http_route, sample_notification)]"
  by code_simp

lemma sample_not_off:
  "case ruleByName sample_manager (nt_RuleName sample_notification) of
      None \<Rightarrow> False
    | Some rule \<Rightarrow> en_Now sample_env (fresh_world base_time) = (base_time, fresh_world base_time) \<and>
        \<not> shouldSkipNotificationByOff sample_env rule base_time"
  by code_simp

theorem queued_delivery_is_direct_witness:
  "delivery_plan sample_env sample_manager sample_notification (fresh_world base_time) [sample_route] = [(http_route, sample_notification)] \<and>
   job_for (http_route, sample_notification) http_job \<and>
   sw_sent (snd (snd (ProcessQueuedNotification sample_env http_job sample_manager (fresh_world base_time)))) =
     [(''http'', ''base'', sample_notification)]"
proof -
  have job: "job_for (http_route, sample_notification) http_job" by (simp add: job_for_def http_route_def http_job_def)
  have off: "case ruleByName sample_manager (nt_RuleName sample_notification) of
      None \<Rightarrow> fresh_world base_time = fresh_world base_time \<and> \<not> False
    | Some rule \<Rightarrow> en_Now sample_env (fresh_world base_time) = (base_time, fresh_world base_time) \<and>
        False = shouldSkipNotificationByOff sample_env rule base_time"
    using sample_not_off by (auto split: option.splits)
  have time: "\<not> IsZero (nt_Timestamp sample_notification)" by code_simp
  have entry: "(http_route, sample_notification) \<in> set (delivery_plan sample_env sample_manager sample_notification
      (fresh_world base_time) [sample_route])" by (simp add: sample_plan)
  have "mg_dispatcher sample_manager = Some recording_send" by (simp add: sample_manager_def NewManager_def Let_def)
  moreover have "\<not> shouldDropTrackerNotification True http_route sample_notification" by code_simp
  moreover have "applyDeliveryResults env sample_notification [(http_route, no_send_result)] m w = (None, snd (captureDeliveryEffects
      sample_notification [(http_route, no_send_result)] m), w)" for env :: "single_world env" and m w
    by (simp add: applyDeliveryResults_def captureDeliveryEffects_def capture_one_def Let_def no_send_result_def)
  ultimately show ?thesis
    using conjunct2 [OF conjunct2 [OF queued_delivery_is_direct [OF time entry job off]]] sample_plan job
    by (simp add: recording_send_def http_route_def fresh_world_def)
qed

end
