(* ===== verification/Template_Functions.thy ===== *)
theory Template_Functions
  imports Errors Go_Strings Complex_Main
begin

text \<open>
  \<open>internal/templatefmt\<close>: the helpers of the notification templates. \<open>fmtDuration\<close> divides
  and prints 64-bit floating point numbers; the model rounds every operation to the nearest
  such number, as the standard says, so that the text is the one the program prints. The
  rounding is that of magnitudes below \<open>2 ^ 53\<close>; a duration has less than \<open>2 ^ 34\<close> seconds.
  \<open>encoding/json\<close> and the parser of \<open>text/template\<close> are arguments.
\<close>

section \<open>Floating point numbers\<close>

text \<open>The nearest integer, ties to the even one.\<close>

definition round_even :: "rat \<Rightarrow> int" where
  "round_even x = (let f = \<lfloor>x\<rfloor>; r = x - of_int f in
     if r < 1 / 2 then f else if 1 / 2 < r then f + 1 else if even f then f else f + 1)"

text \<open>
  The binary places a number has room for: the least that fill a significand of 53 bits, and at
  most \<open>1074\<close>.
\<close>

fun binary_places :: "nat \<Rightarrow> rat \<Rightarrow> nat" where
  "binary_places 0 x = 0"
| "binary_places (Suc k) x = (if 2 ^ 52 \<le> x * 2 ^ k then binary_places k x else Suc k)"

definition nearest_float :: "rat \<Rightarrow> rat" where
  "nearest_float x =
     (let k = binary_places 1074 \<bar>x\<bar>; y = of_int (round_even (\<bar>x\<bar> * 2 ^ k)) / 2 ^ k in if x < 0 then - y else y)"

text \<open>\<open>Duration.Seconds\<close>; Go's division of integers truncates.\<close>

definition whole_seconds :: "duration \<Rightarrow> int" where
  "whole_seconds d = sgn d * (\<bar>d\<bar> div 1000000000)"

definition duration_Seconds :: "duration \<Rightarrow> rat" where
  "duration_Seconds d =
     (let sec = whole_seconds d; nsec = d - sec * 1000000000 in
      nearest_float (nearest_float (of_int sec) + nearest_float (nearest_float (of_int nsec) / 1000000000)))"

text \<open>The verb \<open>%.1f\<close>: the exact value of the number to one decimal.\<close>

definition decimal_text :: "nat \<Rightarrow> string" where
  "decimal_text t = nat_digits (t div 10) @ ''.'' @ nat_digits (t mod 10)"

definition sprintf_1f :: "rat \<Rightarrow> string" where
  "sprintf_1f v = (if v < 0 then ''-'' else []) @ decimal_text (nat (round_even (\<bar>v\<bar> * 10)))"

section \<open>The helpers\<close>

text \<open>A value of a template: a duration, a pointer to one, or anything else.\<close>

datatype 'v template_value =
    DurationValue duration
  | DurationPointer "duration option"
  | OtherValue 'v

definition format_duration :: "duration \<Rightarrow> string" where
  "format_duration d =
     (let duration = (if d < 0 then wrap64 (- d) else d); secs = duration_Seconds duration in
      if 3600 \<le> secs then sprintf_1f (nearest_float (secs / 3600)) @ ''h''
      else if 60 \<le> secs then sprintf_1f (nearest_float (secs / 60)) @ ''m''
      else sprintf_1f secs @ ''s'')"

fun FormatDuration :: "'v template_value \<Rightarrow> string" where
  "FormatDuration (DurationValue d) = format_duration d"
| "FormatDuration (DurationPointer None) = ''0.0s''"
| "FormatDuration (DurationPointer (Some d)) = format_duration d"
| "FormatDuration (OtherValue _) = ''0.0s''"

definition MarshalJSON :: "('v template_value \<Rightarrow> string result) \<Rightarrow> 'v template_value \<Rightarrow> string" where
  "MarshalJSON marshal v = (case marshal v of Inl _ \<Rightarrow> ''null'' | Inr encoded \<Rightarrow> encoded)"

definition FuncMap :: "('v template_value \<Rightarrow> string result) \<Rightarrow> (string, 'v template_value \<Rightarrow> string) gmap" where
  "FuncMap marshal = [(''fmtDuration'', FormatDuration), (''json'', MarshalJSON marshal)]"

text \<open>\<open>parse\<close> stands for \<open>template.New(name).Funcs(funcs).Option(option).Parse(body)\<close>.\<close>

definition ParseNotificationTemplate ::
    "(string \<Rightarrow> (string, 'v template_value \<Rightarrow> string) gmap \<Rightarrow> string \<Rightarrow> string \<Rightarrow> 't result)
      \<Rightarrow> ('v template_value \<Rightarrow> string result) \<Rightarrow> string \<Rightarrow> string \<Rightarrow> 't result" where
  "ParseNotificationTemplate parse marshal name body = parse name (FuncMap marshal) ''missingkey=error'' body"

section \<open>Rounding\<close>

lemma round_even_near: "\<bar>of_int (round_even x) - x\<bar> \<le> 1 / 2"
  using of_int_floor_le [of x] floor_correct [of x]
  unfolding round_even_def Let_def abs_le_iff by (auto; linarith)

lemma round_even_ge: "of_int n \<le> x \<Longrightarrow> n \<le> round_even x"
  unfolding le_floor_iff [symmetric] by (auto simp: round_even_def Let_def)

lemma round_even_le: "x \<le> of_int n \<Longrightarrow> round_even x \<le> n"
  unfolding round_even_def Let_def by (auto; linarith)

lemma round_even_int [simp]: "round_even (of_int n) = n"
  by (simp add: round_even_def)

lemma binary_places_bits: "binary_places m x = m \<or> 2 ^ 52 \<le> x * 2 ^ binary_places m x"
proof (induction m)
  case (Suc m)
  then show ?case by (cases "binary_places m x = m") auto
qed simp

lemma nearest_float_int [simp]: "nearest_float (of_int n) = of_int n"
proof -
  have "round_even (\<bar>of_int n\<bar> * 2 ^ k) = \<bar>n\<bar> * 2 ^ k" for k
    using round_even_int [of "\<bar>n\<bar> * 2 ^ k"] by simp
  then show ?thesis by (simp add: nearest_float_def Let_def)
qed

lemma nearest_float_bounds:
  assumes "0 \<le> x"
  shows "\<bar>nearest_float x - x\<bar> \<le> x / 2 ^ 53 + 1 / 2 ^ 1075"
    and "of_int n \<le> x \<Longrightarrow> of_int n \<le> nearest_float x"
    and "0 \<le> nearest_float x"
proof -
  define k where "k = binary_places 1074 x"
  have y: "nearest_float x = of_int (round_even (x * 2 ^ k)) / 2 ^ k"
    using assms by (simp add: nearest_float_def k_def Let_def)
  have "\<bar>nearest_float x - x\<bar> = \<bar>of_int (round_even (x * 2 ^ k)) - x * 2 ^ k\<bar> / 2 ^ k"
    by (subst abs_div_pos) (simp_all add: y diff_divide_distrib)
  also have "... \<le> (1 / 2) / 2 ^ k"
    by (rule divide_right_mono [OF round_even_near]) simp
  also have "... \<le> x / 2 ^ 53 + 1 / 2 ^ 1075"
  proof (cases "k = 1074")
    case True
    then show ?thesis using assms by (simp add: field_simps)
  next
    case False
    then have "2 ^ 52 \<le> x * 2 ^ k" using binary_places_bits [of 1074 x] by (simp add: k_def)
    then have "(1 / 2) / 2 ^ k \<le> x / 2 ^ 53" by (simp add: field_simps)
    moreover have "(0::rat) \<le> 1 / 2 ^ 1075" by simp
    ultimately show ?thesis by linarith
  qed
  finally show "\<bar>nearest_float x - x\<bar> \<le> x / 2 ^ 53 + 1 / 2 ^ 1075" .
  show ge: "of_int n \<le> nearest_float x" if "of_int n \<le> x" for n
  proof -
    have "of_int (n * 2 ^ k) \<le> x * 2 ^ k" using that by simp
    from round_even_ge [OF this] have "of_int (n * 2 ^ k) \<le> (of_int (round_even (x * 2 ^ k)) :: rat)"
      by (simp only: of_int_le_iff)
    then show ?thesis by (simp add: y field_simps)
  qed
  show "0 \<le> nearest_float x" using ge [of 0] assms by simp
qed

lemma tiny_float: "1 / 2 ^ 1075 \<le> (1 / 10 ^ 300 :: rat)"
proof -
  have "(10::rat) ^ 300 \<le> (2 ^ 4) ^ 250" by simp
  have "(10 ^ 300 :: rat) \<le> 2 ^ 1075" by simp
  then show ?thesis by (simp add: field_simps)
qed

lemma nearest_float_close:
  assumes "0 \<le> x" "x \<le> y" "1 \<le> y"
  shows "\<bar>nearest_float x - x\<bar> \<le> y / 10 ^ 15"
proof -
  have "x / 2 ^ 53 \<le> y / 2 ^ 53" using assms(2) by (simp add: divide_right_mono)
  moreover have "(1::rat) / 2 ^ 1075 \<le> 1 / 10 ^ 300" by (rule tiny_float)
  moreover note nearest_float_bounds(1) [OF assms(1)]
  ultimately show ?thesis using assms(3) by simp
qed

section \<open>The text of a duration\<close>

text \<open>Seconds as a float are those of the duration but for the last places, and never cross a whole number.\<close>

lemma seconds_close:
  assumes "0 \<le> d"
  shows "\<bar>duration_Seconds d - of_int d / 1000000000\<bar> \<le> (of_int (d div 1000000000) + 3) / 10 ^ 15"
    and "0 \<le> duration_Seconds d"
    and "n * 1000000000 \<le> d \<Longrightarrow> of_int n \<le> duration_Seconds d"
proof -
  define sec nsec where "sec = d div 1000000000" and "nsec = d mod 1000000000"
  have d: "d = sec * 1000000000 + nsec" "0 \<le> sec" "0 \<le> nsec" "nsec < 1000000000"
    using assms by (simp_all add: sec_def nsec_def)
  define part where "part = nearest_float (of_int nsec / 1000000000)"
  have whole: "whole_seconds d = sec" using assms by (cases "d = 0") (simp_all add: whole_seconds_def sec_def)
  have s: "duration_Seconds d = nearest_float (of_int sec + part)"
    unfolding duration_Seconds_def whole Let_def nearest_float_int part_def by (simp add: d(1))
  have nsec: "0 \<le> (of_int nsec :: rat)" "(of_int nsec :: rat) < 1000000000" using d(3,4) by simp_all
  have part: "\<bar>part - of_int nsec / 1000000000\<bar> \<le> 1 / 10 ^ 15" "0 \<le> part"
    using nsec nearest_float_close [of "of_int nsec / 1000000000" 1] nearest_float_bounds(3) [of "of_int nsec / 1000000000"]
    by (simp_all add: part_def)
  have sum: "0 \<le> of_int sec + part" "of_int sec + part \<le> of_int sec + 2" "1 \<le> (of_int sec + 2 :: rat)"
    using part nsec d(2) unfolding abs_le_iff by simp_all
  have exact: "(of_int d :: rat) / 1000000000 = of_int sec + of_int nsec / 1000000000" by (simp add: d(1) add_divide_distrib)
  show "\<bar>duration_Seconds d - of_int d / 1000000000\<bar> \<le> (of_int (d div 1000000000) + 3) / 10 ^ 15"
    using nearest_float_close [OF sum] part(1) unfolding s exact sec_def [symmetric] abs_le_iff by simp
  show "0 \<le> duration_Seconds d" unfolding s by (rule nearest_float_bounds(3) [OF sum(1)])
  show "of_int n \<le> duration_Seconds d" if "n * 1000000000 \<le> d"
  proof -
    have "n \<le> sec" using that d(1,4) by simp
    then have "(of_int n :: rat) \<le> of_int sec" by simp
    then show ?thesis unfolding s using nearest_float_bounds(2) [OF sum(1)] part(2) by (simp add: add_increasing2)
  qed
qed

lemma seconds_below:
  assumes "0 \<le> d" "d < n * 1000000000" "n \<le> 3600"
  shows "duration_Seconds d < of_int n"
proof -
  have "d div 1000000000 < 3600" using assms by simp
  then have "(of_int (d div 1000000000) :: rat) < 3600" by simp
  moreover have "d + 1 \<le> n * 1000000000" using assms(2) by simp
  then have "(of_int (d + 1) :: rat) \<le> of_int (n * 1000000000)" by (simp only: of_int_le_iff)
  ultimately show ?thesis using seconds_close(1) [OF assms(1)] unfolding abs_le_iff by simp
qed

text \<open>One decimal of a quotient \<open>v\<close> of the seconds by a unit \<open>u\<close>.\<close>

lemma tenths_close:
  assumes "0 \<le> v" "\<bar>v - x / u\<bar> \<le> 1 / 10 ^ 8" "0 < u"
  shows "\<bar>of_nat (nat (round_even (\<bar>v\<bar> * 10))) * u - 10 * x\<bar> \<le> u * (1 / 2 + 1 / 10 ^ 7)"
proof -
  have "0 \<le> round_even (v * 10)" using round_even_ge [of 0 "v * 10"] assms(1) by simp
  then have t: "(of_nat (nat (round_even (\<bar>v\<bar> * 10))) :: rat) = of_int (round_even (v * 10))" using assms(1) by simp
  have "\<bar>of_int (round_even (v * 10)) - 10 * q\<bar> \<le> 1 / 2 + 1 / 10 ^ 7" if "\<bar>v - q\<bar> \<le> 1 / 10 ^ 8" for q
    using round_even_near [of "v * 10"] that unfolding abs_le_iff by simp
  from this [OF assms(2)]
  have "\<bar>of_int (round_even (v * 10)) - 10 * (x / u)\<bar> * u \<le> (1 / 2 + 1 / 10 ^ 7) * u"
    using assms(3) by (simp add: mult_right_mono)
  moreover have "\<bar>of_int (round_even (v * 10)) - 10 * (x / u)\<bar> * u = \<bar>of_int (round_even (v * 10)) * u - 10 * x\<bar>"
    using assms(3) by (simp add: abs_mult_pos left_diff_distrib)
  ultimately show ?thesis unfolding t by (simp add: mult.commute)
qed

text \<open>The unit of a duration, in nanoseconds, and its letter.\<close>

definition duration_unit :: "duration \<Rightarrow> int \<times> string" where
  "duration_unit d =
     (if 3600 * 1000000000 \<le> d then (3600 * 1000000000, ''h'')
      else if 60 * 1000000000 \<le> d then (60 * 1000000000, ''m'')
      else (1000000000, ''s''))"

lemma quotient_close:
  assumes "\<bar>secs - x / 1000000000\<bar> \<le> n / 360000000" "0 \<le> secs" "secs \<le> n * 3000000" "0 < n"
  shows "0 \<le> nearest_float (secs / n)" "\<bar>nearest_float (secs / n) - x / (n * 1000000000)\<bar> \<le> 1 / 10 ^ 8"
proof -
  show "0 \<le> nearest_float (secs / n)" using assms(2,4) by (intro nearest_float_bounds(3)) simp
  have "\<bar>nearest_float (secs / n) - secs / n\<bar> \<le> 3000000 / 10 ^ 15"
    using assms(2-4) by (intro nearest_float_close) (simp_all add: field_simps)
  moreover have "\<bar>secs / n - x / (n * 1000000000)\<bar> \<le> 1 / 360000000"
  proof -
    have "\<bar>secs / n - x / (n * 1000000000)\<bar> = \<bar>secs - x / 1000000000\<bar> / n"
      using assms(4) by (subst abs_div_pos) (simp_all add: diff_divide_distrib mult.commute)
    also have "... \<le> n / 360000000 / n" using assms(1,4) by (intro divide_right_mono) simp_all
    finally show ?thesis using assms(4) by simp
  qed
  moreover obtain q where "q = x / (n * 1000000000)" by blast
  ultimately show "\<bar>nearest_float (secs / n) - x / (n * 1000000000)\<bar> \<le> 1 / 10 ^ 8"
    unfolding abs_le_iff by auto
qed

text \<open>A number with one decimal is within five hundredths of a duration, but for the last places of the floats.\<close>

definition shows_duration :: "nat \<Rightarrow> int \<Rightarrow> duration \<Rightarrow> bool" where
  "shows_duration t unit d \<longleftrightarrow> \<bar>of_nat t * of_int unit - 10 * of_int d\<bar> \<le> (of_int unit * (1 / 2 + 1 / 10 ^ 7) :: rat)"

lemma sprintf_close:
  assumes "0 \<le> v" "\<bar>v - of_int d / of_int unit\<bar> \<le> 1 / 10 ^ 8" "0 < unit"
  shows "\<exists>t. sprintf_1f v = decimal_text t \<and> shows_duration t unit d"
  using tenths_close [OF assms(1,2)] assms(1,3)
  by (intro exI [of _ "nat (round_even (\<bar>v\<bar> * 10))"]) (simp add: sprintf_1f_def shows_duration_def)

lemma format_duration_nonneg:
  assumes "in_int64 d" "0 \<le> d"
  shows "\<exists>t. format_duration d = decimal_text t @ snd (duration_unit d) \<and> shows_duration t (fst (duration_unit d)) d"
proof -
  let ?s = "duration_Seconds d"
  have "d div 1000000000 \<le> 9223372036"
    using zdiv_mono1 [of d 9223372036854775807 1000000000] assms(1) by (simp add: int64_defs)
  then have "(of_int (d div 1000000000) :: rat) \<le> 9223372036" by linarith
  then have close: "\<bar>?s - of_int d / 1000000000\<bar> \<le> 1 / 10 ^ 5"
    using seconds_close(1) [OF assms(2)] unfolding abs_le_iff by simp
  have format: "format_duration d = (if 3600 \<le> ?s then sprintf_1f (nearest_float (?s / 3600)) @ ''h''
      else if 60 \<le> ?s then sprintf_1f (nearest_float (?s / 60)) @ ''m'' else sprintf_1f ?s @ ''s'')"
    using assms(2) by (simp add: format_duration_def Let_def)
  have close_small: "\<bar>?s - of_int d / 1000000000\<bar> \<le> 1 / 10 ^ 8" if "d < 3600 * 1000000000"
  proof -
    have "d div 1000000000 < 3600" using that assms(2) by simp
    then have "(of_int (d div 1000000000) :: rat) < 3600" by simp
    then show ?thesis using seconds_close(1) [OF assms(2)] unfolding abs_le_iff by simp
  qed
  consider (h) "3600 * 1000000000 \<le> d" | (m) "60 * 1000000000 \<le> d" "d < 3600 * 1000000000" | (s) "d < 60 * 1000000000"
    by linarith
  then show ?thesis
  proof cases
    case h
    have "(of_int d :: rat) \<le> of_int max_int64" using assms(1) by (simp only: of_int_le_iff) (simp add: in_int64_def)
    then have "?s \<le> 3600 * 3000000" using close unfolding abs_le_iff by (simp add: max_int64_def)
    note quotient_close [of ?s "of_int d" 3600, OF _ seconds_close(2) [OF assms(2)] this]
    then have "\<exists>t. sprintf_1f (nearest_float (?s / 3600)) = decimal_text t \<and> shows_duration t (3600 * 1000000000) d"
      using close by (intro sprintf_close) simp_all
    then show ?thesis using h seconds_close(3) [OF assms(2), of 3600] by (simp add: format duration_unit_def)
  next
    case m
    then have s: "?s < 3600" "60 \<le> ?s" "\<bar>?s - of_int d / 1000000000\<bar> \<le> 60 / 360000000"
      using seconds_below [OF assms(2), of 3600] seconds_close(3) [OF assms(2), of 60] close_small by simp_all
    note quotient_close [of ?s "of_int d" 60, OF s(3) seconds_close(2) [OF assms(2)]]
    then have "\<exists>t. sprintf_1f (nearest_float (?s / 60)) = decimal_text t \<and> shows_duration t (60 * 1000000000) d"
      using s by (intro sprintf_close) simp_all
    then show ?thesis using m s by (simp add: format duration_unit_def)
  next
    case s
    then have "?s < 60" using seconds_below [OF assms(2), of 60] by simp
    moreover have "\<exists>t. sprintf_1f ?s = decimal_text t \<and> shows_duration t 1000000000 d"
      using close_small s by (intro sprintf_close seconds_close(2) [OF assms(2)]) simp_all
    ultimately show ?thesis using s by (simp add: format duration_unit_def)
  qed
qed

text \<open>
  C36. The text of a duration is its magnitude in hours, minutes or seconds, in the largest unit
  of which it has at least one, to the nearest tenth: it is off by at most half a tenth and what
  the floating point numbers lose, for every duration but the least one.
\<close>

theorem duration_text_is_close:
  assumes "in_int64 d" "d \<noteq> min_int64"
  shows "\<exists>t. FormatDuration (DurationValue d) = decimal_text t @ snd (duration_unit \<bar>d\<bar>) \<and>
    shows_duration t (fst (duration_unit \<bar>d\<bar>)) \<bar>d\<bar>"
proof -
  have in_range: "in_int64 \<bar>d\<bar>" using assms by (auto simp: int64_defs)
  then have "format_duration d = format_duration \<bar>d\<bar>" by (auto simp: format_duration_def abs_if)
  then show ?thesis using format_duration_nonneg [OF in_range] by simp
qed

text \<open>A minute is not reached by rounding: just below it the text has sixty seconds.\<close>

theorem duration_text_is_close_witness:
  "FormatDuration (DurationValue (- 59960000000)) = ''60.0s''"
proof -
  obtain t where t: "FormatDuration (DurationValue (- 59960000000)) = decimal_text t @ ''s''" "shows_duration t 1000000000 59960000000"
    using duration_text_is_close [of "- 59960000000"] by (auto simp: int64_defs duration_unit_def)
  have "\<bar>of_nat t * 1000000000 - 599600000000\<bar> \<le> (500000100 :: rat)" using t(2) by (simp add: shows_duration_def)
  then have "(of_nat t :: rat) < 601" "(599 :: rat) < of_nat t" unfolding abs_le_iff by simp_all
  then have "t = 600" by simp
  moreover have "decimal_text 600 = ''60.0''" by code_simp
  ultimately show ?thesis using t(1) by simp
qed

text \<open>The least duration has no opposite; it stays negative and is shown in seconds.\<close>

lemma nearest_float_neg: "0 < x \<Longrightarrow> nearest_float (- x) = - nearest_float x"
  by (simp add: nearest_float_def Let_def)

lemma least_duration_negative:
  "FormatDuration (DurationValue min_int64) = ''-9223372036.9s''"
proof -
  define part where "part = nearest_float (854775808 / 1000000000)"
  define secs where "secs = nearest_float (9223372036 + part)"
  have part: "\<bar>part - 854775808 / 1000000000\<bar> \<le> 1 / 10 ^ 15"
    unfolding part_def by (rule nearest_float_close) simp_all
  then have sum: "0 < 9223372036 + part" unfolding abs_le_iff by simp
  have secs: "\<bar>secs - (9223372036 + part)\<bar> \<le> 9223372037 / 10 ^ 15"
    unfolding secs_def using sum part [unfolded abs_le_iff] by (intro nearest_float_close) simp_all
  have whole: "whole_seconds min_int64 = - 9223372036" by (simp add: whole_seconds_def min_int64_def)
  have nano: "min_int64 - (- 9223372036) * 1000000000 = - 854775808" by (simp add: min_int64_def)
  have split: "of_int (- 854775808) / 1000000000 = - (854775808 / 1000000000 :: rat)"
    "of_int (- 9223372036) + - part = - (9223372036 + part)" by simp_all
  have "duration_Seconds min_int64 = nearest_float (- (9223372036 + part))"
    unfolding duration_Seconds_def whole Let_def nano nearest_float_int split(1) split(2) [symmetric] part_def
    by (subst nearest_float_neg) simp_all
  then have negative: "duration_Seconds min_int64 = - secs" using nearest_float_neg [OF sum] by (simp add: secs_def)
  have bounds: "92233720368 + 1 / 2 < secs * 10" "secs * 10 < 92233720369 + 1 / 2"
    using secs part unfolding abs_le_iff by simp_all
  have "round_even (secs * 10) = 92233720369"
    using round_even_near [of "secs * 10"] bounds unfolding abs_le_iff by linarith
  moreover have digits: "decimal_text 92233720369 = ''9223372036.9''"
    by (simp add: decimal_text_def nat_digits.simps char_of_def bit_0)
  moreover have pos: "0 < secs" using bounds(1) by simp
  ultimately have shown: "sprintf_1f (- secs) = ''-'' @ ''9223372036.9''"
    unfolding sprintf_1f_def digits [symmetric] by simp
  have "wrap64 (- min_int64) = min_int64" by (simp add: wrap64_def min_int64_def)
  then have "format_duration min_int64 = sprintf_1f (- secs) @ ''s''"
    using pos unfolding format_duration_def Let_def by (auto simp: negative)
  then show ?thesis by (simp add: shown)
qed

end
