(* ===== verification/Logging.thy ===== *)
theory Logging
  imports Config_Norm Nats_Store
begin

text \<open>
  The log sinks of \<open>internal/logging/logger.go\<close>: construction and closing, the fan-out to
  several handlers, and the colours of console lines. Opening and closing files is an argument
  (\<open>log_files\<close>); the rendering of a record by \<open>log/slog\<close> and the write to the
  destination are arguments of the handlers. The three fixed patterns are matchers of their own.
\<close>

section \<open>Handlers\<close>

type_synonym level = int64

record 'f log_files =
  lf_Open :: "string \<Rightarrow> 'f \<Rightarrow> nat result \<times> 'f"
  lf_Close :: "nat \<Rightarrow> 'f \<Rightarrow> 'f"

datatype line_format = LineFormat | JSONFormat

text \<open>Where a handler writes: the coloured console, or a file.\<close>

datatype log_target = Console | LogFile nat

record log_handler =
  lh_format :: line_format
  lh_target :: log_target
  lh_level :: level

definition parseLevel :: "string \<Rightarrow> level result" where
  "parseLevel value =
     (let v = TrimSpace (ToLower value) in
      if v = ''debug'' then Inr (- 4)
      else if v = ''info'' then Inr 0
      else if v = ''warn'' then Inr 4
      else if v = ''error'' then Inr 8
      else if v = ''panic'' then Inr 12
      else Inl (ErrFmt ''unsupported level %q'' [value]))"

definition buildConsoleHandler :: "log_sink \<Rightarrow> log_handler result" where
  "buildConsoleHandler sink =
     (case parseLevel (ls_Level sink) of
        Inl err \<Rightarrow> Inl err
      | Inr level \<Rightarrow>
          if ls_Format sink = ''line'' then Inr \<lparr>lh_format = LineFormat, lh_target = Console, lh_level = level\<rparr>
          else if ls_Format sink = ''json'' then Inr \<lparr>lh_format = JSONFormat, lh_target = Console, lh_level = level\<rparr>
          else Inl (ErrFmt ''unsupported console format %q'' [ls_Format sink]))"

definition buildFileHandler :: "'f log_files \<Rightarrow> log_sink \<Rightarrow> 'f \<Rightarrow> (log_handler \<times> nat) result \<times> 'f" where
  "buildFileHandler lf sink f =
     (case parseLevel (ls_Level sink) of
        Inl err \<Rightarrow> (Inl err, f)
      | Inr level \<Rightarrow>
          (case lf_Open lf (ls_Path sink) f of
             (Inl err, f1) \<Rightarrow> (Inl (ErrWrap ''open file %q: %w'' [ls_Path sink] err), f1)
           | (Inr h, f1) \<Rightarrow>
               if ls_Format sink = ''line''
               then (Inr (\<lparr>lh_format = LineFormat, lh_target = LogFile h, lh_level = level\<rparr>, h), f1)
               else if ls_Format sink = ''json''
               then (Inr (\<lparr>lh_format = JSONFormat, lh_target = LogFile h, lh_level = level\<rparr>, h), f1)
               else (Inl (ErrFmt ''unsupported file format %q'' [ls_Format sink]), lf_Close lf h f1)))"

text \<open>A logger: its handlers and the files its cleanup function closes.\<close>

record logger =
  lg_handlers :: "log_handler list"
  lg_closers :: "nat list"

definition logging_New :: "'f log_files \<Rightarrow> log_config \<Rightarrow> 'f \<Rightarrow> logger result \<times> 'f" where
  "logging_New lf cfg f =
     (case (if ls_Enabled (lc_Console cfg)
            then (case buildConsoleHandler (lc_Console cfg) of
                    Inl err \<Rightarrow> Inl (ErrWrap ''build console handler: %w'' [] err) | Inr h \<Rightarrow> Inr [h])
            else Inr []) of
        Inl err \<Rightarrow> (Inl err, f)
      | Inr console \<Rightarrow>
          if ls_Enabled (lc_File cfg) then
            (case buildFileHandler lf (lc_File cfg) f of
               (Inl err, f1) \<Rightarrow> (Inl (ErrWrap ''build file handler: %w'' [] err), f1)
             | (Inr (handler, closer), f1) \<Rightarrow> (Inr \<lparr>lg_handlers = console @ [handler], lg_closers = [closer]\<rparr>, f1))
          else if console = [] then (Inl (ErrMsg ''no log sinks enabled''), f)
          else (Inr \<lparr>lg_handlers = console, lg_closers = []\<rparr>, f))"

definition closeLog :: "'f log_files \<Rightarrow> logger \<Rightarrow> 'f \<Rightarrow> 'f" where
  "closeLog lf l f = fold (lf_Close lf) (lg_closers l) f"

section \<open>Fan-out\<close>

text \<open>
  \<open>Enabled\<close> of a \<open>slog\<close> handler compares with its level; \<open>emit\<close> is its
  \<open>Handle\<close>. A logger with one handler has no tee, which does the same. What a handler of the
  library remembers of attributes and groups is an extension of its record; attaching them is an
  argument.
\<close>

definition handler_Enabled :: "'x log_handler_scheme \<Rightarrow> level \<Rightarrow> bool" where
  "handler_Enabled h level \<longleftrightarrow> level \<ge> lh_level h"

definition tee_Enabled :: "'x log_handler_scheme list \<Rightarrow> level \<Rightarrow> bool" where
  "tee_Enabled hs level = list_ex (\<lambda>h. handler_Enabled h level) hs"

fun tee_Handle ::
    "('x log_handler_scheme \<Rightarrow> 'rec \<Rightarrow> 'o \<Rightarrow> error option \<times> 'o) \<Rightarrow> 'x log_handler_scheme list \<Rightarrow> level \<Rightarrow> 'rec \<Rightarrow> 'o
      \<Rightarrow> error option \<times> 'o" where
  "tee_Handle emit [] level entry out = (None, out)"
| "tee_Handle emit (h # hs) level entry out =
     (if \<not> handler_Enabled h level then tee_Handle emit hs level entry out
      else (case emit h entry out of
          (Some err, out1) \<Rightarrow> (Some err, out1)
        | (None, out1) \<Rightarrow> tee_Handle emit hs level entry out1))"

definition tee_WithAttrs ::
    "('x log_handler_scheme \<Rightarrow> 'attr list \<Rightarrow> 'x log_handler_scheme) \<Rightarrow> 'x log_handler_scheme list \<Rightarrow> 'attr list
      \<Rightarrow> 'x log_handler_scheme list" where
  "tee_WithAttrs withAttrs hs attrs = map (\<lambda>h. withAttrs h attrs) hs"

definition tee_WithGroup ::
    "('x log_handler_scheme \<Rightarrow> string \<Rightarrow> 'x log_handler_scheme) \<Rightarrow> 'x log_handler_scheme list \<Rightarrow> string
      \<Rightarrow> 'x log_handler_scheme list" where
  "tee_WithGroup withGroup hs name = map (\<lambda>h. withGroup h name) hs"

lemma tee_Handle_silent: "\<not> tee_Enabled hs level \<Longrightarrow> tee_Handle emit hs level entry out = (None, out)"
  by (induction hs) (auto simp: tee_Enabled_def)

text \<open>As long as no sink fails a record goes, in order, to exactly the sinks that take its level.\<close>

lemma tee_Handle_reaches_all:
  assumes "\<And>h out. fst (emit h entry out) = None"
  shows "tee_Handle emit hs level entry out =
    (None, fold (\<lambda>h out. snd (emit h entry out)) (filter (\<lambda>h. handler_Enabled h level) hs) out)"
proof (induction hs arbitrary: out)
  case (Cons h hs)
  have "emit h entry out = (None, snd (emit h entry out))" using assms by (simp add: prod_eq_iff)
  then show ?case using Cons.IH by (auto split: prod.splits)
qed simp

text \<open>
  Attaching attributes or a group to a fan-out is attaching them to every record: when each
  handler keeps its level and writes a record as it would with the attributes added, so does the
  fan-out.
\<close>

lemma tee_Handle_derived:
  assumes "\<And>h. lh_level (f h) = lh_level h" "\<And>h out. emit (f h) entry out = emit h (add entry) out"
  shows "tee_Enabled (map f hs) level = tee_Enabled hs level"
    and "tee_Handle emit (map f hs) level entry out = tee_Handle emit hs level (add entry) out"
  by (induction hs arbitrary: out) (simp_all add: assms tee_Enabled_def handler_Enabled_def split: prod.splits option.splits)

lemmas tee_WithAttrs_Handle = tee_Handle_derived [where f = "\<lambda>h. withAttrs h attrs" for withAttrs attrs, folded tee_WithAttrs_def]
lemmas tee_WithGroup_Handle = tee_Handle_derived [where f = "\<lambda>h. withGroup h name" for withGroup name, folded tee_WithGroup_def]

section \<open>Colours\<close>

abbreviation ESC :: char where "ESC \<equiv> CHR 0x1B"

definition ansi :: "string \<Rightarrow> string" where
  "ansi code = ESC # ''['' @ code @ ''m''"

abbreviation ansiReset :: string where "ansiReset \<equiv> ansi ''0''"
abbreviation ansiBlue :: string where "ansiBlue \<equiv> ansi ''34''"
abbreviation ansiGreen :: string where "ansiGreen \<equiv> ansi ''32''"
abbreviation ansiYellow :: string where "ansiYellow \<equiv> ansi ''33''"
abbreviation ansiCyan :: string where "ansiCyan \<equiv> ansi ''36''"
abbreviation ansiRed :: string where "ansiRed \<equiv> ansi ''31''"
abbreviation ansiGray :: string where "ansiGray \<equiv> ansi ''90''"

definition levelColor :: "string \<Rightarrow> string" where
  "levelColor line =
     (if str_Contains line ''level=DEBUG'' then ansiGray
      else if str_Contains line ''level=INFO'' then ansiBlue
      else if str_Contains line ''level=WARN'' then ansiYellow
      else if str_Contains line ''level=ERROR'' then ansiRed
      else if str_Contains line ''level=PANIC'' then ansiRed
      else [])"

text \<open>
  A matcher tells, from the byte before and the text ahead, how long a match here is. All three
  patterns match at most one length at a position: a run of digits is taken whole, because the
  byte that must follow it is no digit.
\<close>

type_synonym matcher = "char option \<Rightarrow> string \<Rightarrow> nat option"

definition is_word :: "char \<Rightarrow> bool" where
  "is_word c \<longleftrightarrow> is_digit c \<or> (CHR ''a'' \<le> c \<and> c \<le> CHR ''z'') \<or> (CHR ''A'' \<le> c \<and> c \<le> CHR ''Z'') \<or> c = CHR ''_''"

text \<open>The word boundary before a digit, and after one.\<close>

definition boundary_before :: "char option \<Rightarrow> bool" where
  "boundary_before prev = (case prev of None \<Rightarrow> True | Some c \<Rightarrow> \<not> is_word c)"

definition boundary_after :: "string \<Rightarrow> bool" where
  "boundary_after rest = (case rest of [] \<Rightarrow> True | c # _ \<Rightarrow> \<not> is_word c)"

definition digit_run :: "string \<Rightarrow> nat" where
  "digit_run s = length (takeWhile is_digit s)"

definition stringPattern :: matcher where
  "stringPattern prev s =
     (case s of
        CHR 0x22 # rest \<Rightarrow>
          (let body = takeWhile (\<lambda>c. c \<noteq> CHR 0x22 \<and> c \<noteq> CHR 0x0A) rest in
           case drop (length body) rest of CHR 0x22 # _ \<Rightarrow> Some (length body + 2) | _ \<Rightarrow> None)
      | _ \<Rightarrow> None)"

text \<open>\<open>k\<close> groups of one to three digits and a dot, then one to three digits.\<close>

primrec dotted :: "nat \<Rightarrow> string \<Rightarrow> nat option" where
  "dotted 0 s = (let n = digit_run s in if 1 \<le> n \<and> n \<le> 3 \<and> boundary_after (drop n s) then Some n else None)"
| "dotted (Suc k) s =
     (let n = digit_run s in
      if 1 \<le> n \<and> n \<le> 3 then
        (case drop n s of CHR ''.'' # rest \<Rightarrow> map_option (\<lambda>m. n + 1 + m) (dotted k rest) | _ \<Rightarrow> None)
      else None)"

definition ipv4Pattern :: matcher where
  "ipv4Pattern prev s = (if boundary_before prev then dotted 3 s else None)"

definition numberPattern :: matcher where
  "numberPattern prev s =
     (let n = digit_run s in
      if \<not> boundary_before prev \<or> n = 0 then None
      else
        (let fraction = (case drop n s of CHR ''.'' # rest \<Rightarrow> digit_run rest | _ \<Rightarrow> 0) in
         if 0 < fraction \<and> boundary_after (drop (n + 1 + fraction) s) then Some (n + 1 + fraction)
         else if boundary_after (drop n s) then Some n
         else None))"

text \<open>
  \<open>FindAllStringIndex(line, -1)\<close>: the matches from left to right, each search starting where
  the last match ended; \<open>i\<close> is the position and \<open>prev\<close> the byte before it.
\<close>

function find_all :: "matcher \<Rightarrow> nat \<Rightarrow> char option \<Rightarrow> string \<Rightarrow> (nat \<times> nat) list" where
  "find_all m i prev [] = []"
| "find_all m i prev (c # cs) =
     (case m prev (c # cs) of
        Some (Suc k) \<Rightarrow>
          (i, i + Suc k) # find_all m (i + Suc k) (Some (last (c # take k cs))) (drop k cs)
      | _ \<Rightarrow> find_all m (Suc i) (Some c) cs)"
  by pat_completeness auto
termination by (relation "measure (\<lambda>(_, _, _, s). length s)") (auto simp: less_Suc_eq_le)

record color_region =
  cr_start :: nat
  cr_end :: nat
  cr_color :: string

record weighted_region = color_region +
  cr_priority :: nat

definition findPatternRegions :: "string \<Rightarrow> matcher \<Rightarrow> string \<Rightarrow> nat \<Rightarrow> weighted_region list" where
  "findPatternRegions line pat color priority =
     map (\<lambda>(a, b). \<lparr>cr_start = a, cr_end = b, cr_color = color, cr_priority = priority\<rparr>) (find_all pat 0 None line)"

text \<open>
  The comparison of the stable sort as a key: by start, then by priority, then the longer first.
\<close>

definition region_key :: "weighted_region \<Rightarrow> int list" where
  "region_key r = [int (cr_start r), int (cr_priority r), - int (cr_end r)]"

fun keep_disjoint :: "nat \<Rightarrow> weighted_region list \<Rightarrow> color_region list" where
  "keep_disjoint cursor [] = []"
| "keep_disjoint cursor (r # rs) =
     (if cr_start r < cursor then keep_disjoint cursor rs
      else \<lparr>cr_start = cr_start r, cr_end = cr_end r, cr_color = cr_color r\<rparr> # keep_disjoint (cr_end r) rs)"

definition collectColorRegions :: "string \<Rightarrow> color_region list" where
  "collectColorRegions line =
     keep_disjoint 0 (sort_key region_key
       (findPatternRegions line stringPattern ansiGreen 1 @ findPatternRegions line ipv4Pattern ansiCyan 2 @
        findPatternRegions line numberPattern ansiYellow 3))"

fun highlight_loop :: "string \<Rightarrow> string \<Rightarrow> color_region list \<Rightarrow> nat \<Rightarrow> string" where
  "highlight_loop line baseColor [] cursor = drop cursor line"
| "highlight_loop line baseColor (r # rs) cursor =
     (if cr_start r < cursor then highlight_loop line baseColor rs cursor
      else if cr_start r > length line \<or> cr_end r > length line \<or> cr_start r \<ge> cr_end r
      then highlight_loop line baseColor rs cursor
      else take (cr_start r - cursor) (drop cursor line) @ cr_color r @
        take (cr_end r - cr_start r) (drop (cr_start r) line) @ ansiReset @ baseColor @
        highlight_loop line baseColor rs (cr_end r))"

definition highlightLineTokens :: "string \<Rightarrow> string \<Rightarrow> string" where
  "highlightLineTokens line baseColor =
     (let regions = collectColorRegions line in
      if length regions = 0 then line else highlight_loop line baseColor regions 0)"

text \<open>
  \<open>Write\<close>: the bytes handed to the destination, and the count given back for the count and
  the error of the destination.
\<close>

definition color_text :: "string \<Rightarrow> string" where
  "color_text payload =
     (let levelTone = levelColor payload in
      if levelTone = [] then payload
      else levelTone @ highlightLineTokens payload levelTone @ ansiReset)"

definition color_Write ::
    "(string \<Rightarrow> 'o \<Rightarrow> (int64 \<times> error option) \<times> 'o) \<Rightarrow> string \<Rightarrow> 'o \<Rightarrow> (int64 \<times> error option) \<times> 'o" where
  "color_Write dst payload out =
     (let levelTone = levelColor payload in
      if levelTone = [] then dst payload out
      else (case dst (levelTone @ highlightLineTokens payload levelTone @ ansiReset) out of
          ((n, err), out1) \<Rightarrow> ((if n > int (length payload) then int (length payload) else n, err), out1)))"

section \<open>Facts\<close>

text \<open>What a terminal shows: the colour sequences are not printed.\<close>

function without_colors :: "string \<Rightarrow> string" where
  "without_colors [] = []"
| "without_colors (c # cs) =
     (if c = ESC then without_colors (drop 1 (dropWhile (\<lambda>d. d \<noteq> CHR ''m'') cs)) else c # without_colors cs)"
  by pat_completeness auto
termination
proof (relation "measure length")
  fix c :: char and cs :: string
  have "length (dropWhile (\<lambda>d. d \<noteq> CHR ''m'') cs) \<le> length cs" by (rule length_dropWhile_le)
  then show "(drop 1 (dropWhile (\<lambda>d. d \<noteq> CHR ''m'') cs), c # cs) \<in> measure length" by simp
qed simp_all

lemma without_colors_plain: "ESC \<notin> set s \<Longrightarrow> without_colors (s @ t) = s @ without_colors t"
  by (induction s) auto

lemma without_colors_ansi:
  assumes "CHR ''m'' \<notin> set code"
  shows "without_colors (ansi code @ t) = without_colors t"
proof -
  have "dropWhile (\<lambda>d. d \<noteq> CHR ''m'') (code @ CHR ''m'' # t) = CHR ''m'' # t"
    using assms by (induction code) auto
  then show ?thesis by (simp add: ansi_def)
qed

definition is_tone :: "string \<Rightarrow> bool" where
  "is_tone color \<longleftrightarrow> (\<forall>t. without_colors (color @ t) = without_colors t)"

lemma is_tone_ansi: "CHR ''m'' \<notin> set code \<Longrightarrow> is_tone (ansi code)"
  by (simp add: is_tone_def without_colors_ansi)

lemma levelColor_tone: "levelColor line = [] \<or> is_tone (levelColor line)"
  by (auto simp: levelColor_def intro!: is_tone_ansi)

lemma region_colors: "\<forall>r \<in> set (collectColorRegions line). is_tone (cr_color r)"
proof -
  have keep: "(\<forall>r \<in> set rs. is_tone (cr_color r)) \<Longrightarrow> \<forall>r \<in> set (keep_disjoint k rs). is_tone (cr_color r)" for k rs
    by (induction rs arbitrary: k) auto
  show ?thesis unfolding collectColorRegions_def
    by (rule keep) (auto simp: findPatternRegions_def intro!: is_tone_ansi)
qed

lemma highlight_loop_text:
  assumes "ESC \<notin> set line" "is_tone baseColor" "\<forall>r \<in> set rs. is_tone (cr_color r)" "cursor \<le> length line"
  shows "without_colors (highlight_loop line baseColor rs cursor @ t) = drop cursor line @ without_colors t"
  using assms(3,4)
proof (induction rs arbitrary: cursor)
  case Nil
  then show ?case using assms(1) in_set_dropD by (subst without_colors_plain [symmetric]) fastforce+
next
  case (Cons r rs)
  let ?mid = "take (cr_start r - cursor) (drop cursor line)" and ?tok = "take (cr_end r - cr_start r) (drop (cr_start r) line)"
  show ?case
  proof (cases "cr_start r < cursor \<or> cr_start r > length line \<or> cr_end r > length line \<or> cr_start r \<ge> cr_end r")
    case True
    then show ?thesis using Cons by auto
  next
    case False
    have plain: "ESC \<notin> set ?mid" "ESC \<notin> set ?tok"
      using assms(1) by (auto dest!: in_set_takeD in_set_dropD)
    have "without_colors (highlight_loop line baseColor (r # rs) cursor @ t) = ?mid @ ?tok @ drop (cr_end r) line @ without_colors t"
      using False Cons.prems Cons.IH [of "cr_end r"] assms(2) is_tone_ansi [of "''0''"] plain
      by (simp add: without_colors_plain is_tone_def)
    moreover have "?mid @ ?tok @ drop (cr_end r) line = drop cursor line"
    proof -
      have "?tok @ drop (cr_end r) line = drop (cr_start r) line"
        using False append_take_drop_id [of "cr_end r - cr_start r" "drop (cr_start r) line"] by (simp add: not_le)
      moreover have "?mid @ drop (cr_start r) line = drop cursor line"
        using False append_take_drop_id [of "cr_start r - cursor" "drop cursor line"] by (simp add: not_less)
      ultimately show ?thesis by simp
    qed
    ultimately show ?thesis by simp
  qed
qed

text \<open>
  C40. Colours only decorate: on a console line the terminal shows exactly the bytes the log record
  was rendered to, whatever level, strings, addresses and numbers it has.
\<close>

theorem colors_only_decorate:
  assumes "ESC \<notin> set payload"
  shows "without_colors (color_text payload) = payload"
proof (cases "levelColor payload = []")
  case True
  then show ?thesis using without_colors_plain [OF assms, of "[]"] by (simp add: color_text_def)
next
  case False
  then have tone: "is_tone (levelColor payload)" using levelColor_tone by blast
  have "without_colors (highlightLineTokens payload (levelColor payload) @ ansiReset) = payload"
  proof (cases "collectColorRegions payload = []")
    case True
    then show ?thesis using without_colors_plain [OF assms] without_colors_ansi [of "''0''" "[]"]
      by (simp add: highlightLineTokens_def)
  next
    case False
    then show ?thesis
      using highlight_loop_text [OF assms tone region_colors, of 0 payload ansiReset] without_colors_ansi [of "''0''" "[]"]
      by (simp add: highlightLineTokens_def Let_def)
  qed
  then show ?thesis using False tone by (simp add: color_text_def is_tone_def Let_def)
qed

theorem colors_only_decorate_witness:
  "color_text ''level=INFO ip=10.0.0.1 n=7 m=\"x 1\"'' \<noteq> ''level=INFO ip=10.0.0.1 n=7 m=\"x 1\"'' \<and>
   without_colors (color_text ''level=INFO ip=10.0.0.1 n=7 m=\"x 1\"'') = ''level=INFO ip=10.0.0.1 n=7 m=\"x 1\"''"
proof
  show "color_text ''level=INFO ip=10.0.0.1 n=7 m=\"x 1\"'' \<noteq> ''level=INFO ip=10.0.0.1 n=7 m=\"x 1\"''" by code_simp
  show "without_colors (color_text ''level=INFO ip=10.0.0.1 n=7 m=\"x 1\"'') = ''level=INFO ip=10.0.0.1 n=7 m=\"x 1\"''"
    by (rule colors_only_decorate) simp
qed

text \<open>The tokens of a line: addresses are not taken apart into numbers, strings stay whole.\<close>

lemma tokens_of_a_line:
  "map (\<lambda>r. (cr_start r, cr_end r)) (collectColorRegions ''a=10.0.0.1 \"b 7\" 1.5 x9 1.2.3'') =
    [(2, 10), (11, 16), (17, 20), (24, 27), (28, 29)]"
  by code_simp

text \<open>What the checks of the configuration promise for a sink, and what they do not.\<close>

end
