(* ===== verification/Ui_Server.thy ===== *)
theory Ui_Server
  imports Dashboard Config_Facts Config_Samples
begin

text \<open>
  Routing and the web server of the dashboard (\<open>internal/ui/server.go\<close>). The router of
  \<open>net/http\<close> is the record \<open>mux_api\<close>: its patterns, when two of them conflict and which
  one a path selects; registering an invalid or a conflicting pattern panics. Rendering to JSON and
  quoting are arguments; the page itself is the constant template with the four values it gets.
\<close>

section \<open>Routing\<close>

record 'p mux_api =
  mx_parse :: "string \<Rightarrow> 'p result"
  mx_conflicts :: "'p \<Rightarrow> 'p \<Rightarrow> bool"
  mx_match :: "'p list \<Rightarrow> string \<Rightarrow> 'p option"

type_synonym ('p, 'h) mux = "('p \<times> 'h) list"

definition mux_Handle :: "'p mux_api \<Rightarrow> string \<Rightarrow> 'h \<Rightarrow> ('p, 'h) mux \<Rightarrow> ('p, 'h) mux result" where
  "mux_Handle mx pattern handler mux =
     (case mx_parse mx pattern of
        Inl err \<Rightarrow> Inl (ErrPanic ''invalid pattern'')
      | Inr p \<Rightarrow>
          if list_ex (\<lambda>(q, _). mx_conflicts mx p q) mux then Inl (ErrPanic ''conflicting pattern'')
          else Inr (mux @ [(p, handler)]))"

fun mux_Handle_all :: "'p mux_api \<Rightarrow> (string \<times> 'h) list \<Rightarrow> ('p, 'h) mux \<Rightarrow> ('p, 'h) mux result" where
  "mux_Handle_all mx [] mux = Inr mux"
| "mux_Handle_all mx ((pattern, handler) # rest) mux =
     (case mux_Handle mx pattern handler mux of Inl err \<Rightarrow> Inl err | Inr mux1 \<Rightarrow> mux_Handle_all mx rest mux1)"

definition mux_handler :: "'p mux_api \<Rightarrow> ('p, 'h) mux \<Rightarrow> string \<Rightarrow> 'h option" where
  "mux_handler mx mux path =
     (case mx_match mx (map fst mux) path of None \<Rightarrow> None | Some p \<Rightarrow> map_of mux p)"

text \<open>A pattern registered twice conflicts with itself.\<close>

lemma mux_Handle_twice:
  assumes "mx_parse mx pattern = Inr p" "mx_conflicts mx p p"
  shows "\<exists>e. mux_Handle_all mx ((pattern, h) # (pattern, h') # rest) mux = Inl (ErrPanic e)"
  using assms by (auto simp: mux_Handle_def)

section \<open>The server\<close>

datatype ui_handler = UIDashboard | UISnapshot | UIHealth

record page_data =
  pg_Title :: string
  pg_BasePathJS :: string
  pg_InitialJSON :: string
  pg_RefreshMS :: int64

datatype ui_body = UIText string | UIPage page_data | UIJSON dashboard_snapshot

record ui_response =
  ux_Status :: nat
  ux_Body :: ui_body

record ui_request =
  uq_Path :: string
  uq_BasicAuth :: "(string \<times> string) option"

definition basePath :: "ui_config \<Rightarrow> string" where
  "basePath cfg = (let p = TrimSpace (ui_BasePath cfg) in if p = [] then ''/ui'' else p)"

definition ui_Handler :: "'p mux_api \<Rightarrow> ui_config \<Rightarrow> ('p, ui_handler) mux result" where
  "ui_Handler mx cfg =
     (let base = basePath cfg in
      mux_Handle_all mx [(base, UIDashboard), (base @ ''/'', UIDashboard), (base @ ''/api/dashboard'', UISnapshot),
        (base @ ''/healthz'', UIHealth)] [])"

definition handleDashboard ::
    "(dashboard_snapshot \<Rightarrow> string result) \<Rightarrow> (error \<Rightarrow> string) \<Rightarrow> (string \<Rightarrow> string) \<Rightarrow> ui_config
      \<Rightarrow> ('w \<Rightarrow> dashboard_snapshot result \<times> 'w) \<Rightarrow> 'w \<Rightarrow> ui_response \<times> 'w" where
  "handleDashboard marshal errText quote cfg provider w =
     (case provider w of
        (Inl err, w1) \<Rightarrow> (\<lparr>ux_Status = 500, ux_Body = UIText (errText err)\<rparr>, w1)
      | (Inr snap, w1) \<Rightarrow>
          (case marshal snap of
             Inl err \<Rightarrow> (\<lparr>ux_Status = 500, ux_Body = UIText (errText err)\<rparr>, w1)
           | Inr initialJSON \<Rightarrow>
               (\<lparr>ux_Status = 200, ux_Body = UIPage \<lparr>pg_Title = ''Alerting Dashboard'', pg_BasePathJS = quote (basePath cfg),
                  pg_InitialJSON = initialJSON, pg_RefreshMS = wrap64 (ui_RefreshSec cfg * 1000)\<rparr>\<rparr>, w1)))"

definition handleSnapshot ::
    "(error \<Rightarrow> string) \<Rightarrow> ('w \<Rightarrow> dashboard_snapshot result \<times> 'w) \<Rightarrow> 'w \<Rightarrow> ui_response \<times> 'w" where
  "handleSnapshot errText provider w =
     (case provider w of
        (Inl err, w1) \<Rightarrow> (\<lparr>ux_Status = 500, ux_Body = UIText (errText err)\<rparr>, w1)
      | (Inr snap, w1) \<Rightarrow> (\<lparr>ux_Status = 200, ux_Body = UIJSON snap\<rparr>, w1))"

definition wrapAuth :: "ui_config \<Rightarrow> (ui_request \<Rightarrow> 'w \<Rightarrow> ui_response \<times> 'w) \<Rightarrow> ui_request \<Rightarrow> 'w \<Rightarrow> ui_response \<times> 'w" where
  "wrapAuth cfg handler request w =
     (let basic = ui_Auth_Basic cfg in
      if \<not> ub_Enabled basic then handler request w
      else (case uq_BasicAuth request of
          None \<Rightarrow> (\<lparr>ux_Status = 401, ux_Body = UIText ''unauthorized''\<rparr>, w)
        | Some (username, password) \<Rightarrow>
            if username \<noteq> ub_Username basic \<or> password \<noteq> ub_Password basic
            then (\<lparr>ux_Status = 401, ux_Body = UIText ''unauthorized''\<rparr>, w)
            else handler request w))"

text \<open>One request: the route, the check of the credentials, the handler.\<close>

definition ui_ServeHTTP ::
    "'p mux_api \<Rightarrow> (dashboard_snapshot \<Rightarrow> string result) \<Rightarrow> (error \<Rightarrow> string) \<Rightarrow> (string \<Rightarrow> string) \<Rightarrow> ui_config
      \<Rightarrow> ('p, ui_handler) mux \<Rightarrow> ('w \<Rightarrow> dashboard_snapshot result \<times> 'w) \<Rightarrow> ui_request \<Rightarrow> 'w \<Rightarrow> ui_response \<times> 'w" where
  "ui_ServeHTTP mx marshal errText quote cfg mux provider request w =
     (case mux_handler mx mux (uq_Path request) of
        None \<Rightarrow> (\<lparr>ux_Status = 404, ux_Body = UIText ''404 page not found''\<rparr>, w)
      | Some UIDashboard \<Rightarrow> wrapAuth cfg (\<lambda>_. handleDashboard marshal errText quote cfg provider) request w
      | Some UISnapshot \<Rightarrow> wrapAuth cfg (\<lambda>_. handleSnapshot errText provider) request w
      | Some UIHealth \<Rightarrow> wrapAuth cfg (\<lambda>_ w. (\<lparr>ux_Status = 200, ux_Body = UIText ''ok''\<rparr>, w)) request w)"

section \<open>Access\<close>

text \<open>
  C38. The dashboard of a loaded configuration is closed to strangers: whatever the path, a request
  without the configured user and password learns nothing (it is told 401 or 404 and no snapshot
  is taken), and the configured user and password are not blank.
\<close>

theorem dashboard_needs_credentials:
  assumes "LoadSnapshot lenv env src = Inr cfg" "ui_Enabled (cf_UI cfg)"
  shows "\<not> blank (ub_Username (ui_Auth_Basic (cf_UI cfg))) \<and> \<not> blank (ub_Password (ui_Auth_Basic (cf_UI cfg))) \<and>
    (uq_BasicAuth request \<noteq> Some (ub_Username (ui_Auth_Basic (cf_UI cfg)), ub_Password (ui_Auth_Basic (cf_UI cfg))) \<longrightarrow>
      (\<exists>status text. ui_ServeHTTP mx marshal errText quote (cf_UI cfg) mux provider request w =
          (\<lparr>ux_Status = status, ux_Body = UIText text\<rparr>, w) \<and>
        (status, text) \<in> {(401, ''unauthorized''), (404, ''404 page not found'')}))"
proof -
  from LoadSnapshot_Inr [OF assms(1)] obtain raw where load: "validateConfig env (applyDefaults raw) = Inr cfg" by metis
  from validateConfig_Inr(9) [OF load] obtain rules where "cfg = (applyDefaults raw)\<lparr>cf_Rule := rules\<rparr>" by blast
  then have "first_error (ui_checks (cf_UI cfg)) = None" using validateConfig_Inr(6) [OF load] assms(2) by simp
  then have checks: "ub_Enabled (ui_Auth_Basic (cf_UI cfg))" "\<not> blank (ub_Username (ui_Auth_Basic (cf_UI cfg)))"
    "\<not> blank (ub_Password (ui_Auth_Basic (cf_UI cfg)))" by (simp_all add: ui_checks_def)
  have refused: "wrapAuth (cf_UI cfg) handler request w = (\<lparr>ux_Status = 401, ux_Body = UIText ''unauthorized''\<rparr>, w)"
    if "uq_BasicAuth request \<noteq> Some (ub_Username (ui_Auth_Basic (cf_UI cfg)), ub_Password (ui_Auth_Basic (cf_UI cfg)))"
    for handler
    using that checks(1) by (auto simp: wrapAuth_def Let_def split: option.split)
  show ?thesis using checks(2,3)
    by (auto simp: ui_ServeHTTP_def refused split: option.split ui_handler.split)
qed

text \<open>A loaded configuration with a dashboard, and a router whose patterns are exact paths.\<close>

definition ui_env :: "(notification \<Rightarrow> string result) config_env" where
  "ui_env = sample_cfg_env\<lparr>ce_url := (\<lambda>_. Inr \<lparr>pu_Scheme = ''http'', pu_Host = ''a'', pu_RawQuery = [], pu_Fragment = []\<rparr>)\<rparr>"

definition ui_lenv :: load_env where
  "ui_lenv = (sample_lenv [])\<lparr>le_decode := (\<lambda>_. Inr ((sample_raw [(''cpu'', sample_raw_rule)])
     \<lparr>rw_UI := zero_ui\<lparr>ui_Enabled := True, ui_Listen := '':9'', ui_BasePath := ''/ui'',
       ui_Auth_Basic := \<lparr>ub_Enabled = True, ub_Username = ''ops'', ub_Password = ''secret''\<rparr>,
       ui_Service_PublicBaseURL := ''http://a''\<rparr>\<rparr>)),
     le_hints := (\<lambda>_. Inr (no_hints\<lparr>ch_UI := \<lparr>uh_Enabled = \<lparr>bh_value = True, bh_present = True\<rparr>,
       uh_Basic_Enabled = \<lparr>bh_value = True, bh_present = True\<rparr>\<rparr>\<rparr>))\<rparr>"

definition exact_mux :: "string mux_api" where
  "exact_mux = \<lparr>mx_parse = (\<lambda>p. if CHR ''/'' \<in> set p then Inr p else Inl (ErrMsg ''missing /'')), mx_conflicts = (=),
     mx_match = (\<lambda>ps path. if path \<in> set ps then Some path else None)\<rparr>"

lemma ui_load_ok:
  "case LoadSnapshot ui_lenv ui_env sample_source of Inl _ \<Rightarrow> False
   | Inr cfg \<Rightarrow> ui_Enabled (cf_UI cfg) \<and> ub_Username (ui_Auth_Basic (cf_UI cfg)) = ''ops'' \<and>
      (case ui_Handler exact_mux (cf_UI cfg) of Inl _ \<Rightarrow> False | Inr mux \<Rightarrow> map fst mux =
        [''/ui'', ''/ui/'', ''/ui/api/dashboard'', ''/ui/healthz''])"
  by code_simp

theorem dashboard_needs_credentials_witness:
  "\<exists>cfg mux. LoadSnapshot ui_lenv ui_env sample_source = Inr cfg \<and> ui_Handler exact_mux (cf_UI cfg) = Inr mux \<and>
    (\<exists>status text. ui_ServeHTTP exact_mux (\<lambda>_. Inr []) (\<lambda>_. []) (\<lambda>q. q) (cf_UI cfg) mux (\<lambda>n. (Inl (ErrMsg ''store''), Suc n))
        \<lparr>uq_Path = ''/ui/api/dashboard'', uq_BasicAuth = Some (''guest'', ''guest'')\<rparr> (0 :: nat) =
      (\<lparr>ux_Status = status, ux_Body = UIText text\<rparr>, 0) \<and> status \<in> {401, 404})"
proof -
  obtain cfg where cfg: "LoadSnapshot ui_lenv ui_env sample_source = Inr cfg" "ui_Enabled (cf_UI cfg)"
    "ub_Username (ui_Auth_Basic (cf_UI cfg)) = ''ops''"
    using ui_load_ok by (auto split: sum.splits)
  obtain mux where "ui_Handler exact_mux (cf_UI cfg) = Inr mux" using ui_load_ok cfg(1) by (auto split: sum.splits)
  then show ?thesis
    using cfg dashboard_needs_credentials [OF cfg(1,2), of "\<lparr>uq_Path = ''/ui/api/dashboard'', uq_BasicAuth = Some (''guest'', ''guest'')\<rparr>"
        exact_mux "\<lambda>_. Inr []" "\<lambda>_. []" "\<lambda>q. q" mux "\<lambda>n. (Inl (ErrMsg ''store''), Suc n)" 0]
    by auto
qed

end
