(* ===== verification/Service.thy ===== *)
theory Service
  imports Transports Ingest Logging Ui_Server
begin

text \<open>
  The service of \<open>internal/app/service.go\<close>: construction from a configuration, the handlers it
  installs, reload, and shutdown.

  The state of the process has three independent parts: the log files, the connections, and what
  store, broker and peers hold (\<open>'w\<close>, the world of the manager). The libraries and the system
  are one record. The HTTP servers listen outside of the model: \<open>Close\<close> of a server that never
  served does nothing, \<open>Shutdown\<close> is an argument. Log messages are left out.
\<close>

section \<open>State\<close>

record ('f, 'r, 'w) process =
  ps_files :: 'f
  ps_net :: 'r
  ps_data :: 'w

datatype store_handle = MemoryStore | NATSStore conn

text \<open>
  \<open>se_send\<close> is the \<open>Send\<close> of a dispatcher as the manager calls it: \<open>dispatcher_Send\<close>
  where attempts are bounded, and free where it does not return.
\<close>

record ('p, 'f, 'r, 'b, 'w) service_env =
  se_cfg :: "template config_env"
  se_files :: "'f log_files"
  se_nats :: "'r nats_lib"
  se_httpShutdown :: "'r \<Rightarrow> error option \<times> 'r"
  se_uiShutdown :: "'r \<Rightarrow> error option \<times> 'r"
  se_mux :: "'p mux_api"
  se_json :: json_api
  se_http :: "'w http_api"
  se_bot :: "'w bot_api"
  se_send :: "'w dispatcher \<Rightarrow> 'w send_op"
  se_manager :: "store_handle \<Rightarrow> 'w env"
  se_queue :: "conn \<Rightarrow> ('b, 'w) queue_api"
  se_registry :: "conn \<Rightarrow> ('b, 'w) registry_api"
  se_hostname :: "string result"
  se_pid :: int64
  se_build :: "build_info option"

text \<open>The ingest handler keeps the body limit it was built with.\<close>

datatype svc_handler = HealthHandler | ReadyHandler | IngestHandler int64

record ('p, 'w) service =
  sv_source :: config_source
  sv_cfg :: config
  sv_logger :: logger
  sv_store :: store_handle
  sv_manager :: "'w manager"
  sv_httpSrv :: "('p, svc_handler) mux option"
  sv_uiSrv :: "('p, ui_handler) mux option"
  sv_natsSub :: "subscriber option"
  sv_deleteSub :: "consumer option"
  sv_notifyQ :: "consumer option"
  sv_notifyPub :: "conn option"
  sv_uiRegistry :: "registry_client option"
  sv_readyFlag :: bool
  sv_uiReloadWarned :: bool
  sv_instanceID :: string

definition isSingleMode :: "config \<Rightarrow> bool" where
  "isSingleMode cfg \<longleftrightarrow> NormalizeServiceMode (sc_Mode (cf_Service cfg)) = ServiceModeSingle"

definition buildInstanceID :: "string result \<Rightarrow> int64 \<Rightarrow> gtime \<Rightarrow> string" where
  "buildInstanceID hostname pid now =
     (let host = (case hostname of Inl _ \<Rightarrow> ''unknown'' | Inr h \<Rightarrow> if TrimSpace h = [] then ''unknown'' else h) in
      host @ '':'' @ FormatInt pid @ '':'' @ FormatInt (wrap64 ((now - unix_epoch) div 1000000000)))"

definition service_dispatcher :: "('p, 'f, 'r, 'b, 'w) service_env \<Rightarrow> config \<Rightarrow> 'w send_op" where
  "service_dispatcher env cfg =
     se_send env (NewDispatcher (ce_template (se_cfg env))
       (newSenderForChannel (ce_template (se_cfg env)) (se_bot env) (se_http env)) (cf_Notify cfg))"

definition service_producer :: "('p, 'f, 'r, 'b, 'w) service_env \<Rightarrow> conn option \<Rightarrow> 'w enqueue_op option" where
  "service_producer env producer = map_option (\<lambda>nc. producer_Enqueue (se_queue env nc)) producer"

section \<open>Construction\<close>

definition buildStore ::
    "('p, 'f, 'r, 'b, 'w) service_env \<Rightarrow> config \<Rightarrow> 'r \<Rightarrow> store_handle result \<times> 'r" where
  "buildStore env cfg r =
     (if isSingleMode cfg then (Inr MemoryStore, r)
      else (case NewNATSStore (se_nats env) (DeriveStateNATSConfig cfg) r of
          (Inl err, r1) \<Rightarrow> (Inl err, r1)
        | (Inr nc, r1) \<Rightarrow> (Inr (NATSStore nc), r1)))"

text \<open>The patterns of \<open>buildHTTPServer\<close> in the order of their registration.\<close>

definition http_routes :: "http_ingest \<Rightarrow> (string \<times> svc_handler) list" where
  "http_routes h =
     [(hi_HealthPath h, HealthHandler), (hi_ReadyPath h, ReadyHandler)] @
     (if hi_Enabled h then
        (let batchPath = TrimSuffix (hi_IngestPath h) ''/'' @ ''/batch'' in
         (hi_IngestPath h, IngestHandler (hi_MaxBodyBytes h)) #
         (if batchPath \<noteq> hi_IngestPath h then [(batchPath, IngestHandler (hi_MaxBodyBytes h))] else []))
      else [])"

text \<open>
  A step of the construction: the error, the service and the connections after it. A panic is an
  error here; it is not cleaned up after.
\<close>

type_synonym ('p, 'r, 'w) build_step = "('p, 'w) service \<Rightarrow> 'r \<Rightarrow> error option \<times> ('p, 'w) service \<times> 'r"

definition buildHTTPServer :: "('p, 'f, 'r, 'b, 'w) service_env \<Rightarrow> ('p, 'r, 'w) build_step" where
  "buildHTTPServer env s r =
     (case mux_Handle_all (se_mux env) (http_routes (ig_HTTP (cf_Ingest (sv_cfg s)))) [] of
        Inl err \<Rightarrow> (Some err, s, r)
      | Inr mux \<Rightarrow> (None, s\<lparr>sv_httpSrv := Some mux\<rparr>, r))"

definition buildUIRuntime :: "('p, 'f, 'r, 'b, 'w) service_env \<Rightarrow> ('p, 'r, 'w) build_step" where
  "buildUIRuntime env s r =
     (let cfg = sv_cfg s; registryEnabled = TrimSpace (ui_Service_PublicBaseURL (cf_UI cfg)) \<noteq> [] in
      if \<not> ui_Enabled (cf_UI cfg) \<and> \<not> registryEnabled then (None, s, r)
      else (case NewRegistryClient (se_nats env) (se_hostname env) (se_build env) (cf_UI cfg) (cf_Service cfg)
                   (sv_instanceID s) r of
          (Inl err, r1) \<Rightarrow> (Some err, s, r1)
        | (Inr registry, r1) \<Rightarrow>
            (let s1 = s\<lparr>sv_uiRegistry := Some registry\<rparr> in
             if \<not> ui_Enabled (cf_UI cfg) then (None, s1, r1)
             else (case ui_Handler (se_mux env) (cf_UI cfg) of
                 Inl err \<Rightarrow> (Some err, s1, r1)
               | Inr mux \<Rightarrow> (None, s1\<lparr>sv_uiSrv := Some mux\<rparr>, r1)))))"

definition buildNATSSubscriber :: "('p, 'f, 'r, 'b, 'w) service_env \<Rightarrow> ('p, 'r, 'w) build_step" where
  "buildNATSSubscriber env s r =
     (if isSingleMode (sv_cfg s) then (None, s, r)
      else if \<not> ni_Enabled (ig_NATS (cf_Ingest (sv_cfg s))) then (None, s, r)
      else (case NewNATSSubscriber (se_nats env) (ig_NATS (cf_Ingest (sv_cfg s))) r of
          (Inl err, r1) \<Rightarrow> (Some err, s, r1)
        | (Inr sub, r1) \<Rightarrow> (None, s\<lparr>sv_natsSub := Some sub\<rparr>, r1)))"

definition buildDeleteConsumer :: "('p, 'f, 'r, 'b, 'w) service_env \<Rightarrow> ('p, 'r, 'w) build_step" where
  "buildDeleteConsumer env s r =
     (if isSingleMode (sv_cfg s) then (None, s, r)
      else (case NewDeleteMarkerConsumer (se_nats env) (DeriveStateNATSConfig (sv_cfg s)) r of
          (Inl err, r1) \<Rightarrow> (Some err, s, r1)
        | (Inr c, r1) \<Rightarrow> (None, s\<lparr>sv_deleteSub := Some c\<rparr>, r1)))"

definition buildNotifyQueueRuntime ::
    "('p, 'f, 'r, 'b, 'w) service_env \<Rightarrow> config \<Rightarrow> 'r \<Rightarrow> (conn option \<times> consumer option) result \<times> 'r" where
  "buildNotifyQueueRuntime env cfg r =
     (if isSingleMode cfg then (Inr (None, None), r)
      else if \<not> nq_Enabled (nc_Queue (cf_Notify cfg)) then (Inr (None, None), r)
      else (case NewNATSProducer (se_nats env) (nc_Queue (cf_Notify cfg)) r of
          (Inl err, r1) \<Rightarrow> (Inl err, r1)
        | (Inr producer, r1) \<Rightarrow>
            (case NewNATSWorker (se_nats env) (nc_Queue (cf_Notify cfg)) r1 of
               (Inl err, r2) \<Rightarrow> (Inl err, snd (producer_Close (se_nats env) producer r2))
             | (Inr worker, r2) \<Rightarrow> (Inr (Some producer, Some worker), r2))))"

text \<open>\<open>swapNotifyRuntime\<close>: the previous pair comes back.\<close>

definition swapNotifyRuntime ::
    "conn option \<Rightarrow> consumer option \<Rightarrow> ('p, 'w) service \<Rightarrow> (conn option \<times> consumer option) \<times> ('p, 'w) service" where
  "swapNotifyRuntime producer worker s =
     ((sv_notifyPub s, sv_notifyQ s), s\<lparr>sv_notifyPub := producer, sv_notifyQ := worker\<rparr>)"

definition buildNotifyQueue :: "('p, 'f, 'r, 'b, 'w) service_env \<Rightarrow> ('p, 'r, 'w) build_step" where
  "buildNotifyQueue env s r =
     (case buildNotifyQueueRuntime env (sv_cfg s) r of
        (Inl err, r1) \<Rightarrow> (Some err, s, r1)
      | (Inr (producer, worker), r1) \<Rightarrow>
          (let s1 = snd (swapNotifyRuntime producer worker s) in
           (None, s1\<lparr>sv_manager := SetQueueProducer (service_producer env producer) (sv_manager s1)\<rparr>, r1)))"

fun run_steps :: "('p, 'r, 'w) build_step list \<Rightarrow> ('p, 'r, 'w) build_step" where
  "run_steps [] s r = (None, s, r)"
| "run_steps (step # steps) s r =
     (case step s r of
        (Some err, s1, r1) \<Rightarrow> (Some err, s1, r1)
      | (None, s1, r1) \<Rightarrow> run_steps steps s1 r1)"

section \<open>Closing\<close>

text \<open>A handle that may be nil.\<close>

definition close_opt :: "('a \<Rightarrow> 'r \<Rightarrow> error option \<times> 'r) \<Rightarrow> 'a option \<Rightarrow> 'r \<Rightarrow> error option \<times> 'r" where
  "close_opt close handle r = (case handle of None \<Rightarrow> (None, r) | Some x \<Rightarrow> close x r)"

definition store_Close :: "'r nats_lib \<Rightarrow> store_handle \<Rightarrow> 'r \<Rightarrow> error option \<times> 'r" where
  "store_Close lib h r = (case h of MemoryStore \<Rightarrow> (None, r) | NATSStore nc \<Rightarrow> (None, nl_Close lib nc r))"

definition cleanupInitResources ::
    "('p, 'f, 'r, 'b, 'w) service_env \<Rightarrow> ('p, 'w) service \<Rightarrow> 'f \<Rightarrow> 'r \<Rightarrow> 'f \<times> 'r" where
  "cleanupInitResources env s f r =
     (let lib = se_nats env;
          r1 = snd (close_opt (consumer_Close lib) (sv_deleteSub s) r);
          r2 = snd (close_opt (consumer_Close lib) (sv_notifyQ s) r1);
          r3 = snd (close_opt (producer_Close lib) (sv_notifyPub s) r2);
          r4 = snd (close_opt (subscriber_Close lib) (sv_natsSub s) r3);
          r5 = snd (store_Close lib (sv_store s) r4);
          r6 = snd (close_opt (registry_Close lib) (sv_uiRegistry s) r5)
      in (closeLog (se_files env) (sv_logger s) f, r6))"

fun is_panic :: "error \<Rightarrow> bool" where
  "is_panic (ErrPanic _) = True"
| "is_panic _ = False"

definition new_service ::
    "('p, 'f, 'r, 'b, 'w) service_env \<Rightarrow> config_source \<Rightarrow> config \<Rightarrow> logger \<Rightarrow> store_handle \<Rightarrow> gtime \<Rightarrow> ('p, 'w) service" where
  "new_service env source cfg logger store now =
     \<lparr>sv_source = source, sv_cfg = cfg, sv_logger = logger, sv_store = store,
      sv_manager = NewManager cfg (Some (service_dispatcher env cfg)),
      sv_httpSrv = None, sv_uiSrv = None, sv_natsSub = None, sv_deleteSub = None, sv_notifyQ = None, sv_notifyPub = None,
      sv_uiRegistry = None, sv_readyFlag = False, sv_uiReloadWarned = False,
      sv_instanceID = buildInstanceID (se_hostname env) (se_pid env) now\<rparr>"

definition service_steps :: "('p, 'f, 'r, 'b, 'w) service_env \<Rightarrow> ('p, 'r, 'w) build_step list" where
  "service_steps env =
     [buildHTTPServer env, buildUIRuntime env, buildNATSSubscriber env, buildDeleteConsumer env, buildNotifyQueue env]"

definition NewService ::
    "('p, 'f, 'r, 'b, 'w) service_env \<Rightarrow> load_env \<Rightarrow> config_source \<Rightarrow> gtime \<Rightarrow> ('f, 'r, 'w) process
      \<Rightarrow> ('p, 'w) service result \<times> ('f, 'r, 'w) process" where
  "NewService env lenv source now p =
     (case LoadSnapshot lenv (se_cfg env) source of
        Inl err \<Rightarrow> (Inl err, p)
      | Inr cfg \<Rightarrow>
     (case logging_New (se_files env) (cf_Log cfg) (ps_files p) of
        (Inl err, f1) \<Rightarrow> (Inl err, p\<lparr>ps_files := f1\<rparr>)
      | (Inr logger, f1) \<Rightarrow>
     (case buildStore env cfg (ps_net p) of
        (Inl err, r1) \<Rightarrow> (Inl err, p\<lparr>ps_files := closeLog (se_files env) logger f1, ps_net := r1\<rparr>)
      | (Inr store, r1) \<Rightarrow>
     (case run_steps (service_steps env) (new_service env source cfg logger store now) r1 of
        (None, s, r2) \<Rightarrow> (Inr s, p\<lparr>ps_files := f1, ps_net := r2\<rparr>)
      | (Some err, s, r2) \<Rightarrow>
          if is_panic err then (Inl err, p\<lparr>ps_files := f1, ps_net := r2\<rparr>)
          else (case cleanupInitResources env s f1 r2 of
              (f2, r3) \<Rightarrow> (Inl err, p\<lparr>ps_files := f2, ps_net := r3\<rparr>))))))"

section \<open>Reload\<close>

definition close_queue ::
    "('p, 'f, 'r, 'b, 'w) service_env \<Rightarrow> conn option \<times> consumer option \<Rightarrow> 'r \<Rightarrow> 'r" where
  "close_queue env = (\<lambda>(producer, worker) r.
     snd (close_opt (producer_Close (se_nats env)) producer
       (snd (close_opt (consumer_Close (se_nats env)) worker r))))"

text \<open>\<open>lenv\<close> is what the files of the configuration hold at the time of the reload.\<close>

definition reloadConfig ::
    "('p, 'f, 'r, 'b, 'w) service_env \<Rightarrow> load_env \<Rightarrow> ('p, 'w) service \<Rightarrow> ('f, 'r, 'w) process
      \<Rightarrow> error option \<times> ('p, 'w) service \<times> ('f, 'r, 'w) process" where
  "reloadConfig env lenv s p =
     (let current = sv_cfg s in
      case LoadSnapshot lenv (se_cfg env) (sv_source s) of
        Inl err \<Rightarrow> (Some err, s, p)
      | Inr next0 \<Rightarrow>
          if isSingleMode next0 \<noteq> isSingleMode current
          then (Some (ErrMsg ''service.mode change requires restart''), s, p)
          else
            (let changed = (cf_UI next0 \<noteq> cf_UI current);
                 nextCfg = (if changed then next0\<lparr>cf_UI := cf_UI current\<rparr> else next0);
                 s1 = s\<lparr>sv_uiReloadWarned := changed\<rparr> in
             case buildNotifyQueueRuntime env nextCfg (ps_net p) of
               (Inl err, r1) \<Rightarrow> (Some err, s1, p\<lparr>ps_net := r1\<rparr>)
             | (Inr pair, r1) \<Rightarrow>
                 (case ApplyConfig (se_manager env (sv_store s1)) nextCfg (sv_manager s1) (ps_data p) of
                    (Some err, m1, w1) \<Rightarrow>
                      (Some err, s1\<lparr>sv_manager := m1\<rparr>, p\<lparr>ps_net := close_queue env pair r1, ps_data := w1\<rparr>)
                  | (None, m1, w1) \<Rightarrow>
                      (case swapNotifyRuntime (fst pair) (snd pair) s1 of (prev, s2) \<Rightarrow>
                         (let m2 = SetQueueProducer (service_producer env (fst pair))
                                (SetDispatcher (Some (service_dispatcher env nextCfg)) m1) in
                          (None, s2\<lparr>sv_manager := m2, sv_cfg := nextCfg\<rparr>,
                           p\<lparr>ps_net := close_queue env prev r1, ps_data := w1\<rparr>))))))"

section \<open>Shutdown\<close>

text \<open>The steps of a shutdown, each with the text that wraps its error; the first error is kept.\<close>

fun close_steps :: "(string \<times> ('s \<Rightarrow> error option \<times> 's)) list \<Rightarrow> error option \<Rightarrow> 's \<Rightarrow> error option \<times> 's" where
  "close_steps [] firstErr st = (firstErr, st)"
| "close_steps ((what, step) # steps) firstErr st =
     (case step st of
        (None, st1) \<Rightarrow> close_steps steps firstErr st1
      | (Some err, st1) \<Rightarrow> close_steps steps (if firstErr = None then Some (ErrWrap what [] err) else firstErr) st1)"

definition on_net :: "('r \<Rightarrow> error option \<times> 'r) \<Rightarrow> ('f, 'r, 'w) process \<Rightarrow> error option \<times> ('f, 'r, 'w) process" where
  "on_net step p = (case step (ps_net p) of (err, r) \<Rightarrow> (err, p\<lparr>ps_net := r\<rparr>))"

definition on_data :: "('w \<Rightarrow> error option \<times> 'w) \<Rightarrow> ('f, 'r, 'w) process \<Rightarrow> error option \<times> ('f, 'r, 'w) process" where
  "on_data step p = (case step (ps_data p) of (err, w) \<Rightarrow> (err, p\<lparr>ps_data := w\<rparr>))"

definition shutdown_steps ::
    "('p, 'f, 'r, 'b, 'w) service_env \<Rightarrow> ('p, 'w) service \<Rightarrow> (string \<times> (('f, 'r, 'w) process \<Rightarrow> error option \<times> ('f, 'r, 'w) process)) list" where
  "shutdown_steps env s =
     (let lib = se_nats env in
      [(''http shutdown: %w'', on_net (se_httpShutdown env))] @
      (if sv_uiSrv s = None then []
       else [(''ui shutdown: %w'', on_net (se_uiShutdown env))]) @
      [(''nats subscriber close: %w'', on_net (close_opt (subscriber_Close lib) (sv_natsSub s))),
       (''delete-marker consumer close: %w'', on_net (close_opt (consumer_Close lib) (sv_deleteSub s))),
       (''notify queue worker close: %w'', on_net (close_opt (consumer_Close lib) (sv_notifyQ s))),
       (''notify queue producer close: %w'', on_net (close_opt (producer_Close lib) (sv_notifyPub s))),
       (''store close: %w'', on_net (store_Close lib (sv_store s)))] @
      (case sv_uiRegistry s of
         None \<Rightarrow> []
       | Some registry \<Rightarrow>
           [(''ui registry delete: %w'', on_data (registry_Delete (se_registry env (rg_nc registry)) registry)),
            (''ui registry close: %w'', on_net (registry_Close lib registry))]))"

definition service_shutdown ::
    "('p, 'f, 'r, 'b, 'w) service_env \<Rightarrow> ('p, 'w) service \<Rightarrow> ('f, 'r, 'w) process \<Rightarrow> error option \<times> ('f, 'r, 'w) process" where
  "service_shutdown env s p =
     (case close_steps (shutdown_steps env s) None p of
        (firstErr, p1) \<Rightarrow> (firstErr, p1\<lparr>ps_files := closeLog (se_files env) (sv_logger s) (ps_files p1)\<rparr>))"

section \<open>Requests and events\<close>

text \<open>One request to the HTTP server: status, text and the state of the manager.\<close>

definition service_ServeHTTP ::
    "('p, 'f, 'r, 'b, 'w) service_env \<Rightarrow> ('p, 'w) service \<Rightarrow> http_request \<Rightarrow> 'w manager \<times> 'w
      \<Rightarrow> (nat \<times> string) \<times> 'w manager \<times> 'w" where
  "service_ServeHTTP env s request st =
     (case sv_httpSrv s of
        None \<Rightarrow> ((404, ''404 page not found''), st)
      | Some mux \<Rightarrow>
          (case mux_handler (se_mux env) mux (hr_Path request) of
             None \<Rightarrow> ((404, ''404 page not found''), st)
           | Some HealthHandler \<Rightarrow> ((200, ''ok''), st)
           | Some ReadyHandler \<Rightarrow> (if sv_readyFlag s then (200, ''ready'') else (503, ''not-ready''), st)
           | Some (IngestHandler maxBody) \<Rightarrow>
               (case ServeHTTP (se_json env) (NewHTTPHandler (manager_sink (se_manager env (sv_store s))) maxBody) request st of
                  (status, st1) \<Rightarrow> ((status, []), st1))))"

text \<open>The dashboard sees the store, the current configuration and the runtime states of the manager.\<close>

definition service_snapshot ::
    "('p, 'f, 'r, 'b, 'w) service_env \<Rightarrow> (string \<Rightarrow> string result) \<Rightarrow> registry_client \<Rightarrow> ('p, 'w) service
      \<Rightarrow> 'w \<Rightarrow> dashboard_snapshot result \<times> 'w" where
  "service_snapshot env hostname registry s =
     (let menv = se_manager env (sv_store s) in
      dashboard_Snapshot (se_http env) hostname
        (NewDashboard (en_store menv) (sv_cfg s) (Some (registry_List (se_registry env (rg_nc registry))))
           (Some (manager_GetStateSnapshot (sv_manager s))) (en_Now menv)) (sv_cfg s))"

text \<open>
  What happens to a running service: a tick, a reload (with what the files hold by then), a
  publication of the registry record, a request, a message of the event stream (with the buffer
  the pool gives), a queued job, a delete marker. Errors are logged and acknowledged where they
  occur, only a failed publication ends the run, and the ticker of the publisher panics when its
  interval is not positive. \<open>cfg\<close> is the configuration at the start of the run, which decides on
  reloads, gives the paths that are published and the settings of the subscriber.
\<close>

datatype svc_event =
    OnTick
  | OnReload load_env
  | OnPublish
  | OnHTTP http_request
  | OnMessage string scratch
  | OnJob job
  | OnExpired string string

definition with_manager ::
    "('w manager \<Rightarrow> 'w \<Rightarrow> 'w manager \<times> 'w) \<Rightarrow> ('p, 'w) service \<Rightarrow> ('f, 'r, 'w) process \<Rightarrow> ('p, 'w) service \<times> ('f, 'r, 'w) process" where
  "with_manager f s p = (case f (sv_manager s) (ps_data p) of (m, w) \<Rightarrow> (s\<lparr>sv_manager := m\<rparr>, p\<lparr>ps_data := w\<rparr>))"

fun service_event ::
    "('p, 'f, 'r, 'b, 'w) service_env \<Rightarrow> config \<Rightarrow> svc_event \<Rightarrow> ('p, 'w) service \<Rightarrow> ('f, 'r, 'w) process
      \<Rightarrow> error option \<times> ('p, 'w) service \<times> ('f, 'r, 'w) process" where
  "service_event env cfg OnTick s p =
     (None, with_manager (\<lambda>m w. snd (manager_Tick (se_manager env (sv_store s)) m w)) s p)"
| "service_event env cfg (OnReload lenv) s p =
     (None, if sc_ReloadEnabled (cf_Service cfg) then snd (reloadConfig env lenv s p) else (s, p))"
| "service_event env cfg OnPublish s p =
     (case sv_uiRegistry s of
        None \<Rightarrow> (None, s, p)
      | Some registry \<Rightarrow>
          (let http = ig_HTTP (cf_Ingest cfg) in
           case on_data (\<lambda>w. case en_Now (se_manager env (sv_store s)) w of (now, w1) \<Rightarrow>
               registry_Publish (se_registry env (rg_nc registry)) registry now (hi_HealthPath http) (hi_ReadyPath http) w1) p of
             (None, p1) \<Rightarrow> (NewTicker (registryRefreshInterval (rg_cfg registry)), s, p1)
           | (Some err, p1) \<Rightarrow> (Some (ErrWrap ''ui registry publisher failed: %w'' [] err), s, p1)))"
| "service_event env cfg (OnHTTP request) s p =
     (None, with_manager (\<lambda>m w. snd (service_ServeHTTP env s request (m, w))) s p)"
| "service_event env cfg (OnMessage payload scratch) s p =
     (None, with_manager (\<lambda>m w. snd (snd (nats_ingest_handle (se_json env) (ig_NATS (cf_Ingest cfg))
       (manager_sink (se_manager env (sv_store s))) payload scratch (m, w)))) s p)"
| "service_event env cfg (OnJob j) s p =
     (None, with_manager (\<lambda>m w. snd (ProcessQueuedNotification (se_manager env (sv_store s)) j m w)) s p)"
| "service_event env cfg (OnExpired alertID reason) s p =
     (None, with_manager (\<lambda>m w. snd (ResolveByTTL (se_manager env (sv_store s)) alertID reason m w)) s p)"

fun service_events ::
    "('p, 'f, 'r, 'b, 'w) service_env \<Rightarrow> config \<Rightarrow> svc_event list \<Rightarrow> ('p, 'w) service \<Rightarrow> ('f, 'r, 'w) process
      \<Rightarrow> error option \<times> ('p, 'w) service \<times> ('f, 'r, 'w) process" where
  "service_events env cfg [] s p = (None, s, p)"
| "service_events env cfg (e # es) s p =
     (case service_event env cfg e s p of
        (Some err, s1, p1) \<Rightarrow> (Some err, s1, p1)
      | (None, s1, p1) \<Rightarrow> service_events env cfg es s1 p1)"

text \<open>
  \<open>Run\<close>: the two tickers, ready, the events until a signal or the end of the context
  (\<open>None\<close>), until the publisher fails or until a server fails with \<open>failure\<close>, then the
  shutdown. The intervals are seconds times \<open>time.Second\<close> in 64 bits, and a ticker panics when
  the product is not positive; a panic ends the process with nothing shut down.
\<close>

definition run_tickers :: "service_config \<Rightarrow> error option" where
  "run_tickers service =
     (case NewTicker (seconds (sc_ResolveScanInterval service)) of
        Some panic \<Rightarrow> Some panic
      | None \<Rightarrow> if sc_ReloadEnabled service then NewTicker (seconds (sc_ReloadIntervalSec service)) else None)"

definition service_Run ::
    "('p, 'f, 'r, 'b, 'w) service_env \<Rightarrow> svc_event list \<Rightarrow> error option \<Rightarrow> ('p, 'w) service \<Rightarrow> ('f, 'r, 'w) process
      \<Rightarrow> error option \<times> ('f, 'r, 'w) process" where
  "service_Run env events failure s p =
     (case run_tickers (cf_Service (sv_cfg s)) of
        Some panic \<Rightarrow> (Some panic, p)
      | None \<Rightarrow>
          (case service_events env (sv_cfg s) events (s\<lparr>sv_readyFlag := True\<rparr>) p of
             (stopped, s1, p1) \<Rightarrow>
               if (case stopped of None \<Rightarrow> False | Some e \<Rightarrow> is_panic e) then (stopped, p1)
               else
                 (case service_shutdown env (s1\<lparr>sv_readyFlag := False\<rparr>) p1 of
                    (err, p2) \<Rightarrow>
                      (case (if stopped = None then failure else stopped) of
                         None \<Rightarrow> (err, p2)
                       | Some e \<Rightarrow> (Some (ErrWrap ''http server failed: %w'' [] e), p2)))))"

end
