(* ===== verification/Service_Facts.thy ===== *)
theory Service_Facts
  imports Service Ingest_Properties
begin

text \<open>
  What a service holds: its log files and its connections. Every step of the construction keeps
  what it opens in the service, closing gives all of it back, and of the events only a reload
  opens or closes anything.
\<close>

section \<open>Log files\<close>

definition file_laws :: "'f log_files \<Rightarrow> ('f \<Rightarrow> nat set) \<Rightarrow> bool" where
  "file_laws lf open_files \<longleftrightarrow>
     (\<forall>path f. case lf_Open lf path f of
        (Inr h, f') \<Rightarrow> h \<notin> open_files f \<and> open_files f' = insert h (open_files f)
      | (Inl _, f') \<Rightarrow> open_files f' = open_files f) \<and>
     (\<forall>h f. open_files (lf_Close lf h f) = open_files f - {h})"

lemma file_laws_Open:
  assumes "file_laws lf open_files"
  shows "lf_Open lf path f = (Inl e, f') \<Longrightarrow> open_files f' = open_files f"
    and "lf_Open lf path f = (Inr h, f') \<Longrightarrow> h \<notin> open_files f \<and> open_files f' = insert h (open_files f)"
proof -
  have "case lf_Open lf path f of
        (Inr h, f') \<Rightarrow> h \<notin> open_files f \<and> open_files f' = insert h (open_files f)
      | (Inl _, f') \<Rightarrow> open_files f' = open_files f"
    using assms unfolding file_laws_def by (elim conjE allE)
  then show "lf_Open lf path f = (Inl e, f') \<Longrightarrow> open_files f' = open_files f"
    "lf_Open lf path f = (Inr h, f') \<Longrightarrow> h \<notin> open_files f \<and> open_files f' = insert h (open_files f)" by simp_all
qed

lemma file_laws_Close: "file_laws lf open_files \<Longrightarrow> open_files (lf_Close lf h f) = open_files f - {h}"
  unfolding file_laws_def by (elim conjE allE)

lemma closeLog_opens: "file_laws lf open_files \<Longrightarrow> open_files (closeLog lf l f) = open_files f - set (lg_closers l)"
proof -
  assume laws: "file_laws lf open_files"
  have "open_files (fold (lf_Close lf) hs f) = open_files f - set hs" for hs
    by (induction hs arbitrary: f) (auto simp: file_laws_Close [OF laws])
  then show ?thesis by (simp add: closeLog_def)
qed

lemma buildFileHandler_opens:
  assumes "file_laws lf open_files" "buildFileHandler lf cfg f = (res, f')"
  shows "case res of Inl _ \<Rightarrow> open_files f' = open_files f
    | Inr (_, h) \<Rightarrow> h \<notin> open_files f \<and> open_files f' = insert h (open_files f)"
proof -
  obtain handle f1 where open_run: "lf_Open lf (ls_Path cfg) f = (handle, f1)" by force
  show ?thesis using assms(2) file_laws_Open [OF assms(1)] open_run
    by (cases handle) (auto simp: buildFileHandler_def file_laws_Close [OF assms(1)] split: sum.splits if_splits)
qed

lemma logging_New_opens:
  assumes "file_laws lf open_files" "logging_New lf cfg f = (res, f')"
  shows "case res of Inl _ \<Rightarrow> open_files f' = open_files f
    | Inr l \<Rightarrow> open_files f \<inter> set (lg_closers l) = {} \<and> open_files f' = open_files f \<union> set (lg_closers l)"
proof -
  obtain console where console: "(if ls_Enabled (lc_Console cfg)
      then (case buildConsoleHandler (lc_Console cfg) of
              Inl err \<Rightarrow> Inl (ErrWrap ''build console handler: %w'' [] err) | Inr h \<Rightarrow> Inr [h])
      else Inr []) = console" by blast
  obtain handle f1 where open_run: "buildFileHandler lf (lc_File cfg) f = (handle, f1)" by force
  note run = assms(2) [unfolded logging_New_def console open_run]
  note opens = buildFileHandler_opens [OF assms(1) open_run]
  show ?thesis
  proof (cases console)
    case (Inr c)
    then show ?thesis using run opens
      by (cases "ls_Enabled (lc_File cfg)"; cases handle; cases "c = []") auto
  qed (use run in auto)
qed

section \<open>Connections of a service\<close>

definition opt_conns :: "('a \<Rightarrow> conn list) \<Rightarrow> 'a option \<Rightarrow> conn list" where
  "opt_conns f handle = (case handle of None \<Rightarrow> [] | Some x \<Rightarrow> f x)"

lemma opt_conns_simps [simp]: "opt_conns f None = []" "opt_conns f (Some x) = f x"
  by (simp_all add: opt_conns_def)

definition store_conns :: "store_handle \<Rightarrow> conn list" where
  "store_conns h = (case h of MemoryStore \<Rightarrow> [] | NATSStore nc \<Rightarrow> [nc])"

definition queue_conns :: "conn option \<times> consumer option \<Rightarrow> conn list" where
  "queue_conns = (\<lambda>(producer, worker). opt_conns (\<lambda>nc. [nc]) producer @ opt_conns (\<lambda>c. [fst c]) worker)"

definition rest_conns :: "('p, 'w) service \<Rightarrow> conn list" where
  "rest_conns s = store_conns (sv_store s) @ opt_conns sr_conns (sv_natsSub s) @
     opt_conns (\<lambda>c. [fst c]) (sv_deleteSub s) @ opt_conns (\<lambda>c. [rg_nc c]) (sv_uiRegistry s)"

definition service_conns :: "('p, 'w) service \<Rightarrow> conn list" where
  "service_conns s = rest_conns s @ queue_conns (sv_notifyPub s, sv_notifyQ s)"

text \<open>A service owns its connections: each once, and beside them only those open before it.\<close>

definition owns :: "('r \<Rightarrow> conn set) \<Rightarrow> conn set \<Rightarrow> conn list \<Rightarrow> 'r \<Rightarrow> bool" where
  "owns live base conns r \<longleftrightarrow> distinct conns \<and> base \<inter> set conns = {} \<and> live r = base \<union> set conns"

lemma owns_mset: "owns live base conns r \<Longrightarrow> mset conns = mset conns' \<Longrightarrow> owns live base conns' r"
  unfolding owns_def using mset_eq_imp_distinct_iff mset_eq_setD by metis

lemma owns_acquire:
  assumes "owns live base conns r" "acquires live r held (Inr x, r')"
  shows "owns live base (conns @ held x) r'"
  using assms by (auto simp: owns_def)

lemma owns_failed: "owns live base conns r \<Longrightarrow> acquires live r held (Inl e, r') \<Longrightarrow> owns live base conns r'"
  by (simp add: owns_def)

lemma buildStore_acquires:
  assumes "nats_laws (se_nats env) live"
  shows "acquires live r store_conns (buildStore env cfg r)"
  using NewNATSStore_acquires [OF assms, of r "DeriveStateNATSConfig cfg"]
  by (auto simp: buildStore_def store_conns_def split: prod.splits sum.splits)

lemma buildNotifyQueueRuntime_acquires:
  assumes "nats_laws (se_nats env) live"
  shows "acquires live r queue_conns (buildNotifyQueueRuntime env cfg r)"
proof -
  let ?cfg = "nc_Queue (cf_Notify cfg)"
  obtain a r1 where producer: "NewNATSProducer (se_nats env) ?cfg r = (a, r1)" by force
  obtain b r2 where worker: "NewNATSWorker (se_nats env) ?cfg r1 = (b, r2)" by force
  note got = NewNATSProducer_acquires [OF assms, of r ?cfg] NewNATSWorker_acquires [OF assms, of r1 ?cfg]
  show ?thesis
  proof (cases "isSingleMode cfg \<or> \<not> nq_Enabled ?cfg")
    case True
    then show ?thesis by (auto simp: buildNotifyQueueRuntime_def queue_conns_def)
  next
    case False
    then show ?thesis using got
      by (cases a; cases b) (auto simp: buildNotifyQueueRuntime_def producer worker queue_conns_def producer_Close_def
          nats_Close_live [OF assms])
  qed
qed

text \<open>
  Before the step of index \<open>i\<close> the handles of that step and of the later ones are empty.
\<close>

definition unbuilt :: "nat \<Rightarrow> ('p, 'w) service \<Rightarrow> bool" where
  "unbuilt i s \<longleftrightarrow> (i \<le> 1 \<longrightarrow> sv_uiRegistry s = None) \<and> (i \<le> 2 \<longrightarrow> sv_natsSub s = None) \<and>
     (i \<le> 3 \<longrightarrow> sv_deleteSub s = None) \<and> (i \<le> 4 \<longrightarrow> sv_notifyPub s = None \<and> sv_notifyQ s = None)"

definition builds :: "('r \<Rightarrow> conn set) \<Rightarrow> conn set \<Rightarrow> nat \<Rightarrow> ('p, 'r, 'w) build_step \<Rightarrow> bool" where
  "builds live base i step \<longleftrightarrow>
     (\<forall>s r. unbuilt i s \<longrightarrow> owns live base (service_conns s) r \<longrightarrow>
        (case step s r of (e, s', r') \<Rightarrow>
           owns live base (service_conns s') r' \<and> sv_logger s' = sv_logger s \<and> (e = None \<longrightarrow> unbuilt (Suc i) s')))"

text \<open>A step that calls one constructor and keeps what it returns in one empty field.\<close>

lemma owns_new_handle:
  assumes "owns live base (service_conns s) r" "acquires live r held (Inr x, r')"
    "mset (service_conns s') = mset (service_conns s) + mset (held x)"
  shows "owns live base (service_conns s') r'"
  using owns_mset [OF owns_acquire [OF assms(1,2)]] assms(3) by simp

lemmas conns_defs = service_conns_def rest_conns_def queue_conns_def

lemma buildHTTPServer_builds: "builds live base 0 (buildHTTPServer env)"
  by (simp add: builds_def buildHTTPServer_def unbuilt_def conns_defs split: sum.splits)

lemma buildUIRuntime_builds:
  assumes "nats_laws (se_nats env) live"
  shows "builds live base 1 (buildUIRuntime env)"
  unfolding builds_def
proof (intro allI impI)
  fix s :: "('b, 'e) service" and r
  assume s: "unbuilt 1 s" "owns live base (service_conns s) r"
  obtain c r1 where new: "NewRegistryClient (se_nats env) (se_hostname env) (se_build env) (cf_UI (sv_cfg s))
      (cf_Service (sv_cfg s)) (sv_instanceID s) r = (c, r1)" by force
  note got = NewRegistryClient_acquires [OF assms, of r "se_hostname env" "se_build env" "cf_UI (sv_cfg s)"
      "cf_Service (sv_cfg s)" "sv_instanceID s", unfolded new]
  have kept: "owns live base (service_conns (s\<lparr>sv_uiRegistry := Some x\<rparr>)) r1 \<and>
      owns live base (service_conns (s\<lparr>sv_uiRegistry := Some x, sv_uiSrv := u\<rparr>)) r1" if "c = Inr x" for x u
    by (intro conjI; rule owns_new_handle [OF s(2) got [unfolded that]])
      (use s(1) in \<open>simp_all add: unbuilt_def conns_defs\<close>)
  show "case buildUIRuntime env s r of (e, s', r') \<Rightarrow>
      owns live base (service_conns s') r' \<and> sv_logger s' = sv_logger s \<and> (e = None \<longrightarrow> unbuilt (Suc 1) s')"
    using s kept owns_failed [OF s(2)] got
    by (cases c) (auto simp: buildUIRuntime_def Let_def new unbuilt_def split: sum.splits)
qed

lemma buildNATSSubscriber_builds:
  assumes "nats_laws (se_nats env) live"
  shows "builds live base 2 (buildNATSSubscriber env)"
  unfolding builds_def
proof (intro allI impI)
  fix s :: "('b, 'e) service" and r
  assume s: "unbuilt 2 s" "owns live base (service_conns s) r"
  obtain c r1 where new: "NewNATSSubscriber (se_nats env) (ig_NATS (cf_Ingest (sv_cfg s))) r = (c, r1)" by force
  note got = NewNATSSubscriber_acquires [OF assms, of r "ig_NATS (cf_Ingest (sv_cfg s))", unfolded new]
  have kept: "owns live base (service_conns (s\<lparr>sv_natsSub := Some x\<rparr>)) r1" if "c = Inr x" for x
    by (rule owns_new_handle [OF s(2) got [unfolded that]]) (use s(1) in \<open>simp add: unbuilt_def conns_defs\<close>)
  show "case buildNATSSubscriber env s r of (e, s', r') \<Rightarrow>
      owns live base (service_conns s') r' \<and> sv_logger s' = sv_logger s \<and> (e = None \<longrightarrow> unbuilt (Suc 2) s')"
    using s kept owns_failed [OF s(2)] got
    by (cases c) (auto simp: buildNATSSubscriber_def new unbuilt_def)
qed

lemma buildDeleteConsumer_builds:
  assumes "nats_laws (se_nats env) live"
  shows "builds live base 3 (buildDeleteConsumer env)"
  unfolding builds_def
proof (intro allI impI)
  fix s :: "('b, 'e) service" and r
  assume s: "unbuilt 3 s" "owns live base (service_conns s) r"
  obtain c r1 where new: "NewDeleteMarkerConsumer (se_nats env) (DeriveStateNATSConfig (sv_cfg s)) r = (c, r1)" by force
  note got = NewDeleteMarkerConsumer_acquires [OF assms, of r "DeriveStateNATSConfig (sv_cfg s)", unfolded new]
  have kept: "owns live base (service_conns (s\<lparr>sv_deleteSub := Some x\<rparr>)) r1" if "c = Inr x" for x
    by (rule owns_new_handle [OF s(2) got [unfolded that]]) (use s(1) in \<open>simp add: unbuilt_def conns_defs\<close>)
  show "case buildDeleteConsumer env s r of (e, s', r') \<Rightarrow>
      owns live base (service_conns s') r' \<and> sv_logger s' = sv_logger s \<and> (e = None \<longrightarrow> unbuilt (Suc 3) s')"
    using s kept owns_failed [OF s(2)] got
    by (cases c) (auto simp: buildDeleteConsumer_def new unbuilt_def)
qed

lemma buildNotifyQueue_builds:
  assumes "nats_laws (se_nats env) live"
  shows "builds live base 4 (buildNotifyQueue env)"
  unfolding builds_def
proof (intro allI impI)
  fix s :: "('b, 'e) service" and r
  assume s: "unbuilt 4 s" "owns live base (service_conns s) r"
  obtain c r1 where new: "buildNotifyQueueRuntime env (sv_cfg s) r = (c, r1)" by force
  note got = buildNotifyQueueRuntime_acquires [OF assms, of r "sv_cfg s", unfolded new]
  have kept: "owns live base (service_conns (s\<lparr>sv_notifyPub := fst x, sv_notifyQ := snd x, sv_manager := m\<rparr>)) r1"
    if "c = Inr x" for x m
    by (rule owns_new_handle [OF s(2) got [unfolded that]])
      (use s(1) in \<open>cases x; simp add: unbuilt_def conns_defs\<close>)
  show "case buildNotifyQueue env s r of (e, s', r') \<Rightarrow>
      owns live base (service_conns s') r' \<and> sv_logger s' = sv_logger s \<and> (e = None \<longrightarrow> unbuilt (Suc 4) s')"
    using s kept owns_failed [OF s(2)] got
    by (cases c) (auto simp: buildNotifyQueue_def new unbuilt_def swapNotifyRuntime_def split: prod.splits)
qed

lemma run_steps_builds:
  assumes "\<forall>k < length steps. builds live base (i + k) (steps ! k)" "unbuilt i s" "owns live base (service_conns s) r"
    "run_steps steps s r = (e, s', r')"
  shows "owns live base (service_conns s') r' \<and> sv_logger s' = sv_logger s"
  using assms
proof (induction steps arbitrary: i s r)
  case (Cons step steps)
  obtain e1 s1 r1 where first: "step s r = (e1, s1, r1)" by (metis prod_cases3)
  have "builds live base i step" using Cons.prems(1) by force
  then have one: "owns live base (service_conns s1) r1" "sv_logger s1 = sv_logger s" "e1 = None \<longrightarrow> unbuilt (Suc i) s1"
    using Cons.prems(2,3) first unfolding builds_def by fastforce+
  show ?case
  proof (cases e1)
    case None
    have "\<forall>k < length steps. builds live base (Suc i + k) (steps ! k)" using Cons.prems(1) by fastforce
    then show ?thesis using Cons.IH [of "Suc i", OF _ _ one(1)] one None Cons.prems(4) by (simp add: first)
  qed (use one Cons.prems(4) first in simp)
qed simp

lemma all_less_5: "(\<forall>k < 5. P (k::nat)) \<longleftrightarrow> P 0 \<and> P 1 \<and> P 2 \<and> P 3 \<and> P 4"
  by (auto simp: less_Suc_eq numeral_eq_Suc)

lemma service_steps_build:
  assumes "nats_laws (se_nats env) live" "unbuilt 0 s" "owns live base (service_conns s) r"
    "run_steps (service_steps env) s r = (e, s', r')"
  shows "owns live base (service_conns s') r' \<and> sv_logger s' = sv_logger s"
proof -
  have "length (service_steps env) = 5" by (simp add: service_steps_def)
  moreover have "\<forall>k < 5. builds live base (0 + k) (service_steps env ! k)"
    unfolding all_less_5 service_steps_def
    using buildHTTPServer_builds buildUIRuntime_builds [OF assms(1)] buildNATSSubscriber_builds [OF assms(1)]
      buildDeleteConsumer_builds [OF assms(1)] buildNotifyQueue_builds [OF assms(1)]
    by (simp add: numeral_eq_Suc)
  ultimately show ?thesis using run_steps_builds [of "service_steps env" live base 0 s r] assms(2-4) by simp
qed

section \<open>Closing\<close>

lemma close_opt_live:
  assumes "\<And>x r. live (snd (close x r)) = live r - set (held x)"
  shows "live (snd (close_opt close handle r)) = live r - set (opt_conns held handle)"
  using assms by (cases handle) (simp_all add: close_opt_def)

lemma close_live:
  assumes "nats_laws lib live"
  shows "live (snd (close_opt (consumer_Close lib) c r)) = live r - set (opt_conns (\<lambda>c. [fst c]) c)"
    and "live (snd (close_opt (producer_Close lib) q r)) = live r - set (opt_conns (\<lambda>nc. [nc]) q)"
    and "live (snd (close_opt (subscriber_Close lib) b r)) = live r - set (opt_conns sr_conns b)"
    and "live (snd (close_opt (registry_Close lib) g r)) = live r - set (opt_conns (\<lambda>c. [rg_nc c]) g)"
    and "live (snd (store_Close lib h r)) = live r - set (store_conns h)"
  by (rule close_opt_live, simp add: consumer_Close_live [OF assms] subscriber_Close_live [OF assms]
      producer_Close_def registry_Close_def nats_Close_live [OF assms])+
    (simp add: store_Close_def store_conns_def nats_Close_live [OF assms] split: store_handle.split)

lemma close_queue_live:
  "nats_laws (se_nats env) live \<Longrightarrow> live (close_queue env pair r) = live r - set (queue_conns pair)"
  by (cases pair) (auto simp: close_queue_def queue_conns_def close_live)

lemma service_conns_set:
  "set (service_conns s) = set (store_conns (sv_store s)) \<union> set (opt_conns sr_conns (sv_natsSub s)) \<union>
     set (opt_conns (\<lambda>c. [fst c]) (sv_deleteSub s)) \<union> set (opt_conns (\<lambda>c. [rg_nc c]) (sv_uiRegistry s)) \<union>
     set (opt_conns (\<lambda>nc. [nc]) (sv_notifyPub s)) \<union> set (opt_conns (\<lambda>c. [fst c]) (sv_notifyQ s))"
  by (auto simp: conns_defs)

lemma owns_closed: "owns live base conns r \<Longrightarrow> live r' = live r - set conns \<Longrightarrow> live r' = base"
  by (auto simp: owns_def)

lemma owns_close_part:
  "owns live base (conns @ cs) r \<Longrightarrow> live r' = live r - set cs \<Longrightarrow> owns live base conns r'"
  by (auto simp: owns_def)

lemma cleanupInitResources_closes:
  assumes "nats_laws (se_nats env) live" "file_laws (se_files env) open_files"
    "cleanupInitResources env s f r = (f', r')"
  shows "live r' = live r - set (service_conns s)" "open_files f' = open_files f - set (lg_closers (sv_logger s))"
proof -
  note ended = assms(3) [unfolded cleanupInitResources_def Let_def, THEN arg_cong [of _ _ fst]]
    assms(3) [unfolded cleanupInitResources_def Let_def, THEN arg_cong [of _ _ snd]]
  show "live r' = live r - set (service_conns s)"
    using ended(2) by (auto simp: close_live [OF assms(1)] service_conns_set)
  show "open_files f' = open_files f - set (lg_closers (sv_logger s))"
    using ended(1) closeLog_opens [OF assms(2)] by auto
qed

text \<open>A step of the shutdown closes the given connections and leaves the files alone.\<close>

definition closes :: "('r \<Rightarrow> conn set) \<Rightarrow> (('f, 'r, 'w) process \<Rightarrow> error option \<times> ('f, 'r, 'w) process) \<Rightarrow> conn set \<Rightarrow> bool" where
  "closes live step cs \<longleftrightarrow>
     (\<forall>p. live (ps_net (snd (step p))) = live (ps_net p) - cs \<and> ps_files (snd (step p)) = ps_files p)"

lemma closes_on_net: "(\<And>r. live (snd (step r)) = live r - cs) \<Longrightarrow> closes live (on_net step) cs"
  by (simp add: closes_def on_net_def split: prod.splits) (metis snd_conv)

lemma closes_on_data: "closes live (on_data step) {}"
  by (simp add: closes_def on_data_def split: prod.splits)

lemma close_steps_live:
  assumes "list_all2 (\<lambda>entry cs. closes live (snd entry) cs) steps css"
  shows "live (ps_net (snd (close_steps steps e p))) = live (ps_net p) - \<Union>(set css) \<and>
    ps_files (snd (close_steps steps e p)) = ps_files p"
  using assms
proof (induction steps css arbitrary: e p rule: list_all2_induct)
  case (Cons entry steps cs css)
  obtain what step where entry: "entry = (what, step)" by force
  obtain e1 p1 where run: "step p = (e1, p1)" by force
  have "live (ps_net p1) = live (ps_net p) - cs" "ps_files p1 = ps_files p"
    using Cons.hyps(1) run unfolding entry closes_def by (metis snd_conv)+
  then show ?case using Cons.IH by (cases e1) (auto simp: entry run)
qed simp

lemma service_shutdown_closes:
  assumes "nats_laws (se_nats env) live" "file_laws (se_files env) open_files"
    "\<And>r. live (snd (se_httpShutdown env r)) = live r" "\<And>r. live (snd (se_uiShutdown env r)) = live r"
    "service_shutdown env s p = (e, p')"
  shows "live (ps_net p') = live (ps_net p) - set (service_conns s)"
    and "open_files (ps_files p') = open_files (ps_files p) - set (lg_closers (sv_logger s))"
proof -
  let ?css = "[{}] @ (if sv_uiSrv s = None then [] else [{}]) @
    [set (opt_conns sr_conns (sv_natsSub s)), set (opt_conns (\<lambda>c. [fst c]) (sv_deleteSub s)),
     set (opt_conns (\<lambda>c. [fst c]) (sv_notifyQ s)), set (opt_conns (\<lambda>nc. [nc]) (sv_notifyPub s)), set (store_conns (sv_store s))] @
    (case sv_uiRegistry s of None \<Rightarrow> [] | Some g \<Rightarrow> [{}, {rg_nc g}])"
  have "list_all2 (\<lambda>entry cs. closes live (snd entry) cs) (shutdown_steps env s) ?css"
    unfolding shutdown_steps_def Let_def
    by (intro list_all2_appendI)
      (auto intro!: closes_on_net closes_on_data
         simp: assms(3,4) close_live [OF assms(1)] registry_Close_def nats_Close_live [OF assms(1)] split: option.split)
  note stepped = close_steps_live [OF this, of None p]
  obtain e1 p1 where run: "close_steps (shutdown_steps env s) None p = (e1, p1)" by force
  have "live (ps_net p1) = live (ps_net p) - set (service_conns s)" "ps_files p1 = ps_files p"
    using stepped unfolding run
    by (cases "sv_uiRegistry s"; cases "sv_uiSrv s"; auto simp: service_conns_set)+
  then show "live (ps_net p') = live (ps_net p) - set (service_conns s)"
    and "open_files (ps_files p') = open_files (ps_files p) - set (lg_closers (sv_logger s))"
    using assms(5) closeLog_opens [OF assms(2)] by (auto simp: service_shutdown_def run)
qed

section \<open>Reload\<close>

text \<open>A reload, seen from its outcome.\<close>

definition next_cfg :: "('p, 'w) service \<Rightarrow> config \<Rightarrow> config" where
  "next_cfg s loaded = loaded\<lparr>cf_UI := cf_UI (sv_cfg s)\<rparr>"

lemma reloadConfig_cases:
  assumes "reloadConfig env lenv s p = (res, s', p')"
  obtains (refused) err where "res = Some err" "s' = s" "p' = p"
  | (unopened) cfg err r1 warned where "res = Some err" "buildNotifyQueueRuntime env cfg (ps_net p) = (Inl err, r1)"
      "s' = s\<lparr>sv_uiReloadWarned := warned\<rparr>" "p' = p\<lparr>ps_net := r1\<rparr>"
  | (unapplied) loaded err warned pair r1 m1 w1 where "res = Some err"
      "LoadSnapshot lenv (se_cfg env) (sv_source s) = Inr loaded"
      "buildNotifyQueueRuntime env (next_cfg s loaded) (ps_net p) = (Inr pair, r1)"
      "ApplyConfig (se_manager env (sv_store s)) (next_cfg s loaded) (sv_manager s) (ps_data p) = (Some err, m1, w1)"
      "s' = s\<lparr>sv_uiReloadWarned := warned, sv_manager := m1\<rparr>"
      "p' = p\<lparr>ps_net := close_queue env pair r1, ps_data := w1\<rparr>"
  | (applied) loaded warned pair r1 m1 w1 where "res = None"
      "LoadSnapshot lenv (se_cfg env) (sv_source s) = Inr loaded" "isSingleMode loaded = isSingleMode (sv_cfg s)"
      "buildNotifyQueueRuntime env (next_cfg s loaded) (ps_net p) = (Inr pair, r1)"
      "ApplyConfig (se_manager env (sv_store s)) (next_cfg s loaded) (sv_manager s) (ps_data p) = (None, m1, w1)"
      "s' = s\<lparr>sv_uiReloadWarned := warned, sv_notifyPub := fst pair, sv_notifyQ := snd pair,
         sv_manager := SetQueueProducer (service_producer env (fst pair))
           (SetDispatcher (Some (service_dispatcher env (next_cfg s loaded))) m1),
         sv_cfg := next_cfg s loaded\<rparr>"
      "p' = p\<lparr>ps_net := close_queue env (sv_notifyPub s, sv_notifyQ s) r1, ps_data := w1\<rparr>"
proof (cases "LoadSnapshot lenv (se_cfg env) (sv_source s)")
  case (Inl err)
  then show ?thesis using assms refused [of err] by (simp add: reloadConfig_def)
next
  case (Inr loaded)
  have same: "(if cf_UI loaded \<noteq> cf_UI (sv_cfg s) then loaded\<lparr>cf_UI := cf_UI (sv_cfg s)\<rparr> else loaded) = next_cfg s loaded"
    by (simp add: next_cfg_def)
  show ?thesis
  proof (cases "isSingleMode loaded = isSingleMode (sv_cfg s)")
    case False
    then show ?thesis using assms refused Inr by (auto simp: reloadConfig_def)
  next
    case True
    obtain built r1 where queue: "buildNotifyQueueRuntime env (next_cfg s loaded) (ps_net p) = (built, r1)" by force
    obtain e m1 w1 where change: "ApplyConfig (se_manager env (sv_store s)) (next_cfg s loaded) (sv_manager s) (ps_data p)
        = (e, m1, w1)" by (metis prod_cases3)
    note run = assms [unfolded reloadConfig_def Let_def Inr sum.case same queue, simplified True, simplified, unfolded change]
    show ?thesis
    proof (cases built)
      case (Inl err)
      then show ?thesis using run by (intro unopened [OF _ queue [unfolded Inl]]) auto
    next
      case (Inr pair)
      note queue = queue [unfolded this] and run = run [unfolded this]
      show ?thesis
      proof (cases e)
        case None
        show ?thesis
          by (rule applied [where warned = "cf_UI loaded \<noteq> cf_UI (sv_cfg s)", OF _ \<open>LoadSnapshot _ _ _ = Inr loaded\<close> True queue change [unfolded None]])
            (use run change None in \<open>simp_all add: swapNotifyRuntime_def\<close>)
      next
        case (Some err)
        show ?thesis
          by (rule unapplied [where warned = "cf_UI loaded \<noteq> cf_UI (sv_cfg s)", OF _ \<open>LoadSnapshot _ _ _ = Inr loaded\<close> queue change [unfolded Some]])
            (use run change Some in \<open>simp_all add: swapNotifyRuntime_def\<close>)
      qed
    qed
  qed
qed

text \<open>Whatever comes of a reload, the service holds what it opened and the files stay open.\<close>

lemma reloadConfig_owns:
  assumes "nats_laws (se_nats env) live" "owns live base (service_conns s) (ps_net p)"
    "reloadConfig env lenv s p = (res, s', p')"
  shows "owns live base (service_conns s') (ps_net p') \<and> sv_logger s' = sv_logger s \<and> ps_files p' = ps_files p"
proof -
  have grown: "owns live base (rest_conns s @ queue_conns pair @ queue_conns (sv_notifyPub s, sv_notifyQ s)) r"
    and kept: "owns live base (service_conns s @ queue_conns pair) r"
    if "buildNotifyQueueRuntime env cfg (ps_net p) = (Inr pair, r)" for cfg pair r
  proof -
    have "acquires live (ps_net p) queue_conns (Inr pair, r)"
      using buildNotifyQueueRuntime_acquires [OF assms(1), of "ps_net p" cfg] that by simp
    from owns_acquire [OF assms(2) this] show kept: "owns live base (service_conns s @ queue_conns pair) r" .
    show "owns live base (rest_conns s @ queue_conns pair @ queue_conns (sv_notifyPub s, sv_notifyQ s)) r"
      by (rule owns_mset [OF kept]) (simp add: service_conns_def)
  qed
  from assms(3) show ?thesis
  proof (cases rule: reloadConfig_cases)
    case (unopened cfg err r1 warned)
    have "acquires live (ps_net p) queue_conns (Inl err, r1)"
      using buildNotifyQueueRuntime_acquires [OF assms(1), of "ps_net p" cfg] unopened(2) by simp
    from owns_failed [OF assms(2) this] show ?thesis by (simp add: unopened(3,4) conns_defs)
  next
    case (unapplied loaded err warned pair r1 m1 w1)
    from owns_close_part [OF kept [OF unapplied(3)] close_queue_live [OF assms(1)]]
    show ?thesis by (simp add: unapplied(5,6) conns_defs)
  next
    case (applied loaded warned pair r1 m1 w1)
    have "owns live base (rest_conns s @ queue_conns pair) (close_queue env (sv_notifyPub s, sv_notifyQ s) r1)"
      using owns_close_part [of live base "rest_conns s @ queue_conns pair"] grown [OF applied(4)] close_queue_live [OF assms(1)]
      by fastforce
    then show ?thesis by (simp add: applied(6,7) conns_defs)
  qed (simp add: assms(2))
qed

section \<open>Events\<close>

lemma with_manager_keeps:
  assumes "with_manager f s p = (s', p')"
  shows "service_conns s' = service_conns s" "sv_logger s' = sv_logger s" "ps_net p' = ps_net p" "ps_files p' = ps_files p"
  using assms by (auto simp: with_manager_def conns_defs split: prod.splits)

lemma on_data_keeps: "on_data step p = (e, p') \<Longrightarrow> ps_net p' = ps_net p \<and> ps_files p' = ps_files p"
  by (auto simp: on_data_def split: prod.splits)

lemma service_event_owns:
  assumes "nats_laws (se_nats env) live" "owns live base (service_conns s) (ps_net p)"
    "service_event env cfg ev s p = (e, s', p')"
  shows "owns live base (service_conns s') (ps_net p') \<and> sv_logger s' = sv_logger s \<and> ps_files p' = ps_files p"
proof -
  consider (reload) lenv where "ev = OnReload lenv" | (publish) "ev = OnPublish"
    | (other) f where "service_event env cfg ev s p = (None, with_manager f s p)" by (cases ev) auto
  then show ?thesis
  proof cases
    case reload
    obtain res s1 p1 where run: "reloadConfig env lenv s p = (res, s1, p1)" by (metis prod_cases3)
    then show ?thesis using reloadConfig_owns [OF assms(1,2) run] assms(2,3) by (auto simp: reload split: if_splits)
  next
    case publish
    then show ?thesis using assms(2,3) by (auto simp: Let_def dest!: on_data_keeps split: option.splits prod.splits)
  next
    case (other f)
    then show ?thesis using with_manager_keeps [of f s p s' p'] assms by simp
  qed
qed

lemma service_events_owns:
  assumes "nats_laws (se_nats env) live" "owns live base (service_conns s) (ps_net p)"
    "service_events env cfg evs s p = (e, s', p')"
  shows "owns live base (service_conns s') (ps_net p') \<and> sv_logger s' = sv_logger s \<and> ps_files p' = ps_files p"
  using assms(2,3)
proof (induction evs arbitrary: s p)
  case (Cons ev evs)
  obtain e1 s1 p1 where run: "service_event env cfg ev s p = (e1, s1, p1)" by (metis prod_cases3)
  show ?case
    using service_event_owns [OF assms(1) Cons.prems(1) run] Cons.IH [of s1 p1] Cons.prems(2)
    by (cases e1) (simp_all add: run)
qed simp

section \<open>The manager of a service\<close>

lemma service_event_frame:
  assumes "service_event env cfg ev s p = (e, s', p')" "\<forall>lenv. ev \<noteq> OnReload lenv"
  shows "s' = s\<lparr>sv_manager := sv_manager s'\<rparr>"
  using assms by (cases ev) (auto simp: with_manager_def Let_def split: prod.splits option.splits)

section \<open>Panics\<close>

text \<open>The intervals of the tickers of a run are positive in 64 bits.\<close>

definition intervals_fit :: "('p, 'w) service \<Rightarrow> bool" where
  "intervals_fit s \<longleftrightarrow>
     0 < seconds (sc_ResolveScanInterval (cf_Service (sv_cfg s))) \<and>
     (sc_ReloadEnabled (cf_Service (sv_cfg s)) \<longrightarrow> 0 < seconds (sc_ReloadIntervalSec (cf_Service (sv_cfg s)))) \<and>
     (\<forall>registry. sv_uiRegistry s = Some registry \<longrightarrow> 0 < registryRefreshInterval (rg_cfg registry))"

lemma run_tickers_None: "intervals_fit s \<Longrightarrow> run_tickers (cf_Service (sv_cfg s)) = None"
  by (auto simp: intervals_fit_def run_tickers_def NewTicker_def)

lemma service_event_registry:
  assumes "service_event env cfg ev s p = (e, s', p')"
  shows "sv_uiRegistry s' = sv_uiRegistry s"
proof (cases "\<exists>lenv. ev = OnReload lenv")
  case True
  then obtain lenv where ev: "ev = OnReload lenv" by blast
  obtain res s1 p1 where run: "reloadConfig env lenv s p = (res, s1, p1)" by (metis prod_cases3)
  then have "sv_uiRegistry s1 = sv_uiRegistry s" by (cases rule: reloadConfig_cases) simp_all
  then show ?thesis using assms run by (auto simp: ev split: if_splits)
next
  case False
  then have "s' = s\<lparr>sv_manager := sv_manager s'\<rparr>" using service_event_frame [OF assms] by blast
  then show ?thesis by (metis service.select_convs service.surjective service.update_convs(5))
qed

lemma service_event_panic:
  "service_event env cfg ev s p = (Some e, s', p') \<Longrightarrow> is_panic e \<Longrightarrow>
    \<exists>registry. sv_uiRegistry s = Some registry \<and> registryRefreshInterval (rg_cfg registry) \<le> 0"
  by (cases ev) (auto simp: Let_def NewTicker_def split: option.splits prod.splits if_splits)

lemma service_events_panic:
  assumes "service_events env cfg evs s p = (Some e, s', p')" "is_panic e"
  shows "\<exists>registry. sv_uiRegistry s = Some registry \<and> registryRefreshInterval (rg_cfg registry) \<le> 0"
  using assms(1)
proof (induction evs arbitrary: s p)
  case (Cons ev evs)
  obtain e1 s1 p1 where run: "service_event env cfg ev s p = (e1, s1, p1)" by (metis prod_cases3)
  show ?case
  proof (cases e1)
    case None
    then show ?thesis using Cons.IH [of s1 p1] Cons.prems service_event_registry [OF run] by (simp add: run)
  next
    case (Some e2)
    then show ?thesis using Cons.prems run service_event_panic [of env cfg ev s p e s1 p1] assms(2) by simp
  qed
qed simp

lemma close_steps_no_panic:
  "close_steps steps firstErr st = (Some e, st') \<Longrightarrow> (\<And>e. firstErr = Some e \<Longrightarrow> \<not> is_panic e) \<Longrightarrow> \<not> is_panic e"
proof (induction steps arbitrary: firstErr st)
  case (Cons step steps)
  obtain what f where step: "step = (what, f)" by force
  obtain e1 st1 where run: "f st = (e1, st1)" by force
  show ?case
  proof (cases e1)
    case None
    then show ?thesis using Cons by (simp add: step run)
  next
    case (Some e2)
    show ?thesis
      by (rule Cons.IH [of "if firstErr = None then Some (ErrWrap what [] e2) else firstErr" st1])
        (use Cons.prems Some in \<open>auto simp: step run split: if_splits\<close>)
  qed
qed simp

text \<open>A run panics only for an interval that does not fit; nothing else of it does.\<close>

lemma service_Run_panic:
  assumes "service_Run env events failure s p = (Some e, p')" "is_panic e"
  shows "\<not> intervals_fit s"
proof
  assume fit: "intervals_fit s"
  obtain stopped s1 p1 where run: "service_events env (sv_cfg s) events (s\<lparr>sv_readyFlag := True\<rparr>) p = (stopped, s1, p1)"
    by (metis prod_cases3)
  have calm: "\<not> is_panic x" if "stopped = Some x" for x
    using service_events_panic [OF run [unfolded that]] fit by (fastforce simp: intervals_fit_def)
  obtain err p2 where down: "service_shutdown env (s1\<lparr>sv_readyFlag := False\<rparr>) p1 = (err, p2)" by force
  have quiet: "\<not> is_panic x" if "err = Some x" for x
    using down that close_steps_no_panic [of "shutdown_steps env (s1\<lparr>sv_readyFlag := False\<rparr>)" None]
    by (auto simp: service_shutdown_def split: prod.splits)
  show False
    using assms calm quiet by (auto simp: service_Run_def run_tickers_None [OF fit] run down split: option.splits if_splits)
qed

section \<open>The manager under events\<close>

context manager_inv
begin

lemma with_manager_inv:
  assumes "with_manager f s p = (s', p')" "\<And>m w. inv m \<Longrightarrow> inv (fst (f m w))" "inv (sv_manager s)"
  shows "inv (sv_manager s')"
  using assms(1,3) assms(2) [of "sv_manager s" "ps_data p"] by (auto simp: with_manager_def split: prod.splits)

lemma ServeHTTP_inv:
  assumes "inv m"
  shows "inv (fst (snd (service_ServeHTTP env s request (m, w))))"
proof -
  have "inv (fst (snd (ServeHTTP (se_json env) (NewHTTPHandler (manager_sink (se_manager env (sv_store s))) n) request (m, w))))" for n
    using ingest.http [of "(m, w)" "se_json env" "se_manager env (sv_store s)" n request] assms
    by (simp add: case_prod_beta)
  then show ?thesis using assms
    by (auto simp: service_ServeHTTP_def case_prod_beta split: option.split svc_handler.split)
qed

lemma service_event_inv:
  assumes "service_event env cfg ev s p = (e, s', p')" "\<forall>lenv. ev \<noteq> OnReload lenv" "inv (sv_manager s)"
  shows "inv (sv_manager s')"
proof -
  let ?menv = "se_manager env (sv_store s)"
  have called: "inv (sv_manager s')"
    if "with_manager (\<lambda>m w. snd (f m w)) s p = (s', p')" "\<And>m w err m' w'. f m w = (err, m', w') \<Longrightarrow> inv m \<Longrightarrow> inv m'"
    for f :: "'w manager \<Rightarrow> 'w \<Rightarrow> 'x \<times> 'w manager \<times> 'w"
  proof (rule with_manager_inv [OF that(1) _ assms(3)])
    fix m w assume m: "inv m"
    obtain err m' w' where run: "f m w = (err, m', w')" by (metis prod_cases3)
    show "inv (fst (snd (f m w)))" using that(2) [OF run m] by (simp add: run)
  qed
  show ?thesis
  proof (cases ev)
    case OnTick
    show ?thesis by (rule called [OF _ Tick_inv]) (use assms(1) OnTick in auto)
  next
    case (OnHTTP request)
    show ?thesis
      by (rule with_manager_inv [OF _ ServeHTTP_inv assms(3)]) (use assms(1) OnHTTP in auto)
  next
    case (OnMessage payload scratch)
    have "inv (fst (snd (snd (nats_ingest_handle (se_json env) (ig_NATS (cf_Ingest cfg))
        (manager_sink ?menv) payload scratch (m, w)))))" if "inv m" for m w
      using ingest.jetstream [of "(m, w)"] that by (simp add: case_prod_beta)
    moreover have "with_manager (\<lambda>m w. snd (snd (nats_ingest_handle (se_json env) (ig_NATS (cf_Ingest cfg))
        (manager_sink ?menv) payload scratch (m, w)))) s p = (s', p')" using assms(1) OnMessage by simp
    ultimately show ?thesis using with_manager_inv assms(3) by blast
  next
    case (OnJob j)
    show ?thesis by (rule called [OF _ queued_inv]) (use assms(1) OnJob in auto)
  next
    case (OnExpired k reason)
    show ?thesis by (rule called [OF _ ResolveByTTL_inv]) (use assms(1) OnExpired in auto)
  next
    case OnPublish
    then show ?thesis using assms(1,3) by (auto simp: Let_def split: option.splits prod.splits)
  qed (use assms(2) in simp)
qed

end

text \<open>What the construction settles: of the manager only the producer is still to come.\<close>

definition service_core where
  "service_core s = (sv_source s, sv_cfg s, sv_store s, sv_manager s)"

lemma build_steps_core:
  "buildHTTPServer env s r = (e, s', r') \<Longrightarrow> service_core s' = service_core s"
  "buildUIRuntime env s r = (e, s', r') \<Longrightarrow> service_core s' = service_core s"
  "buildNATSSubscriber env s r = (e, s', r') \<Longrightarrow> service_core s' = service_core s"
  "buildDeleteConsumer env s r = (e, s', r') \<Longrightarrow> service_core s' = service_core s"
  by (auto simp: buildHTTPServer_def buildUIRuntime_def buildNATSSubscriber_def buildDeleteConsumer_def service_core_def Let_def
      split: sum.splits prod.splits if_splits)

lemma buildNotifyQueue_core:
  "buildNotifyQueue env s r = (None, s', r') \<Longrightarrow>
    service_core s' = (sv_source s, sv_cfg s, sv_store s, SetQueueProducer (service_producer env (sv_notifyPub s')) (sv_manager s))"
  by (auto simp: buildNotifyQueue_def swapNotifyRuntime_def service_core_def Let_def split: sum.splits prod.splits)

lemma service_steps_core:
  assumes "run_steps (service_steps env) s r = (None, s', r')"
  shows "service_core s' = (sv_source s, sv_cfg s, sv_store s, SetQueueProducer (service_producer env (sv_notifyPub s')) (sv_manager s))"
proof -
  obtain e1 s1 r1 where one: "buildHTTPServer env s r = (e1, s1, r1)" by (metis prod_cases3)
  obtain e2 s2 r2 where two: "buildUIRuntime env s1 r1 = (e2, s2, r2)" by (metis prod_cases3)
  obtain e3 s3 r3 where three: "buildNATSSubscriber env s2 r2 = (e3, s3, r3)" by (metis prod_cases3)
  obtain e4 s4 r4 where four: "buildDeleteConsumer env s3 r3 = (e4, s4, r4)" by (metis prod_cases3)
  have "buildNotifyQueue env s4 r4 = (None, s', r')"
    using assms by (auto simp: service_steps_def one two three four split: option.splits prod.splits)
  from buildNotifyQueue_core [OF this] show ?thesis
    using build_steps_core(1) [OF one] build_steps_core(2) [OF two] build_steps_core(3) [OF three] build_steps_core(4) [OF four]
    by (simp add: service_core_def)
qed

end
