(* ===== verification/Service_Samples.thy ===== *)
theory Service_Samples
  imports Service_Facts Transport_Samples Single_Instance
begin

text \<open>
  A small service for the closed examples: the world of connections and of files is the list of
  what is open.
\<close>

text \<open>Connections and files are numbered in the order they are opened; a subscription may be refused.\<close>

definition numbered_nats :: "(string \<Rightarrow> bool) \<Rightarrow> nat list nats_lib" where
  "numbered_nats refused = \<lparr>nl_Connect = (\<lambda>_ r. (Inr (Suc (foldr max r 0)), Suc (foldr max r 0) # r)),
     nl_Close = (\<lambda>nc r. removeAll nc r),
     nl_JetStream = (\<lambda>_ r. (None, r)), nl_StreamInfo = (\<lambda>_ name r. (Inr \<lparr>st_Name = name, st_Subjects = [],
       st_Retention = LimitsPolicy, st_MaxAge = 0, st_AllowMsgTTL = True, st_SubjectDeleteMarkerTTL = 0, st_Rest = []\<rparr>, r)),
     nl_AddStream = (\<lambda>_ _ r. (None, r)), nl_UpdateStream = (\<lambda>_ _ r. (None, r)),
     nl_KeyValue = (\<lambda>_ _ r. (None, r)), nl_CreateKeyValue = (\<lambda>_ _ _ r. (None, r)),
     nl_QueueSubscribe = (\<lambda>nc req r. (if refused (sb_Subject req) then Inl (ErrMsg ''no consumer'') else Inr nc, r)),
     nl_Drain = (\<lambda>_ r. (None, r)), nl_ErrStreamNotFound = ErrMsg ''stream not found'', nl_text = (\<lambda>_. [])\<rparr>"

definition numbered_files :: "nat list log_files" where
  "numbered_files = \<lparr>lf_Open = (\<lambda>_ f. (Inr (Suc (foldr max f 0)), Suc (foldr max f 0) # f)), lf_Close = (\<lambda>h f. removeAll h f)\<rparr>"

text \<open>Buckets, queues and chats that do not answer.\<close>

definition no_bucket :: "(string, single_world) registry_api" where
  "no_bucket = \<lparr>ra_kv = \<lparr>kv_Get = (\<lambda>_ w. (Inl (ErrMsg ''down''), w)), kv_Create = (\<lambda>_ _ w. (Inl (ErrMsg ''down''), w)),
       kv_Put = (\<lambda>_ _ w. (Inl (ErrMsg ''down''), w)), kv_Update = (\<lambda>_ _ _ w. (Inl (ErrMsg ''down''), w)),
       kv_Delete = (\<lambda>_ w. (Some (ErrMsg ''down''), w)), kv_Keys = (\<lambda>w. (Inl (ErrMsg ''down''), w))\<rparr>,
     ra_Marshal = (\<lambda>_. Inr []), ra_Unmarshal = (\<lambda>_. Inl (ErrMsg ''json'')), ra_ErrKeyNotFound = ErrMsg ''key not found'',
     ra_ErrNoKeysFound = ErrMsg ''no keys found''\<rparr>"

definition no_queue :: "(string, single_world) queue_api" where
  "no_queue = \<lparr>qa_MarshalJob = (\<lambda>_. Inr []), qa_UnmarshalJob = (\<lambda>_. Inl (ErrMsg ''json'')), qa_MarshalDLQ = (\<lambda>_. Inr []),
     qa_Publish = (\<lambda>_ _ _ w. (Some (ErrMsg ''down''), w)), qa_Now = (\<lambda>w. (0, w)), qa_text = (\<lambda>_. [])\<rparr>"

definition quiet_bot :: "single_world bot_api" where
  "quiet_bot = \<lparr>tb_New = (\<lambda>_ _. None), tb_SendMessage = (\<lambda>_ _ _ w. (Inl (ErrMsg ''down''), w)),
     tb_EditMessageText = (\<lambda>_ _ _ w. (Inl (ErrMsg ''down''), w)), tb_DeleteMessage = (\<lambda>_ _ w. (Inl (ErrMsg ''down''), w))\<rparr>"

definition small_service :: "(string \<Rightarrow> bool) \<Rightarrow> (string, nat list, nat list, string, single_world) service_env" where
  "small_service refused = \<lparr>se_cfg = ui_env, se_files = numbered_files, se_nats = numbered_nats refused,
     se_httpShutdown = (\<lambda>r. (None, r)), se_uiShutdown = (\<lambda>r. (None, r)), se_mux = exact_mux,
     se_json = \<lparr>js_Event = (\<lambda>s. (Inl (ErrMsg ''json''), s)), js_Events = (\<lambda>_ s. (Inl (ErrMsg ''json''), [], None, s)),
       js_Extra = (\<lambda>_. ExtraEOF)\<rparr>,
     se_http = refusing_server, se_bot = quiet_bot, se_send = (\<lambda>_. failing_send),
     se_manager = (\<lambda>_. single_env sample_loc sample_fmt sample_hash sample_compile),
     se_queue = (\<lambda>_. no_queue), se_registry = (\<lambda>_. no_bucket), se_hostname = Inr ''a'', se_pid = 7, se_build = None\<rparr>"

text \<open>A configuration in NATS mode with a queue, a dashboard and a log file.\<close>

definition service_raw :: raw_config where
  "service_raw = (sample_raw [(''cpu'', sample_raw_rule)])
     \<lparr>rw_Service := zero_service\<lparr>sc_ReloadEnabled := True\<rparr>,
      rw_NotifyConfig := sample_raw_notify\<lparr>nc_Queue := zero_queue\<lparr>nq_Enabled := True, nq_DLQ := True\<rparr>\<rparr>,
      rw_UI := zero_ui\<lparr>ui_Enabled := True, ui_Listen := '':9'', ui_BasePath := ''/ui'',
        ui_Auth_Basic := \<lparr>ub_Enabled = True, ub_Username = ''ops'', ub_Password = ''secret''\<rparr>, ui_Service_PublicBaseURL := ''http://a''\<rparr>,
      rw_Log := zero_log\<lparr>lc_File := zero_log_sink\<lparr>ls_Enabled := True, ls_Path := ''a.log''\<rparr>\<rparr>\<rparr>"

definition service_lenv :: "raw_config \<Rightarrow> load_env" where
  "service_lenv raw = (sample_lenv [])\<lparr>le_decode := (\<lambda>_. Inr raw),
     le_hints := (\<lambda>_. Inr (no_hints\<lparr>ch_UI := \<lparr>uh_Enabled = \<lparr>bh_value = True, bh_present = True\<rparr>,
       uh_Basic_Enabled = \<lparr>bh_value = True, bh_present = True\<rparr>\<rparr>\<rparr>))\<rparr>"

definition service_start ::
    "(string \<Rightarrow> bool) \<Rightarrow> raw_config
      \<Rightarrow> (string, single_world) service result \<times> (nat list, nat list, single_world) process" where
  "service_start refused raw = NewService (small_service refused) (service_lenv raw) sample_source (unix_epoch + 5000000000)
     \<lparr>ps_files = [2], ps_net = [3], ps_data = fresh_world 0\<rparr>"

lemma fresh_number: "Suc (foldr max ns 0) \<notin> set ns"
proof -
  have "n \<in> set ns \<Longrightarrow> n \<le> foldr max ns 0" for n by (induction ns) auto
  then show ?thesis by force
qed

lemma numbered_nats_laws: "nats_laws (numbered_nats refused) set"
  by (simp add: nats_laws_def numbered_nats_def fresh_number)

lemma numbered_files_laws: "file_laws numbered_files set"
  by (simp add: file_laws_def numbered_files_def fresh_number)

lemma small_service_laws:
  "nats_laws (se_nats (small_service refused)) set" "file_laws (se_files (small_service refused)) set"
  by (simp_all add: small_service_def numbered_nats_laws numbered_files_laws)

lemma small_service_shutdown:
  "set (snd (se_httpShutdown (small_service refused) r)) = set r" "set (snd (se_uiShutdown (small_service refused) r)) = set r"
  by (simp_all add: small_service_def)

end
