(* ===== verification/Service_Properties.thy ===== *)
theory Service_Properties
  imports Service_Samples
begin

text \<open>
  The life of a service: what it opens it closes, whether it fails to start or runs through any
  events, reloads included; a reload is taken over whole or leaves the configuration as it was.
\<close>

section \<open>Start and end\<close>

lemma NewService_outcome:
  assumes "nats_laws (se_nats env) live" "file_laws (se_files env) open_files" "NewService env lenv source now p = (res, p')"
  shows "case res of
      Inl e \<Rightarrow> is_panic e \<or> live (ps_net p') = live (ps_net p) \<and> open_files (ps_files p') = open_files (ps_files p)
    | Inr s \<Rightarrow> owns live (live (ps_net p)) (service_conns s) (ps_net p') \<and>
        open_files (ps_files p) \<inter> set (lg_closers (sv_logger s)) = {} \<and>
        open_files (ps_files p') = open_files (ps_files p) \<union> set (lg_closers (sv_logger s))"
proof (cases "LoadSnapshot lenv (se_cfg env) source")
  case (Inl err)
  then show ?thesis using assms(3) by (auto simp: NewService_def)
next
  case loaded: (Inr cfg)
  obtain l f1 where log: "logging_New (se_files env) (cf_Log cfg) (ps_files p) = (l, f1)" by force
  note logged = logging_New_opens [OF assms(2) log]
  obtain b r1 where built: "buildStore env cfg (ps_net p) = (b, r1)" by force
  note stored = buildStore_acquires [OF assms(1), of "ps_net p" cfg, unfolded built]
  show ?thesis
  proof (cases "isl l \<or> isl b")
    case True
    then show ?thesis using assms(3) logged stored closeLog_opens [OF assms(2)]
      by (cases l; cases b) (auto simp: NewService_def loaded log built)
  next
    case False
    then obtain logger store where l: "l = Inr logger" and b: "b = Inr store" by (cases l; cases b) auto
    let ?s = "new_service env source cfg logger store now"
    obtain e s r2 where run: "run_steps (service_steps env) ?s r1 = (e, s, r2)" by (metis prod_cases3)
    have "owns live (live (ps_net p)) (service_conns ?s) r1"
      using stored unfolding b by (simp add: owns_def conns_defs new_service_def)
    moreover have "unbuilt 0 ?s" by (simp add: unbuilt_def new_service_def)
    ultimately have kept: "owns live (live (ps_net p)) (service_conns s) r2" "sv_logger s = logger"
      using service_steps_build [OF assms(1) _ _ run] by (simp_all add: new_service_def)
    obtain f2 r3 where cleaned: "cleanupInitResources env s f1 r2 = (f2, r3)" by force
    have "live r3 = live (ps_net p)" "open_files f2 = open_files (ps_files p)"
      using cleanupInitResources_closes [OF assms(1,2) cleaned] owns_closed [OF kept(1)] logged
      unfolding l kept(2) by auto
    then show ?thesis using assms(3) kept logged
      by (cases e) (auto simp: NewService_def loaded log built l b run cleaned split: if_splits)
  qed
qed

text \<open>
  A service that fails to start leaves nothing behind: whatever the step that fails, the
  connections opened until then are closed and the log file too, unless the error is a panic.
\<close>

lemma failed_start_leaks_nothing:
  assumes "nats_laws (se_nats env) live" "file_laws (se_files env) open_files"
    "NewService env lenv source now p = (Inl e, p')" "\<not> is_panic e"
  shows "live (ps_net p') = live (ps_net p) \<and> open_files (ps_files p') = open_files (ps_files p)"
  using NewService_outcome [OF assms(1-3)] assms(4) by simp

text \<open>The worker of the queue is refused when five connections and a file are open.\<close>

lemma refused_start:
  "case service_start (\<lambda>subject. subject = notifyQueueSubject) service_raw of
     (Inr s, p) \<Rightarrow> False
   | (Inl e, p) \<Rightarrow> e = ErrWrap ''queue subscribe notify %q/%q: %w'' [notifyQueueSubject, ''alerting-notify-workers'']
       (ErrMsg ''no consumer'')"
  by code_simp

lemma failed_start_leaks_nothing_witness:
  "\<exists>e p. service_start (\<lambda>subject. subject = notifyQueueSubject) service_raw = (Inl e, p) \<and>
    set (ps_net p) = {3} \<and> set (ps_files p) = {2}"
proof -
  obtain e p where run: "service_start (\<lambda>subject. subject = notifyQueueSubject) service_raw = (Inl e, p)"
    "e = ErrWrap ''queue subscribe notify %q/%q: %w'' [notifyQueueSubject, ''alerting-notify-workers''] (ErrMsg ''no consumer'')"
    using refused_start by (auto split: prod.splits sum.splits)
  from failed_start_leaks_nothing [OF small_service_laws run(1) [unfolded service_start_def]] run
  show ?thesis by simp
qed

text \<open>A run closes what the start has opened.\<close>

lemma run_closes:
  assumes "nats_laws (se_nats env) live" "file_laws (se_files env) open_files"
    "\<And>r. live (snd (se_httpShutdown env r)) = live r" "\<And>r. live (snd (se_uiShutdown env r)) = live r"
    "NewService env lenv source now p = (Inr s, p1)" "service_Run env events failure s p1 = (err, p2)"
    "\<And>e. err = Some e \<Longrightarrow> \<not> is_panic e"
  shows "live (ps_net p2) = live (ps_net p) \<and> open_files (ps_files p2) = open_files (ps_files p)"
proof -
  have started: "owns live (live (ps_net p)) (service_conns s) (ps_net p1)"
    "open_files (ps_files p) \<inter> set (lg_closers (sv_logger s)) = {}"
    "open_files (ps_files p1) = open_files (ps_files p) \<union> set (lg_closers (sv_logger s))"
    using NewService_outcome [OF assms(1,2,5)] by simp_all
  obtain stopped s1 q where run: "service_events env (sv_cfg s) events (s\<lparr>sv_readyFlag := True\<rparr>) p1 = (stopped, s1, q)"
    by (metis prod_cases3)
  obtain e q2 where down: "service_shutdown env (s1\<lparr>sv_readyFlag := False\<rparr>) q = (e, q2)" by force
  have "p2 = q2" using assms(6,7) by (auto simp: service_Run_def run_tickers_def NewTicker_def run down split: option.splits if_splits)
  moreover have "owns live (live (ps_net p)) (service_conns s1) (ps_net q) \<and> sv_logger s1 = sv_logger s \<and> ps_files q = ps_files p1"
    using service_events_owns [OF assms(1) _ run] started(1) by (simp add: conns_defs)
  moreover note service_shutdown_closes [OF assms(1-4) down]
  ultimately show ?thesis using started(2,3) owns_closed [of live _ "service_conns s1" "ps_net q"]
    by (auto simp: conns_defs)
qed

text \<open>
  C4. A run gives everything back: a service that has started, served any events in any order,
  successful and failed reloads among them, and is shut down, has closed every connection and the
  log file, even when steps of the shutdown report errors or a server has failed. The intervals
  of its tickers fit 64 bits, or the run ends in a panic and not in a shutdown.
\<close>

theorem run_gives_everything_back:
  assumes "nats_laws (se_nats env) live" "file_laws (se_files env) open_files"
    "\<And>r. live (snd (se_httpShutdown env r)) = live r" "\<And>r. live (snd (se_uiShutdown env r)) = live r"
    "NewService env lenv source now p = (Inr s, p1)" "service_Run env events failure s p1 = (err, p2)"
    "intervals_fit s"
  shows "live (ps_net p2) = live (ps_net p) \<and> open_files (ps_files p2) = open_files (ps_files p)"
  by (rule run_closes [OF assms(1-6)]) (use service_Run_panic assms(6,7) in blast)

lemma sample_start:
  "case service_start (\<lambda>_. False) service_raw of
     (Inl e, p) \<Rightarrow> False
   | (Inr s, p) \<Rightarrow> set (ps_net p) = {3..8} \<and> set (ps_files p) = {2, 3} \<and> sc_ReloadEnabled (cf_Service (sv_cfg s)) \<and>
       run_tickers (cf_Service (sv_cfg s)) = None \<and>
       (case sv_uiRegistry s of None \<Rightarrow> False | Some registry \<Rightarrow> 0 < registryRefreshInterval (rg_cfg registry))"
  by code_simp

theorem run_gives_everything_back_witness:
  "\<exists>s p1. service_start (\<lambda>_. False) service_raw = (Inr s, p1) \<and> set (ps_net p1) = {3..8} \<and> set (ps_files p1) = {2, 3} \<and>
    (\<exists>err p2. service_Run (small_service (\<lambda>_. False)) [OnTick, OnReload (service_lenv service_raw), OnTick] (Some (ErrMsg ''listen'')) s p1
      = (err, p2) \<and> set (ps_net p2) = {3} \<and> set (ps_files p2) = {2})"
proof -
  obtain s p1 where start: "service_start (\<lambda>_. False) service_raw = (Inr s, p1)"
    "set (ps_net p1) = {3..8}" "set (ps_files p1) = {2, 3}" "run_tickers (cf_Service (sv_cfg s)) = None"
    "\<exists>registry. sv_uiRegistry s = Some registry \<and> 0 < registryRefreshInterval (rg_cfg registry)"
    using sample_start by (auto split: prod.splits sum.splits option.splits)
  then have fit: "intervals_fit s"
    by (auto simp: intervals_fit_def run_tickers_def NewTicker_def split: option.splits if_splits)
  obtain err p2 where run: "service_Run (small_service (\<lambda>_. False)) [OnTick, OnReload (service_lenv service_raw), OnTick]
      (Some (ErrMsg ''listen'')) s p1 = (err, p2)" by force
  from run_gives_everything_back [OF small_service_laws small_service_shutdown start(1) [unfolded service_start_def] run fit]
  show ?thesis using start run by simp
qed

section \<open>Reload\<close>

text \<open>
  C15. A reload is all or nothing: a refused one keeps configuration, store, queue and instance as
  they were, and the manager as well unless it failed to clean up after removed rules; one that
  succeeds takes over everything the files hold but the dashboard section, in the same mode, and
  manager, dispatcher and producer then belong to the new configuration.
\<close>

theorem reload_all_or_nothing:
  "case reloadConfig env lenv s p of (res, s', p') \<Rightarrow>
    (case res of
       Some err \<Rightarrow>
         s' = s\<lparr>sv_uiReloadWarned := sv_uiReloadWarned s', sv_manager := sv_manager s'\<rparr> \<and>
         mg_dispatcher (sv_manager s') = mg_dispatcher (sv_manager s) \<and> mg_producer (sv_manager s') = mg_producer (sv_manager s) \<and>
         (sv_manager s' = sv_manager s \<and> ps_data p' = ps_data p \<or>
          (\<exists>cfg. ApplyConfig (se_manager env (sv_store s)) cfg (sv_manager s) (ps_data p) = (Some err, sv_manager s', ps_data p')))
     | None \<Rightarrow>
         (\<exists>loaded. LoadSnapshot lenv (se_cfg env) (sv_source s) = Inr loaded \<and>
            sv_cfg s' = loaded\<lparr>cf_UI := cf_UI (sv_cfg s)\<rparr>) \<and>
         isSingleMode (sv_cfg s') = isSingleMode (sv_cfg s) \<and>
         mg_cfg (sv_manager s') = sv_cfg s' \<and>
         (mg_rules (sv_manager s'), mg_sorted (sv_manager s')) = buildRuleIndex (cf_Rule (sv_cfg s')) \<and>
         mg_dispatcher (sv_manager s') = Some (service_dispatcher env (sv_cfg s')) \<and>
         mg_producer (sv_manager s') = service_producer env (sv_notifyPub s') \<and>
         (sv_notifyPub s' = None) = (isSingleMode (sv_cfg s') \<or> nq_Enabled (nc_Queue (cf_Notify (sv_cfg s'))) = False) \<and>
         (sv_notifyQ s' = None) = (sv_notifyPub s' = None) \<and>
         (sv_store s', sv_natsSub s', sv_deleteSub s', sv_uiRegistry s') =
           (sv_store s, sv_natsSub s, sv_deleteSub s, sv_uiRegistry s))"
proof -
  obtain res s' p' where run: "reloadConfig env lenv s p = (res, s', p')" by (metis prod_cases3)
  from run show ?thesis
  proof (cases rule: reloadConfig_cases)
    case (unapplied loaded err warned pair r1 m1 w1)
    then show ?thesis using ApplyConfig_settings [OF unapplied(4)] by (auto simp: run manager_settings_def)
  next
    case (applied loaded warned pair r1 m1 w1)
    have pair: "(fst pair = None) = (isSingleMode (next_cfg s loaded) \<or> \<not> nq_Enabled (nc_Queue (cf_Notify (next_cfg s loaded))))"
      "(snd pair = None) = (fst pair = None)"
      using applied(4) by (auto simp: buildNotifyQueueRuntime_def split: if_splits prod.splits sum.splits)
    have "isSingleMode (next_cfg s loaded) = isSingleMode (sv_cfg s)"
      using applied(3) by (simp add: next_cfg_def isSingleMode_def)
    then show ?thesis using applied(1,2,6) pair ApplyConfig_settings [OF applied(5)]
      by (simp add: run manager_settings_def SetQueueProducer_def SetDispatcher_def next_cfg_def)
  qed (simp_all add: run)
qed

section \<open>Every moment of a run\<close>

text \<open>
  What holds of a service that was built from \<open>source\<close> as \<open>s0\<close>, when \<open>lenvs\<close> are the contents
  of the files at the start and at the reloads.
\<close>

definition runs_loaded_config ::
    "('p, 'f, 'r, 'b, 'w) service_env \<Rightarrow> load_env set \<Rightarrow> config_source \<Rightarrow> ('p, 'w) service \<Rightarrow> ('p, 'w) service \<Rightarrow> bool" where
  "runs_loaded_config env lenvs source s0 s \<longleftrightarrow>
     sv_source s = source \<and> sv_store s = sv_store s0 \<and>
     (\<exists>lenv \<in> lenvs. \<exists>loaded. LoadSnapshot lenv (se_cfg env) source = Inr loaded \<and> sv_cfg s = loaded\<lparr>cf_UI := cf_UI (sv_cfg s0)\<rparr>) \<and>
     (\<exists>lenv \<in> lenvs. \<exists>loaded. LoadSnapshot lenv (se_cfg env) source = Inr loaded \<and>
        (mg_rules (sv_manager s), mg_sorted (sv_manager s)) = buildRuleIndex (cf_Rule loaded)) \<and>
     isSingleMode (sv_cfg s) = isSingleMode (sv_cfg s0) \<and>
     mg_dispatcher (sv_manager s) = Some (service_dispatcher env (sv_cfg s)) \<and>
     mg_producer (sv_manager s) = service_producer env (sv_notifyPub s) \<and>
     wf_engine (mg_engine (sv_manager s))"

lemma runs_loaded_config_more:
  "runs_loaded_config env lenvs source s0 s \<Longrightarrow> lenvs \<subseteq> lenvs' \<Longrightarrow> runs_loaded_config env lenvs' source s0 s"
  by (auto simp: runs_loaded_config_def)

lemma started_runs_loaded_config:
  assumes "NewService env lenv source now p = (Inr s, p')"
  shows "runs_loaded_config env {lenv} source s s"
proof -
  obtain cfg where loaded: "LoadSnapshot lenv (se_cfg env) source = Inr cfg"
    using assms by (cases "LoadSnapshot lenv (se_cfg env) source") (auto simp: NewService_def)
  obtain logger store r1 r2 where "run_steps (service_steps env) (new_service env source cfg logger store now) r1 = (None, s, r2)"
    using assms by (auto simp: NewService_def loaded split: sum.splits prod.splits option.splits if_splits)
  from service_steps_core [OF this] have core: "sv_source s = source" "sv_cfg s = cfg"
    "sv_manager s = SetQueueProducer (service_producer env (sv_notifyPub s)) (NewManager cfg (Some (service_dispatcher env cfg)))"
    by (simp_all add: service_core_def new_service_def)
  show ?thesis using loaded
    unfolding runs_loaded_config_def core by (auto simp: SetQueueProducer_def NewManager_def Let_def)
qed

lemma reload_runs_loaded_config:
  assumes "runs_loaded_config env lenvs source s0 s" "reloadConfig env lenv s p = (res, s', p')"
  shows "runs_loaded_config env (insert lenv lenvs) source s0 s'"
proof -
  have old: "runs_loaded_config env (insert lenv lenvs) source s0 s"
    by (rule runs_loaded_config_more [OF assms(1)]) blast
  have src: "sv_source s = source" using assms(1) by (simp add: runs_loaded_config_def)
  from assms(2) show ?thesis
  proof (cases rule: reloadConfig_cases)
    case (unapplied loaded err warned pair r1 m1 w1)
    have "wf_engine (mg_engine m1)" using wf.ApplyConfig_inv [OF unapplied(4)] assms(1) by (simp add: runs_loaded_config_def)
    then show ?thesis using old unapplied(2) ApplyConfig_settings [OF unapplied(4)]
      by (auto simp: runs_loaded_config_def unapplied(5) manager_settings_def next_cfg_def)
  next
    case (applied loaded warned pair r1 m1 w1)
    have "wf_engine (mg_engine m1)" using wf.ApplyConfig_inv [OF applied(5)] assms(1) by (simp add: runs_loaded_config_def)
    moreover have "cf_UI (sv_cfg s) = cf_UI (sv_cfg s0)" using assms(1) by (auto simp: runs_loaded_config_def)
    moreover have "isSingleMode (next_cfg s loaded) = isSingleMode (sv_cfg s)"
      using applied(3) by (simp add: next_cfg_def isSingleMode_def)
    ultimately show ?thesis using old applied(2) src ApplyConfig_settings [OF applied(5)]
      unfolding runs_loaded_config_def applied(6)
      by (simp add: manager_settings_def SetQueueProducer_def SetDispatcher_def) (auto simp: next_cfg_def)
  qed (use old in \<open>simp_all add: runs_loaded_config_def\<close>)
qed

text \<open>The contents that the reloads among some events find.\<close>

definition reloaded :: "svc_event list \<Rightarrow> load_env set" where
  "reloaded events = {lenv. OnReload lenv \<in> set events}"

lemma event_runs_loaded_config:
  assumes "runs_loaded_config env lenvs source s0 s" "service_event env cfg ev s p = (e, s', p')"
  shows "runs_loaded_config env (lenvs \<union> reloaded [ev]) source s0 s'"
proof (cases "\<exists>lenv. ev = OnReload lenv")
  case True
  then obtain lenv where ev: "ev = OnReload lenv" by blast
  obtain res s1 p1 where run: "reloadConfig env lenv s p = (res, s1, p1)" by (metis prod_cases3)
  have "lenvs \<union> reloaded [ev] = insert lenv lenvs" by (auto simp: reloaded_def ev)
  then show ?thesis
    using reload_runs_loaded_config [OF assms(1) run] runs_loaded_config_more [OF assms(1), of "insert lenv lenvs"] assms(2) run
    by (auto simp: ev split: if_splits)
next
  case False
  then have other: "\<forall>lenv. ev \<noteq> OnReload lenv" by blast
  have "s' = s\<lparr>sv_manager := sv_manager s'\<rparr>" by (rule service_event_frame [OF assms(2) other])
  moreover have "manager_settings (sv_manager s') = manager_settings (sv_manager s)"
    by (rule set.service_event_inv [OF assms(2) other]) simp
  moreover have "wf_engine (mg_engine (sv_manager s'))"
    by (rule wf.service_event_inv [OF assms(2) other]) (use assms(1) in \<open>simp add: runs_loaded_config_def\<close>)
  moreover obtain m where "m = sv_manager s'" by blast
  ultimately have "s' = s\<lparr>sv_manager := m\<rparr>" "manager_settings m = manager_settings (sv_manager s)" "wf_engine (mg_engine m)" by simp_all
  then have "runs_loaded_config env lenvs source s0 s'" using assms(1) by (auto simp: runs_loaded_config_def manager_settings_def)
  then show ?thesis by (rule runs_loaded_config_more) blast
qed

text \<open>
  C14. A running service is always one its files have described: after any events, failed and
  successful reloads among them, its configuration and the rules of its manager are ones that
  loading the files has returned, at the start or at one of these reloads, with the dashboard
  section and the mode of the start; dispatcher and producer of the manager belong to the
  configuration and the queue of the service, and the engine is well formed.
\<close>

theorem running_service_is_configured:
  assumes "NewService env lenv source now p = (Inr s0, p0)" "service_events env cfg events s0 p0 = (e, s, q)"
  shows "runs_loaded_config env ({lenv} \<union> reloaded events) source s0 s"
proof -
  have "runs_loaded_config env (lenvs \<union> reloaded events) source s0 s2"
    if "runs_loaded_config env lenvs source s0 s1" "service_events env cfg events s1 p1 = (e, s2, p2)" for lenvs s1 p1 e s2 p2
    using that
  proof (induction events arbitrary: lenvs s1 p1)
    case Nil
    then show ?case by (simp add: reloaded_def)
  next
    case (Cons ev events)
    obtain e1 s3 p3 where step: "service_event env cfg ev s1 p1 = (e1, s3, p3)" by (metis prod_cases3)
    note one = event_runs_loaded_config [OF Cons.prems(1) step]
    have all: "lenvs \<union> reloaded [ev] \<union> reloaded events = lenvs \<union> reloaded (ev # events)" by (auto simp: reloaded_def)
    show ?case
    proof (cases e1)
      case None
      then show ?thesis using Cons.IH [OF one, of p3] Cons.prems(2) step all by simp
    next
      case (Some err)
      then have "s2 = s3" using Cons.prems(2) step by simp
      then show ?thesis using runs_loaded_config_more [OF one] all by blast
    qed
  qed
  from this [OF started_runs_loaded_config [OF assms(1)] assms(2)] show ?thesis .
qed

theorem running_service_is_configured_witness:
  "\<exists>s p. service_start (\<lambda>_. False) service_raw = (Inr s, p) \<and>
    runs_loaded_config (small_service (\<lambda>_. False)) {service_lenv service_raw} sample_source s
      (fst (snd (service_events (small_service (\<lambda>_. False)) (sv_cfg s)
        [OnTick, OnReload (service_lenv service_raw), OnExpired ''a'' ''MaxAge''] s p)))"
proof -
  obtain s p where start: "service_start (\<lambda>_. False) service_raw = (Inr s, p)"
    using sample_start by (auto split: prod.splits sum.splits)
  obtain e s1 q where "service_events (small_service (\<lambda>_. False)) (sv_cfg s)
      [OnTick, OnReload (service_lenv service_raw), OnExpired ''a'' ''MaxAge''] s p = (e, s1, q)" by (metis prod_cases3)
  from running_service_is_configured [OF start [unfolded service_start_def] this] show ?thesis
    using start \<open>service_events _ _ _ s p = (e, s1, q)\<close> by (simp add: reloaded_def)
qed

text \<open>
  A failed clean-up is not repeated. After \<open>ApplyConfig\<close> has failed, the manager already holds the
  new rules (and keeps the old dispatcher); the next reload of the same files compares with those
  and reports success without having looked at the cards of the removed rules again.
\<close>

lemma failed_cleanup_is_forgotten:
  assumes "ApplyConfig env cfg m w = (Some err, m', w')"
  shows "ApplyConfig env cfg m' w2 = (None, m', w2)"
proof -
  have kept: "cleanup_rules env old new m w = (None, m, w)" if "\<forall>entry \<in> set old. map_get new (fst entry) \<noteq> None" for old new m w
    using that by (induction old) auto
  have m': "mg_rules m' = fst (buildRuleIndex (cf_Rule cfg))"
    "m'\<lparr>mg_cfg := cfg, mg_rules := fst (buildRuleIndex (cf_Rule cfg)), mg_sorted := snd (buildRuleIndex (cf_Rule cfg))\<rparr> = m'"
    using ApplyConfig_settings [OF assms] by (simp_all add: manager_settings_def)
  have "\<forall>entry \<in> set (fst (buildRuleIndex (cf_Rule cfg))). map_get (fst (buildRuleIndex (cf_Rule cfg))) (fst entry) \<noteq> None"
    by (auto simp: map_of_eq_None_iff dest: weak_map_of_SomeI)
  then show ?thesis by (simp add: ApplyConfig_def m' kept)
qed

section \<open>Services that do not start or stop early\<close>

text \<open>A record of the registry that cannot be written, for whatever reason and at whatever time, ends the service.\<close>

lemma failed_publish_ends_service:
  assumes "sv_uiRegistry s = Some registry" "on_data (\<lambda>w. case en_Now (se_manager env (sv_store s)) w of (now, w1) \<Rightarrow>
      registry_Publish (se_registry env (rg_nc registry)) registry now (hi_HealthPath (ig_HTTP (cf_Ingest (sv_cfg s))))
        (hi_ReadyPath (ig_HTTP (cf_Ingest (sv_cfg s)))) w1) p = (Some err, p1)"
    and "run_tickers (cf_Service (sv_cfg s)) = None"
  shows "fst (service_Run env (OnPublish # events) failure s p) =
    Some (ErrWrap ''http server failed: %w'' [] (ErrWrap ''ui registry publisher failed: %w'' [] err))"
  using assms by (simp add: service_Run_def Let_def split: prod.split)

text \<open>The health and the ready path are not compared by the validation; the router panics.\<close>

lemma equal_paths_panic:
  "case service_start (\<lambda>_. False) (service_raw\<lparr>rw_Ingest := zero_ingest\<lparr>ig_HTTP := (ig_HTTP zero_ingest)
       \<lparr>hi_HealthPath := ''/h'', hi_ReadyPath := ''/h''\<rparr>\<rparr>\<rparr>) of
     (Inl e, p) \<Rightarrow> is_panic e
   | (Inr s, p) \<Rightarrow> False"
  by code_simp

text \<open>The validation reads the format of a log sink without regard to case, the logger does not.\<close>

lemma spelled_log_format_refused:
  "case service_start (\<lambda>_. False) (service_raw\<lparr>rw_Log := zero_log\<lparr>lc_Console := zero_log_sink
       \<lparr>ls_Enabled := True, ls_Format := ''JSON''\<rparr>\<rparr>\<rparr>) of
     (Inl e, p) \<Rightarrow> e = ErrWrap ''build console handler: %w'' [] (ErrFmt ''unsupported console format %q'' [''JSON''])
   | (Inr s, p) \<Rightarrow> False"
  by code_simp

text \<open>
  The periods of the service have no upper bound: a scan interval of 9223372037 seconds loads and
  the service starts, but in nanoseconds it is negative, so \<open>Run\<close> panics and leaves the
  connections and the log file open.
\<close>

lemma overflowing_interval_panics:
  "case service_start (\<lambda>_. False) (service_raw\<lparr>rw_Service := zero_service\<lparr>sc_ResolveScanInterval := 9223372037\<rparr>\<rparr>) of
     (Inl e, p) \<Rightarrow> False
   | (Inr s, p) \<Rightarrow>
       (case service_Run (small_service (\<lambda>_. False)) [] None s p of
          (None, p') \<Rightarrow> False
        | (Some e, p') \<Rightarrow> is_panic e \<and> set (ps_net p') = {3..8} \<and> set (ps_files p') = {2, 3})"
  by code_simp

end
