(* ===== verification/Command.thy ===== *)
theory Command
  imports Service_Properties
begin

text \<open>
  \<open>cmd/alerting\<close>: the command builds the source of the configuration from its two flags, starts
  the service, runs it and exits with a code. Parsing of the flags is a library's.
\<close>

text \<open>
  The exit code, what is written to the standard error, and the process. \<open>events\<close> and \<open>failure\<close>
  are what happens in the run. A panic ends the process with code 2 and no clean-up.
\<close>

definition alerting_main ::
    "('p, 'f, 'r, 'b, 'w) service_env \<Rightarrow> load_env \<Rightarrow> gtime \<Rightarrow> svc_event list \<Rightarrow> error option \<Rightarrow> string \<Rightarrow> string
      \<Rightarrow> ('f, 'r, 'w) process \<Rightarrow> (nat \<times> (string \<times> error) option) \<times> ('f, 'r, 'w) process" where
  "alerting_main env lenv now events failure configFile configDir p =
     (case FromCLI configFile configDir of
        Inl err \<Rightarrow> ((2, Some ([], err)), p)
      | Inr source \<Rightarrow>
          (case NewService env lenv source now p of
             (Inl err, p1) \<Rightarrow>
               (if is_panic err then (2, Some (''panic:'', err)) else (1, Some (''service init failed:'', err)), p1)
           | (Inr s, p1) \<Rightarrow>
               (case service_Run env events failure s p1 of
                  (Some err, p2) \<Rightarrow>
                    (if is_panic err then (2, Some (''panic:'', err)) else (1, Some (''service run failed:'', err)), p2)
                | (None, p2) \<Rightarrow> ((0, None), p2))))"

text \<open>
  C16. Whatever the flags, the files, the events and the failures, the command closes every
  connection and the log file before it exits, unless it panics; it exits with 0 exactly when the
  service was built and its run ended without an error, with 2 exactly for flags that do not name
  one source and for a panic, and with 1 otherwise. It panics only when the construction does, or
  when an interval of the service built does not fit 64 bits.
\<close>

theorem command_outcome:
  assumes "nats_laws (se_nats env) live" "file_laws (se_files env) open_files"
    "\<And>r. live (snd (se_httpShutdown env r)) = live r" "\<And>r. live (snd (se_uiShutdown env r)) = live r"
    "alerting_main env lenv now events failure configFile configDir p = ((code, message), p')"
  shows "((\<exists>e. message = Some (''panic:'', e)) \<or>
      live (ps_net p') = live (ps_net p) \<and> open_files (ps_files p') = open_files (ps_files p)) \<and>
    (code = 0 \<longleftrightarrow> (\<exists>source s p1. FromCLI configFile configDir = Inr source \<and> NewService env lenv source now p = (Inr s, p1) \<and>
      service_Run env events failure s p1 = (None, p'))) \<and>
    (code = 2 \<longleftrightarrow> (\<exists>err. FromCLI configFile configDir = Inl err) \<or> (\<exists>e. message = Some (''panic:'', e))) \<and>
    code \<in> {0, 1, 2} \<and>
    ((\<exists>e. message = Some (''panic:'', e)) \<longrightarrow> (\<exists>source. FromCLI configFile configDir = Inr source \<and>
      (case fst (NewService env lenv source now p) of Inl e \<Rightarrow> is_panic e | Inr s \<Rightarrow> \<not> intervals_fit s)))"
proof (cases "FromCLI configFile configDir")
  case (Inl err)
  then show ?thesis using assms(5) by (auto simp: alerting_main_def)
next
  case (Inr source)
  obtain res p1 where start: "NewService env lenv source now p = (res, p1)" by force
  note outcome = NewService_outcome [OF assms(1,2) start]
  show ?thesis
  proof (cases res)
    case (Inl err)
    then show ?thesis using assms(5) outcome by (auto simp: alerting_main_def Inr start split: if_splits)
  next
    case started: (Inr s)
    obtain err p2 where run: "service_Run env events failure s p1 = (err, p2)" by force
    show ?thesis
    proof (cases "\<exists>e. err = Some e \<and> is_panic e")
      case True
      then show ?thesis using assms(5) service_Run_panic [of env events failure s p1 _ p2]
        by (auto simp: alerting_main_def Inr start started run)
    next
      case False
      then have "live (ps_net p2) = live (ps_net p) \<and> open_files (ps_files p2) = open_files (ps_files p)"
        using run_closes [OF assms(1-4) start [unfolded started] run] by blast
      then show ?thesis
        using assms(5) False by (auto simp: alerting_main_def Inr start started run split: option.splits)
    qed
  qed
qed

text \<open>The queue refuses the worker; the process had a connection and a file of its own.\<close>

theorem command_outcome_witness:
  "\<exists>message p. alerting_main (small_service (\<lambda>subject. subject = notifyQueueSubject)) (service_lenv service_raw)
      (unix_epoch + 5000000000) [] None '' alerting.toml'' [] \<lparr>ps_files = [2], ps_net = [3], ps_data = fresh_world 0\<rparr> =
      ((1, Some (''service init failed:'', message)), p) \<and> set (ps_net p) = {3} \<and> set (ps_files p) = {2}"
proof -
  obtain e p where start: "service_start (\<lambda>subject. subject = notifyQueueSubject) service_raw = (Inl e, p)" "\<not> is_panic e"
    using refused_start by (auto split: prod.splits sum.splits)
  have flags: "FromCLI '' alerting.toml'' [] = Inr sample_source" by code_simp
  have run: "alerting_main (small_service (\<lambda>subject. subject = notifyQueueSubject)) (service_lenv service_raw)
      (unix_epoch + 5000000000) [] None '' alerting.toml'' [] \<lparr>ps_files = [2], ps_net = [3], ps_data = fresh_world 0\<rparr> =
      ((1, Some (''service init failed:'', e)), p)"
    using start by (simp add: alerting_main_def flags service_start_def)
  from command_outcome [OF small_service_laws small_service_shutdown run] run show ?thesis by simp
qed

end
