(* ===== verification/Spec2Isabelle.thy ===== *)
theory Spec2Isabelle
  imports Engine_Properties Rule_Properties Store_Properties Delivery_Properties Manager_Properties Card_Properties Config_Properties Ingest_Properties Transport_Properties Dashboard_Properties Queue_Properties Template_Functions Command
begin

text \<open>
  A verification library for \<^emph>\<open>malert\<close>, an alert manager written in Go: events come in over
  HTTP or NATS, rules turn them into alerts, alerts are stored in a key-value store and
  notified over several channels, directly or through a queue.

  \<^bold>\<open>The parts and the theories that model them.\<close>
  \<^item> \<open>Prelude\<close>: 64-bit integers with Go's wrap-around (\<open>wrap64\<close>), instants and durations in
    nanoseconds, Go maps as association lists without duplicate keys (\<open>gmap\<close>).
    \<open>Errors\<close>: error values, \<open>errors.Is\<close>, \<open>internal/permanent\<close>.
    \<open>Go_Strings\<close>: the functions of \<open>strings\<close>, \<open>strconv\<close> and \<open>utf8\<close> the program uses.
  \<^item> \<open>Domain\<close>: \<open>internal/domain\<close>. \<open>Config_Types\<close>, \<open>Config_Norm\<close>, \<open>Notify_Off\<close>: the types,
    normalisation, predicates and off windows of \<open>internal/config\<close>.
  \<^item> \<open>Engine\<close>: \<open>internal/engine/engine.go\<close>, the states of the alerts and their transitions;
    \<open>Matcher\<close> and \<open>Key_Builder\<close> the matching of events and the alert ids.
    \<open>Engine_Invariants\<close> has the invariant, the history of operations and the abstract life
    cycle; \<open>Engine_Behaviour\<close> the counting rules, silence, heartbeats and compaction.
    \<open>Config_Defaults\<close>, \<open>Config_Validate\<close>, \<open>Config_Merge\<close> and \<open>Config_Load\<close>: the loading of
    files and directories up to \<open>LoadSnapshot\<close>; \<open>Config_Merge_Facts\<close> and \<open>Config_Facts\<close> what it
    guarantees.
  \<^item> \<open>Store\<close> and \<open>Nats_Store\<close>: \<open>internal/state\<close>, one interface and two implementations.
  \<^item> \<open>Dispatch\<close>, \<open>Http_Client\<close> and \<open>Transports\<close>: \<open>internal/notify\<close>, the dispatcher and its
    Telegram, HTTP, Mattermost and tracker senders. \<open>Notify_Queue\<close>: \<open>internal/notifyqueue\<close>.
  \<^item> \<open>Connections\<close>: the constructors and \<open>Close\<close> of every NATS client, in \<open>internal/state\<close>,
    \<open>internal/notifyqueue\<close> and \<open>internal/ingest\<close>. \<open>Ingest\<close>: \<open>internal/ingest\<close>.
  \<^item> \<open>Registry\<close>, \<open>Dashboard\<close>, \<open>Ui_Server\<close>: \<open>internal/ui\<close>. \<open>Logging\<close>: \<open>internal/logging\<close>.
  \<^item> \<open>Service\<close>: \<open>internal/app/service.go\<close>, which builds, runs, reloads and closes all of this;
    \<open>Service_Facts\<close> says what a service owns at each moment. \<open>Command\<close>: \<open>cmd/alerting\<close>, from the
    flags to the exit code.
  \<^item> \<open>Template_Functions\<close>: \<open>internal/templatefmt\<close>, with the rounding of floating point numbers.
  \<^item> \<open>Manager_Base\<close> and \<open>Manager\<close>: \<open>internal/app/manager.go\<close>, which drives all of them.
    \<open>Manager_Invariants\<close> lifts what the engine's operations keep to every call and history;
    \<open>Manager_Facts\<close> and \<open>Manager_Cards\<close> say what happens to the store.
  \<^item> \<open>Single_Instance\<close>: the wiring of \<open>single\<close> mode and of the JetStream store.
    \<open>Concurrent_Instances\<close>: several instances that interleave on one store.
    \<open>Card_Mirror\<close>: the cards of an instance alone on its store against the states of its
    engine. While a call is under way the cards owe the decisions the engine has already made
    (\<open>owed\<close>), and a call that succeeds pays them all; \<open>undisturbed\<close> are the histories of such
    calls from an empty store, over any reloads. The panics and the failed calls are left out of
    them, since after those the two may differ (\<open>failed_tick_loses_resolutions\<close>).
  \<^item> \<open>Engine_Properties\<close>, \<open>Rule_Properties\<close>, \<open>Store_Properties\<close>, \<open>Delivery_Properties\<close>,
    \<open>Manager_Properties\<close>, \<open>Card_Properties\<close>, \<open>Queue_Properties\<close>, \<open>Config_Properties\<close>, \<open>Ingest_Properties\<close>, \<open>Transport_Properties\<close>,
    \<open>Dashboard_Properties\<close>, \<open>Service_Properties\<close> and this theory state the properties, each with
    a closed instance (those of \<open>Registry\<close>, \<open>Ui_Server\<close>, \<open>Logging\<close>, \<open>Template_Functions\<close> and \<open>Command\<close> stand in the
    same theory);
    \<open>Samples\<close>, \<open>Config_Samples\<close>, \<open>Transport_Samples\<close> and \<open>Service_Samples\<close> have the concrete
    rules, files and services of those.

  \<^bold>\<open>How the model reads.\<close> A Go function is a definition of the same name (prefixed where a name
  occurs twice: \<open>mem_\<close>, \<open>nats_\<close>, \<open>engine_\<close>, \<open>manager_\<close>, \<open>dispatcher_\<close>). A struct is a record,
  a pair of value and error a sum (\<open>result\<close>), an error result \<open>error option\<close>, a nil dereference
  the error \<open>ErrPanic\<close>. What a function changes is passed in and returned. Everything outside a
  component (the store, the clock, transports, queues) acts on a world of type \<open>'w\<close>. Code of
  libraries (JSON, TOML, regular expressions, templates, SHA-1, NATS) is an argument of the
  definitions that call it. Log calls are left out. What the properties ask of a library is a
  definition of its own (\<open>nats_laws\<close>, \<open>file_laws\<close>, \<open>chat_laws\<close>, \<open>registry_laws\<close>,
  \<open>template_laws\<close>), met by a small concrete library in the samples. \<open>kv_contract\<close> is a bucket
  none of whose calls fails, \<open>failing_kv\<close> one whose calls may fail at any time; \<open>chat_laws\<close> takes
  a call of the bot that fails to have left the chat alone.

  \<^bold>\<open>The interfaces.\<close> \<open>card_store\<close> is the contract of the card operations, met by the memory
  store (interpretation \<open>mem\<close>) and by the JetStream store under the documented behaviour of a
  bucket (\<open>nats_store_contract\<close>). \<open>store_env\<close>, \<open>ticked_env\<close> and \<open>listing_env\<close> extend it to what
  the manager relies on, and are interpreted for a single instance (\<open>single\<close>). \<open>clocked_env\<close> is
  what delivery needs, \<open>failing_env\<close> a store whose calls may fail: a store that works is one
  (\<open>sublocale\<close>), and so is the JetStream store over \<open>failing_kv\<close> (\<open>nats_failing_env\<close>). \<open>bookkeeping_inv\<close>
  is a property of managers that the recording of references and repeat times keeps, as all of
  delivery does; what the cards show of an engine is one (\<open>view\<close>). \<open>manager_inv\<close> extends it to
  the engine's other operations; it holds of the well-formed engine (interpretation \<open>wf\<close>) and of the settings (\<open>set\<close>), and gives \<open>kept_by_sink\<close>, what the entry
  points ask of their sink.

  \<^bold>\<open>Bounds.\<close> \<open>persist_refs_loop\<close> counts the three attempts of the source. The retry loop of the
  dispatcher is a partial function: it returns whenever the attempt limit is positive
  (\<open>retry_outcome\<close>) and may not otherwise (\<open>unlimited_retry_never_returns\<close>). All other loops
  are structural, but for the search for tokens in \<open>Logging\<close>, which moves on in the line; a run
  of the service is the list of its events. The tickers of a run panic when their interval is not
  positive (\<open>NewTicker\<close>), which seconds above 9223372036 are in 64-bit nanoseconds. Integers are kept in 64 bits where the source adds or multiplies them.
  Instants are nanoseconds without bound; differences saturate as in Go.

  \<^bold>\<open>Not modelled.\<close> Locks: each operation of engine and memory store holds its mutex throughout
  and is one step, and interleavings are modelled where instances share a store. Goroutines: a
  run is a sequence of events, each handled whole; a panic in the middle of one is not followed up
  (matching a valid event against loaded rules has none, \<open>loaded_rules_match\<close>). What belongs to the libraries: decoding of
  TOML and JSON, the HTTP client and router, the bot, NATS, the handlers of \<open>log/slog\<close>, the HTML
  page, the parser of templates and that of the command's flags. Sockets, signals and timers, and
  the system clock of \<open>internal/clock\<close>: the time is an argument.
\<close>

section \<open>A run of two events\<close>

definition push1 where
  "push1 = Push sample_env sample_event sample_manager (fresh_world base_time)"

definition push2 where
  "push2 = Push sample_env sample_event_b (fst (snd push1)) (snd (snd push1))"

section \<open>Several instances on one store\<close>

text \<open>
  C2. However several instances that share a JetStream store interleave the reads and writes of
  an alert that all of them open, the opening is sent exactly once: at most one instance is
  allowed to notify, and exactly one as soon as any of them is done.
\<close>

theorem opening_sent_exactly_once:
  assumes "kv_contract api view" "codec_contract api view"
    and "nats_cards api view w0 k = None" "\<forall>j \<in> set jobs. dc_State (pj_decision j) = st"
    and "instance_run (nats_env api settings now loc ff hs cp) k jobs (replicate (length jobs) PStart, w0) (pcs, w)"
  shows "senders pcs \<le> 1 \<and> ((\<exists>b. PDone b \<in> set pcs) \<longrightarrow> senders pcs = 1)"
  by (rule store_env.one_sender [OF nats_store_env [OF assms(1,2)] assms(3-5)])

definition shared_env :: "bucket_world env" where
  "shared_env = nats_env map_api (DeriveStateNATSConfig sample_config) (\<lambda>w. (base_time, w)) sample_loc sample_fmt
     sample_hash sample_compile"

definition open_job :: persist_job where
  "open_job = \<lparr>pj_rule = eager_rule,
     pj_ident = \<lparr>ai_Var = ''errors'', ai_Tags = [(''host'', ''a'')], ai_MetricValue = ''5''\<rparr>,
     pj_count = 1, pj_decision = open_decision, pj_now = base_time\<rparr>"

definition shared_card :: alert_card where
  "shared_card = fresh_card eager_rule key_a (pj_ident open_job) ''5'' 1 open_decision base_time"

lemma shared_reads: "persist_read shared_env key_a w = (Inr (w key_a), w)"
  by (simp add: persist_read_def shared_env_def nats_env_def nats_store_def nats_GetCard_def map_api_def map_kv_def
      split: option.splits)

lemma shared_write:
  "persist_write shared_env (pj_rule open_job) key_a (pj_ident open_job) (ai_MetricValue (pj_ident open_job)) (pj_count open_job)
     (pj_decision open_job) (pj_now open_job) None w =
   (if w key_a = None
    then (Inr \<lparr>cw_card = shared_card, cw_allowNotify = True, cw_seedExtRefs = True\<rparr>, w(key_a \<mapsto> (shared_card, 1)))
    else resolvePersistConflict shared_env key_a w)"
  by (simp add: persist_write_def shared_env_def nats_env_def nats_store_def nats_CreateCard_def nats_writeCard_def
      isNATSCardConflict_def map_api_def map_kv_def shared_card_def open_job_def)

text \<open>Both instances read before either writes.\<close>

lemma shared_run:
  "\<exists>w. instance_run shared_env key_a [open_job, open_job] ([PStart, PStart], \<lambda>_. None) ([PDone True, PDone False], w)"
proof -
  let ?w = "(\<lambda>_. None)(key_a \<mapsto> (shared_card, 1))"
  have "instance_step shared_env key_a [open_job, open_job] ([PStart, PStart], \<lambda>_. None) ([PRead None, PStart], \<lambda>_. None)"
    using instance_step.reads [of 0 "[PStart, PStart]" shared_env key_a "\<lambda>_. None"] by (simp add: shared_reads)
  moreover have "instance_step shared_env key_a [open_job, open_job] ([PRead None, PStart], \<lambda>_. None)
      ([PRead None, PRead None], \<lambda>_. None)"
    using instance_step.reads [of 1 "[PRead None, PStart]" shared_env key_a "\<lambda>_. None"] by (simp add: shared_reads)
  moreover have "instance_step shared_env key_a [open_job, open_job] ([PRead None, PRead None], \<lambda>_. None)
      ([PDone True, PRead None], ?w)"
    using instance_step.writes [of 0 "[PRead None, PRead None]" None shared_env "[open_job, open_job]" key_a "\<lambda>_. None"]
    by (simp add: shared_write allowed_def)
  moreover have "instance_step shared_env key_a [open_job, open_job] ([PDone True, PRead None], ?w) ([PDone True, PDone False], ?w)"
  proof -
    obtain r where r: "resolvePersistConflict shared_env key_a ?w = (r, ?w)" "\<not> allowed r"
      by (simp add: resolvePersistConflict_def shared_env_def nats_env_def nats_store_def nats_GetCard_def map_api_def
          map_kv_def allowed_def)
    then show ?thesis
      using instance_step.writes [of 1 "[PDone True, PRead None]" None shared_env "[open_job, open_job]" key_a ?w r ?w]
      by (simp add: shared_write)
  qed
  ultimately show ?thesis by (meson instance_run.intros)
qed

theorem opening_sent_exactly_once_witness:
  "senders [PDone True, PDone False] = 1 \<and>
   (\<exists>w. instance_run shared_env key_a [open_job, open_job] ([PStart, PStart], \<lambda>_. None) ([PDone True, PDone False], w))"
proof -
  obtain w where w: "instance_run shared_env key_a [open_job, open_job] ([PStart, PStart], \<lambda>_. None) ([PDone True, PDone False], w)"
    using shared_run by blast
  have start: "replicate (length [open_job, open_job]) PStart = [PStart, PStart]" by (simp add: numeral_2_eq_2)
  have "nats_cards map_api (\<lambda>w. w) (\<lambda>_. None) key_a = None" by (simp add: nats_cards_def)
  moreover have "\<forall>j \<in> set [open_job, open_job]. dc_State (pj_decision j) = StFiring"
    by (simp add: open_job_def open_decision_def opened_def)
  ultimately have "senders [PDone True, PDone False] = 1"
    using opening_sent_exactly_once [OF map_api_kv map_api_codec, of "\<lambda>_. None" key_a "[open_job, open_job]" StFiring]
      w start unfolding shared_env_def by (metis list.set_intros(1))
  then show ?thesis using w by blast
qed

section \<open>Queue, dispatcher and manager\<close>

text \<open>The worker's handler: the manager's \<open>ProcessQueuedNotification\<close> on the service's state.\<close>

definition queue_handler :: "'w env \<Rightarrow> job \<Rightarrow> 'w manager \<times> 'w \<Rightarrow> error option \<times> 'w manager \<times> 'w" where
  "queue_handler env j s = ProcessQueuedNotification env j (fst s) (snd s)"

lemma normalized_channel:
  "normalizedNotifyRouteFromConfig route True = Some r \<Longrightarrow> nro_Channel r = TrimSpace (ro_Channel route)"
  by (auto simp: normalizedNotifyRouteFromConfig_def Let_def split: if_splits)

lemma one_route_permanent:
  assumes "mg_dispatcher m = Some send" "TrimSpace (ro_Channel route) = channel"
    and "\<And>t n w. \<exists>e. send channel t n w = (Inl e, w) \<and> permanent_Is (Some e)"
    and "notifyRoutes env m n [route] b w = (res, w')"
  shows "res = Inr [] \<or> (\<exists>e. res = Inl e \<and> permanent_Is (Some e))"
proof (cases "normalizedNotifyRouteFromConfig route True")
  case None
  then show ?thesis using assms(1,4) by (simp add: notifyRoutes_def)
next
  case (Some r)
  then have channel: "nro_Channel r = channel" using normalized_channel [OF Some] assms(2) by simp
  obtain o1 w1 where prep: "prepareNotificationForRoute env m n r w = (o1, w1)" by force
  show ?thesis
  proof (cases "\<exists>p. o1 = Some p \<and> \<not> shouldDropTrackerNotification b r p")
    case False
    then show ?thesis using assms(1,4) Some prep by (auto simp: notifyRoutes_def split: option.splits)
  next
    case True
    then obtain p where p: "o1 = Some p" "\<not> shouldDropTrackerNotification b r p" by blast
    obtain e where "send channel (nro_Template r) p w1 = (Inl e, w1)" "permanent_Is (Some e)" using assms(3) by blast
    then show ?thesis using assms(1,4) Some prep p channel by (auto simp: notifyRoutes_def send_route_def)
  qed
qed

lemma queued_permanent:
  assumes "mg_dispatcher m = Some send" "\<And>t n w. \<exists>e. send (TrimSpace (jb_Channel j)) t n w = (Inl e, w) \<and> permanent_Is (Some e)"
    and "ProcessQueuedNotification env j m w = (Some err, m', w')"
  shows "permanent_Is (Some err)"
proof -
  obtain r where r: "normalizedNotifyRouteFromConfig \<lparr>ro_Name = jb_RouteKey j, ro_Channel = jb_Channel j,
      ro_Template = jb_Template j, ro_Mode = jb_RouteMode j\<rparr> True = Some r"
    using assms(3) by (auto simp: ProcessQueuedNotification_def split: option.splits)
  have channel: "TrimSpace (ro_Channel (route_of_norm r)) = TrimSpace (jb_Channel j)"
    using normalized_channel [OF r] by (simp add: route_of_norm_def)
  obtain skip w1 where skip: "(case ruleByName m (nt_RuleName (jb_Notification j)) of None \<Rightarrow> (False, w)
      | Some rule \<Rightarrow> (let (t, w') = en_Now env w in (shouldSkipNotificationByOff env rule t, w'))) = (skip, w1)" by force
  obtain res w2 where send: "notifyRoutes env m (jb_Notification j) [route_of_norm r] True w1 = (res, w2)" by force
  note body = assms(3) [unfolded ProcessQueuedNotification_def r option.case Let_def skip [unfolded Let_def] prod.case send]
  from one_route_permanent [OF assms(1) channel assms(2) send] show ?thesis
    using body by (auto simp: applyDeliveryResults_def captureDeliveryEffects_def permanent_Mark_def permanent_Is_def
        split: if_splits)
qed

text \<open>
  A queued job for a channel that is no longer configured is not redelivered forever: the
  dispatcher's error is permanent, the manager passes it on as permanent, and the worker takes
  the job off the queue (with a dead letter queue, once it is written there).
\<close>

lemma unconfigured_job_leaves_the_queue:
  assumes "qa_UnmarshalJob api (m_Data msg) = Inr j" "\<not> nq_DLQ cfg"
    and "mg_dispatcher m = Some send" "\<And>c t n w. dispatcher_Send wait d c t n w = Some (send c t n w)"
    and "map_get (ds_senders d) (TrimSpace (jb_Channel j)) = None"
  shows "fst (worker_handle api cfg (queue_handler env) msg (m, w)) = Ack"
proof -
  have "\<exists>e. send (TrimSpace (jb_Channel j)) t n u = (Inl e, u) \<and> permanent_Is (Some e)" for t n u
    using dispatcher_Send_unconfigured [of d "TrimSpace (jb_Channel j)" t wait n u] assms(4,5) by auto
  note permanent = queued_permanent [OF assms(3) this]
  obtain r m' w' where p: "ProcessQueuedNotification env j m w = (r, m', w')" by (metis prod_cases3)
  then show ?thesis
    using worker_handle_ack [of api msg j "queue_handler env" "(m, w)" r "(m', w')" cfg] assms(1,2) permanent
    by (cases r) (auto simp: queue_handler_def failure_reason_def)
qed

definition unit_dispatcher :: "single_world dispatcher" where
  "unit_dispatcher = \<lparr>ds_senders = [], ds_channels = [], ds_retries = [], ds_templates = [], ds_templateErrs = []\<rparr>"

definition unit_send :: "single_world send_op" where
  "unit_send c t n w = (marked (ErrFmt ''notify channel %q is not configured'' [c]), w)"

definition plain_queue_api :: "(job, single_world manager \<times> single_world) queue_api" where
  "plain_queue_api = \<lparr>qa_MarshalJob = Inr, qa_UnmarshalJob = Inr, qa_MarshalDLQ = \<lambda>entry. Inr (dq_Job entry),
     qa_Publish = \<lambda>subject header body w. (None, w), qa_Now = \<lambda>w. (base_time, w), qa_text = \<lambda>e. ''failed''\<rparr>"

definition orphan_job :: job where
  "orphan_job = \<lparr>jb_ID = ''j1'', jb_RouteKey = ''jira'', jb_RouteMode = ''history'', jb_Channel = ''jira'', jb_Template = ''base'',
     jb_Notification = decision_notification eager_rule key_a (pj_ident open_job) open_decision base_time base_time,
     jb_CreatedAt = base_time\<rparr>"

lemma unconfigured_job_leaves_the_queue_witness:
  "fst (worker_handle plain_queue_api zero_queue (queue_handler sample_env) (queued orphan_job 1)
     (SetDispatcher (Some unit_send) sample_manager, fresh_world base_time)) = Ack"
proof (rule unconfigured_job_leaves_the_queue)
  show "qa_UnmarshalJob plain_queue_api (m_Data (queued orphan_job 1)) = Inr orphan_job"
    by (simp add: plain_queue_api_def queued_def)
  show "mg_dispatcher (SetDispatcher (Some unit_send) sample_manager) = Some unit_send"
    by (simp add: SetDispatcher_def)
  show "dispatcher_Send (\<lambda>d w. (None, w)) unit_dispatcher c t n w = Some (unit_send c t n w)" for c t n w
    by (simp add: dispatcher_Send_def unit_dispatcher_def unit_send_def)
  show "map_get (ds_senders unit_dispatcher) (TrimSpace (jb_Channel orphan_job)) = None"
    by (simp add: unit_dispatcher_def)
qed (simp add: zero_queue_def)

section \<open>Configuration changes\<close>

text \<open>
  C12. Removing rules removes their alerts and nothing else: after \<open>ApplyConfig\<close> on an instance
  alone on its store exactly the cards under the prefix of a rule that the new configuration
  does not name are gone and every other card is as before; in particular no alert of a removed
  rule with a name of ASCII letters, digits, dots, dashes and underscores remains.
\<close>

theorem removed_rules_leave_no_cards:
  assumes "ApplyConfig (single_env loc ff hs cp) cfg m w = (err, m', w')" "keeps_cards single_cards m"
  shows "err = None \<and>
    single_cards w' = (\<lambda>k. if \<exists>(name, rule) \<in> set (mg_rules m).
        map_get (fst (buildRuleIndex (cf_Rule cfg))) name = None \<and> HasPrefix k (RuleAlertPrefix (rc_Name rule))
      then None else single_cards w k) \<and>
    (\<forall>(name, rule) \<in> set (mg_rules m). \<forall>ev k.
      map_get (fst (buildRuleIndex (cf_Rule cfg))) name = None \<and> (\<forall>c \<in> set (TrimSpace (rc_Name rule)). plain_char c) \<and>
      BuildAlertKey hs rule ev = Inr k \<longrightarrow> single_cards w' k = None)"
proof -
  let ?index = "buildRuleIndex (cf_Rule cfg)"
  let ?m1 = "m\<lparr>mg_cfg := cfg, mg_rules := fst ?index, mg_sorted := snd ?index\<rparr>"
  have run: "cleanup_rules (single_env loc ff hs cp) (mg_rules m) (fst ?index) ?m1 w = (err, m', w')"
    using assms(1) by (simp add: ApplyConfig_def Let_def)
  have "keeps_cards single_cards ?m1" using assms(2) by (simp add: keeps_cards_def)
  note cleaned = single.cleanup_rules_cards [OF run this]
  have "single_cards w' k = None"
    if "(name, rule) \<in> set (mg_rules m)" "map_get (fst ?index) name = None"
      "\<forall>c \<in> set (TrimSpace (rc_Name rule)). plain_char c" "BuildAlertKey hs rule ev = Inr k" for name rule ev k
    using cleaned that plain_names_are_listed [OF that(4,3)] by auto
  then show ?thesis using cleaned by blast
qed

theorem removed_rules_leave_no_cards_witness:
  "single_cards (snd (snd push1)) key_a \<noteq> None \<and>
   single_cards (snd (snd (ApplyConfig sample_env zero_config sample_manager (snd (snd push1))))) key_a = None"
proof -
  let ?r = "ApplyConfig sample_env zero_config sample_manager (snd (snd push1))"
  have "map_option (\<lambda>e. ac_State (fst e)) (single_cards (snd (snd push1)) key_a) = Some StFiring" by code_simp
  then have found: "single_cards (snd (snd push1)) key_a \<noteq> None" by auto
  have "ApplyConfig (single_env sample_loc sample_fmt sample_hash sample_compile) zero_config sample_manager (snd (snd push1)) =
      (fst ?r, fst (snd ?r), snd (snd ?r))" by (simp add: sample_env_def)
  note removed = removed_rules_leave_no_cards [OF this sample_keeps(1)]
  have rule: "(''ct'', normalizeRule eager_rule) \<in> set (mg_rules sample_manager)"
    by (simp add: sample_manager_def NewManager_def Let_def sample_config_def buildRuleIndex_def sample_rules)
  have key: "BuildAlertKey sample_hash (normalizeRule eager_rule) sample_event = Inr key_a" by code_simp
  have plain: "\<forall>c \<in> set (TrimSpace (rc_Name (normalizeRule eager_rule))). plain_char c" by code_simp
  have gone: "map_get (fst (buildRuleIndex (cf_Rule zero_config))) ''ct'' = None"
    by (simp add: zero_config_def buildRuleIndex_def)
  have "single_cards (snd (snd ?r)) key_a = None"
    using conjunct2 [OF conjunct2 [OF removed]] rule key plain gone by fastforce
  then show ?thesis using found by simp
qed

section \<open>A failed tick\<close>

definition failed_tick where
  "failed_tick = manager_Tick sample_env (SetDispatcher (Some failing_send) (fst (snd push2)))
     ((snd (snd push2))\<lparr>sw_now := base_time + 60 * 1000000000\<rparr>)"

definition next_tick where
  "next_tick = manager_Tick sample_env (SetDispatcher (Some recording_send) (fst (snd failed_tick)))
     ((snd (snd failed_tick))\<lparr>sw_now := base_time + 120 * 1000000000\<rparr>)"

text \<open>
  A tick whose delivery fails loses the rest of its decisions: two alerts of one rule fire,
  both are due to resolve when the dispatcher is down, and the tick stops with an error at the
  first. The engine has already forgotten both, so the next tick, with a working dispatcher,
  succeeds and sends nothing: no resolution was ever sent, and the second card says firing.
\<close>

lemma failed_tick_loses_resolutions:
  "fst failed_tick = Some (ErrMsg ''unreachable'') \<and> fst next_tick = None \<and>
   map (\<lambda>(c, t, n). nt_State n) (sw_sent (snd (snd next_tick))) = [StFiring, StFiring] \<and>
   map (\<lambda>k. map_option (\<lambda>e. ac_State (fst e)) (single_cards (snd (snd next_tick)) k)) [key_a, key_b] =
     [Some StResolved, Some StFiring] \<and>
   map (\<lambda>k. map_option rs_CurrentState (eng_get (mg_engine (fst (snd next_tick))) k)) [key_a, key_b] =
     [Some StNone, Some StNone]"
proof (intro conjI)
  show "fst failed_tick = Some (ErrMsg ''unreachable'')" by code_simp
  show "fst next_tick = None" by code_simp
  show "map (\<lambda>(c, t, n). nt_State n) (sw_sent (snd (snd next_tick))) = [StFiring, StFiring]" by code_simp
  show "map (\<lambda>k. map_option (\<lambda>e. ac_State (fst e)) (single_cards (snd (snd next_tick)) k)) [key_a, key_b] =
     [Some StResolved, Some StFiring]" by code_simp
  show "map (\<lambda>k. map_option rs_CurrentState (eng_get (mg_engine (fst (snd next_tick))) k)) [key_a, key_b] =
     [Some StNone, Some StNone]" by code_simp
qed

end
